(* ===== verification/Prelude.thy ===== *)
theory Prelude
  imports Main "HOL-Library.Char_ord" "HOL-Library.List_Lexorder"
begin

text \<open>
  Shared vocabulary of the development: the result type and its sequencing combinators, the
  parts of Python's string type the sources use (\<open>strip\<close>, \<open>rpartition\<close>, \<open>split\<close>,
  \<open>isdigit\<close>, \<open>lower\<close>, decimal formatting and parsing), insertion-ordered dictionaries as
  association lists, and the generic lemmas on them that the component theories use.
  A Python string is a \<open>string\<close> (a list of 8-bit characters); the string functions are
  those of Python on ASCII text.
\<close>

named_theorems py_simps \<open>unfolding rules for the Python library functions\<close>
named_theorems res_simps \<open>rules for results and their sequencing\<close>

section \<open>Results\<close>

text \<open>A computation that may raise: \<open>Inl\<close> the exception, \<open>Inr\<close> the value.\<close>

fun bind_res :: "'e + 'a \<Rightarrow> ('a \<Rightarrow> 'e + 'b) \<Rightarrow> 'e + 'b" where
  "bind_res (Inl e) f = Inl e"
| "bind_res (Inr x) f = f x"

lemma bind_res_Inr [res_simps]:
  "bind_res m f = Inr y \<longleftrightarrow> (\<exists>x. m = Inr x \<and> f x = Inr y)"
  by (cases m) auto

lemma bind_res_Inl [res_simps]:
  "bind_res m f = Inl e \<longleftrightarrow> m = Inl e \<or> (\<exists>x. m = Inr x \<and> f x = Inl e)"
  by (cases m) auto

lemma bind_res_cong [fundef_cong]:
  "m = m' \<Longrightarrow> (\<And>x. m' = Inr x \<Longrightarrow> f x = g x) \<Longrightarrow> bind_res m f = bind_res m' g"
  by (cases m') auto

text \<open>\<open>if not b: raise e\<close>\<close>

definition ensure :: "bool \<Rightarrow> 'e \<Rightarrow> 'e + unit" where
  "ensure b e = (if b then Inr () else Inl e)"

lemma ensure_Inr [res_simps]: "ensure b e = Inr u \<longleftrightarrow> b"
  by (simp add: ensure_def)

lemma ensure_Inl [res_simps]: "ensure b e = Inl e' \<longleftrightarrow> \<not> b \<and> e' = e"
  by (auto simp: ensure_def)

definition is_ok :: "'e + 'a \<Rightarrow> bool" where
  "is_ok r = (case r of Inl _ \<Rightarrow> False | Inr _ \<Rightarrow> True)"

lemma is_ok_iff [res_simps]: "is_ok r \<longleftrightarrow> (\<exists>x. r = Inr x)"
  by (cases r) (auto simp: is_ok_def)

lemma is_ok_simps [simp]: "is_ok (Inr x)" "\<not> is_ok (Inl e)"
  by (simp_all add: is_ok_def)

lemma is_ok_ensure [simp]: "is_ok (ensure b e) = b"
  by (simp add: ensure_def)

lemma is_ok_bind_unit: "is_ok (bind_res m (\<lambda>_. k)) \<longleftrightarrow> is_ok m \<and> is_ok k"
  by (cases m) auto

text \<open>A comprehension whose body may raise: the first exception wins.\<close>

fun map_res :: "('a \<Rightarrow> 'e + 'b) \<Rightarrow> 'a list \<Rightarrow> 'e + 'b list" where
  "map_res f [] = Inr []"
| "map_res f (x # xs) = bind_res (f x) (\<lambda>y. bind_res (map_res f xs) (\<lambda>ys. Inr (y # ys)))"

lemma map_res_Inr: "map_res f xs = Inr ys \<longleftrightarrow> list_all2 (\<lambda>x y. f x = Inr y) xs ys"
proof (induction xs arbitrary: ys)
  case Nil
  then show ?case by auto
next
  case (Cons x xs)
  then show ?case by (cases ys) (auto simp: res_simps list_all2_Cons1)
qed

section \<open>Python strings\<close>

definition py_isdigit_char :: "char \<Rightarrow> bool" where
  "py_isdigit_char c \<longleftrightarrow> 48 \<le> (of_char c :: nat) \<and> (of_char c :: nat) \<le> 57"

definition py_isdigit :: "string \<Rightarrow> bool" where
  "py_isdigit s \<longleftrightarrow> s \<noteq> [] \<and> list_all py_isdigit_char s"

definition py_isalpha_char :: "char \<Rightarrow> bool" where
  "py_isalpha_char c \<longleftrightarrow>
     (65 \<le> (of_char c :: nat) \<and> (of_char c :: nat) \<le> 90) \<or>
     (97 \<le> (of_char c :: nat) \<and> (of_char c :: nat) \<le> 122)"

definition py_isalnum_char :: "char \<Rightarrow> bool" where
  "py_isalnum_char c \<longleftrightarrow> py_isalpha_char c \<or> py_isdigit_char c"

definition py_isspace_char :: "char \<Rightarrow> bool" where
  "py_isspace_char c \<longleftrightarrow>
     (9 \<le> (of_char c :: nat) \<and> (of_char c :: nat) \<le> 13) \<or>
     (28 \<le> (of_char c :: nat) \<and> (of_char c :: nat) \<le> 32)"

definition py_lstrip :: "string \<Rightarrow> string" where
  "py_lstrip s = dropWhile py_isspace_char s"

definition py_strip :: "string \<Rightarrow> string" where
  "py_strip s = rev (dropWhile py_isspace_char (rev (dropWhile py_isspace_char s)))"

text \<open>\<open>s.rstrip(c)\<close> for one character.\<close>

definition py_rstrip_char :: "char \<Rightarrow> string \<Rightarrow> string" where
  "py_rstrip_char c s = rev (dropWhile (\<lambda>x. x = c) (rev s))"

definition py_lower_char :: "char \<Rightarrow> char" where
  "py_lower_char c =
     (if 65 \<le> (of_char c :: nat) \<and> (of_char c :: nat) \<le> 90
      then char_of ((of_char c :: nat) + 32) else c)"

definition py_lower :: "string \<Rightarrow> string" where
  "py_lower s = map py_lower_char s"

text \<open>\<open>s.replace(a, b)\<close> for one-character \<open>a\<close> and \<open>b\<close>.\<close>

definition py_replace_char :: "char \<Rightarrow> char \<Rightarrow> string \<Rightarrow> string" where
  "py_replace_char a b s = map (\<lambda>c. if c = a then b else c) s"

text \<open>\<open>s.split(c)\<close>: the pieces between the separators, always at least one.\<close>

fun py_split :: "char \<Rightarrow> string \<Rightarrow> string list" where
  "py_split c [] = [[]]"
| "py_split c (x # xs) =
     (if x = c then [] # py_split c xs
      else (case py_split c xs of [] \<Rightarrow> [[x]] | p # ps \<Rightarrow> (x # p) # ps))"

text \<open>\<open>s.rpartition(c)\<close>: \<open>None\<close> when the separator is absent.\<close>

definition py_rpartition :: "char \<Rightarrow> string \<Rightarrow> (string \<times> string) option" where
  "py_rpartition c s =
     (if c \<in> set s
      then Some (rev (tl (dropWhile (\<lambda>x. x \<noteq> c) (rev s))),
                 rev (takeWhile (\<lambda>x. x \<noteq> c) (rev s)))
      else None)"

fun py_startswith :: "string \<Rightarrow> string \<Rightarrow> bool" where
  "py_startswith s [] = True"
| "py_startswith [] (p # ps) = False"
| "py_startswith (x # xs) (p # ps) = (x = p \<and> py_startswith xs ps)"

definition py_endswith :: "string \<Rightarrow> string \<Rightarrow> bool" where
  "py_endswith s p = py_startswith (rev s) (rev p)"

text \<open>\<open>p in s\<close> for strings.\<close>

fun py_contains :: "string \<Rightarrow> string \<Rightarrow> bool" where
  "py_contains [] p = (p = [])"
| "py_contains (x # xs) p = (py_startswith (x # xs) p \<or> py_contains xs p)"

lemma py_startswith_iff [py_simps]: "py_startswith s p \<longleftrightarrow> (\<exists>r. s = p @ r)"
  by (induction s p rule: py_startswith.induct) auto

lemma py_endswith_iff [py_simps]: "py_endswith s p \<longleftrightarrow> (\<exists>r. s = r @ p)"
proof -
  have "(\<exists>r. rev s = rev p @ r) \<longleftrightarrow> (\<exists>r. s = r @ p)"
    by (metis rev_append rev_rev_ident)
  then show ?thesis by (simp add: py_endswith_def py_startswith_iff)
qed

lemma py_split_nonempty [simp]: "py_split c s \<noteq> []"
  by (induction s) (auto split: list.splits)

lemma py_split_no_sep: "c \<notin> set s \<Longrightarrow> py_split c s = [s]"
  by (induction s) auto

lemma py_split_append:
  "c \<notin> set p \<Longrightarrow> py_split c (p @ c # s) = p # py_split c s"
  by (induction p) (auto split: list.splits)

lemma py_rpartition_append [py_simps]:
  "c \<notin> set p \<Longrightarrow> py_rpartition c (h @ c # p) = Some (h, p)"
proof -
  assume c: "c \<notin> set p"
  have "dropWhile (\<lambda>x. x \<noteq> c) (rev p @ c # rev h) = c # rev h"
    using c by (subst dropWhile_append2) auto
  moreover have "takeWhile (\<lambda>x. x \<noteq> c) (rev p @ c # rev h) = rev p"
    using c by (subst takeWhile_append2) auto
  ultimately show ?thesis by (simp add: py_rpartition_def)
qed

lemma py_rpartition_Some:
  assumes "py_rpartition c s = Some (h, p)"
  shows "s = h @ c # p \<and> c \<notin> set p"
proof -
  from assms have "c \<in> set s" by (auto simp: py_rpartition_def split: if_splits)
  then obtain h' p' where s: "s = h' @ c # p'" and c: "c \<notin> set p'"
    by (meson split_list_last)
  with assms have "h = h'" "p = p'" by (auto simp: py_rpartition_append)
  with s c show ?thesis by simp
qed

lemma dropWhile_eq_self: "xs = [] \<or> \<not> P (hd xs) \<Longrightarrow> dropWhile P xs = xs"
  by (cases xs) auto

lemma py_rstrip_char_idem [simp]: "py_rstrip_char c (py_rstrip_char c s) = py_rstrip_char c s"
  by (simp add: py_rstrip_char_def)

lemma py_strip_fixed:
  "s \<noteq> [] \<Longrightarrow> \<not> py_isspace_char (hd s) \<Longrightarrow> \<not> py_isspace_char (last s) \<Longrightarrow> py_strip s = s"
  by (simp add: py_strip_def dropWhile_eq_self hd_rev)

lemma py_lower_char_idem [simp]: "py_lower_char (py_lower_char c) = py_lower_char c"
  by (simp add: py_lower_char_def)

lemma py_lower_idem [simp]: "py_lower (py_lower s) = py_lower s"
  by (simp add: py_lower_def)

lemma py_lower_Nil [simp]: "py_lower s = [] \<longleftrightarrow> s = []"
  by (simp add: py_lower_def)

section \<open>Decimal numbers\<close>

text \<open>\<open>str(n)\<close> and \<open>f"{n:0wd}"\<close> of a non-negative integer, and \<open>int(s)\<close> of digits.\<close>

definition digit_char :: "nat \<Rightarrow> char" where
  "digit_char d = char_of (48 + d)"

fun dec :: "nat \<Rightarrow> string" where
  "dec n = (if n < 10 then [digit_char n] else dec (n div 10) @ [digit_char (n mod 10)])"

declare dec.simps [simp del]

definition zpad :: "nat \<Rightarrow> nat \<Rightarrow> string" where
  "zpad w n = replicate (w - length (dec n)) (CHR ''0'') @ dec n"

definition digit_val :: "char \<Rightarrow> nat" where
  "digit_val c = (of_char c :: nat) - 48"

definition undec :: "string \<Rightarrow> nat" where
  "undec s = foldl (\<lambda>a c. 10 * a + digit_val c) 0 s"

lemma digit_val_char [simp]: "d < 10 \<Longrightarrow> digit_val (digit_char d) = d"
  by (simp add: digit_val_def digit_char_def)

lemma py_isdigit_digit_char [simp]: "d < 10 \<Longrightarrow> py_isdigit_char (digit_char d)"
  by (simp add: py_isdigit_char_def digit_char_def)

lemma digit_char_numeral [simp]:
  "digit_char 0 = CHR ''0''" "digit_char 1 = CHR ''1''" "digit_char (Suc 0) = CHR ''1''"
  "digit_char 2 = CHR ''2''" "digit_char 3 = CHR ''3''" "digit_char 4 = CHR ''4''"
  "digit_char 5 = CHR ''5''" "digit_char 6 = CHR ''6''" "digit_char 7 = CHR ''7''"
  "digit_char 8 = CHR ''8''" "digit_char 9 = CHR ''9''"
  by (code_simp | simp add: One_nat_def [symmetric] del: One_nat_def, code_simp)+

lemma digit_val_0 [simp]: "digit_val (CHR ''0'') = 0"
  by (simp add: digit_val_def)

lemma undec_snoc [simp]: "undec (s @ [c]) = 10 * undec s + digit_val c"
  by (simp add: undec_def)

lemma undec_dec [simp]: "undec (dec n) = n"
proof (induction n rule: dec.induct)
  case (1 n)
  show ?case
  proof (cases "n < 10")
    case True
    then show ?thesis by (subst dec.simps) (simp add: undec_def)
  next
    case False
    with "1.IH" have "undec (dec (n div 10)) = n div 10" by simp
    with False show ?thesis by (subst dec.simps) simp
  qed
qed

lemma dec_inject [simp]: "dec m = dec n \<longleftrightarrow> m = n"
  by (metis undec_dec)

lemma dec_nonempty [simp]: "dec n \<noteq> []"
  by (subst dec.simps) simp

lemma list_all_isdigit_dec: "list_all py_isdigit_char (dec n)"
proof (induction n rule: dec.induct)
  case (1 n)
  show ?case
  proof (cases "n < 10")
    case True
    then show ?thesis by (subst dec.simps) simp
  next
    case False
    with "1.IH" have "list_all py_isdigit_char (dec (n div 10))" by simp
    with False show ?thesis by (subst dec.simps) simp
  qed
qed

lemma py_isdigit_dec [simp]: "py_isdigit (dec n)"
  by (simp add: py_isdigit_def list_all_isdigit_dec)

lemma undec_replicate_0 [simp]: "undec (replicate k (CHR ''0'') @ s) = undec s"
proof -
  have "foldl (\<lambda>a c. 10 * a + digit_val c) 0 (replicate k (CHR ''0'')) = (0::nat)"
    by (induction k) simp_all
  then show ?thesis by (simp add: undec_def)
qed

lemma undec_zpad [simp]: "undec (zpad w n) = n"
  by (simp add: zpad_def)

lemma zpad_inject [simp]: "zpad w m = zpad w n \<longleftrightarrow> m = n"
  by (metis undec_zpad)

lemma set_zpad_isdigit: "c \<in> set (zpad w n) \<Longrightarrow> py_isdigit_char c"
  using list_all_isdigit_dec [of n]
  by (auto simp: zpad_def list_all_iff py_isdigit_char_def split: if_splits)

section \<open>Insertion-ordered dictionaries\<close>

text \<open>
  A Python dict keeps the first insertion position of a key and replaces its value on a
  later store: an association list with distinct keys.
\<close>

fun dict_set :: "'k \<Rightarrow> 'v \<Rightarrow> ('k \<times> 'v) list \<Rightarrow> ('k \<times> 'v) list" where
  "dict_set k v [] = [(k, v)]"
| "dict_set k v ((k', v') # d) = (if k' = k then (k, v) # d else (k', v') # dict_set k v d)"

definition dict_get :: "('k \<times> 'v) list \<Rightarrow> 'k \<Rightarrow> 'v option" where
  "dict_get d k = map_of d k"

definition dict_update :: "('k \<times> 'v) list \<Rightarrow> ('k \<times> 'v) list \<Rightarrow> ('k \<times> 'v) list" where
  "dict_update d e = foldl (\<lambda>acc (k, v). dict_set k v acc) d e"

lemma map_of_dict_set [simp]: "map_of (dict_set k v d) = (map_of d)(k \<mapsto> v)"
  by (induction k v d rule: dict_set.induct) (auto simp: fun_eq_iff)

lemma keys_dict_set [simp]: "fst ` set (dict_set k v d) = insert k (fst ` set d)"
  by (induction k v d rule: dict_set.induct) auto

lemma distinct_dict_set: "distinct (map fst d) \<Longrightarrow> distinct (map fst (dict_set k v d))"
  by (induction k v d rule: dict_set.induct) auto

lemma dict_set_fresh: "k \<notin> fst ` set d \<Longrightarrow> dict_set k v d = d @ [(k, v)]"
  by (induction k v d rule: dict_set.induct) auto

lemma dict_get_set [simp]: "dict_get (dict_set k v d) k' = (if k' = k then Some v else dict_get d k')"
  by (simp add: dict_get_def)

lemma map_of_dict_update: "map_of (dict_update d e) = map_of d ++ map_of (rev e)"
  by (induction e arbitrary: d) (auto simp: dict_update_def fun_eq_iff map_add_def split: option.splits)

lemma dict_update_Nil [simp]: "dict_update d [] = d"
  by (simp add: dict_update_def)

lemma dict_update_Cons [simp]: "dict_update d ((k, v) # e) = dict_update (dict_set k v d) e"
  by (simp add: dict_update_def)

text \<open>Order-preserving removal of duplicates (\<open>dict.fromkeys\<close>): the first occurrence stays.\<close>

fun dedup_from :: "'a list \<Rightarrow> 'a list \<Rightarrow> 'a list" where
  "dedup_from seen [] = []"
| "dedup_from seen (x # xs) =
     (if x \<in> set seen then dedup_from seen xs else x # dedup_from (x # seen) xs)"

definition dedup :: "'a list \<Rightarrow> 'a list" where
  "dedup xs = dedup_from [] xs"

lemma set_dedup_from: "set (dedup_from seen xs) = set xs - set seen"
  by (induction seen xs rule: dedup_from.induct) auto

lemma distinct_dedup_from: "distinct (dedup_from seen xs)"
  by (induction seen xs rule: dedup_from.induct) (auto simp: set_dedup_from)

lemma set_dedup [simp]: "set (dedup xs) = set xs"
  by (simp add: dedup_def set_dedup_from)

lemma distinct_dedup [simp]: "distinct (dedup xs)"
  by (simp add: dedup_def distinct_dedup_from)

text \<open>\<open>d.pop(k, None)\<close>\<close>

definition dict_remove :: "'k \<Rightarrow> ('k \<times> 'v) list \<Rightarrow> ('k \<times> 'v) list" where
  "dict_remove k d = filter (\<lambda>(k', _). k' \<noteq> k) d"

lemma map_of_dict_remove [simp]: "map_of (dict_remove k d) = (map_of d)(k := None)"
  by (induction d) (auto simp: dict_remove_def fun_eq_iff)

lemma distinct_dict_remove: "distinct (map fst d) \<Longrightarrow> distinct (map fst (dict_remove k d))"
  unfolding dict_remove_def by (induction d) auto

section \<open>Words and lines\<close>

text \<open>\<open>s.split()\<close>: the maximal runs without white space.\<close>

fun py_words_acc :: "string \<Rightarrow> string \<Rightarrow> string list" where
  "py_words_acc w [] = (if w = [] then [] else [rev w])"
| "py_words_acc w (c # cs) =
     (if py_isspace_char c then (if w = [] then py_words_acc [] cs else rev w # py_words_acc [] cs)
      else py_words_acc (c # w) cs)"

definition py_words :: "string \<Rightarrow> string list" where
  "py_words s = py_words_acc [] s"

text \<open>\<open>s.splitlines()\<close> on text whose lines end with a newline: no empty last line.\<close>

definition newline :: char where
  "newline = char_of (10 :: nat)"

definition py_splitlines :: "string \<Rightarrow> string list" where
  "py_splitlines s = (let ls = py_split newline s in if last ls = [] then butlast ls else ls)"

lemma py_words_acc_word:
  "list_all (\<lambda>c. \<not> py_isspace_char c) p \<Longrightarrow> py_words_acc w (p @ s) = py_words_acc (rev p @ w) s"
  by (induction p arbitrary: w) auto

lemma py_words_word:
  "p \<noteq> [] \<Longrightarrow> list_all (\<lambda>c. \<not> py_isspace_char c) p \<Longrightarrow> py_words p = [p]"
  using py_words_acc_word [of p "[]" "[]"] by (simp add: py_words_def)

end
