(* ===== verification/Errors.thy ===== *)
theory Errors
  imports Complex_Main Prelude
begin

text \<open>
  \<open>src/qairt_agent/errors.py\<close>: the structured errors every component raises, and
  their conversion to the serializable payload of the tool boundary. Python values that reach
  an error's \<open>details\<close> are \<open>pyval\<close>; JSON values are \<open>json\<close>. Floats are kept as an
  uninterpreted text. Other theories raise through \<open>agent_exn\<close> and \<open>value_error\<close>,
  which leave the human-readable message and the details out.
\<close>

datatype ErrorCode =
    INVALID_SPEC | ARTIFACT_NOT_FOUND | ARTIFACT_HASH_MISMATCH | ARTIFACT_PUBLISH_FAILED
  | MANIFEST_CONFLICT | MANIFEST_INVALID | QAIRT_UNAVAILABLE | QAIRT_VERSION_MISMATCH
  | PREFLIGHT_FAILED | STAGE_FAILED | INTERNAL_ERROR | PRESET_NOT_FOUND
  | UNSUPPORTED_SDK_CAPABILITY | PROJECT_NOT_INITIALIZED | JOB_NOT_FOUND | JOB_CONFLICT
  | JOB_CANCELLED | JOB_ORPHANED | DOCKER_UNAVAILABLE | APPLE_CONTAINER_UNAVAILABLE
  | DEVICE_UNAVAILABLE | LEASE_CONFLICT | PICKLE_REJECTED

datatype pyfloat = FNaN | FInf bool | Fin real

datatype json =
    JNull | JBool bool | JInt int | JFloat pyfloat | JStr string
  | JList "json list" | JObj "(string \<times> json) list"

text \<open>
  The runtime values \<open>_json_safe\<close> distinguishes: \<open>PySeq\<close> is a list, tuple or set,
  \<open>PyObj\<close> any other object, given by its \<open>str()\<close>.
\<close>

datatype pyval =
    PyNone | PyBool bool | PyInt int | PyFloat pyfloat | PyStr string
  | PySeq "pyval list" | PyMap "(string \<times> pyval) list" | PyObj string

fun json_safe :: "pyval \<Rightarrow> json" where
  "json_safe PyNone = JNull"
| "json_safe (PyBool b) = JBool b"
| "json_safe (PyInt i) = JInt i"
| "json_safe (PyFloat f) = JFloat f"
| "json_safe (PyStr s) = JStr s"
| "json_safe (PyMap kvs) = JObj (map (\<lambda>(k, v). (k, json_safe v)) kvs)"
| "json_safe (PySeq vs) = JList (map json_safe vs)"
| "json_safe (PyObj s) = JStr s"

record ToolErrorData =
  td_code :: ErrorCode
  td_message :: string
  td_stage :: "string option"
  td_retryable :: bool
  td_details :: "(string \<times> json) list"

text \<open>One constructor per exception class of the module; \<open>class_code\<close> is the class attribute.\<close>

datatype err_class =
    QairtAgentError | InvalidSpecError | ArtifactNotFoundError | ArtifactIntegrityError
  | ArtifactPublishError | ManifestConflictError | ManifestInvalidError | PresetNotFoundError
  | UnsupportedSdkCapabilityError | ProjectNotInitializedError | JobNotFoundError
  | JobConflictError | JobCancelledError | JobOrphanedError | DockerUnavailableError
  | AppleContainerUnavailableError | DeviceUnavailableError | LeaseConflictError
  | PickleRejectedError

fun class_code :: "err_class \<Rightarrow> ErrorCode" where
  "class_code QairtAgentError = INTERNAL_ERROR"
| "class_code InvalidSpecError = INVALID_SPEC"
| "class_code ArtifactNotFoundError = ARTIFACT_NOT_FOUND"
| "class_code ArtifactIntegrityError = ARTIFACT_HASH_MISMATCH"
| "class_code ArtifactPublishError = ARTIFACT_PUBLISH_FAILED"
| "class_code ManifestConflictError = MANIFEST_CONFLICT"
| "class_code ManifestInvalidError = MANIFEST_INVALID"
| "class_code PresetNotFoundError = PRESET_NOT_FOUND"
| "class_code UnsupportedSdkCapabilityError = UNSUPPORTED_SDK_CAPABILITY"
| "class_code ProjectNotInitializedError = PROJECT_NOT_INITIALIZED"
| "class_code JobNotFoundError = JOB_NOT_FOUND"
| "class_code JobConflictError = JOB_CONFLICT"
| "class_code JobCancelledError = JOB_CANCELLED"
| "class_code JobOrphanedError = JOB_ORPHANED"
| "class_code DockerUnavailableError = DOCKER_UNAVAILABLE"
| "class_code AppleContainerUnavailableError = APPLE_CONTAINER_UNAVAILABLE"
| "class_code DeviceUnavailableError = DEVICE_UNAVAILABLE"
| "class_code LeaseConflictError = LEASE_CONFLICT"
| "class_code PickleRejectedError = PICKLE_REJECTED"

record agent_error =
  ae_code :: ErrorCode
  ae_message :: string
  ae_stage :: "string option"
  ae_retryable :: bool
  ae_details :: "(string \<times> pyval) list"

text \<open>
  An exception in flight: a \<open>QairtAgentError\<close> subclass other than \<open>ToolError\<close>, a
  \<open>ToolError\<close> wrapping its payload, or any other Python exception by class name and
  \<open>str(exc)\<close>.
\<close>

datatype exn =
    AgentExn agent_error
  | ToolExn ToolErrorData
  | PyExn string string

text \<open>\<open>QairtAgentError.__init__\<close>: the class attribute \<open>retryable = False\<close> unless overridden.\<close>

definition QairtAgentError_init ::
  "err_class \<Rightarrow> string \<Rightarrow> string option \<Rightarrow> bool option \<Rightarrow> (string \<times> pyval) list \<Rightarrow> agent_error"
where
  "QairtAgentError_init cls msg stage retryable details =
     \<lparr>ae_code = class_code cls, ae_message = msg, ae_stage = stage,
      ae_retryable = (case retryable of None \<Rightarrow> False | Some r \<Rightarrow> r), ae_details = details\<rparr>"

text \<open>An error raised by the modelled code; its message text, never empty, is not modelled.\<close>

definition agent_exn :: "err_class \<Rightarrow> string option \<Rightarrow> bool \<Rightarrow> exn" where
  "agent_exn cls stage retryable =
     AgentExn (QairtAgentError_init cls ''...'' stage (Some retryable) [])"

definition value_error :: exn where
  "value_error = PyExn ''ValueError'' []"

text \<open>The payload is a validated model: \<open>message\<close> has \<open>min_length=1\<close>.\<close>

definition ToolErrorData_new ::
  "ErrorCode \<Rightarrow> string \<Rightarrow> string option \<Rightarrow> bool \<Rightarrow> (string \<times> json) list \<Rightarrow> exn + ToolErrorData"
where
  "ToolErrorData_new c m s r d =
     (if m = [] then Inl (PyExn ''ValidationError'' ''message'')
      else Inr \<lparr>td_code = c, td_message = m, td_stage = s, td_retryable = r, td_details = d\<rparr>)"

definition safe_details :: "(string \<times> pyval) list \<Rightarrow> (string \<times> json) list" where
  "safe_details d = map (\<lambda>(k, v). (k, json_safe v)) d"

fun from_exception ::
  "exn \<Rightarrow> ErrorCode \<Rightarrow> string option \<Rightarrow> bool \<Rightarrow> (string \<times> pyval) list \<Rightarrow> exn + ToolErrorData"
where
  "from_exception (ToolExn d) code stage retryable details = Inr d"
| "from_exception (AgentExn e) code stage retryable details =
     ToolErrorData_new
       (if code = INTERNAL_ERROR then ae_code e else code)
       (ae_message e)
       (case stage of None \<Rightarrow> ae_stage e | Some s \<Rightarrow> Some s)
       (retryable \<or> ae_retryable e)
       (safe_details (dict_update (ae_details e) details))"
| "from_exception (PyExn cls msg) code stage retryable details =
     ToolErrorData_new code (if msg = [] then cls else msg) stage retryable (safe_details details)"

text \<open>\<open>QairtAgentError.to_tool_error\<close>, and \<open>ToolError.__init__\<close> with its attributes.\<close>

definition to_tool_error :: "exn \<Rightarrow> exn + ToolErrorData" where
  "to_tool_error e = from_exception e INTERNAL_ERROR None False []"

section \<open>Facts\<close>

lemma map_of_safe_details: "map_of (safe_details d) k = map_option json_safe (map_of d k)"
  by (induction d) (auto simp: safe_details_def)

lemma from_exception_AgentExn_ok:
  "ae_message e \<noteq> [] \<Longrightarrow> is_ok (from_exception (AgentExn e) c s r d)"
  by (simp add: ToolErrorData_new_def)

lemma from_exception_PyExn_ok: "cls \<noteq> [] \<Longrightarrow> is_ok (from_exception (PyExn cls msg) c s r d)"
  by (simp add: ToolErrorData_new_def)

text \<open>
  Converting a raised agent error keeps its identity: the payload carries the class's
  code unless the caller passes another one than the default, the caller's stage wins over
  the error's and the error's is the fallback, retryability is the disjunction, and every
  detail is looked up in the caller's map first and in the error's second, made JSON-safe.
\<close>

theorem from_exception_keeps_context:
  assumes "from_exception (AgentExn e) code stage retryable details = Inr t"
  shows "td_code t = (if code = INTERNAL_ERROR then ae_code e else code) \<and>
    td_message t = ae_message e \<and>
    td_stage t = (if stage = None then ae_stage e else stage) \<and>
    td_retryable t = (retryable \<or> ae_retryable e) \<and>
    map_of (td_details t) k =
      (case map_of (rev details) k of
         None \<Rightarrow> map_option json_safe (map_of (ae_details e) k)
       | Some v \<Rightarrow> Some (json_safe v))"
  using assms
  by (auto simp: ToolErrorData_new_def map_of_safe_details map_of_dict_update map_add_def
      split: if_splits option.splits)

theorem from_exception_keeps_context_witness:
  "\<exists>t. from_exception (AgentExn (QairtAgentError_init LeaseConflictError ''leased'' None (Some True) []))
       INTERNAL_ERROR (Some ''device'') False [(''path'', PyInt 3)] = Inr t \<and>
     td_code t = LEASE_CONFLICT \<and> td_stage t = Some ''device'' \<and> td_retryable t \<and>
     map_of (td_details t) ''path'' = Some (JInt 3)"
proof -
  let ?e = "QairtAgentError_init LeaseConflictError ''leased'' None (Some True) []"
  obtain t where t: "from_exception (AgentExn ?e) INTERNAL_ERROR (Some ''device'') False
      [(''path'', PyInt 3)] = Inr t"
    by (simp add: ToolErrorData_new_def QairtAgentError_init_def)
  from from_exception_keeps_context [OF t, of "''path''"] t show ?thesis
    by (auto simp: QairtAgentError_init_def)
qed

end
