(* ===== verification/PyValues.thy ===== *)
theory PyValues
  imports Errors
begin

text \<open>
  The Python built-ins the sources apply to values read from JSON: truth values, \<open>str\<close>,
  \<open>int\<close>, iteration, and reading a field of a value that may not be a mapping. \<open>str\<close> of a
  float, a list or a dict is the parameter \<open>repr\<close>; texts are ASCII.
\<close>

definition type_error :: exn where
  "type_error = PyExn ''TypeError'' []"

definition key_error :: exn where
  "key_error = PyExn ''KeyError'' []"

definition attribute_error :: exn where
  "attribute_error = PyExn ''AttributeError'' []"

definition runtime_error :: exn where
  "runtime_error = PyExn ''RuntimeError'' []"

definition overflow_error :: exn where
  "overflow_error = PyExn ''OverflowError'' []"

text \<open>\<open>bool(v)\<close>\<close>

fun py_truthy :: "json \<Rightarrow> bool" where
  "py_truthy JNull = False"
| "py_truthy (JBool b) = b"
| "py_truthy (JInt i) = (i \<noteq> 0)"
| "py_truthy (JFloat f) = (f \<noteq> Fin 0)"
| "py_truthy (JStr s) = (s \<noteq> [])"
| "py_truthy (JList l) = (l \<noteq> [])"
| "py_truthy (JObj d) = (d \<noteq> [])"

text \<open>\<open>str(i)\<close> of an integer.\<close>

definition int_str :: "int \<Rightarrow> string" where
  "int_str i = (if i < 0 then ''-'' @ dec (nat (- i)) else dec (nat i))"

text \<open>\<open>str(v)\<close>\<close>

fun py_str :: "(json \<Rightarrow> string) \<Rightarrow> json \<Rightarrow> string" where
  "py_str repr JNull = ''None''"
| "py_str repr (JBool b) = (if b then ''True'' else ''False'')"
| "py_str repr (JInt i) = int_str i"
| "py_str repr (JStr s) = s"
| "py_str repr (JFloat f) = repr (JFloat f)"
| "py_str repr (JList l) = repr (JList l)"
| "py_str repr (JObj d) = repr (JObj d)"

text \<open>\<open>int(s)\<close>: white space around, a sign, single underscores between digits.\<close>

definition py_int_text :: "string \<Rightarrow> exn + int" where
  "py_int_text text =
    (let s = py_strip text;
         neg = py_startswith s ''-'';
         body = (if neg \<or> py_startswith s ''+'' then tl s else s);
         parts = py_split (CHR ''_'') body
     in if list_all py_isdigit parts
        then Inr (if neg then - int (undec (concat parts)) else int (undec (concat parts)))
        else Inl value_error)"

text \<open>\<open>int(v)\<close>: a float is truncated, a bool is 0 or 1.\<close>

definition py_int_of_float :: "real \<Rightarrow> int" where
  "py_int_of_float r = (if r < 0 then - \<lfloor>- r\<rfloor> else \<lfloor>r\<rfloor>)"

fun py_int :: "json \<Rightarrow> exn + int" where
  "py_int JNull = Inl type_error"
| "py_int (JBool b) = Inr (if b then 1 else 0)"
| "py_int (JInt i) = Inr i"
| "py_int (JFloat FNaN) = Inl value_error"
| "py_int (JFloat (FInf b)) = Inl overflow_error"
| "py_int (JFloat (Fin r)) = Inr (py_int_of_float r)"
| "py_int (JStr s) = py_int_text s"
| "py_int (JList l) = Inl type_error"
| "py_int (JObj d) = Inl type_error"

text \<open>\<open>for x in v\<close>: the characters of a text, the keys of a mapping.\<close>

fun py_iter :: "json \<Rightarrow> exn + json list" where
  "py_iter (JList l) = Inr l"
| "py_iter (JStr s) = Inr (map (\<lambda>c. JStr [c]) s)"
| "py_iter (JObj d) = Inr (map (\<lambda>(k, _). JStr k) d)"
| "py_iter _ = Inl type_error"

text \<open>\<open>tuple(str(x) for x in v)\<close>\<close>

definition py_strs :: "(json \<Rightarrow> string) \<Rightarrow> json \<Rightarrow> exn + string list" where
  "py_strs repr v = bind_res (py_iter v) (\<lambda>xs. Inr (map (py_str repr) xs))"

text \<open>\<open>v.get(k)\<close> where a missing key reads as \<open>None\<close>.\<close>

definition json_get :: "(string \<times> json) list \<Rightarrow> string \<Rightarrow> json" where
  "json_get d k = (case map_of d k of None \<Rightarrow> JNull | Some v \<Rightarrow> v)"

fun as_obj :: "json \<Rightarrow> (string \<times> json) list option" where
  "as_obj (JObj d) = Some d"
| "as_obj _ = None"

definition json_get_or :: "(string \<times> json) list \<Rightarrow> string \<Rightarrow> json \<Rightarrow> json" where
  "json_get_or d k fallback = (case map_of d k of None \<Rightarrow> fallback | Some v \<Rightarrow> v)"

text \<open>\<open>d[k]\<close>\<close>

definition json_item :: "(string \<times> json) list \<Rightarrow> string \<Rightarrow> exn + json" where
  "json_item d k = (case map_of d k of None \<Rightarrow> Inl key_error | Some v \<Rightarrow> Inr v)"

text \<open>\<open>v or {}\<close> on which \<open>get\<close> is called next.\<close>

definition obj_or_empty :: "json \<Rightarrow> exn + (string \<times> json) list" where
  "obj_or_empty v = (if \<not> py_truthy v then Inr [] else case as_obj v of None \<Rightarrow> Inl attribute_error | Some d \<Rightarrow> Inr d)"

text \<open>\<open>list(v or ())\<close>\<close>

definition list_or_empty :: "json \<Rightarrow> exn + json list" where
  "list_or_empty v = (if py_truthy v then py_iter v else Inr [])"

text \<open>\<open>s.replace(old, new)\<close> for a non-empty \<open>old\<close>: leftmost occurrences, not overlapping.\<close>

fun py_replace_from :: "string \<Rightarrow> string \<Rightarrow> nat \<Rightarrow> string \<Rightarrow> string" where
  "py_replace_from old new skip [] = []"
| "py_replace_from old new (Suc n) (c # cs) = py_replace_from old new n cs"
| "py_replace_from old new 0 (c # cs) =
     (if py_startswith (c # cs) old then new @ py_replace_from old new (length old - 1) cs
      else c # py_replace_from old new 0 cs)"

definition py_replace :: "string \<Rightarrow> string \<Rightarrow> string \<Rightarrow> string" where
  "py_replace old new s = py_replace_from old new 0 s"

text \<open>\<open>re.sub("[^...]+", "_", s)\<close>: every maximal run of characters outside the class.\<close>

fun sub_runs :: "(char \<Rightarrow> bool) \<Rightarrow> char \<Rightarrow> bool \<Rightarrow> string \<Rightarrow> string" where
  "sub_runs keep r inside [] = []"
| "sub_runs keep r inside (c # cs) =
     (if keep c then c # sub_runs keep r False cs
      else if inside then sub_runs keep r True cs else r # sub_runs keep r True cs)"

text \<open>\<open>s.strip(c)\<close> for one character.\<close>

definition py_strip_char :: "char \<Rightarrow> string \<Rightarrow> string" where
  "py_strip_char c s = py_rstrip_char c (dropWhile (\<lambda>x. x = c) s)"

text \<open>\<open>d.setdefault(k1, {})[k2] = v\<close>\<close>

definition dict_put2 :: "'a \<Rightarrow> 'b \<Rightarrow> 'v \<Rightarrow> ('a \<times> ('b \<times> 'v) list) list \<Rightarrow> ('a \<times> ('b \<times> 'v) list) list" where
  "dict_put2 k1 k2 v d = dict_set k1 (dict_set k2 v (case map_of d k1 of None \<Rightarrow> [] | Some e \<Rightarrow> e)) d"

text \<open>\<open>d.setdefault(k, []).append(v)\<close>\<close>

definition dict_append :: "'a \<Rightarrow> 'v \<Rightarrow> ('a \<times> 'v list) list \<Rightarrow> ('a \<times> 'v list) list" where
  "dict_append k v d = dict_set k ((case map_of d k of None \<Rightarrow> [] | Some e \<Rightarrow> e) @ [v]) d"

text \<open>\<open>{f(k): v ...}\<close>: a later entry with the same key replaces the value.\<close>

definition dict_of :: "('k \<times> 'v) list \<Rightarrow> ('k \<times> 'v) list" where
  "dict_of kvs = dict_update [] kvs"

lemma map_of_dict_of [simp]: "map_of (dict_of kvs) = map_of (rev kvs)"
  by (simp add: dict_of_def map_of_dict_update)

lemma distinct_dict_update: "distinct (map fst d) \<Longrightarrow> distinct (map fst (dict_update d e))"
  by (induction e arbitrary: d) (auto simp: dict_update_def distinct_dict_set)

lemma distinct_dict_of [simp]: "distinct (map fst (dict_of kvs))"
  by (simp add: dict_of_def distinct_dict_update)

lemma keys_dict_update: "fst ` set (dict_update d e) = fst ` set d \<union> fst ` set e"
proof (induction e arbitrary: d)
  case (Cons x e)
  obtain k v where x: "x = (k, v)" by (cases x)
  show ?case using Cons.IH [of "dict_set k v d"] x by (simp del: keys_dict_set add: keys_dict_set) 
qed simp

lemma keys_dict_of [simp]: "fst ` set (dict_of kvs) = fst ` set kvs"
  by (simp add: dict_of_def keys_dict_update)

lemma dict_update_fresh:
  "distinct (map fst (d @ e)) \<Longrightarrow> dict_update d e = d @ e"
proof (induction e arbitrary: d)
  case (Cons x e)
  obtain k v where x: "x = (k, v)" by (cases x)
  from Cons.prems x have "k \<notin> fst ` set d" by auto
  then have "dict_set k v d = d @ [(k, v)]" by (rule dict_set_fresh)
  with Cons.IH [of "d @ [(k, v)]"] Cons.prems x show ?case by simp
qed simp

lemma dict_of_distinct: "distinct (map fst kvs) \<Longrightarrow> dict_of kvs = kvs"
  using dict_update_fresh [of "[]" kvs] by (simp add: dict_of_def)

lemma map_of_rev_distinct: "distinct (map fst xs) \<Longrightarrow> map_of (rev xs) = map_of xs"
  by (rule map_of_eqI) (auto simp: rev_map [symmetric])

lemma map_res_all_ok: "is_ok (map_res f xs) \<longleftrightarrow> list_all (\<lambda>x. is_ok (f x)) xs"
  by (induction xs) (auto simp: res_simps)

lemma map_res_error: "map_res f xs = Inl e \<Longrightarrow> \<exists>x \<in> set xs. f x = Inl e"
  by (induction xs) (auto simp: res_simps)

lemma map_of_None_set: "map_of d k \<noteq> None \<longleftrightarrow> k \<in> set (map fst d)"
  by (metis domIff dom_map_of_conv_image_fst set_map)

lemma py_int_text_dec: "py_int_text (dec n) = Inr (int n)"
proof -
  have dig: "list_all py_isdigit_char (dec n)" by (rule list_all_isdigit_dec)
  then have c: "c \<in> set (dec n) \<Longrightarrow> py_isdigit_char c" for c by (simp add: list_all_iff)
  have nsp: "py_isdigit_char c \<Longrightarrow> \<not> py_isspace_char c" for c
    by (auto simp: py_isdigit_char_def py_isspace_char_def)
  have strip: "py_strip (dec n) = dec n"
    by (rule py_strip_fixed) (auto intro!: nsp c)
  have sep: "CHR ''_'' \<notin> set (dec n)" using c by (force simp: py_isdigit_char_def)
  have hd: "hd (dec n) \<in> set (dec n)" by simp
  have "\<not> py_startswith (dec n) ''-''" "\<not> py_startswith (dec n) ''+''"
    using c [OF hd] by (auto simp: py_startswith_iff py_isdigit_char_def)
  with strip sep show ?thesis
    by (simp add: py_int_text_def Let_def py_split_no_sep)
qed

lemma py_int_text_int_str: "0 \<le> i \<Longrightarrow> py_int_text (int_str i) = Inr i"
  by (simp add: int_str_def py_int_text_dec)

end
