(* ===== verification/Effects.thy ===== *)
theory Effects
  imports Errors
begin

text \<open>
  Code that talks to the outside world: a computation takes the state of the world and returns
  an outcome with the state it left. An outcome is a value, a raised exception, or \<open>Dead\<close>:
  the process was killed, so that no handler and no \<open>finally\<close> of it runs. The commands the
  sources execute (\<open>adb\<close>, \<open>docker\<close>) are a parameter \<open>exec\<close> of the definitions that
  use them, with any behaviour.
\<close>

datatype 'a outcome = Val 'a | Exc exn | Dead

type_synonym ('w, 'a) eff = "'w \<Rightarrow> 'a outcome \<times> 'w"

definition eff_return :: "'a \<Rightarrow> ('w, 'a) eff" where
  "eff_return x = (\<lambda>w. (Val x, w))"

definition eff_raise :: "exn \<Rightarrow> ('w, 'a) eff" where
  "eff_raise e = (\<lambda>w. (Exc e, w))"

definition eff_bind :: "('w, 'a) eff \<Rightarrow> ('a \<Rightarrow> ('w, 'b) eff) \<Rightarrow> ('w, 'b) eff" where
  "eff_bind m f = (\<lambda>w. case m w of
     (Val x, w') \<Rightarrow> f x w' | (Exc e, w') \<Rightarrow> (Exc e, w') | (Dead, w') \<Rightarrow> (Dead, w'))"

text \<open>A pure fallible step.\<close>

definition eff_lift :: "exn + 'a \<Rightarrow> ('w, 'a) eff" where
  "eff_lift r = (\<lambda>w. (case r of Inl e \<Rightarrow> Exc e | Inr x \<Rightarrow> Val x, w))"

text \<open>\<open>try: m finally: c\<close>; an exception of the cleanup replaces the first outcome.\<close>

definition eff_finally :: "('w, 'a) eff \<Rightarrow> ('w, unit) eff \<Rightarrow> ('w, 'a) eff" where
  "eff_finally m c = (\<lambda>w. case m w of
     (Dead, w') \<Rightarrow> (Dead, w')
   | (r, w') \<Rightarrow> (case c w' of
       (Val _, w'') \<Rightarrow> (r, w'') | (Exc e, w'') \<Rightarrow> (Exc e, w'') | (Dead, w'') \<Rightarrow> (Dead, w'')))"

text \<open>\<open>try: m except Exception as e: h(e)\<close>\<close>

definition eff_catch :: "('w, 'a) eff \<Rightarrow> (exn \<Rightarrow> ('w, 'a) eff) \<Rightarrow> ('w, 'a) eff" where
  "eff_catch m h = (\<lambda>w. case m w of
     (Val x, w') \<Rightarrow> (Val x, w') | (Exc e, w') \<Rightarrow> h e w' | (Dead, w') \<Rightarrow> (Dead, w'))"

fun eff_foreach :: "'b list \<Rightarrow> ('b \<Rightarrow> ('w, unit) eff) \<Rightarrow> ('w, unit) eff" where
  "eff_foreach [] f = eff_return ()"
| "eff_foreach (x # xs) f = eff_bind (f x) (\<lambda>_. eff_foreach xs f)"

named_theorems eff_simps \<open>case rules for computations\<close>

lemma eff_bind_Val [eff_simps]:
  "eff_bind m f w = (Val y, w'') \<longleftrightarrow> (\<exists>x w'. m w = (Val x, w') \<and> f x w' = (Val y, w''))"
  by (auto simp: eff_bind_def split: prod.splits outcome.splits)

lemma eff_return_iff [eff_simps]: "eff_return x w = (r, w') \<longleftrightarrow> r = Val x \<and> w' = w"
  by (auto simp: eff_return_def)

lemma eff_raise_iff [eff_simps]: "eff_raise e w = (r, w') \<longleftrightarrow> r = Exc e \<and> w' = w"
  by (auto simp: eff_raise_def)

lemma eff_lift_Val: "eff_lift p w = (Val x, w') \<longleftrightarrow> p = Inr x \<and> w' = w"
  by (cases p) (auto simp: eff_lift_def)

lemma eff_lift_iff [eff_simps]:
  "eff_lift p w = (r, w') \<longleftrightarrow> w' = w \<and> r = (case p of Inl e \<Rightarrow> Exc e | Inr x \<Rightarrow> Val x)"
  by (auto simp: eff_lift_def)

text \<open>The \<open>finally\<close> part runs unless the process died before it.\<close>

lemma eff_finally_cases:
  assumes "eff_finally m c w = (r, w'')"
  obtains (dead) "r = Dead" "m w = (Dead, w'')"
  | (ran) r1 w1 r2 where "m w = (r1, w1)" "r1 \<noteq> Dead" "c w1 = (r2, w'')"
      "r = (case r2 of Val _ \<Rightarrow> r1 | Exc e \<Rightarrow> Exc e | Dead \<Rightarrow> Dead)"
  using assms by (auto simp: eff_finally_def split: prod.splits outcome.splits)

section \<open>Commands\<close>

text \<open>
  A completed command. \<open>exec\<close> returns \<open>None\<close> when the caller is killed while the command
  runs; the command may have had any part of its effect.
\<close>

record cmd_result =
  cr_returncode :: int
  cr_stdout :: string
  cr_stderr :: string

type_synonym 'w executor = "string list \<Rightarrow> 'w \<Rightarrow> cmd_result option \<times> 'w"

definition execute :: "'w executor \<Rightarrow> string list \<Rightarrow> ('w, cmd_result) eff" where
  "execute exec argv = (\<lambda>w. case exec argv w of
     (None, w') \<Rightarrow> (Dead, w') | (Some r, w') \<Rightarrow> (Val r, w'))"

section \<open>Invariants of computations\<close>

text \<open>What a computation keeps, step by step.\<close>

definition keeps :: "('w \<Rightarrow> bool) \<Rightarrow> ('w, 'a) eff \<Rightarrow> bool" where
  "keeps I m \<longleftrightarrow> (\<forall>w. I w \<longrightarrow> I (snd (m w)))"

lemma keepsD: "keeps I m \<Longrightarrow> I w \<Longrightarrow> I (snd (m w))"
  by (simp add: keeps_def)

lemma eff_bind_lift_Inr: "eff_bind (eff_lift (Inr x)) f = f x"
  by (simp add: eff_bind_def eff_lift_def)

lemma keeps_return [simp]: "keeps I (eff_return x)"
  by (simp add: keeps_def eff_return_def)

lemma keeps_raise [simp]: "keeps I (eff_raise e)"
  by (simp add: keeps_def eff_raise_def)

lemma keeps_lift [simp]: "keeps I (eff_lift r)"
  by (simp add: keeps_def eff_lift_def)

lemma keeps_bind: "keeps I m \<Longrightarrow> (\<And>x. keeps I (f x)) \<Longrightarrow> keeps I (eff_bind m f)"
  by (fastforce simp: keeps_def eff_bind_def split: prod.split outcome.split)

lemma keeps_catch: "keeps I m \<Longrightarrow> (\<And>e. keeps I (h e)) \<Longrightarrow> keeps I (eff_catch m h)"
  by (fastforce simp: keeps_def eff_catch_def split: prod.split outcome.split)

lemma keeps_finally: "keeps I m \<Longrightarrow> keeps I c \<Longrightarrow> keeps I (eff_finally m c)"
  by (fastforce simp: keeps_def eff_finally_def split: prod.split outcome.split)

lemma keeps_foreach: "(\<And>x. x \<in> set xs \<Longrightarrow> keeps I (f x)) \<Longrightarrow> keeps I (eff_foreach xs f)"
  by (induction xs) (auto intro: keeps_bind)

lemma keeps_execute: "(\<And>w. I w \<Longrightarrow> I (snd (exec argv w))) \<Longrightarrow> keeps I (execute exec argv)"
  by (fastforce simp: keeps_def execute_def split: prod.split option.split)

lemma keeps_lift_bind:
  "(\<And>x. r = Inr x \<Longrightarrow> keeps I (f x)) \<Longrightarrow> keeps I (eff_bind (eff_lift r) f)"
  by (cases r) (auto simp: keeps_def eff_bind_def eff_lift_def)

lemma eff_bind_cases:
  assumes "eff_bind m f w = (r, w'')"
  obtains (val) x w' where "m w = (Val x, w')" "f x w' = (r, w'')"
  | (exc) e where "m w = (Exc e, w'')" "r = Exc e"
  | (dead) "m w = (Dead, w'')" "r = Dead"
  using assms by (auto simp: eff_bind_def split: prod.splits outcome.splits)

section \<open>Pre- and postconditions\<close>

text \<open>
  \<open>triple P m Q E\<close>: started in a state with \<open>P\<close>, the computation ends with \<open>Q\<close> of its value and
  state, or raises or dies in a state with \<open>E\<close>.
\<close>

definition triple :: "('w \<Rightarrow> bool) \<Rightarrow> ('w, 'a) eff \<Rightarrow> ('a \<Rightarrow> 'w \<Rightarrow> bool) \<Rightarrow> ('w \<Rightarrow> bool) \<Rightarrow> bool" where
  "triple P m Q E \<longleftrightarrow> (\<forall>w. P w \<longrightarrow>
     (case m w of (Val x, w') \<Rightarrow> Q x w' | (Exc e, w') \<Rightarrow> E w' | (Dead, w') \<Rightarrow> E w'))"

lemma tripleI:
  "(\<And>w r w'. P w \<Longrightarrow> m w = (r, w') \<Longrightarrow>
     (case r of Val x \<Rightarrow> Q x w' | Exc e \<Rightarrow> E w' | Dead \<Rightarrow> E w')) \<Longrightarrow> triple P m Q E"
  unfolding triple_def by (force split: prod.split outcome.split)

lemma tripleD:
  "triple P m Q E \<Longrightarrow> P w \<Longrightarrow> m w = (r, w') \<Longrightarrow>
     (case r of Val x \<Rightarrow> Q x w' | Exc e \<Rightarrow> E w' | Dead \<Rightarrow> E w')"
  unfolding triple_def by (cases r) force+

lemma triple_Val: "triple P m Q E \<Longrightarrow> P w \<Longrightarrow> m w = (Val x, w') \<Longrightarrow> Q x w'"
  using tripleD by fastforce

lemma triple_any:
  "triple P m (\<lambda>_. I) I \<Longrightarrow> P w \<Longrightarrow> m w = (r, w') \<Longrightarrow> I w'"
  using tripleD by (fastforce split: outcome.splits)

lemma triple_weaken:
  "triple P m Q E \<Longrightarrow> (\<And>w. P' w \<Longrightarrow> P w) \<Longrightarrow> (\<And>x w. Q x w \<Longrightarrow> Q' x w) \<Longrightarrow> (\<And>w. E w \<Longrightarrow> E' w) \<Longrightarrow>
   triple P' m Q' E'"
  unfolding triple_def by (fastforce split: prod.splits outcome.splits)

lemma triple_return: "(\<And>w. P w \<Longrightarrow> Q x w) \<Longrightarrow> triple P (eff_return x) Q E"
  by (simp add: triple_def eff_return_def)

lemma triple_raise: "(\<And>w. P w \<Longrightarrow> E w) \<Longrightarrow> triple P (eff_raise e) Q E"
  by (simp add: triple_def eff_raise_def)

lemma triple_lift: "(\<And>w x. r = Inr x \<Longrightarrow> P w \<Longrightarrow> Q x w) \<Longrightarrow> (\<And>w. P w \<Longrightarrow> E w) \<Longrightarrow> triple P (eff_lift r) Q E"
  by (auto simp: triple_def eff_lift_def split: sum.split)

lemma triple_bind:
  "triple P m R E \<Longrightarrow> (\<And>x. triple (R x) (f x) Q E) \<Longrightarrow> triple P (eff_bind m f) Q E"
  unfolding triple_def eff_bind_def by (fastforce split: prod.splits outcome.splits)

lemma triple_lift_bind:
  "(\<And>w. P w \<Longrightarrow> E w) \<Longrightarrow> (\<And>x. r = Inr x \<Longrightarrow> triple P (f x) Q E) \<Longrightarrow> triple P (eff_bind (eff_lift r) f) Q E"
  by (cases r) (auto simp: triple_def eff_bind_def eff_lift_def)

lemma triple_if:
  "(b \<Longrightarrow> triple P m Q E) \<Longrightarrow> (\<not> b \<Longrightarrow> triple P m' Q E) \<Longrightarrow> triple P (if b then m else m') Q E"
  by simp

lemma keeps_triple: "keeps I m \<longleftrightarrow> triple I m (\<lambda>_. I) I"
proof -
  have "(case p of (Val x, w') \<Rightarrow> I w' | (Exc e, w') \<Rightarrow> I w' | (Dead, w') \<Rightarrow> I w') = I (snd p)"
    for p :: "'b outcome \<times> 'a"
    by (simp split: prod.split outcome.split)
  then show ?thesis by (simp add: keeps_def triple_def)
qed

end
