(* ===== verification/Chain.thy ===== *)
theory Chain
  imports Effects PyValues
begin

text \<open>
  \<open>src/qairt_agent/runtime/chain.py\<close>: a model cut into slices is run slice by slice; a route
  says for every input of a slice whether it is a golden tensor, a native state slot, an output
  of an earlier slice or an external tensor. Tensors are of any type; a slice executor is an
  arbitrary computation, which may raise or be killed. A tensor mapping is an insertion-ordered
  dictionary. Objects a route is coerced from are JSON values.
\<close>

type_synonym 't tensors = "(string \<times> 't) list"

definition chain_error :: exn where
  "chain_error = PyExn ''ChainExecutionError'' []"

record SliceInvocation =
  si_slice_id :: string
  si_ar :: int
  si_graph_name :: string
  si_output_names :: "string list"
  si_mode :: string
  si_step_index :: nat

text \<open>\<open>None\<close>: the executor returned something that is not a mapping.\<close>

type_synonym ('w, 't) SliceExecutor = "'t tensors \<Rightarrow> SliceInvocation \<Rightarrow> ('w, 't tensors option) eff"

section \<open>Routes\<close>

record SliceRoute =
  sr_slice_id :: string
  sr_input_names :: "string list"
  sr_output_names :: "string list"
  sr_graph_names :: "(int \<times> string) list"
  sr_from_previous :: "(string \<times> string) list"
  sr_state_inputs :: "(string \<times> string) list"
  sr_state_outputs :: "(string \<times> string) list"

definition keys_within :: "(string \<times> 'v) list \<Rightarrow> string list \<Rightarrow> bool" where
  "keys_within d names \<longleftrightarrow> list_all (\<lambda>(k, _). k \<in> set names) d"

definition SliceRoute_new :: "SliceRoute \<Rightarrow> exn + SliceRoute" where
  "SliceRoute_new r = bind_res (ensure (list_all id
     [sr_slice_id r \<noteq> [],
      sr_input_names r \<noteq> [],
      sr_output_names r \<noteq> [],
      sr_graph_names r \<noteq> [] \<and> list_all (\<lambda>(_, name). name \<noteq> []) (sr_graph_names r),
      keys_within (sr_from_previous r) (sr_input_names r),
      keys_within (sr_state_inputs r) (sr_input_names r),
      keys_within (sr_state_outputs r) (sr_output_names r),
      list_all (\<lambda>(k, _). map_of (sr_state_inputs r) k = None) (sr_from_previous r)]) value_error)
     (\<lambda>_. Inr r)"

text \<open>\<open>_field\<close> on a JSON value: \<open>None\<close> stands for the default.\<close>

fun chain_field :: "json \<Rightarrow> string list \<Rightarrow> json option" where
  "chain_field v [] = None"
| "chain_field v (n # ns) = (case as_obj v of
     None \<Rightarrow> None
   | Some d \<Rightarrow> (case map_of d n of Some x \<Rightarrow> Some x | None \<Rightarrow> chain_field v ns))"

text \<open>\<open>dict(v)\<close>: of a mapping, or of a sequence of pairs with hashable keys.\<close>

definition py_pair :: "json \<Rightarrow> exn + json \<times> json" where
  "py_pair v = bind_res (py_iter v) (\<lambda>xs. case xs of
     [k, x] \<Rightarrow> (case k of JList _ \<Rightarrow> Inl type_error | JObj _ \<Rightarrow> Inl type_error | _ \<Rightarrow> Inr (k, x))
   | _ \<Rightarrow> Inl value_error)"

definition py_dict :: "json \<Rightarrow> exn + (json \<times> json) list" where
  "py_dict v = (case v of
     JObj d \<Rightarrow> Inr (map (\<lambda>(k, x). (JStr k, x)) d)
   | _ \<Rightarrow> bind_res (py_iter v) (\<lambda>xs. bind_res (map_res py_pair xs) (\<lambda>kvs. Inr (dict_of kvs))))"

text \<open>A mapping from names: a key that is not a text is not the name of a tensor.\<close>

definition named_entry :: "(json \<Rightarrow> string) \<Rightarrow> json \<times> json \<Rightarrow> (string \<times> string) option" where
  "named_entry repr = (\<lambda>(k, x). case k of JStr s \<Rightarrow> Some (s, py_str repr x) | _ \<Rightarrow> None)"

definition json_default :: "json \<Rightarrow> json option \<Rightarrow> json" where
  "json_default d v = (case v of None \<Rightarrow> d | Some x \<Rightarrow> x)"

definition SliceRoute_from_object :: "(json \<Rightarrow> string) \<Rightarrow> json \<Rightarrow> exn + SliceRoute" where
  "SliceRoute_from_object repr v =
    (let slice_id = json_default JNull (chain_field v [''slice_id'', ''id'', ''name'']);
         names = (\<lambda>ks. py_strs repr (json_default (JList []) (chain_field v ks)));
         dict = (\<lambda>ks. py_dict (json_default (JObj []) (chain_field v ks)))
     in bind_res (names [''input_names'', ''inputs'']) (\<lambda>inputs.
        bind_res (names [''output_names'', ''outputs'']) (\<lambda>outputs.
        bind_res (dict [''graph_names'', ''graphs_by_ar'']) (\<lambda>graphs.
        bind_res (map_res (\<lambda>(k, x). bind_res (py_int k) (\<lambda>ar. Inr (ar, py_str repr x))) graphs) (\<lambda>graphs'.
        bind_res (dict [''from_previous'', ''input_from_previous'', ''boundary_inputs'']) (\<lambda>previous.
        bind_res (dict [''state_inputs'', ''native_state_inputs'']) (\<lambda>sin.
        bind_res (dict [''state_outputs'', ''native_state_outputs'']) (\<lambda>sout.
        bind_res (ensure (list_all (\<lambda>e. named_entry repr e \<noteq> None) (previous @ sin @ sout)) value_error) (\<lambda>_.
        SliceRoute_new \<lparr>sr_slice_id = (if py_truthy slice_id then py_str repr slice_id else []),
          sr_input_names = inputs, sr_output_names = outputs, sr_graph_names = dict_of graphs',
          sr_from_previous = List.map_filter (named_entry repr) previous,
          sr_state_inputs = List.map_filter (named_entry repr) sin,
          sr_state_outputs = List.map_filter (named_entry repr) sout\<rparr>)))))))))"

definition graph_for_ar :: "SliceRoute \<Rightarrow> int \<Rightarrow> exn + string" where
  "graph_for_ar r ar = (case map_of (sr_graph_names r) ar of None \<Rightarrow> Inl chain_error | Some g \<Rightarrow> Inr g)"

section \<open>One step of the chain\<close>

record 't SliceExecution =
  se_slice_id :: string
  se_graph_name :: string
  se_outputs :: "'t tensors"

record 't ChainResult =
  cr_mode :: string
  cr_ar :: int
  cr_step_index :: nat
  cr_slices :: "'t SliceExecution list"
  cr_final_outputs :: "'t tensors"
  cr_native_state_slots :: "string list"

definition outputs_by_slice :: "'t ChainResult \<Rightarrow> (string \<times> 't tensors) list" where
  "outputs_by_slice r = dict_of (map (\<lambda>e. (se_slice_id e, se_outputs e)) (cr_slices r))"

text \<open>The executors by slice; \<open>None\<close> is an object that can neither execute nor be called.\<close>

record ('w, 't) SliceChainRunner =
  cn_routes :: "SliceRoute list"
  cn_executors :: "(string \<times> ('w, 't) SliceExecutor option) list"

definition SliceChainRunner_new ::
  "SliceRoute list \<Rightarrow> (string \<times> ('w, 't) SliceExecutor option) list \<Rightarrow> exn + ('w, 't) SliceChainRunner" where
  "SliceChainRunner_new routes executors = bind_res (ensure
     (routes \<noteq> [] \<and> distinct (map sr_slice_id routes) \<and>
      list_all (\<lambda>r. map_of executors (sr_slice_id r) \<noteq> None) routes) value_error)
     (\<lambda>_. Inr \<lparr>cn_routes = routes, cn_executors = executors\<rparr>)"

text \<open>Routes from a manifest, or from its metadata when it has none.\<close>

definition SliceChainRunner_from_manifest ::
  "(json \<Rightarrow> string) \<Rightarrow> json \<Rightarrow> (string \<times> ('w, 't) SliceExecutor option) list \<Rightarrow>
   exn + ('w, 't) SliceChainRunner" where
  "SliceChainRunner_from_manifest repr manifest executors =
    (let names = [''slice_routes'', ''slices''];
         own = json_default (JList []) (chain_field manifest names);
         routes = (if py_truthy own then own
           else json_default (JList [])
             (chain_field (json_default (JObj []) (chain_field manifest [''metadata''])) names))
     in bind_res (py_iter routes) (\<lambda>vs. bind_res (map_res (SliceRoute_from_object repr) vs) (\<lambda>rs.
        SliceChainRunner_new rs executors)))"

definition invoke_slice ::
  "('w, 't) SliceChainRunner \<Rightarrow> SliceRoute \<Rightarrow> 't tensors \<Rightarrow> SliceInvocation \<Rightarrow> ('w, 't tensors) eff" where
  "invoke_slice cn route inputs invocation = (case map_of (cn_executors cn) (sr_slice_id route) of
     None \<Rightarrow> eff_raise key_error
   | Some None \<Rightarrow> eff_raise chain_error
   | Some (Some executor) \<Rightarrow> eff_bind (executor inputs invocation) (\<lambda>raw. case raw of
       None \<Rightarrow> eff_raise chain_error
     | Some outputs \<Rightarrow>
         if list_all (\<lambda>n. map_of outputs n \<noteq> None) (sr_output_names route)
         then eff_return (dict_of (map (\<lambda>n. (n, the (map_of outputs n))) (sr_output_names route)))
         else eff_raise chain_error))"

text \<open>Where one input comes from.\<close>

definition lookup :: "exn \<Rightarrow> 't tensors \<Rightarrow> string \<Rightarrow> exn + 't" where
  "lookup e d n = (case map_of d n of None \<Rightarrow> Inl e | Some t \<Rightarrow> Inr t)"

definition slice_input ::
  "string \<Rightarrow> 't tensors \<Rightarrow> 't tensors \<Rightarrow> 't tensors \<Rightarrow> SliceRoute \<Rightarrow> string \<Rightarrow> exn + 't" where
  "slice_input mode forced native available route name =
     (if mode = ''teacher_forced'' \<and> map_of forced name \<noteq> None then Inr (the (map_of forced name))
      else case map_of (sr_state_inputs route) name of
        Some slot \<Rightarrow> if mode = ''teacher_forced'' then Inl chain_error else lookup chain_error native slot
      | None \<Rightarrow> (case map_of (sr_from_previous route) name of
          Some source \<Rightarrow> if mode = ''teacher_forced'' then Inl chain_error else lookup chain_error available source
        | None \<Rightarrow> lookup chain_error available name))"

definition slice_inputs ::
  "string \<Rightarrow> 't tensors \<Rightarrow> 't tensors \<Rightarrow> 't tensors \<Rightarrow> SliceRoute \<Rightarrow> exn + 't tensors" where
  "slice_inputs mode forced native available route =
     bind_res (map_res (\<lambda>n. bind_res (slice_input mode forced native available route n) (\<lambda>t. Inr (n, t)))
       (sr_input_names route)) (\<lambda>kvs. Inr (dict_of kvs))"

definition qualified_name :: "SliceRoute \<Rightarrow> string \<Rightarrow> string" where
  "qualified_name route name = sr_slice_id route @ ''.'' @ name"

definition publish_outputs :: "SliceRoute \<Rightarrow> 't tensors \<Rightarrow> 't tensors \<Rightarrow> 't tensors" where
  "publish_outputs route outputs available =
     dict_update (dict_update available outputs) (map (\<lambda>(n, t). (qualified_name route n, t)) outputs)"

definition store_state :: "SliceRoute \<Rightarrow> 't tensors \<Rightarrow> 't tensors \<Rightarrow> exn + 't tensors" where
  "store_state route outputs native =
     bind_res (map_res (\<lambda>(n, slot). bind_res (lookup key_error outputs n) (\<lambda>t. Inr (slot, t)))
       (sr_state_outputs route)) (\<lambda>kvs. Inr (dict_update native kvs))"

definition invocation_of :: "SliceRoute \<Rightarrow> int \<Rightarrow> string \<Rightarrow> string \<Rightarrow> nat \<Rightarrow> SliceInvocation" where
  "invocation_of route ar graph mode step = \<lparr>si_slice_id = sr_slice_id route, si_ar = ar,
     si_graph_name = graph, si_output_names = sr_output_names route, si_mode = mode, si_step_index = step\<rparr>"

definition forced_for :: "(string \<times> 't tensors) list \<Rightarrow> SliceRoute \<Rightarrow> 't tensors" where
  "forced_for teacher route = (case map_of teacher (sr_slice_id route) of None \<Rightarrow> [] | Some d \<Rightarrow> d)"

fun run_routes ::
  "('w, 't) SliceChainRunner \<Rightarrow> string \<Rightarrow> int \<Rightarrow> nat \<Rightarrow> (string \<times> 't tensors) list \<Rightarrow> SliceRoute list \<Rightarrow>
   't tensors \<Rightarrow> 't tensors \<Rightarrow> ('w, 't SliceExecution list \<times> 't tensors) eff" where
  "run_routes cn mode ar step teacher [] available native = eff_return ([], native)"
| "run_routes cn mode ar step teacher (route # rest) available native =
     eff_bind (eff_lift (slice_inputs mode (forced_for teacher route) native available route)) (\<lambda>inputs.
     eff_bind (eff_lift (graph_for_ar route ar)) (\<lambda>graph.
     eff_bind (invoke_slice cn route inputs (invocation_of route ar graph mode step)) (\<lambda>outputs.
     eff_bind (eff_lift (store_state route outputs native)) (\<lambda>native'.
     eff_bind (run_routes cn mode ar step teacher rest (publish_outputs route outputs available) native')
       (\<lambda>(es, native'').
     eff_return (\<lparr>se_slice_id = sr_slice_id route, se_graph_name = graph, se_outputs = outputs\<rparr> # es,
       native''))))))"

definition run_once ::
  "('w, 't) SliceChainRunner \<Rightarrow> 't tensors \<Rightarrow> int \<Rightarrow> string \<Rightarrow> (string \<times> 't tensors) list \<Rightarrow> 't tensors \<Rightarrow>
   nat \<Rightarrow> ('w, 't ChainResult \<times> 't tensors) eff" where
  "run_once cn initial ar mode teacher native step =
     (if mode \<notin> {''device_chain'', ''teacher_forced''} then eff_raise value_error
      else eff_bind (run_routes cn mode ar step teacher (cn_routes cn) initial native) (\<lambda>(es, native').
        eff_return (\<lparr>cr_mode = mode, cr_ar = ar, cr_step_index = step, cr_slices = es,
          cr_final_outputs = se_outputs (last es), cr_native_state_slots = sort (map fst native')\<rparr>, native')))"

definition run_device_chain ::
  "('w, 't) SliceChainRunner \<Rightarrow> 't tensors \<Rightarrow> int \<Rightarrow> 't tensors \<Rightarrow> ('w, 't ChainResult) eff" where
  "run_device_chain cn initial ar native =
     eff_bind (run_once cn initial ar ''device_chain'' [] native 0) (\<lambda>(r, _). eff_return r)"

definition run_teacher_forced ::
  "('w, 't) SliceChainRunner \<Rightarrow> 't tensors \<Rightarrow> (string \<times> 't tensors) list \<Rightarrow> int \<Rightarrow> 't tensors \<Rightarrow>
   ('w, 't ChainResult) eff" where
  "run_teacher_forced cn initial teacher ar native =
     eff_bind (run_once cn initial ar ''teacher_forced'' teacher native 0) (\<lambda>(r, _). eff_return r)"

section \<open>Sequences\<close>

record 't SequenceStep =
  ss_inputs :: "'t tensors"
  ss_ar :: int
  ss_teacher_inputs :: "(string \<times> 't tensors) list"

record 't ChainSequenceResult =
  cs_mode :: string
  cs_steps :: "'t ChainResult list"
  cs_final_outputs :: "'t tensors"

fun run_steps ::
  "('w, 't) SliceChainRunner \<Rightarrow> string \<Rightarrow> nat \<Rightarrow> 't SequenceStep list \<Rightarrow> 't tensors \<Rightarrow>
   ('w, 't ChainResult list) eff" where
  "run_steps cn mode index [] native = eff_return []"
| "run_steps cn mode index (s # rest) native =
     eff_bind (run_once cn (ss_inputs s) (ss_ar s) mode
       (if mode = ''teacher_forced'' then ss_teacher_inputs s else []) native index) (\<lambda>(r, native').
     eff_bind (run_steps cn mode (Suc index) rest native') (\<lambda>rs. eff_return (r # rs)))"

definition run_sequence ::
  "('w, 't) SliceChainRunner \<Rightarrow> 't SequenceStep list \<Rightarrow> string \<Rightarrow> 't tensors \<Rightarrow>
   ('w, 't ChainSequenceResult) eff" where
  "run_sequence cn steps mode native =
     (if steps = [] then eff_raise value_error
      else eff_bind (run_steps cn mode 0 steps native) (\<lambda>rs.
        eff_return \<lparr>cs_mode = mode, cs_steps = rs, cs_final_outputs = cr_final_outputs (last rs)\<rparr>))"

end
