(* ===== verification/ChainProps.thy ===== *)
theory ChainProps
  imports Chain
begin

text \<open>
  What a slice receives. The specification searches backwards: a boundary input is the most
  recent value an earlier slice of the step published under the source's name, a state input
  the most recent value stored in its slot, in this step or an earlier one of the sequence.
  The executors are wrapped so that every call is recorded.
\<close>

section \<open>Backward search\<close>

type_synonym 't finished = "(SliceRoute \<times> 't tensors) list"

text \<open>The slices that have run, the latest first.\<close>

fun latest_value :: "'t tensors \<Rightarrow> 't finished \<Rightarrow> string \<Rightarrow> 't option" where
  "latest_value initial [] n = map_of initial n"
| "latest_value initial ((r, outs) # earlier) n =
    (case map_of (map (\<lambda>(m, t). (qualified_name r m, t)) outs) n of
       Some t \<Rightarrow> Some t
     | None \<Rightarrow> (case map_of outs n of Some t \<Rightarrow> Some t | None \<Rightarrow> latest_value initial earlier n))"

fun latest_state :: "(string \<rightharpoonup> 't) \<Rightarrow> 't finished \<Rightarrow> string \<Rightarrow> 't option" where
  "latest_state initial [] slot = initial slot"
| "latest_state initial ((r, outs) # earlier) slot =
    (case map_of (rev (map (\<lambda>(n, s). (s, n)) (sr_state_outputs r))) slot of
       Some n \<Rightarrow> map_of outs n | None \<Rightarrow> latest_state initial earlier slot)"

text \<open>A teacher-forced slice has its golden for every boundary and state input.\<close>

definition routed_input ::
  "string \<Rightarrow> 't tensors \<Rightarrow> 't tensors \<Rightarrow> (string \<rightharpoonup> 't) \<Rightarrow> 't finished \<Rightarrow> SliceRoute \<Rightarrow> string \<Rightarrow> 't option" where
  "routed_input mode forced initial native finished r n =
    (case (if mode = ''teacher_forced'' then map_of forced n else None) of
       Some t \<Rightarrow> Some t
     | None \<Rightarrow>
         if mode = ''teacher_forced'' \<and> (map_of (sr_state_inputs r) n \<noteq> None \<or> map_of (sr_from_previous r) n \<noteq> None)
         then None
         else case map_of (sr_state_inputs r) n of
           Some slot \<Rightarrow> latest_state native finished slot
         | None \<Rightarrow> latest_value initial finished
             (case map_of (sr_from_previous r) n of Some source \<Rightarrow> source | None \<Rightarrow> n))"

text \<open>One call per route, in order, each with exactly the routed inputs.\<close>

fun step_routed ::
  "string \<Rightarrow> int \<Rightarrow> nat \<Rightarrow> (string \<times> 't tensors) list \<Rightarrow> 't tensors \<Rightarrow> (string \<rightharpoonup> 't) \<Rightarrow> 't finished \<Rightarrow>
   SliceRoute list \<Rightarrow> 't SliceExecution list \<Rightarrow> (SliceInvocation \<times> 't tensors) list \<Rightarrow> bool" where
  "step_routed mode ar k teacher initial native finished [] [] [] = True"
| "step_routed mode ar k teacher initial native finished (r # rs) (e # es) ((iv, inputs) # cs) =
    (se_slice_id e = sr_slice_id r \<and>
     graph_for_ar r ar = Inr (se_graph_name e) \<and>
     iv = invocation_of r ar (se_graph_name e) mode k \<and>
     set (map fst inputs) = set (sr_input_names r) \<and>
     list_all (\<lambda>n. map_of inputs n \<noteq> None \<and>
       map_of inputs n = routed_input mode (forced_for teacher r) initial native finished r n) (sr_input_names r) \<and>
     set (map fst (se_outputs e)) = set (sr_output_names r) \<and>
     step_routed mode ar k teacher initial native ((r, se_outputs e) # finished) rs es cs)"
| "step_routed mode ar k teacher initial native finished _ _ _ = False"

definition finished_step :: "SliceRoute list \<Rightarrow> 't SliceExecution list \<Rightarrow> 't finished" where
  "finished_step rs es = rev (zip rs (map se_outputs es))"

fun sequence_routed ::
  "SliceRoute list \<Rightarrow> string \<Rightarrow> nat \<Rightarrow> (string \<rightharpoonup> 't) \<Rightarrow> 't SequenceStep list \<Rightarrow> 't ChainResult list \<Rightarrow>
   (SliceInvocation \<times> 't tensors) list \<Rightarrow> bool" where
  "sequence_routed rs mode k native [] [] calls = (calls = [])"
| "sequence_routed rs mode k native (s # ss) (r # res) calls =
    (step_routed mode (ss_ar s) k (if mode = ''teacher_forced'' then ss_teacher_inputs s else []) (ss_inputs s)
       native [] rs (cr_slices r) (take (length rs) calls) \<and>
     sequence_routed rs mode (Suc k) (latest_state native (finished_step rs (cr_slices r))) ss res
       (drop (length rs) calls))"
| "sequence_routed rs mode k native _ _ calls = False"

section \<open>Recorded executors\<close>

definition recorded ::
  "('w, 't) SliceExecutor \<Rightarrow> ('w \<times> (SliceInvocation \<times> 't tensors) list, 't) SliceExecutor" where
  "recorded ex = (\<lambda>inputs iv (w, calls). case ex inputs iv w of (r, w') \<Rightarrow> (r, (w', calls @ [(iv, inputs)])))"

definition recording ::
  "('w, 't) SliceChainRunner \<Rightarrow> ('w \<times> (SliceInvocation \<times> 't tensors) list, 't) SliceChainRunner" where
  "recording cn = \<lparr>cn_routes = cn_routes cn,
     cn_executors = map (\<lambda>(k, ex). (k, map_option recorded ex)) (cn_executors cn)\<rparr>"

lemma cn_routes_recording [simp]: "cn_routes (recording cn) = cn_routes cn"
  by (simp add: recording_def)

lemma executors_recording:
  "map_of (cn_executors (recording cn)) k = map_option (map_option recorded) (map_of (cn_executors cn) k)"
  by (simp add: recording_def map_of_map)

section \<open>Facts about one slice\<close>

lemma qualified_name_inject [simp]: "qualified_name r m = qualified_name r n \<longleftrightarrow> m = n"
  by (simp add: qualified_name_def)

lemma map_of_publish:
  assumes "distinct (map fst outs)" "map_of available = latest_value initial finished"
  shows "map_of (publish_outputs r outs available) = latest_value initial ((r, outs) # finished)"
proof -
  let ?q = "map (\<lambda>(m, t). (qualified_name r m, t)) outs"
  have "map fst ?q = map (qualified_name r) (map fst outs)" by (induction outs) auto
  then have "distinct (map fst ?q)" using assms(1) by (simp add: distinct_map inj_on_def)
  then have "map_of (rev ?q) = map_of ?q" by (rule map_of_rev_distinct)
  with assms show ?thesis
    by (auto simp: publish_outputs_def map_of_dict_update map_of_rev_distinct fun_eq_iff map_add_def
        split: option.splits)
qed

lemma slice_inputs_Inr:
  assumes "slice_inputs mode forced native available r = Inr inputs"
  shows "set (map fst inputs) = set (sr_input_names r)"
    "n \<in> set (sr_input_names r) \<Longrightarrow> slice_input mode forced native available r n = Inr (the (map_of inputs n)) \<and>
       map_of inputs n \<noteq> None"
proof -
  let ?f = "\<lambda>n. bind_res (slice_input mode forced native available r n) (\<lambda>t. Inr (n, t))"
  from assms obtain kvs where kvs: "map_res ?f (sr_input_names r) = Inr kvs" and inputs: "inputs = dict_of kvs"
    by (auto simp: slice_inputs_def res_simps)
  from kvs have all: "list_all2 (\<lambda>n y. ?f n = Inr y) (sr_input_names r) kvs" by (simp add: map_res_Inr)
  have names: "map fst kvs = sr_input_names r"
    using all by (induction rule: list_all2_induct) (auto simp: res_simps)
  show "set (map fst inputs) = set (sr_input_names r)"
    using names inputs keys_dict_of [of kvs] by (metis set_map)
  show "slice_input mode forced native available r n = Inr (the (map_of inputs n)) \<and> map_of inputs n \<noteq> None"
    if "n \<in> set (sr_input_names r)"
  proof -
    from that names have "n \<in> fst ` set (rev kvs)" by (metis set_map set_rev)
    then obtain t where t: "map_of (rev kvs) n = Some t" by (metis (no_types) domD dom_map_of_conv_image_fst)
    then have "(n, t) \<in> set kvs" by (metis map_of_SomeD set_rev)
    then obtain m where "?f m = Inr (n, t)" using all by (auto simp: list_all2_conv_all_nth in_set_conv_nth)
    then have "slice_input mode forced native available r n = Inr t" by (auto simp: res_simps)
    with t inputs show ?thesis by simp
  qed
qed

lemma slice_input_routed:
  assumes "slice_input mode forced native available r n = Inr t"
    "map_of available = latest_value initial finished" "map_of native = latest_state native0 finished"
  shows "routed_input mode forced initial native0 finished r n = Some t"
  using assms
  by (auto simp: slice_input_def routed_input_def lookup_def split: if_splits option.splits)

lemma map_of_store_state:
  assumes "store_state r outs native = Inr native'" "map_of native = latest_state native0 finished"
  shows "map_of native' = latest_state native0 ((r, outs) # finished)"
proof -
  let ?f = "\<lambda>(n, slot). bind_res (lookup key_error outs n) (\<lambda>t. Inr (slot, t))"
  from assms(1) obtain kvs where all: "list_all2 (\<lambda>x y. ?f x = Inr y) (sr_state_outputs r) kvs"
    and native': "native' = dict_update native kvs"
    by (auto simp: store_state_def res_simps map_res_Inr)
  have kvs: "map_of (rev kvs) slot = Option.bind (map_of (rev (map (\<lambda>(n, s). (s, n)) (sr_state_outputs r))) slot) (map_of outs) \<and>
    (\<forall>n. map_of (rev (map (\<lambda>(n, s). (s, n)) (sr_state_outputs r))) slot = Some n \<longrightarrow> map_of outs n \<noteq> None)" for slot
    using all
    by (induction rule: list_all2_induct)
      (auto simp: res_simps lookup_def map_add_def split: option.splits)
  have "map_of native' slot = latest_state native0 ((r, outs) # finished) slot" for slot
    using kvs [of slot] assms(2) native'
    by (auto simp: map_of_dict_update map_add_def split: option.splits)
  then show ?thesis by (rule ext)
qed

lemma invoke_slice_Val:
  assumes "invoke_slice cn r inputs iv w = (Val outs, w')"
  shows "distinct (map fst outs) \<and> set (map fst outs) = set (sr_output_names r)"
proof -
  from assms obtain raw where "outs = dict_of (map (\<lambda>n. (n, the (map_of raw n))) (sr_output_names r))"
    by (auto simp: invoke_slice_def eff_simps split: option.splits if_splits)
  then show ?thesis
    using keys_dict_of [of "map (\<lambda>n. (n, the (map_of raw n))) (sr_output_names r)"] by (auto simp: image_image)
qed

lemma invoke_slice_recording:
  assumes "invoke_slice (recording cn) r inputs iv (w, calls) = (Val outs, (w', calls'))"
  shows "calls' = calls @ [(iv, inputs)]"
  using assms
  by (auto simp: invoke_slice_def executors_recording eff_simps recorded_def split: option.splits if_splits prod.splits)


section \<open>Every slice gets its routed inputs\<close>

lemma run_routes_routed:
  assumes "run_routes (recording cn) mode ar k teacher routes available native (w, calls) = (Val (es, native'), (w', calls'))"
    "map_of available = latest_value initial finished" "map_of native = latest_state native0 finished"
  shows "\<exists>new. calls' = calls @ new \<and> length new = length routes \<and>
    step_routed mode ar k teacher initial native0 finished routes es new \<and>
    map_of native' = latest_state native0 (finished_step routes es @ finished)"
  using assms
proof (induction routes arbitrary: available native w calls es finished)
  case Nil
  then show ?case by (auto simp: eff_simps finished_step_def)
next
  case (Cons r rs)
  from Cons.prems(1) obtain inputs graph outs native1 es' w1 calls1 where
    inputs: "slice_inputs mode (forced_for teacher r) native available r = Inr inputs"
    and graph: "graph_for_ar r ar = Inr graph"
    and invoked: "invoke_slice (recording cn) r inputs (invocation_of r ar graph mode k) (w, calls) = (Val outs, (w1, calls1))"
    and stored: "store_state r outs native = Inr native1"
    and rest: "run_routes (recording cn) mode ar k teacher rs (publish_outputs r outs available) native1 (w1, calls1) =
      (Val (es', native'), (w', calls'))"
    and es: "es = \<lparr>se_slice_id = sr_slice_id r, se_graph_name = graph, se_outputs = outs\<rparr> # es'"
    by (auto simp: eff_lift_Val eff_bind_Val eff_return_iff)
  have outs: "distinct (map fst outs)" "set (map fst outs) = set (sr_output_names r)"
    using invoke_slice_Val [OF invoked] by auto
  have calls1: "calls1 = calls @ [(invocation_of r ar graph mode k, inputs)]"
    using invoke_slice_recording [OF invoked] .
  have here: "list_all (\<lambda>n. map_of inputs n \<noteq> None \<and>
      map_of inputs n = routed_input mode (forced_for teacher r) initial native0 finished r n) (sr_input_names r)"
    using slice_inputs_Inr(2) [OF inputs] slice_input_routed [OF _ Cons.prems(2,3)]
    by (auto simp: list_all_iff)
  obtain new where new: "calls' = calls1 @ new" "length new = length rs"
      "step_routed mode ar k teacher initial native0 ((r, outs) # finished) rs es' new"
      "map_of native' = latest_state native0 (finished_step rs es' @ (r, outs) # finished)"
    using Cons.IH [OF rest map_of_publish [OF outs(1) Cons.prems(2)] map_of_store_state [OF stored Cons.prems(3)]]
    by blast
  show ?case
    using new calls1 es here graph outs(2) slice_inputs_Inr(1) [OF inputs]
    by (intro exI [of _ "(invocation_of r ar graph mode k, inputs) # new"]) (auto simp: finished_step_def)
qed

lemma run_once_routed:
  assumes "run_once (recording cn) initial ar mode teacher native k (w, calls) = (Val (res, native'), (w', calls'))"
    "map_of native = native0"
  shows "\<exists>new. calls' = calls @ new \<and> length new = length (cn_routes cn) \<and>
    step_routed mode ar k teacher initial native0 [] (cn_routes cn) (cr_slices res) new \<and>
    map_of native' = latest_state native0 (finished_step (cn_routes cn) (cr_slices res))"
proof -
  from assms(1) obtain es where
    run: "run_routes (recording cn) mode ar k teacher (cn_routes cn) initial native (w, calls) = (Val (es, native'), (w', calls'))"
    and res: "cr_slices res = es"
    by (auto simp: run_once_def eff_simps split: if_splits)
  from run_routes_routed [OF run, of initial "[]" native0] assms(2) res show ?thesis
    by (auto simp: fun_eq_iff)
qed

lemma run_steps_routed:
  assumes "run_steps (recording cn) mode k steps native (w, calls) = (Val results, (w', calls'))"
    "map_of native = native0"
  shows "\<exists>new. calls' = calls @ new \<and> sequence_routed (cn_routes cn) mode k native0 steps results new"
  using assms
proof (induction steps arbitrary: k native native0 w calls results)
  case Nil
  then show ?case by (auto simp: eff_simps)
next
  case (Cons s ss)
  let ?teacher = "if mode = ''teacher_forced'' then ss_teacher_inputs s else []"
  from Cons.prems(1) obtain r native1 rs w1 calls1 where
    one: "run_once (recording cn) (ss_inputs s) (ss_ar s) mode ?teacher native k (w, calls) = (Val (r, native1), (w1, calls1))"
    and rest: "run_steps (recording cn) mode (Suc k) ss native1 (w1, calls1) = (Val rs, (w', calls'))"
    and results: "results = r # rs"
    by (auto simp: eff_simps split: if_splits)
  obtain new1 where new1: "calls1 = calls @ new1" "length new1 = length (cn_routes cn)"
      "step_routed mode (ss_ar s) k ?teacher (ss_inputs s) native0 [] (cn_routes cn) (cr_slices r) new1"
      "map_of native1 = latest_state native0 (finished_step (cn_routes cn) (cr_slices r))"
    using run_once_routed [OF one Cons.prems(2)] by blast
  obtain new2 where "calls' = calls1 @ new2"
      "sequence_routed (cn_routes cn) mode (Suc k) (latest_state native0 (finished_step (cn_routes cn) (cr_slices r))) ss rs new2"
    using Cons.IH [OF rest new1(4)] by blast
  with new1 results show ?case by (intro exI [of _ "new1 @ new2"]) auto
qed


section \<open>A demonstration chain\<close>

definition demo_route1 :: SliceRoute where
  "demo_route1 = \<lparr>sr_slice_id = ''a'', sr_input_names = [''ids'', ''past''], sr_output_names = [''hidden'', ''present''],
     sr_graph_names = [(1, ''g1'')], sr_from_previous = [], sr_state_inputs = [(''past'', ''kv'')],
     sr_state_outputs = [(''present'', ''kv'')]\<rparr>"

definition demo_route2 :: SliceRoute where
  "demo_route2 = \<lparr>sr_slice_id = ''b'', sr_input_names = [''hidden''], sr_output_names = [''logits''],
     sr_graph_names = [(1, ''g2'')], sr_from_previous = [(''hidden'', ''a.hidden'')], sr_state_inputs = [],
     sr_state_outputs = []\<rparr>"

text \<open>Slice \<open>a\<close> accumulates its token into the state, slice \<open>b\<close> doubles; the world is unit.\<close>

definition demo_executor1 :: "(unit, int) SliceExecutor" where
  "demo_executor1 = (\<lambda>inputs iv. eff_return (Some
     [(''hidden'', the (map_of inputs ''ids'') + the (map_of inputs ''past'')),
      (''present'', the (map_of inputs ''ids'') + the (map_of inputs ''past''))]))"

definition demo_executor2 :: "(unit, int) SliceExecutor" where
  "demo_executor2 = (\<lambda>inputs iv. eff_return (Some [(''logits'', 2 * the (map_of inputs ''hidden''))]))"

definition demo_chain :: "(unit, int) SliceChainRunner" where
  "demo_chain = \<lparr>cn_routes = [demo_route1, demo_route2],
     cn_executors = [(''a'', Some demo_executor1), (''b'', Some demo_executor2)]\<rparr>"

definition demo_steps :: "int SequenceStep list" where
  "demo_steps = [\<lparr>ss_inputs = [(''ids'', 3)], ss_ar = 1, ss_teacher_inputs = []\<rparr>,
     \<lparr>ss_inputs = [(''ids'', 4)], ss_ar = 1, ss_teacher_inputs = []\<rparr>]"



section \<open>A chain runs exactly when it is wired\<close>

text \<open>The wiring is decidable from the routes and the names of the tensors alone.\<close>

definition input_ready ::
  "string \<Rightarrow> 't tensors \<Rightarrow> string list \<Rightarrow> string list \<Rightarrow> SliceRoute \<Rightarrow> string \<Rightarrow> bool" where
  "input_ready mode forced names slots r n \<longleftrightarrow>
     (mode = ''teacher_forced'' \<and> map_of forced n \<noteq> None) \<or>
     (case map_of (sr_state_inputs r) n of
        Some slot \<Rightarrow> mode \<noteq> ''teacher_forced'' \<and> slot \<in> set slots
      | None \<Rightarrow> (case map_of (sr_from_previous r) n of
          Some source \<Rightarrow> mode \<noteq> ''teacher_forced'' \<and> source \<in> set names
        | None \<Rightarrow> n \<in> set names))"

fun wired ::
  "string \<Rightarrow> int \<Rightarrow> (string \<times> 't tensors) list \<Rightarrow> string list \<Rightarrow> string list \<Rightarrow> SliceRoute list \<Rightarrow> bool" where
  "wired mode ar teacher names slots [] = True"
| "wired mode ar teacher names slots (r # rs) =
    (list_all (input_ready mode (forced_for teacher r) names slots r) (sr_input_names r) \<and>
     map_of (sr_graph_names r) ar \<noteq> None \<and>
     wired mode ar teacher (names @ sr_output_names r @ map (qualified_name r) (sr_output_names r))
       (slots @ map snd (sr_state_outputs r)) rs)"

text \<open>An executor that returns every declared output, whatever it is given.\<close>

definition answers :: "('w, 't) SliceExecutor \<Rightarrow> SliceRoute \<Rightarrow> bool" where
  "answers ex r \<longleftrightarrow> (\<forall>inputs iv w. \<exists>outs w'. ex inputs iv w = (Val (Some outs), w') \<and>
     (\<forall>n \<in> set (sr_output_names r). map_of outs n \<noteq> None))"

definition answering :: "('w, 't) SliceChainRunner \<Rightarrow> bool" where
  "answering cn \<longleftrightarrow> (\<forall>r \<in> set (cn_routes cn). is_ok (SliceRoute_new r) \<and>
     (\<exists>ex. map_of (cn_executors cn) (sr_slice_id r) = Some (Some ex) \<and> answers ex r))"

lemma lookup_cases: "lookup e d n = (if n \<in> set (map fst d) then Inr (the (map_of d n)) else Inl e)"
  using map_of_None_set [of d n] by (auto simp: lookup_def split: option.splits)

lemma slice_input_ready:
  "slice_input mode forced native available r n =
    (if input_ready mode forced (map fst available) (map fst native) r n
     then Inr (the_inv Inr (slice_input mode forced native available r n)) else Inl chain_error)"
  by (auto simp: slice_input_def input_ready_def lookup_cases the_inv_f_f split: option.splits)

lemma slice_inputs_ready:
  "if list_all (input_ready mode forced (map fst available) (map fst native) r) (sr_input_names r)
   then \<exists>inputs. slice_inputs mode forced native available r = Inr inputs
   else slice_inputs mode forced native available r = Inl chain_error"
proof -
  let ?f = "\<lambda>n. bind_res (slice_input mode forced native available r n) (\<lambda>t. Inr (n, t))"
  have ok: "is_ok (?f n) = input_ready mode forced (map fst available) (map fst native) r n" for n
    by (subst slice_input_ready) (simp add: is_ok_def)
  have error: "?f n = Inl e \<Longrightarrow> e = chain_error" for n e
    by (subst (asm) slice_input_ready) (simp split: if_splits)
  show ?thesis
  proof (cases "map_res ?f (sr_input_names r)")
    case (Inl e)
    then have "\<not> list_all (input_ready mode forced (map fst available) (map fst native) r) (sr_input_names r)"
      using map_res_all_ok [of ?f "sr_input_names r"] by (simp add: ok)
    moreover have "e = chain_error" using map_res_error [OF Inl] error by blast
    ultimately show ?thesis using Inl by (simp add: slice_inputs_def)
  next
    case (Inr kvs)
    then have "list_all (input_ready mode forced (map fst available) (map fst native) r) (sr_input_names r)"
      using map_res_all_ok [of ?f "sr_input_names r"] by (simp add: ok)
    then show ?thesis using Inr by (simp add: slice_inputs_def)
  qed
qed

lemma invoke_slice_answers:
  assumes "map_of (cn_executors cn) (sr_slice_id r) = Some (Some ex)" "answers ex r"
  shows "\<exists>outs w'. invoke_slice cn r inputs iv w = (Val outs, w') \<and> set (map fst outs) = set (sr_output_names r)"
proof -
  obtain outs w' where "ex inputs iv w = (Val (Some outs), w')" "\<forall>n \<in> set (sr_output_names r). map_of outs n \<noteq> None"
    using assms(2) unfolding answers_def by blast
  then have run: "invoke_slice cn r inputs iv w =
      (Val (dict_of (map (\<lambda>n. (n, the (map_of outs n))) (sr_output_names r))), w')"
    using assms(1) by (simp add: invoke_slice_def eff_bind_def eff_return_def list_all_iff)
  then show ?thesis using invoke_slice_Val [OF run] by blast
qed

lemma store_state_total:
  assumes "is_ok (SliceRoute_new r)" "set (map fst outs) = set (sr_output_names r)"
  shows "\<exists>native'. store_state r outs native = Inr native' \<and>
    set (map fst native') = set (map fst native) \<union> snd ` set (sr_state_outputs r)"
proof -
  let ?f = "\<lambda>(n, slot). bind_res (lookup key_error outs n) (\<lambda>t. Inr (slot, t))"
  have within: "list_all (\<lambda>(n, _). n \<in> set (map fst outs)) (sr_state_outputs r)"
    using assms by (auto simp: SliceRoute_new_def res_simps keys_within_def)
  then have "is_ok (map_res ?f (sr_state_outputs r))"
    unfolding map_res_all_ok by (auto simp: list_all_iff lookup_cases)
  then obtain kvs where kvs: "map_res ?f (sr_state_outputs r) = Inr kvs" by (auto simp: is_ok_iff)
  then have "list_all2 (\<lambda>x y. ?f x = Inr y) (sr_state_outputs r) kvs" by (simp add: map_res_Inr)
  then have "map fst kvs = map snd (sr_state_outputs r)"
    by (induction rule: list_all2_induct) (auto simp: res_simps)
  then have "fst ` set kvs = snd ` set (sr_state_outputs r)" by (metis set_map)
  with kvs show ?thesis by (simp add: store_state_def keys_dict_update)
qed

lemma keys_publish:
  "set (map fst (publish_outputs r outs available)) =
   set (map fst available @ map fst outs @ map (qualified_name r) (map fst outs))"
  by (auto simp: publish_outputs_def keys_dict_update image_image case_prod_beta)

lemma wired_cong:
  "set names = set names' \<Longrightarrow> set slots = set slots' \<Longrightarrow>
   wired mode ar teacher names slots rs = wired mode ar teacher names' slots' rs"
proof (induction rs arbitrary: names names' slots slots')
  case (Cons r rs)
  have "input_ready mode (forced_for teacher r) names slots r = input_ready mode (forced_for teacher r) names' slots' r"
    unfolding input_ready_def fun_eq_iff Cons.prems by (intro allI refl)
  moreover have "wired mode ar teacher (names @ sr_output_names r @ map (qualified_name r) (sr_output_names r))
        (slots @ map snd (sr_state_outputs r)) rs =
      wired mode ar teacher (names' @ sr_output_names r @ map (qualified_name r) (sr_output_names r))
        (slots' @ map snd (sr_state_outputs r)) rs"
    by (rule Cons.IH) (use Cons.prems in auto)
  ultimately show ?case by simp
qed simp

lemma run_routes_wired:
  assumes "\<forall>r \<in> set rs. is_ok (SliceRoute_new r) \<and>
     (\<exists>ex. map_of (cn_executors cn) (sr_slice_id r) = Some (Some ex) \<and> answers ex r)"
  shows "if wired mode ar teacher (map fst available) (map fst native) rs
    then \<exists>v. fst (run_routes cn mode ar k teacher rs available native w) = Val v
    else fst (run_routes cn mode ar k teacher rs available native w) = Exc chain_error"
  using assms
proof (induction rs arbitrary: available native w)
  case Nil
  then show ?case by (simp add: eff_return_def)
next
  case (Cons r rs)
  let ?ready = "list_all (input_ready mode (forced_for teacher r) (map fst available) (map fst native) r) (sr_input_names r)"
  show ?case
  proof (cases "?ready \<and> map_of (sr_graph_names r) ar \<noteq> None")
    case False
    then show ?thesis
      using slice_inputs_ready [of mode "forced_for teacher r" available native r]
      by (auto simp: graph_for_ar_def eff_bind_def eff_lift_def split: if_splits)
  next
    case True
    then obtain inputs graph where inputs: "slice_inputs mode (forced_for teacher r) native available r = Inr inputs"
      and graph: "graph_for_ar r ar = Inr graph"
      using slice_inputs_ready [of mode "forced_for teacher r" available native r]
      by (auto simp: graph_for_ar_def split: if_splits)
    obtain outs w' where outs: "invoke_slice cn r inputs (invocation_of r ar graph mode k) w = (Val outs, w')"
        "set (map fst outs) = set (sr_output_names r)"
      using Cons.prems invoke_slice_answers by (metis list.set_intros(1))
    obtain native' where native': "store_state r outs native = Inr native'"
        "set (map fst native') = set (map fst native) \<union> snd ` set (sr_state_outputs r)"
      using store_state_total [of r outs native] Cons.prems outs(2) by auto
    have names: "wired mode ar teacher (map fst (publish_outputs r outs available)) (map fst native') rs =
        wired mode ar teacher (map fst available @ sr_output_names r @ map (qualified_name r) (sr_output_names r))
          (map fst native @ map snd (sr_state_outputs r)) rs"
    proof (rule wired_cong)
      show "set (map fst (publish_outputs r outs available)) =
          set (map fst available @ sr_output_names r @ map (qualified_name r) (sr_output_names r))"
        unfolding keys_publish using outs(2) by (simp only: set_append set_map)
      show "set (map fst native') = set (map fst native @ map snd (sr_state_outputs r))"
        using native'(2) by simp
    qed
    have step: "fst (run_routes cn mode ar k teacher (r # rs) available native w) =
        (case fst (run_routes cn mode ar k teacher rs (publish_outputs r outs available) native' w') of
           Val (es, n) \<Rightarrow> Val (\<lparr>se_slice_id = sr_slice_id r, se_graph_name = graph, se_outputs = outs\<rparr> # es, n)
         | Exc e \<Rightarrow> Exc e | Dead \<Rightarrow> Dead)"
      using inputs graph outs(1) native'(1)
      by (simp add: eff_bind_def eff_lift_def eff_return_def split: prod.split outcome.split)
    have "if wired mode ar teacher (map fst (publish_outputs r outs available)) (map fst native') rs
      then \<exists>v. fst (run_routes cn mode ar k teacher rs (publish_outputs r outs available) native' w') = Val v
      else fst (run_routes cn mode ar k teacher rs (publish_outputs r outs available) native' w') = Exc chain_error"
      using Cons.prems by (intro Cons.IH) auto
    with names step True show ?thesis by (auto split: if_splits)
  qed
qed

lemma run_once_wired:
  assumes "answering cn" "mode \<in> {''device_chain'', ''teacher_forced''}"
  shows "if wired mode ar teacher (map fst initial) (map fst native) (cn_routes cn)
    then \<exists>v. fst (run_once cn initial ar mode teacher native k w) = Val v
    else fst (run_once cn initial ar mode teacher native k w) = Exc chain_error"
  using run_routes_wired [of "cn_routes cn" cn mode ar teacher initial native k w] assms
  by (auto simp: answering_def run_once_def eff_bind_def eff_return_def split: if_splits prod.splits outcome.splits)

text \<open>
  C23. With executors that answer, one step of the chain returns a result exactly when the routes
  are wired: every input has its source among the initial tensors, the initial state and what
  earlier slices declare, every slice has a graph for the requested AR, and a teacher-forced
  slice has all its goldens. Otherwise the step raises \<open>ChainExecutionError\<close>.
\<close>

theorem chain_runs_iff_wired:
  assumes "answering cn" "mode \<in> {''device_chain'', ''teacher_forced''}"
  shows "if wired mode ar teacher (map fst initial) (map fst native) (cn_routes cn)
    then \<exists>v. fst (run_once cn initial ar mode teacher native k w) = Val v
    else fst (run_once cn initial ar mode teacher native k w) = Exc chain_error"
  using assms by (rule run_once_wired)

lemma demo_answering: "answering demo_chain"
  by (auto simp: answering_def demo_chain_def demo_route1_def demo_route2_def answers_def demo_executor1_def
      demo_executor2_def eff_return_def SliceRoute_new_def keys_within_def ensure_def)

theorem chain_runs_iff_wired_witness:
  "(\<exists>v. fst (run_once demo_chain [(''ids'', 3)] 1 ''device_chain'' [] [(''kv'', 10)] 0 ()) = Val v) \<and>
   fst (run_once demo_chain [(''ids'', 3)] 128 ''device_chain'' [] [(''kv'', 10)] 0 ()) = Exc chain_error"
proof -
  note rule = chain_runs_iff_wired [OF demo_answering, of "''device_chain''" _ "[]" "[(''ids'', 3)]" "[(''kv'', 10)]" 0 "()"]
  have yes: "wired ''device_chain'' 1 ([] :: (string \<times> int tensors) list) (map fst [(''ids'', 3::int)])
      (map fst [(''kv'', 10::int)]) (cn_routes demo_chain)"
    and no: "\<not> wired ''device_chain'' 128 ([] :: (string \<times> int tensors) list) (map fst [(''ids'', 3::int)])
      (map fst [(''kv'', 10::int)]) (cn_routes demo_chain)"
    by (simp_all add: demo_chain_def demo_route1_def demo_route2_def input_ready_def qualified_name_def)
  from rule [of 1] rule [of 128] yes no show ?thesis by simp
qed

end
