(* ===== verification/Paths.thy ===== *)
theory Paths
  imports Errors "HOL-Library.Product_Lexorder"
begin

text \<open>
  The part of \<open>pathlib\<close> the sources use, on texts. Paths are POSIX paths without symbolic
  links, so that resolving one makes it absolute and removes \<open>.\<close>, \<open>..\<close> and empty components.
\<close>

definition path_components :: "string \<Rightarrow> string list" where
  "path_components p = filter (\<lambda>c. c \<noteq> '''' \<and> c \<noteq> ''.'') (py_split (CHR ''/'') p)"

fun drop_dotdot :: "string list \<Rightarrow> string list \<Rightarrow> string list" where
  "drop_dotdot acc [] = rev acc"
| "drop_dotdot acc (c # cs) = (if c = ''..'' then drop_dotdot (tl acc) cs else drop_dotdot (c # acc) cs)"

definition render_path :: "string list \<Rightarrow> string" where
  "render_path cs = (if cs = [] then ''/'' else concat (map (\<lambda>c. CHR ''/'' # c) cs))"

definition is_absolute :: "string \<Rightarrow> bool" where
  "is_absolute p \<longleftrightarrow> py_startswith p ''/''"

definition expanduser :: "string \<Rightarrow> string \<Rightarrow> string" where
  "expanduser home p =
     (if p = ''~'' then home else if py_startswith p ''~/'' then home @ drop 1 p else p)"

text \<open>\<open>base / p\<close>, and \<open>p.resolve()\<close> in the working directory \<open>cwd\<close>.\<close>

definition path_join :: "string \<Rightarrow> string \<Rightarrow> string" where
  "path_join base p = (if is_absolute p then p else base @ ''/'' @ p)"

definition resolve_path :: "string \<Rightarrow> string \<Rightarrow> string" where
  "resolve_path cwd p = render_path (drop_dotdot [] (path_components (path_join cwd p)))"

definition path_name :: "string \<Rightarrow> string" where
  "path_name p = (case path_components p of [] \<Rightarrow> '''' | cs \<Rightarrow> last cs)"

definition path_parent :: "string \<Rightarrow> string" where
  "path_parent path = (case py_rpartition (CHR ''/'') path of
     None \<Rightarrow> '''' | Some (d, _) \<Rightarrow> if d = '''' then ''/'' else d)"

text \<open>The last dot of the name starts the suffix, unless it begins or ends the name.\<close>

definition path_suffix :: "string \<Rightarrow> string" where
  "path_suffix p = (case py_rpartition (CHR ''.'') (path_name p) of
     None \<Rightarrow> '''' | Some (stem, e) \<Rightarrow> if stem = '''' \<or> e = '''' then '''' else CHR ''.'' # e)"

text \<open>\<open>Path(p).stem\<close>: the name without its suffix.\<close>

definition path_stem :: "string \<Rightarrow> string" where
  "path_stem p = take (length (path_name p) - length (path_suffix p)) (path_name p)"

lemma drop_dotdot_clean:
  "list_all (\<lambda>c. c \<noteq> ''..'') cs \<Longrightarrow> drop_dotdot acc cs = rev acc @ cs"
  by (induction acc cs rule: drop_dotdot.induct) auto

lemma set_drop_dotdot:
  "set (drop_dotdot acc cs) \<subseteq> set acc \<union> set cs - {''..''}" if "''..'' \<notin> set acc"
  using that
proof (induction acc cs rule: drop_dotdot.induct)
  case (2 acc c cs)
  then show ?case by (cases acc) (auto split: if_splits)
qed auto

lemma py_split_pieces: "p \<in> set (py_split c s) \<Longrightarrow> c \<notin> set p"
proof (induction s arbitrary: p)
  case (Cons x xs)
  then show ?case by (cases "py_split c xs") (fastforce split: if_splits)+
qed simp

lemma py_split_render:
  "list_all (\<lambda>c. CHR ''/'' \<notin> set c) cs \<Longrightarrow> cs \<noteq> [] \<Longrightarrow> py_split (CHR ''/'') (concat (map (\<lambda>c. CHR ''/'' # c) cs)) = '''' # cs"
proof (induction cs)
  case (Cons c cs)
  have "py_split (CHR ''/'') (c @ concat (map (\<lambda>c. CHR ''/'' # c) cs)) = c # cs"
  proof (cases cs)
    case Nil
    with Cons.prems show ?thesis by (simp add: py_split_no_sep)
  next
    case (Cons d ds)
    with Cons.prems Cons.IH show ?thesis
      by (simp add: py_split_append)
  qed
  then show ?case by simp
qed simp

text \<open>Resolving is idempotent and absolute, whatever the working directory.\<close>

lemma resolve_path_components:
  "path_components (resolve_path cwd p) = drop_dotdot [] (path_components (path_join cwd p))"
  and resolve_path_clean: "list_all (\<lambda>c. c \<noteq> ''..'' \<and> c \<noteq> ''.'' \<and> c \<noteq> '''' \<and> CHR ''/'' \<notin> set c)
    (drop_dotdot [] (path_components (path_join cwd p)))"
proof -
  let ?cs = "drop_dotdot [] (path_components (path_join cwd p))"
  have "set ?cs \<subseteq> set (path_components (path_join cwd p)) - {''..''}"
    using set_drop_dotdot [of "[]"] by simp
  then show c: "list_all (\<lambda>c. c \<noteq> ''..'' \<and> c \<noteq> ''.'' \<and> c \<noteq> '''' \<and> CHR ''/'' \<notin> set c) ?cs"
    using py_split_pieces by (fastforce simp: list_all_iff path_components_def)
  show "path_components (resolve_path cwd p) = ?cs"
  proof (cases "?cs = []")
    case True
    then show ?thesis by (simp add: resolve_path_def render_path_def path_components_def)
  next
    case False
    have "list_all (\<lambda>c. CHR ''/'' \<notin> set c) ?cs" using c by (simp add: list_all_iff)
    then have "py_split (CHR ''/'') (resolve_path cwd p) = '''' # ?cs"
      using False unfolding resolve_path_def render_path_def by (simp only: if_False py_split_render not_False_eq_True)
    moreover have "filter (\<lambda>c. c \<noteq> '''' \<and> c \<noteq> ''.'') ?cs = ?cs"
      using c by (auto simp: list_all_iff intro: filter_True)
    ultimately show ?thesis unfolding path_components_def [of "resolve_path cwd p"] by simp
  qed
qed

lemma resolve_path_absolute: "is_absolute (resolve_path cwd p)"
  by (cases "drop_dotdot [] (path_components (path_join cwd p))")
    (simp_all add: resolve_path_def render_path_def is_absolute_def)

lemma resolve_path_idem [simp]: "resolve_path cwd' (resolve_path cwd p) = resolve_path cwd p"
proof -
  have "path_join cwd' (resolve_path cwd p) = resolve_path cwd p"
    by (simp add: path_join_def resolve_path_absolute)
  then have "resolve_path cwd' (resolve_path cwd p) =
      render_path (drop_dotdot [] (drop_dotdot [] (path_components (path_join cwd p))))"
    by (simp add: resolve_path_def [of cwd'] resolve_path_components)
  also have "drop_dotdot [] (drop_dotdot [] (path_components (path_join cwd p))) =
      drop_dotdot [] (path_components (path_join cwd p))"
    using resolve_path_clean [of cwd p] by (subst drop_dotdot_clean) (auto simp: list_all_iff)
  finally show ?thesis by (simp add: resolve_path_def)
qed

end
