(* ===== verification/RuntimeIndex.thy ===== *)
theory RuntimeIndex
  imports Chain Paths
begin

text \<open>
  \<open>src/qairt_agent/runtime/index.py\<close> and the results it reads
  (\<open>src/qairt_agent/qairt_adapter/types.py\<close>): the index a build publishes, which binds an
  AR and a context length to contexts, graphs, routes and vectors, and the selection of one
  binding from it. An index is a JSON object. Reading and parsing a JSON file is the argument
  \<open>load\<close>, which may raise; paths are resolved in the directory \<open>cwd\<close> of a
  user with directory \<open>home\<close>.
\<close>

section \<open>Build results\<close>

text \<open>The fields that hold live SDK objects are left out, as the code leaves them out of files.\<close>

record ModelVariantArtifact =
  mv_model_path :: string
  mv_encodings_path :: "string option"
  mv_ar :: int
  mv_context_length :: int
  mv_source_kind :: string
  mv_family :: "string option"
  mv_external_data_paths :: "string list"

record TransformedSliceArtifact =
  ts_slice_name :: string
  ts_split_index :: int
  ts_model_path :: string
  ts_encodings_path :: "string option"
  ts_ar :: "int option"
  ts_context_length :: "int option"
  ts_external_data_paths :: "string list"

record CompiledContextArtifact =
  cc_context_binary_path :: string
  cc_slice_name :: "string option"
  cc_graph_names :: "string list"
  cc_ar_values :: "int list"
  cc_target_soc :: string
  cc_dsp_arch :: string
  cc_soc_model :: int
  cc_weight_sharing :: bool
  cc_native_kv_config_path :: "string option"
  cc_context_length :: "int option"

record GenAIRawSliceArtifact =
  gs_slice_id :: string
  gs_context_binary_path :: string
  gs_graph_names_by_ar :: "(int \<times> string) list"
  gs_input_names :: "string list"
  gs_output_names :: "string list"

text \<open>
  What the index reads of a low-level \<open>BuildResult\<close> or of a GenAI container result: the
  attributes a result does not have read as empty.
\<close>

record build_output =
  bo_variants :: "ModelVariantArtifact list"
  bo_transformed_slices :: "TransformedSliceArtifact list"
  bo_contexts :: "CompiledContextArtifact list"
  bo_diagnostic_contexts :: "CompiledContextArtifact list"
  bo_raw_slices :: "GenAIRawSliceArtifact list"
  bo_raw_tensor_runtime_supported :: bool
  bo_raw_tensor_runtime_notes :: "string list"

section \<open>Building an index\<close>

definition RUNTIME_INDEX_SCHEMA :: string where
  "RUNTIME_INDEX_SCHEMA = ''qairt-agent.runtime-index.v1''"

definition SLICE_ROUTES_SCHEMA :: string where
  "SLICE_ROUTES_SCHEMA = ''qairt-agent.slice-routes''"

definition context_component :: "string \<Rightarrow> string \<Rightarrow> string" where
  "context_component family slice_name =
     (if family = ''qwen3_vl'' then (if slice_name = ''vision_projector'' then ''vision'' else ''text'')
      else if family = ''vit'' then ''vision'' else ''model'')"

text \<open>The contract's reason text is left empty.\<close>

definition execution_contract :: "string \<Rightarrow> string \<Rightarrow> (string \<times> json) list" where
  "execution_contract lane family =
     (if lane = ''low_level'' \<and> family = ''qwen3_vl'' then
        [(''kind'', JStr ''multimodal_components''), (''automatic_end_to_end_supported'', JBool False),
         (''required_components'', JList [JStr ''vision'', JStr ''text'']),
         (''boundary_binding'', JStr ''not_executable''), (''reason'', JStr [])]
      else
        [(''kind'', JStr ''single_runtime''), (''automatic_end_to_end_supported'', JBool True),
         (''required_components'', JList [JStr (if family = ''vit'' then ''vision'' else ''model'')]),
         (''boundary_binding'', JStr ''not_applicable'')])"

definition STATE_TOKENS :: "string list" where
  "STATE_TOKENS = [''past_key'', ''past_value'', ''present_key'', ''present_value'', ''key_cache'',
     ''value_cache'', ''kv_cache'', ''recurrent_state'', ''conv_state'']"

definition STATE_REPLACEMENTS :: "(string \<times> string) list" where
  "STATE_REPLACEMENTS = [(''present_key'', ''key''), (''past_key'', ''key''), (''present_value'', ''value''),
     (''past_value'', ''value''), (''_input'', []), (''_output'', []), (''_in'', []), (''_out'', [])]"

definition slot_char :: "char \<Rightarrow> bool" where
  "slot_char c \<longleftrightarrow> c \<in> set ''abcdefghijklmnopqrstuvwxyz0123456789''"

definition state_slot :: "string \<Rightarrow> string option" where
  "state_slot tensor_name =
    (let lowered = py_lower tensor_name in
     if \<not> list_ex (py_contains lowered) STATE_TOKENS then None
     else Some (py_strip_char (CHR ''_'') (sub_runs slot_char (CHR ''_'') False
       (foldl (\<lambda>s (old, new). py_replace old new s) lowered STATE_REPLACEMENTS))))"

text \<open>Where the process runs: working directory, user's directory, and the text of a value.\<close>

record path_env =
  pe_cwd :: string
  pe_home :: string
  pe_repr :: "json \<Rightarrow> string"

definition real_path :: "path_env \<Rightarrow> string \<Rightarrow> string" where
  "real_path env p = resolve_path (pe_cwd env) (expanduser (pe_home env) p)"

definition path_json :: "path_env \<Rightarrow> string option \<Rightarrow> json" where
  "path_json env p = (case p of None \<Rightarrow> JNull | Some q \<Rightarrow> JStr (real_path env q))"

definition variant_entry :: "path_env \<Rightarrow> ModelVariantArtifact \<Rightarrow> json" where
  "variant_entry env item = JObj [(''onnx_path'', path_json env (Some (mv_model_path item))),
     (''encodings_path'', path_json env (mv_encodings_path item)),
     (''source_kind'', JStr (mv_source_kind item))]"

definition variant_table :: "path_env \<Rightarrow> ModelVariantArtifact list \<Rightarrow> (string \<times> (string \<times> json) list) list" where
  "variant_table env items = foldl (\<lambda>d item.
     dict_put2 (int_str (mv_context_length item)) (int_str (mv_ar item)) (variant_entry env item) d) [] items"

definition transformed_entry :: "path_env \<Rightarrow> TransformedSliceArtifact \<Rightarrow> json" where
  "transformed_entry env item = JObj [(''onnx_path'', path_json env (Some (ts_model_path item))),
     (''encodings_path'', path_json env (ts_encodings_path item)), (''split_index'', JInt (ts_split_index item))]"

text \<open>\<open>d.setdefault(cl, {}).setdefault(ar, {})[name] = v\<close>\<close>

definition dict_put3 ::
  "'a \<Rightarrow> 'b \<Rightarrow> 'c \<Rightarrow> 'v \<Rightarrow> ('a \<times> ('b \<times> ('c \<times> 'v) list) list) list \<Rightarrow> ('a \<times> ('b \<times> ('c \<times> 'v) list) list) list" where
  "dict_put3 k1 k2 k3 v d = dict_set k1 (dict_put2 k2 k3 v (case map_of d k1 of None \<Rightarrow> [] | Some e \<Rightarrow> e)) d"

definition transformed_table ::
  "path_env \<Rightarrow> TransformedSliceArtifact list \<Rightarrow> (string \<times> (string \<times> (string \<times> json) list) list) list" where
  "transformed_table env items = foldl (\<lambda>d item. case (ts_context_length item, ts_ar item) of
     (Some cl, Some ar) \<Rightarrow> dict_put3 (int_str cl) (int_str ar) (ts_slice_name item) (transformed_entry env item) d
   | _ \<Rightarrow> d) [] items"

definition component_models ::
  "path_env \<Rightarrow> string \<Rightarrow> TransformedSliceArtifact list \<Rightarrow> (string \<times> json) list" where
  "component_models env family items = foldl (\<lambda>d item.
     let component = context_component family (ts_slice_name item) in
     if component \<noteq> ''model'' \<and> ts_context_length item = None \<and> ts_ar item = None
     then dict_set component (JObj [(''slice_id'', JStr (ts_slice_name item)),
       (''onnx_path'', path_json env (Some (ts_model_path item))),
       (''encodings_path'', path_json env (ts_encodings_path item))]) d
     else d) [] items"

definition graphs_json :: "(int \<times> string) list \<Rightarrow> json" where
  "graphs_json graphs = JObj (dict_of (map (\<lambda>(ar, g). (int_str ar, JStr g)) graphs))"

definition context_name :: "nat \<Rightarrow> CompiledContextArtifact \<Rightarrow> string" where
  "context_name ordinal item = (case cc_slice_name item of
     None \<Rightarrow> ''context_'' @ zpad 3 ordinal | Some s \<Rightarrow> if s = [] then ''context_'' @ zpad 3 ordinal else s)"

definition context_key :: "int \<Rightarrow> CompiledContextArtifact \<Rightarrow> string" where
  "context_key default_cl item = int_str (case cc_context_length item of None \<Rightarrow> default_cl | Some cl \<Rightarrow> cl)"

definition context_entry :: "path_env \<Rightarrow> string \<Rightarrow> nat \<Rightarrow> CompiledContextArtifact \<Rightarrow> json" where
  "context_entry env family ordinal item = JObj
     [(''context_path'', path_json env (Some (cc_context_binary_path item))),
      (''graphs_by_ar'', graphs_json (zip (cc_ar_values item) (cc_graph_names item))),
      (''weight_sharing'', JBool (cc_weight_sharing item)),
      (''component'', JStr (context_component family (context_name ordinal item))),
      (''context_length_scope'', JStr (if cc_context_length item = None then ''independent'' else ''fixed'')),
      (''native_kv_config_path'', path_json env (cc_native_kv_config_path item))]"

fun context_table ::
  "path_env \<Rightarrow> string \<Rightarrow> int \<Rightarrow> nat \<Rightarrow> CompiledContextArtifact list \<Rightarrow> (string \<times> (string \<times> json) list) list \<Rightarrow>
   exn + (string \<times> (string \<times> json) list) list" where
  "context_table env family default_cl ordinal [] d = Inr d"
| "context_table env family default_cl ordinal (item # items) d =
    (if length (cc_ar_values item) \<noteq> length (cc_graph_names item) then Inl value_error
     else context_table env family default_cl (Suc ordinal) items
       (dict_put2 (context_key default_cl item) (context_name ordinal item) (context_entry env family ordinal item) d))"

definition diagnostic_table ::
  "path_env \<Rightarrow> int \<Rightarrow> CompiledContextArtifact list \<Rightarrow> (string \<times> json list) list" where
  "diagnostic_table env default_cl items = foldl (\<lambda>d item. dict_append (context_key default_cl item)
     (JObj [(''slice'', case cc_slice_name item of None \<Rightarrow> JNull | Some s \<Rightarrow> JStr s),
       (''context_path'', path_json env (Some (cc_context_binary_path item))),
       (''graphs_by_ar'', graphs_json (zip (cc_ar_values item) (cc_graph_names item)))]) d) [] items"

section \<open>Route artifacts\<close>

text \<open>A reference to a published routes file: its path and, when recorded, its digest.\<close>

type_synonym route_ref = "string option \<times> string option"

type_synonym json_loader = "string \<Rightarrow> exn + json"

definition route_entry :: "path_env \<Rightarrow> json_loader \<Rightarrow> route_ref \<Rightarrow> exn + string \<times> json" where
  "route_entry env load = (\<lambda>(raw_path, sha). case raw_path of
     None \<Rightarrow> Inl value_error
   | Some p \<Rightarrow> (let path = real_path env p in case load path of
       Inl _ \<Rightarrow> Inl value_error
     | Inr payload \<Rightarrow> (case as_obj payload of
         None \<Rightarrow> Inl attribute_error
       | Some d \<Rightarrow>
           bind_res (ensure (json_get d ''schema'' = JStr SLICE_ROUTES_SCHEMA) value_error) (\<lambda>_.
           bind_res (json_item d ''context_length'') (\<lambda>raw_cl.
           bind_res (py_int raw_cl) (\<lambda>cl.
           bind_res (py_strs (pe_repr env) (json_get_or d ''excluded_components'' (JList []))) (\<lambda>excluded.
           Inr (int_str cl, JObj [(''path'', JStr path),
             (''sha256'', case sha of None \<Rightarrow> JNull | Some s \<Rightarrow> JStr s),
             (''component'', JStr (py_str (pe_repr env) (json_get_or d ''component'' (JStr ''model'')))),
             (''coverage'', JStr (py_str (pe_repr env) (json_get_or d ''coverage'' (JStr ''full_model'')))),
             (''excluded_components'', JList (map JStr excluded))]))))))))"

definition route_table :: "path_env \<Rightarrow> json_loader \<Rightarrow> route_ref list \<Rightarrow> exn + (string \<times> json) list" where
  "route_table env load refs = bind_res (map_res (route_entry env load) refs) (\<lambda>es. Inr (dict_of es))"

section \<open>Routes of a GenAI container\<close>

record raw_route =
  rr_route :: SliceRoute
  rr_unresolved :: "string list"

definition slots_of :: "string list \<Rightarrow> (string \<times> string) list" where
  "slots_of names = dict_of (List.map_filter (\<lambda>n. map_option (Pair n) (state_slot n)) names)"

definition raw_route_of :: "string list \<Rightarrow> GenAIRawSliceArtifact \<Rightarrow> raw_route" where
  "raw_route_of available item =
    (let state_inputs = slots_of (gs_input_names item);
         previous = dict_of (map (\<lambda>n. (n, n))
           (filter (\<lambda>n. n \<in> set available \<and> map_of state_inputs n = None) (gs_input_names item)))
     in \<lparr>rr_route = \<lparr>sr_slice_id = gs_slice_id item, sr_input_names = gs_input_names item,
           sr_output_names = gs_output_names item, sr_graph_names = gs_graph_names_by_ar item,
           sr_from_previous = previous, sr_state_inputs = state_inputs,
           sr_state_outputs = slots_of (gs_output_names item)\<rparr>,
         rr_unresolved = filter (\<lambda>n. map_of previous n = None \<and> map_of state_inputs n = None) (gs_input_names item)\<rparr>)"

fun raw_routes :: "string list \<Rightarrow> GenAIRawSliceArtifact list \<Rightarrow> raw_route list" where
  "raw_routes available [] = []"
| "raw_routes available (item # items) =
     raw_route_of available item # raw_routes (available @ gs_output_names item) items"

definition text_map :: "(string \<times> string) list \<Rightarrow> json" where
  "text_map d = JObj (map (\<lambda>(k, v). (k, JStr v)) d)"

definition raw_route_json :: "raw_route \<Rightarrow> json" where
  "raw_route_json rr = (let r = rr_route rr in JObj
     [(''slice_id'', JStr (sr_slice_id r)),
      (''input_names'', JList (map JStr (sr_input_names r))),
      (''output_names'', JList (map JStr (sr_output_names r))),
      (''graph_names'', graphs_json (sr_graph_names r)),
      (''from_previous'', text_map (sr_from_previous r)),
      (''state_inputs'', text_map (sr_state_inputs r)),
      (''state_outputs'', text_map (sr_state_outputs r)),
      (''unresolved_external_inputs'', JList (map JStr (rr_unresolved rr)))])"

definition raw_contexts :: "path_env \<Rightarrow> GenAIRawSliceArtifact list \<Rightarrow> (string \<times> json) list" where
  "raw_contexts env items = dict_of (map (\<lambda>i. (gs_slice_id i, path_json env (Some (gs_context_binary_path i)))) items)"

section \<open>The index\<close>

record index_request =
  iq_lane :: string
  iq_family :: string
  iq_default_ar :: int
  iq_default_context_length :: int
  iq_route_artifacts :: "route_ref list"
  iq_validation_manifest :: "string option"
  iq_validation_manifests_by_ar :: "(json \<times> string) list"
  iq_runtime_supported :: bool
  iq_container_path :: "string option"

definition nested_json :: "(string \<times> (string \<times> json) list) list \<Rightarrow> json" where
  "nested_json d = JObj (map (\<lambda>(k, e). (k, JObj e)) d)"

definition vector_map :: "path_env \<Rightarrow> (json \<times> string) list \<Rightarrow> exn + (string \<times> json) list" where
  "vector_map env items = bind_res (map_res (\<lambda>(ar, p).
     bind_res (py_int ar) (\<lambda>i. Inr (int_str i, path_json env (Some p)))) items) (\<lambda>es. Inr (dict_of es))"

definition make_runtime_index ::
  "path_env \<Rightarrow> json_loader \<Rightarrow> build_output \<Rightarrow> index_request \<Rightarrow> exn + (string \<times> json) list" where
  "make_runtime_index env load result iq =
     bind_res (context_table env (iq_family iq) (iq_default_context_length iq) 0 (bo_contexts result) []) (\<lambda>contexts.
     bind_res (route_table env load (iq_route_artifacts iq)) (\<lambda>routes.
     bind_res (vector_map env (iq_validation_manifests_by_ar iq)) (\<lambda>vectors.
     Inr [(''schema'', JStr RUNTIME_INDEX_SCHEMA),
       (''lane'', JStr (iq_lane iq)),
       (''family'', JStr (iq_family iq)),
       (''runtime_supported'', JBool (iq_runtime_supported iq)),
       (''execution_contract'', JObj (execution_contract (iq_lane iq) (iq_family iq))),
       (''defaults'', JObj [(''ar'', JInt (iq_default_ar iq)), (''context_length'', JInt (iq_default_context_length iq))]),
       (''variants'', nested_json (variant_table env (bo_variants result))),
       (''transformed_slices'', JObj (map (\<lambda>(k, e). (k, nested_json e)) (transformed_table env (bo_transformed_slices result)))),
       (''component_models'', JObj (component_models env (iq_family iq) (bo_transformed_slices result))),
       (''contexts'', nested_json contexts),
       (''diagnostic_contexts'', JObj (map (\<lambda>(k, e). (k, JList e))
          (diagnostic_table env (iq_default_context_length iq) (bo_diagnostic_contexts result)))),
       (''routes'', JObj routes),
       (''vectors'', JObj [(''validation_manifest'', path_json env (iq_validation_manifest iq)),
          (''validation_manifests_by_ar'', JObj vectors),
          (''reference_priority'', JStr ''exact_ar_golden_then_onnxruntime'')]),
       (''container_path'', path_json env (iq_container_path iq)),
       (''genai_tensor_runtime'', JObj [(''supported'', JBool (bo_raw_tensor_runtime_supported result)),
          (''notes'', JList (map JStr (bo_raw_tensor_runtime_notes result))),
          (''contexts'', JObj (raw_contexts env (bo_raw_slices result))),
          (''routes'', JList (map raw_route_json (raw_routes [] (bo_raw_slices result))))])])))"


section \<open>Loading an index\<close>

text \<open>The contract a Qwen3-VL index must carry: separate components, never end to end.\<close>

definition fail_closed_contract :: "json \<Rightarrow> bool" where
  "fail_closed_contract v = (case as_obj v of
     None \<Rightarrow> False
   | Some d \<Rightarrow> json_get d ''kind'' = JStr ''multimodal_components'' \<and>
       json_get d ''automatic_end_to_end_supported'' = JBool False)"

definition qwen3_vl_components :: "(string \<times> json) list \<Rightarrow> bool" where
  "qwen3_vl_components index \<longleftrightarrow>
     json_get index ''lane'' = JStr ''low_level'' \<and> json_get index ''family'' = JStr ''qwen3_vl''"

definition load_runtime_index :: "path_env \<Rightarrow> json_loader \<Rightarrow> string \<Rightarrow> exn + (string \<times> json) list" where
  "load_runtime_index env load path = (case load (real_path env path) of
     Inl _ \<Rightarrow> Inl value_error
   | Inr payload \<Rightarrow> (case as_obj payload of
       None \<Rightarrow> Inl attribute_error
     | Some index \<Rightarrow>
         bind_res (ensure (json_get index ''schema'' = JStr RUNTIME_INDEX_SCHEMA) value_error) (\<lambda>_.
         bind_res (ensure (json_get index ''lane'' \<in> {JStr ''low_level'', JStr ''genai_builder''}) value_error) (\<lambda>_.
         bind_res (ensure (qwen3_vl_components index \<longrightarrow>
           fail_closed_contract (json_get index ''execution_contract'')) value_error) (\<lambda>_.
         case as_obj (json_get index ''defaults'') of
           None \<Rightarrow> Inl value_error
         | Some defaults \<Rightarrow>
             bind_res (json_item defaults ''ar'') (\<lambda>ar.
             bind_res (py_int ar) (\<lambda>_.
             bind_res (json_item defaults ''context_length'') (\<lambda>cl.
             bind_res (py_int cl) (\<lambda>_.
             Inr index)))))))))"

section \<open>Selecting a binding\<close>

text \<open>\<open>dict(v or {})\<close>, of whose entries only those under a text key are ever read.\<close>

definition dict_or_empty :: "json \<Rightarrow> exn + (string \<times> json) list" where
  "dict_or_empty v = (if \<not> py_truthy v then Inr [] else bind_res (py_dict v) (\<lambda>kvs.
     Inr (List.map_filter (\<lambda>(k, x). case k of JStr s \<Rightarrow> Some (s, x) | _ \<Rightarrow> None) kvs)))"

definition default_int :: "(string \<times> json) list \<Rightarrow> string \<Rightarrow> int option \<Rightarrow> exn + int" where
  "default_int index k given = bind_res (json_item index ''defaults'') (\<lambda>v. case given of
     Some i \<Rightarrow> Inr i
   | None \<Rightarrow> (case as_obj v of None \<Rightarrow> Inl type_error | Some d \<Rightarrow> bind_res (json_item d k) py_int))"

text \<open>The component that is asked for; a Qwen3-VL index has no end-to-end execution.\<close>

definition requested_component :: "(string \<times> json) list \<Rightarrow> string option \<Rightarrow> exn + string option" where
  "requested_component index component =
    (let requested = map_option (\<lambda>c. py_lower (py_strip c)) component in
     bind_res (dict_or_empty (json_get index ''execution_contract'')) (\<lambda>contract.
     if qwen3_vl_components index then
       bind_res (ensure (fail_closed_contract (JObj contract)) value_error) (\<lambda>_.
       bind_res (ensure (requested \<noteq> None) value_error) (\<lambda>_.
       bind_res (ensure (requested \<in> {Some ''text'', Some ''vision''}) value_error) (\<lambda>_.
       Inr requested)))
     else Inr requested))"

definition reference_model :: "(string \<times> json) list \<Rightarrow> string \<Rightarrow> string \<Rightarrow> exn + json" where
  "reference_model index cl_key ar_key =
     bind_res (obj_or_empty (json_get index ''variants'')) (\<lambda>variants.
     bind_res (obj_or_empty (json_get variants cl_key)) (\<lambda>by_ar.
     bind_res (obj_or_empty (json_get by_ar ar_key)) (\<lambda>variant.
     Inr (json_get variant ''onnx_path''))))"

definition common_binding ::
  "(string \<times> json) list \<Rightarrow> int \<Rightarrow> int \<Rightarrow> string option \<Rightarrow> exn + (string \<times> json) list" where
  "common_binding index ar cl requested =
     bind_res (dict_or_empty (json_get index ''vectors'')) (\<lambda>vectors.
     bind_res (dict_or_empty (json_get vectors ''validation_manifests_by_ar'')) (\<lambda>exact_vectors.
     bind_res (json_item index ''lane'') (\<lambda>lane.
     bind_res (json_item index ''family'') (\<lambda>family.
     bind_res (reference_model index (int_str cl) (int_str ar)) (\<lambda>model.
     let exact = json_get exact_vectors (int_str ar) in
     Inr ([(''lane'', lane), (''family'', family),
        (''runtime_supported'', JBool (py_truthy (json_get_or index ''runtime_supported'' (JBool False)))),
        (''ar'', JInt ar), (''context_length'', JInt cl),
        (''vector_manifest'', if py_truthy exact then exact else json_get vectors ''validation_manifest''),
        (''reference_model_path'', model),
        (''container_path'', json_get index ''container_path'')] @
       (case requested of None \<Rightarrow> [] | Some c \<Rightarrow> [(''component'', JStr c)])))))))"

text \<open>Every route has a graph for the AR; the GenAI lane accepts an empty name.\<close>

definition route_has_graph :: "string \<Rightarrow> json \<Rightarrow> exn + unit" where
  "route_has_graph ar_key route = (case as_obj route of
     None \<Rightarrow> Inl attribute_error
   | Some r \<Rightarrow> bind_res (obj_or_empty (json_get r ''graph_names'')) (\<lambda>graphs.
       ensure (py_truthy (json_get graphs ar_key)) value_error))"

definition genai_route_has_graph :: "string \<Rightarrow> json \<Rightarrow> exn + unit" where
  "genai_route_has_graph ar_key route = (case as_obj route of
     None \<Rightarrow> Inl attribute_error
   | Some r \<Rightarrow> bind_res (dict_or_empty (json_get r ''graph_names'')) (\<lambda>graphs.
       ensure (map_of graphs ar_key \<noteq> None) value_error))"

definition genai_binding ::
  "(string \<times> json) list \<Rightarrow> string \<Rightarrow> (string \<times> json) list \<Rightarrow> exn + (string \<times> json) list" where
  "genai_binding index ar_key binding =
     bind_res (dict_or_empty (json_get index ''genai_tensor_runtime'')) (\<lambda>runtime.
     if \<not> py_truthy (json_get runtime ''supported'') then Inr binding
     else
       bind_res (list_or_empty (json_get runtime ''routes'')) (\<lambda>routes.
       bind_res (dict_or_empty (json_get runtime ''contexts'')) (\<lambda>contexts.
       bind_res (ensure (routes \<noteq> [] \<and> contexts \<noteq> []) value_error) (\<lambda>_.
       bind_res (map_res (genai_route_has_graph ar_key) routes) (\<lambda>_.
       bind_res (list_or_empty (json_get runtime ''notes'')) (\<lambda>notes.
       Inr (binding @ [(''tensor_runtime'', JObj
         [(''scope'', JStr (if 1 < length routes then ''chain'' else ''graph'')),
          (''routes'', JList routes), (''contexts'', JObj contexts), (''notes'', JList notes)])])))))))"

definition context_candidates ::
  "((string \<times> json) list \<Rightarrow> exn + bool) \<Rightarrow> (string \<times> json) list \<Rightarrow> exn + (string \<times> (string \<times> json) list) list" where
  "context_candidates accept contexts =
     bind_res (map_res (\<lambda>(name, v). case as_obj v of
         None \<Rightarrow> Inl attribute_error
       | Some c \<Rightarrow> bind_res (accept c) (\<lambda>b. Inr (if b then [(name, c)] else []))) contexts)
       (\<lambda>ls. Inr (concat ls))"

definition contexts_for :: "(string \<times> json) list \<Rightarrow> string \<Rightarrow> exn + (string \<times> json) list" where
  "contexts_for index cl_key =
     bind_res (obj_or_empty (json_get index ''contexts'')) (\<lambda>by_cl.
     dict_or_empty (json_get by_cl cl_key))"

text \<open>The code's \<open>len(...) != 1\<close> guards.\<close>

definition the_only :: "'a list \<Rightarrow> exn + 'a" where
  "the_only xs = (case xs of [x] \<Rightarrow> Inr x | _ \<Rightarrow> Inl value_error)"

lemma the_only_Inr: "the_only xs = Inr x \<longleftrightarrow> xs = [x]"
  by (auto simp: the_only_def split: list.splits)

definition is_vision_context :: "(string \<times> json) list \<Rightarrow> exn + bool" where
  "is_vision_context c = (if json_get c ''component'' = JStr ''vision''
     then bind_res (dict_or_empty (json_get c ''graphs_by_ar'')) (\<lambda>g. Inr (g \<noteq> [])) else Inr False)"

definition vision_binding ::
  "(string \<times> json) list \<Rightarrow> string \<Rightarrow> (string \<times> json) list \<Rightarrow> exn + (string \<times> json) list" where
  "vision_binding index cl_key binding =
     bind_res (contexts_for index cl_key) (\<lambda>contexts.
     bind_res (context_candidates is_vision_context contexts) (\<lambda>candidates.
     bind_res (the_only candidates) (\<lambda>(slice_name, context).
         bind_res (dict_or_empty (json_get context ''graphs_by_ar'')) (\<lambda>graphs.
         bind_res (the_only graphs) (\<lambda>(graph_ar, graph_name).
             bind_res (obj_or_empty (json_get index ''component_models'')) (\<lambda>models.
             bind_res (dict_or_empty (json_get models ''vision'')) (\<lambda>vision_model.
             bind_res (ensure (py_truthy (json_get vision_model ''onnx_path'')) value_error) (\<lambda>_.
             bind_res (json_item context ''context_path'') (\<lambda>path.
             bind_res (py_int_text graph_ar) (\<lambda>ar.
             Inr (dict_update binding
               [(''scope'', JStr ''graph''), (''coverage'', JStr ''vision_only''), (''context_path'', path),
                (''graph_name'', graph_name), (''graph_ar'', JInt ar), (''slice_id'', JStr slice_name),
                (''reference_model_path'', json_get vision_model ''onnx_path''), (''vector_manifest'', JNull)])))))))))))"

text \<open>\<open>Path(v)\<close> of a value that must be a text.\<close>

fun text_value :: "json \<Rightarrow> exn + string" where
  "text_value (JStr s) = Inr s"
| "text_value _ = Inl type_error"

text \<open>The routes and contexts of a published routes file, checked for the AR.\<close>

definition load_routes ::
  "json_loader \<Rightarrow> string \<Rightarrow> string \<Rightarrow> exn + json list \<times> (string \<times> json) list" where
  "load_routes load path ar_key = bind_res (load path) (\<lambda>payload_value. case as_obj payload_value of
     None \<Rightarrow> Inl attribute_error
   | Some payload \<Rightarrow>
       bind_res (ensure (json_get payload ''schema'' = JStr SLICE_ROUTES_SCHEMA) value_error) (\<lambda>_.
       bind_res (list_or_empty (json_get payload ''routes'')) (\<lambda>routes.
       bind_res (dict_or_empty (json_get payload ''contexts'')) (\<lambda>contexts.
       bind_res (ensure (routes \<noteq> [] \<and> contexts \<noteq> []) value_error) (\<lambda>_.
       bind_res (map_res (route_has_graph ar_key) routes) (\<lambda>_.
       Inr (routes, contexts)))))))"

text \<open>Several routes are a chain; a single route is one graph.\<close>

definition route_scope ::
  "path_env \<Rightarrow> string \<Rightarrow> string \<Rightarrow> json list \<Rightarrow> (string \<times> json) list \<Rightarrow> exn + (string \<times> json) list" where
  "route_scope env path ar_key routes contexts =
     (if 1 < length routes then
        Inr [(''scope'', JStr ''chain''), (''routes'', JList routes), (''contexts'', JObj contexts),
          (''route_manifest'', JStr path)]
      else (case as_obj (hd routes) of
        None \<Rightarrow> Inl type_error
      | Some route \<Rightarrow>
          bind_res (json_item route ''slice_id'') (\<lambda>slice_id.
          bind_res (json_item contexts (py_str (pe_repr env) slice_id)) (\<lambda>context_path.
          bind_res (json_item route ''graph_names'') (\<lambda>graphs. case as_obj graphs of
            None \<Rightarrow> Inl type_error
          | Some gs \<Rightarrow> bind_res (json_item gs ar_key) (\<lambda>graph.
              Inr [(''scope'', JStr ''graph''), (''route_manifest'', JStr path),
                (''context_path'', context_path), (''graph_name'', graph)]))))))"

definition route_binding ::
  "path_env \<Rightarrow> json_loader \<Rightarrow> string \<Rightarrow> string option \<Rightarrow> json \<Rightarrow> (string \<times> json) list \<Rightarrow> exn + (string \<times> json) list" where
  "route_binding env load ar_key requested route_value binding = (case as_obj route_value of
     None \<Rightarrow> Inl attribute_error
   | Some entry \<Rightarrow>
       bind_res (ensure (\<not> (requested = Some ''text'' \<and> json_get entry ''component'' \<noteq> JStr ''text'')) value_error) (\<lambda>_.
       bind_res (json_item entry ''path'') (\<lambda>raw_path.
       bind_res (text_value raw_path) (\<lambda>p.
         let path = real_path env p in
            bind_res (load_routes load path ar_key) (\<lambda>(routes, contexts).
            bind_res (list_or_empty (json_get entry ''excluded_components'')) (\<lambda>excluded.
            bind_res (route_scope env path ar_key routes contexts) (\<lambda>scope.
            Inr (dict_update (dict_update binding scope)
              [(''component'', json_get_or entry ''component'' (JStr ''model'')),
               (''coverage'', json_get_or entry ''coverage'' (JStr ''full_model'')),
               (''excluded_components'', JList excluded)]))))))))"

definition graph_context :: "string \<Rightarrow> (string \<times> json) list \<Rightarrow> exn + bool" where
  "graph_context ar_key c = bind_res (dict_or_empty (json_get c ''graphs_by_ar'')) (\<lambda>g. Inr (map_of g ar_key \<noteq> None))"

definition single_graph_binding ::
  "(string \<times> json) list \<Rightarrow> string \<Rightarrow> string \<Rightarrow> (string \<times> json) list \<Rightarrow> exn + (string \<times> json) list" where
  "single_graph_binding index cl_key ar_key binding =
     bind_res (contexts_for index cl_key) (\<lambda>contexts.
     bind_res (context_candidates (graph_context ar_key) contexts) (\<lambda>candidates.
     bind_res (the_only candidates) (\<lambda>(slice_name, context).
         bind_res (json_item context ''context_path'') (\<lambda>path.
         bind_res (json_item context ''graphs_by_ar'') (\<lambda>graphs. case as_obj graphs of
           None \<Rightarrow> Inl type_error
         | Some gs \<Rightarrow> bind_res (json_item gs ar_key) (\<lambda>graph.
             Inr (dict_update binding [(''scope'', JStr ''graph''), (''context_path'', path),
               (''graph_name'', graph), (''slice_id'', JStr slice_name)])))))))"

definition select_runtime_binding ::
  "path_env \<Rightarrow> json_loader \<Rightarrow> (string \<times> json) list \<Rightarrow> int option \<Rightarrow> int option \<Rightarrow> string option \<Rightarrow>
   exn + (string \<times> json) list" where
  "select_runtime_binding env load index given_ar given_cl component =
     bind_res (default_int index ''ar'' given_ar) (\<lambda>ar.
     bind_res (default_int index ''context_length'' given_cl) (\<lambda>cl.
     bind_res (requested_component index component) (\<lambda>requested.
     bind_res (common_binding index ar cl requested) (\<lambda>binding.
     if json_get index ''lane'' = JStr ''genai_builder'' then genai_binding index (int_str ar) binding
     else if requested = Some ''vision'' then vision_binding index (int_str cl) binding
     else
       bind_res (obj_or_empty (json_get index ''routes'')) (\<lambda>routes. case json_get routes (int_str cl) of
         JNull \<Rightarrow> single_graph_binding index (int_str cl) (int_str ar) binding
       | entry \<Rightarrow> route_binding env load (int_str ar) requested entry binding)))))"

end
