(* ===== verification/RuntimeProps.thy ===== *)
theory RuntimeProps
  imports RuntimeIndex ChainProps
begin

text \<open>
  What a published runtime index guarantees: the routes it derives for a GenAI container are
  accepted by the chain runner and run, a low-level index gives back the context and the graph
  it was built from, and a Qwen3-VL index never binds the two components together.
\<close>

section \<open>GenAI routes run as a chain\<close>

definition raw_slice_ok :: "GenAIRawSliceArtifact \<Rightarrow> bool" where
  "raw_slice_ok item \<longleftrightarrow> gs_slice_id item \<noteq> [] \<and> gs_input_names item \<noteq> [] \<and> gs_output_names item \<noteq> [] \<and>
     gs_graph_names_by_ar item \<noteq> [] \<and> distinct (map fst (gs_graph_names_by_ar item)) \<and>
     list_all (\<lambda>(ar, g). 0 \<le> ar \<and> g \<noteq> []) (gs_graph_names_by_ar item)"

lemma py_strs_texts [simp]: "py_strs repr (JList (map JStr xs)) = Inr xs"
  by (simp add: py_strs_def comp_def)

lemma py_dict_text_map: "py_dict (text_map d) = Inr (map (\<lambda>(k, v). (JStr k, JStr v)) d)"
  by (induction d) (auto simp: text_map_def py_dict_def)

lemma named_entries_text_map:
  "List.map_filter (named_entry repr) (map (\<lambda>(k, v). (JStr k, JStr v)) d) = d"
  "list_all (\<lambda>e. named_entry repr e \<noteq> None) (map (\<lambda>(k, v). (JStr k, JStr v)) d)"
  by (induction d) (auto simp: named_entry_def map_filter_simps)

lemma int_str_inject: "0 \<le> i \<Longrightarrow> 0 \<le> j \<Longrightarrow> int_str i = int_str j \<longleftrightarrow> i = j"
  by (metis py_int_text_int_str sum.inject(2))

lemma inj_int_str: "list_all (\<lambda>i. 0 \<le> i) xs \<Longrightarrow> inj_on int_str (set xs)"
  by (rule inj_onI) (metis int_str_inject list_all_iff)

lemma graphs_roundtrip:
  assumes "distinct (map fst graphs)" "list_all (\<lambda>(ar, g). 0 \<le> ar \<and> g \<noteq> []) graphs"
  shows "py_dict (graphs_json graphs) = Inr (map (\<lambda>(ar, g). (JStr (int_str ar), JStr g)) graphs)"
    "map_res (\<lambda>(k, x). bind_res (py_int k) (\<lambda>ar. Inr (ar, py_str repr x)))
       (map (\<lambda>(ar, g). (JStr (int_str ar), JStr g)) graphs) = Inr graphs"
proof -
  have names: "map fst (map (\<lambda>(ar, g). (int_str ar, JStr g)) graphs) = map int_str (map fst graphs)"
    by (induction graphs) auto
  have "inj_on int_str (set (map fst graphs))"
    using assms(2) by (intro inj_int_str) (auto simp: list_all_iff)
  then have "distinct (map fst (map (\<lambda>(ar, g). (int_str ar, JStr g)) graphs))"
    unfolding names using assms(1) by (simp only: distinct_map)
  then show "py_dict (graphs_json graphs) = Inr (map (\<lambda>(ar, g). (JStr (int_str ar), JStr g)) graphs)"
    by (simp add: graphs_json_def py_dict_def dict_of_distinct comp_def case_prod_beta)
  show "map_res (\<lambda>(k, x). bind_res (py_int k) (\<lambda>ar. Inr (ar, py_str repr x)))
       (map (\<lambda>(ar, g). (JStr (int_str ar), JStr g)) graphs) = Inr graphs"
    using assms(2) by (induction graphs) (auto simp: py_int_text_int_str)
qed

lemma slots_of_keys: "map_of (slots_of names) n = Some s \<Longrightarrow> n \<in> set names"
proof -
  assume "map_of (slots_of names) n = Some s"
  then have "(n, s) \<in> set (List.map_filter (\<lambda>n. map_option (Pair n) (state_slot n)) names)"
    by (auto simp: slots_of_def dest: map_of_SomeD)
  then show ?thesis by (auto simp: map_filter_def)
qed

lemma slots_of_within: "keys_within (slots_of names) names"
  using slots_of_keys map_of_is_SomeI [of "slots_of names"]
  by (fastforce simp: keys_within_def list_all_iff slots_of_def)

lemma list_all_dict_of_keys: "list_all (\<lambda>(k, _). P k) (dict_of kvs) \<longleftrightarrow> list_all (\<lambda>(k, _). P k) kvs"
proof -
  have "list_all (\<lambda>(k, _). P k) d \<longleftrightarrow> (\<forall>k \<in> fst ` set d. P k)" for d :: "('a \<times> 'b) list"
    by (induction d) auto
  then show ?thesis by (simp only: keys_dict_of)
qed

lemma raw_route_of_accepted:
  assumes "raw_slice_ok item"
  shows "SliceRoute_new (rr_route (raw_route_of available item)) = Inr (rr_route (raw_route_of available item))"
proof -
  let ?prev = "filter (\<lambda>n. n \<in> set available \<and> map_of (slots_of (gs_input_names item)) n = None) (gs_input_names item)"
  have "list_all (\<lambda>(k, _). k \<in> set ?prev) (map (\<lambda>n. (n, n)) ?prev)" by (simp add: list_all_iff)
  then have "list_all (\<lambda>(k, _). k \<in> set (gs_input_names item)) (map (\<lambda>n. (n, n)) ?prev)"
    "list_all (\<lambda>(k, _). map_of (slots_of (gs_input_names item)) k = None) (map (\<lambda>n. (n, n)) ?prev)"
    by (auto simp: list_all_iff)
  then have "keys_within (dict_of (map (\<lambda>n. (n, n)) ?prev)) (gs_input_names item)"
    "list_all (\<lambda>(k, _). map_of (slots_of (gs_input_names item)) k = None) (dict_of (map (\<lambda>n. (n, n)) ?prev))"
    unfolding keys_within_def by (simp_all only: list_all_dict_of_keys)
  moreover have "list_all (\<lambda>(_, name). name \<noteq> []) (gs_graph_names_by_ar item)"
    using assms by (auto simp: raw_slice_ok_def list_all_iff)
  ultimately show ?thesis
    using assms slots_of_within
    by (simp add: SliceRoute_new_def raw_route_of_def Let_def raw_slice_ok_def ensure_def)
qed

lemma raw_route_of_parses:
  assumes "raw_slice_ok item"
  shows "SliceRoute_from_object repr (raw_route_json (raw_route_of available item)) =
    Inr (rr_route (raw_route_of available item))"
proof -
  let ?r = "rr_route (raw_route_of available item)"
  have graphs: "distinct (map fst (sr_graph_names ?r))" "list_all (\<lambda>(ar, g). 0 \<le> ar \<and> g \<noteq> []) (sr_graph_names ?r)"
    using assms by (simp_all add: raw_slice_ok_def raw_route_of_def Let_def)
  have id: "sr_slice_id ?r \<noteq> []"
    using assms by (simp add: raw_slice_ok_def raw_route_of_def Let_def)
  have entries: "list_all (\<lambda>e. named_entry repr e \<noteq> None)
      (map (\<lambda>(k, v). (JStr k, JStr v)) d1 @ map (\<lambda>(k, v). (JStr k, JStr v)) d2 @ map (\<lambda>(k, v). (JStr k, JStr v)) d3)"
    for d1 d2 d3 :: "(string \<times> string) list"
    by (simp only: list_all_append named_entries_text_map)
  obtain r where r: "r = ?r" "SliceRoute_new r = Inr r" "sr_slice_id r \<noteq> []"
      "distinct (map fst (sr_graph_names r))" "list_all (\<lambda>(ar, g). 0 \<le> ar \<and> g \<noteq> []) (sr_graph_names r)"
    using raw_route_of_accepted [OF assms] id graphs by blast
  have same: "\<lparr>sr_slice_id = sr_slice_id r, sr_input_names = sr_input_names r, sr_output_names = sr_output_names r,
      sr_graph_names = sr_graph_names r, sr_from_previous = sr_from_previous r, sr_state_inputs = sr_state_inputs r,
      sr_state_outputs = sr_state_outputs r\<rparr> = r" by simp
  show ?thesis
    using r(2,3) entries [of "sr_from_previous r" "sr_state_inputs r" "sr_state_outputs r"]
    unfolding SliceRoute_from_object_def raw_route_json_def r(1) [symmetric]
    by (simp add: Let_def json_default_def py_dict_text_map named_entries_text_map(1) graphs_roundtrip [OF r(4,5)]
        dict_of_distinct [OF r(4)] ensure_def same del: list_all_append)
qed

lemma raw_routes_parse:
  "list_all raw_slice_ok items \<Longrightarrow>
   map_res (SliceRoute_from_object repr) (map raw_route_json (raw_routes available items)) =
     Inr (map rr_route (raw_routes available items))"
  by (induction items arbitrary: available) (simp_all add: raw_route_of_parses)

lemma raw_routes_ids: "map sr_slice_id (map rr_route (raw_routes available items)) = map gs_slice_id items"
  by (induction items arbitrary: available) (simp_all add: raw_route_of_def Let_def)

lemma raw_routes_wired:
  assumes "set available \<subseteq> set names"
    "list_all (\<lambda>item. map_of (gs_graph_names_by_ar item) ar \<noteq> None) items"
    "list_all (\<lambda>rr. set (rr_unresolved rr) \<subseteq> set names \<and> snd ` set (sr_state_inputs (rr_route rr)) \<subseteq> set slots)
       (raw_routes available items)"
  shows "wired ''device_chain'' ar teacher names slots (map rr_route (raw_routes available items))"
  using assms
proof (induction items arbitrary: available names slots)
  case (Cons item items)
  let ?rr = "raw_route_of available item"
  let ?r = "rr_route ?rr"
  have "input_ready ''device_chain'' (forced_for teacher ?r) names slots ?r n" if n: "n \<in> set (gs_input_names item)" for n
  proof (cases "map_of (sr_state_inputs ?r) n")
    case (Some slot)
    then have "slot \<in> snd ` set (sr_state_inputs ?r)" by (force dest: map_of_SomeD)
    with Cons.prems(3) Some show ?thesis by (auto simp: input_ready_def)
  next
    case None
    have "map_of (sr_from_previous ?r) n = Some m \<Longrightarrow> m \<in> set available" for m
      by (auto simp: raw_route_of_def Let_def dest!: map_of_SomeD)
    moreover have "map_of (sr_from_previous ?r) n = None \<Longrightarrow> n \<in> set (rr_unresolved ?rr)"
      using None n by (auto simp: raw_route_of_def Let_def)
    ultimately show ?thesis using None Cons.prems(1,3) by (auto simp: input_ready_def split: option.split)
  qed
  moreover have "wired ''device_chain'' ar teacher (names @ sr_output_names ?r @ map (qualified_name ?r) (sr_output_names ?r))
      (slots @ map snd (sr_state_outputs ?r)) (map rr_route (raw_routes (available @ gs_output_names item) items))"
  proof (rule Cons.IH)
    show "set (available @ gs_output_names item) \<subseteq>
        set (names @ sr_output_names ?r @ map (qualified_name ?r) (sr_output_names ?r))"
      using Cons.prems(1) by (auto simp: raw_route_of_def Let_def)
    show "list_all (\<lambda>item. map_of (gs_graph_names_by_ar item) ar \<noteq> None) items" using Cons.prems(2) by simp
    show "list_all (\<lambda>rr. set (rr_unresolved rr) \<subseteq>
          set (names @ sr_output_names ?r @ map (qualified_name ?r) (sr_output_names ?r)) \<and>
        snd ` set (sr_state_inputs (rr_route rr)) \<subseteq> set (slots @ map snd (sr_state_outputs ?r)))
        (raw_routes (available @ gs_output_names item) items)"
      using Cons.prems(3) by (auto simp only: list_all_iff raw_routes.simps set_append list.set intro: subset_trans)
  qed
  moreover have "sr_input_names ?r = gs_input_names item" "sr_graph_names ?r = gs_graph_names_by_ar item"
    by (simp_all add: raw_route_of_def Let_def)
  ultimately show ?case using Cons.prems(2) by (simp add: list_all_iff)
qed simp


lemma map_filter_text_keys:
  "List.map_filter (\<lambda>(k, x). case k of JStr s \<Rightarrow> Some (s, x) | _ \<Rightarrow> None) (map (\<lambda>(k, x). (JStr k, x)) d) = d"
  by (induction d) (auto simp: map_filter_simps)

lemma dict_or_empty_JObj [simp]: "dict_or_empty (JObj d) = Inr d"
  by (simp add: dict_or_empty_def py_dict_def map_filter_text_keys)

lemma dict_or_empty_JNull [simp]: "dict_or_empty JNull = Inr []"
  by (simp add: dict_or_empty_def)

lemma obj_or_empty_JObj [simp]: "obj_or_empty (JObj d) = Inr d" "obj_or_empty JNull = Inr []"
  by (simp_all add: obj_or_empty_def)

lemma list_or_empty_JList [simp]: "list_or_empty (JList xs) = Inr xs"
  by (simp add: list_or_empty_def)

lemma map_of_nested: "map_of (map (\<lambda>(k, e). (k, JObj e)) d) k = map_option JObj (map_of d k)"
  by (induction d) auto

definition objects_only :: "(string \<times> (string \<times> json) list) list \<Rightarrow> bool" where
  "objects_only d \<longleftrightarrow> (\<forall>k e k' v. map_of d k = Some e \<longrightarrow> map_of e k' = Some v \<longrightarrow> as_obj v \<noteq> None)"

lemma objects_only_put2: "objects_only d \<Longrightarrow> objects_only (dict_put2 k1 k2 (JObj v) d)"
  by (auto simp: objects_only_def dict_put2_def split: if_splits option.splits)

lemma variant_table_objects: "objects_only (variant_table env items)"
proof -
  have "objects_only d \<Longrightarrow> objects_only (foldl (\<lambda>d item.
      dict_put2 (int_str (mv_context_length item)) (int_str (mv_ar item)) (variant_entry env item) d) d items)" for d
    by (induction items arbitrary: d) (simp_all add: variant_entry_def objects_only_put2)
  from this [of "[]"] show ?thesis by (simp add: variant_table_def) (simp add: objects_only_def)
qed

lemma reference_model_total:
  assumes "map_of index ''variants'' = Some (nested_json (variant_table env items))"
  shows "\<exists>m. reference_model index cl_key ar_key = Inr m"
proof -
  let ?t = "variant_table env items"
  show ?thesis
  proof (cases "map_of ?t cl_key")
    case None
    then show ?thesis
      by (simp add: reference_model_def assms nested_json_def json_get_def map_of_nested)
  next
    case (Some e)
    then have obj: "map_of e ar_key = Some x \<Longrightarrow> as_obj x \<noteq> None" for x
      using variant_table_objects [of env items] by (auto simp: objects_only_def)
    show ?thesis
    proof (cases "map_of e ar_key")
      case None
      with Some show ?thesis by (simp add: reference_model_def assms nested_json_def json_get_def map_of_nested)
    next
      case (Some x)
      with obj obtain d where "x = JObj d" by (cases x) auto
      with Some \<open>map_of ?t cl_key = Some e\<close> show ?thesis
        by (simp add: reference_model_def assms nested_json_def json_get_def map_of_nested)
    qed
  qed
qed

text \<open>The names a chain needs from outside: unresolved inputs, and the slots of its state.\<close>

definition external_names :: "GenAIRawSliceArtifact list \<Rightarrow> string list" where
  "external_names items = concat (map rr_unresolved (raw_routes [] items))"

definition state_slots :: "GenAIRawSliceArtifact list \<Rightarrow> string list" where
  "state_slots items = concat (map (\<lambda>rr. map snd (sr_state_inputs (rr_route rr))) (raw_routes [] items))"

lemma raw_routes_have_graphs:
  "list_all (\<lambda>item. map_of (gs_graph_names_by_ar item) ar \<noteq> None) items \<Longrightarrow>
   map_res (genai_route_has_graph (int_str ar)) (map raw_route_json (raw_routes available items)) =
     Inr (map (\<lambda>_. ()) items)"
proof (induction items arbitrary: available)
  case (Cons item items)
  have graphs: "map_of (gs_graph_names_by_ar item) ar \<noteq> None" using Cons.prems by simp
  then obtain g where "(ar, g) \<in> set (gs_graph_names_by_ar item)" by (auto dest: map_of_SomeD)
  then have "int_str ar \<in> fst ` set (dict_of (map (\<lambda>(ar, g). (int_str ar, JStr g)) (gs_graph_names_by_ar item)))"
    unfolding keys_dict_of by force
  then have "map_of (dict_of (map (\<lambda>(ar, g). (int_str ar, JStr g)) (gs_graph_names_by_ar item))) (int_str ar) \<noteq> None"
    by (simp only: map_of_None_set set_map)
  then have "genai_route_has_graph (int_str ar) (raw_route_json (raw_route_of available item)) = Inr ()"
    by (simp add: genai_route_has_graph_def raw_route_json_def Let_def json_get_def graphs_json_def ensure_def
        raw_route_of_def del: map_of_dict_of)
  with Cons show ?case by simp
qed simp

lemma raw_routes_Nil [simp]: "raw_routes available items = [] \<longleftrightarrow> items = []"
  by (cases items) simp_all

lemma raw_contexts_Nil [simp]: "raw_contexts env items = [] \<longleftrightarrow> items = []"
proof -
  have "set (map fst (raw_contexts env items)) = gs_slice_id ` set items"
    unfolding raw_contexts_def set_map keys_dict_of by force
  then show ?thesis by (metis empty_set image_is_empty list.map_disc_iff set_empty)
qed

lemma genai_index_selects:
  assumes "make_runtime_index env load result iq = Inr index" "iq_lane iq = ''genai_builder''"
    "bo_raw_tensor_runtime_supported result" "bo_raw_slices result \<noteq> []"
    "list_all (\<lambda>item. map_of (gs_graph_names_by_ar item) ar \<noteq> None) (bo_raw_slices result)"
  shows "\<exists>binding nts contexts scope. select_runtime_binding env load index (Some ar) None None = Inr binding \<and>
    map_of binding ''tensor_runtime'' = Some (JObj [(''scope'', scope),
      (''routes'', JList (map raw_route_json (raw_routes [] (bo_raw_slices result)))), (''contexts'', contexts), (''notes'', nts)])"
proof -
  from assms(1) obtain ctx rts vs where index: "index = [(''schema'', JStr RUNTIME_INDEX_SCHEMA),
       (''lane'', JStr (iq_lane iq)), (''family'', JStr (iq_family iq)),
       (''runtime_supported'', JBool (iq_runtime_supported iq)),
       (''execution_contract'', JObj (execution_contract (iq_lane iq) (iq_family iq))),
       (''defaults'', JObj [(''ar'', JInt (iq_default_ar iq)), (''context_length'', JInt (iq_default_context_length iq))]),
       (''variants'', nested_json (variant_table env (bo_variants result))),
       (''transformed_slices'', JObj (map (\<lambda>(k, e). (k, nested_json e)) (transformed_table env (bo_transformed_slices result)))),
       (''component_models'', JObj (component_models env (iq_family iq) (bo_transformed_slices result))),
       (''contexts'', nested_json ctx),
       (''diagnostic_contexts'', JObj (map (\<lambda>(k, e). (k, JList e))
          (diagnostic_table env (iq_default_context_length iq) (bo_diagnostic_contexts result)))),
       (''routes'', JObj rts),
       (''vectors'', JObj [(''validation_manifest'', path_json env (iq_validation_manifest iq)),
          (''validation_manifests_by_ar'', JObj vs),
          (''reference_priority'', JStr ''exact_ar_golden_then_onnxruntime'')]),
       (''container_path'', path_json env (iq_container_path iq)),
       (''genai_tensor_runtime'', JObj [(''supported'', JBool (bo_raw_tensor_runtime_supported result)),
          (''notes'', JList (map JStr (bo_raw_tensor_runtime_notes result))),
          (''contexts'', JObj (raw_contexts env (bo_raw_slices result))),
          (''routes'', JList (map raw_route_json (raw_routes [] (bo_raw_slices result))))])]"
    by (auto simp: make_runtime_index_def res_simps)
  obtain m where m: "reference_model index (int_str (iq_default_context_length iq)) (int_str ar) = Inr m"
    using reference_model_total [of index env "bo_variants result"] index by auto
  have default_cl: "default_int index ''context_length'' None = Inr (iq_default_context_length iq)"
    "default_int index ''ar'' (Some ar) = Inr ar"
    by (simp_all add: default_int_def json_item_def index)
  have requested: "requested_component index None = Inr None"
    using assms(2) by (simp add: requested_component_def qwen3_vl_components_def json_get_def index Let_def)
  obtain binding where common: "common_binding index ar (iq_default_context_length iq) None = Inr binding"
      "map_of binding ''tensor_runtime'' = None"
    using m by (simp add: common_binding_def json_get_def json_item_def index Let_def)
  have lane: "json_get index ''lane'' = JStr ''genai_builder''" using assms(2) by (simp add: index json_get_def)
  have runtime: "genai_binding index (int_str ar) binding = Inr (binding @ [(''tensor_runtime'', JObj
      [(''scope'', JStr (if 1 < length (map raw_route_json (raw_routes [] (bo_raw_slices result))) then ''chain'' else ''graph'')),
       (''routes'', JList (map raw_route_json (raw_routes [] (bo_raw_slices result)))),
       (''contexts'', JObj (raw_contexts env (bo_raw_slices result))),
       (''notes'', JList (map JStr (bo_raw_tensor_runtime_notes result)))])])"
    using assms(3,4) raw_routes_have_graphs [OF assms(5), of "[]"]
    by (simp add: genai_binding_def json_get_def index ensure_def)
  show ?thesis
    using default_cl requested common lane runtime
    by (simp add: select_runtime_binding_def map_add_def)
qed

text \<open>
  C12. The tensor runtime a GenAI index publishes is executable: for every AR all its slices
  have, selecting a binding succeeds, the binding's routes are accepted by the chain runner, and
  with executors that answer, the chain runs to its end as soon as it is given the inputs the
  index lists as unresolved and a tensor in every state slot.
\<close>

theorem genai_index_runs:
  assumes "make_runtime_index env load result iq = Inr index" "iq_lane iq = ''genai_builder''"
    "bo_raw_tensor_runtime_supported result" "bo_raw_slices result \<noteq> []"
    "list_all raw_slice_ok (bo_raw_slices result)"
    "list_all (\<lambda>item. map_of (gs_graph_names_by_ar item) ar \<noteq> None) (bo_raw_slices result)"
    "SliceChainRunner_new (map rr_route (raw_routes [] (bo_raw_slices result))) executors = Inr cn" "answering cn"
    "set (external_names (bo_raw_slices result)) \<subseteq> set (map fst initial)"
    "set (state_slots (bo_raw_slices result)) \<subseteq> set (map fst native)"
  shows "\<exists>binding runtime. select_runtime_binding env load index (Some ar) None None = Inr binding \<and>
    map_of binding ''tensor_runtime'' = Some (JObj runtime) \<and>
    bind_res (py_iter (json_get runtime ''routes'')) (map_res (SliceRoute_from_object repr)) = Inr (cn_routes cn) \<and>
    (\<exists>v. fst (run_device_chain cn initial ar native w) = Val v)"
proof -
  let ?routes = "map rr_route (raw_routes [] (bo_raw_slices result))"
  obtain binding nts contexts scope where selected: "select_runtime_binding env load index (Some ar) None None = Inr binding"
    "map_of binding ''tensor_runtime'' = Some (JObj [(''scope'', scope),
      (''routes'', JList (map raw_route_json (raw_routes [] (bo_raw_slices result)))), (''contexts'', contexts), (''notes'', nts)])"
    using genai_index_selects [OF assms(1-4,6)] by blast
  have routes: "cn_routes cn = ?routes" using assms(7) by (auto simp: SliceChainRunner_new_def res_simps)
  have "list_all (\<lambda>rr. set (rr_unresolved rr) \<subseteq> set (map fst initial) \<and>
      snd ` set (sr_state_inputs (rr_route rr)) \<subseteq> set (map fst native)) (raw_routes [] (bo_raw_slices result))"
    unfolding list_all_iff
  proof (intro ballI conjI)
    fix rr
    assume rr: "rr \<in> set (raw_routes [] (bo_raw_slices result))"
    then have "set (rr_unresolved rr) \<subseteq> set (external_names (bo_raw_slices result))"
      by (auto simp: external_names_def)
    with assms(9) show "set (rr_unresolved rr) \<subseteq> set (map fst initial)" by (rule subset_trans [rotated])
    from rr have "set (map snd (sr_state_inputs (rr_route rr))) \<subseteq> set (state_slots (bo_raw_slices result))"
      unfolding state_slots_def by (metis (no_types, lifting) UN_upper image_eqI list.set_map set_concat)
    with assms(10) show "snd ` set (sr_state_inputs (rr_route rr)) \<subseteq> set (map fst native)"
      by (metis set_map subset_trans)
  qed
  then have wired: "wired ''device_chain'' ar teacher (map fst initial) (map fst native) (cn_routes cn)"
    for teacher :: "(string \<times> 'x tensors) list"
    unfolding routes by (intro raw_routes_wired) (use assms(6) in simp_all)
  have "\<exists>v. fst (run_once cn initial ar ''device_chain'' [] native 0 w) = Val v"
    using run_once_wired [OF assms(8) insertI1, of ar "[]" initial native 0 w] by (simp only: wired if_True)
  then have "\<exists>v. fst (run_device_chain cn initial ar native w) = Val v"
    by (auto simp: run_device_chain_def eff_bind_def eff_return_def split: prod.splits outcome.splits)
  with selected raw_routes_parse [OF assms(5), of repr "[]"] routes show ?thesis
    by (simp add: json_get_def)
qed


section \<open>A low-level index gives back its contexts\<close>

definition numbered_entry :: "path_env \<Rightarrow> string \<Rightarrow> nat \<times> CompiledContextArtifact \<Rightarrow> string \<times> json" where
  "numbered_entry env family = (\<lambda>(n, it). (context_name n it, context_entry env family n it))"

definition entries_for ::
  "path_env \<Rightarrow> string \<Rightarrow> int \<Rightarrow> string \<Rightarrow> (nat \<times> CompiledContextArtifact) list \<Rightarrow> (string \<times> json) list" where
  "entries_for env family default_cl k items =
     map (numbered_entry env family) (filter (\<lambda>(n, it). context_key default_cl it = k) items)"

definition or_empty :: "'a list option \<Rightarrow> 'a list" where
  "or_empty e = (case e of None \<Rightarrow> [] | Some xs \<Rightarrow> xs)"

lemma context_table_entries:
  assumes "context_table env family default_cl n items d = Inr d'"
    "\<And>k. distinct (map fst (or_empty (map_of d k) @ entries_for env family default_cl k (enumerate n items)))"
  shows "or_empty (map_of d' k) = or_empty (map_of d k) @ entries_for env family default_cl k (enumerate n items)"
  using assms
proof (induction items arbitrary: n d)
  case Nil
  then show ?case by (simp add: entries_for_def)
next
  case (Cons it items)
  let ?k = "context_key default_cl it"
  let ?d = "dict_put2 ?k (context_name n it) (context_entry env family n it) d"
  have head: "entries_for env family default_cl k (enumerate n (it # items)) =
      (if ?k = k then [(context_name n it, context_entry env family n it)] else []) @
      entries_for env family default_cl k (enumerate (Suc n) items)" for k
    by (simp add: entries_for_def numbered_entry_def)
  have "context_name n it \<notin> fst ` set (or_empty (map_of d ?k))"
    using Cons.prems(2) [of ?k] unfolding head by auto
  then have put: "or_empty (map_of ?d k) = or_empty (map_of d k) @
      (if ?k = k then [(context_name n it, context_entry env family n it)] else [])" for k
    by (auto simp: dict_put2_def or_empty_def dict_set_fresh split: option.splits)
  have "or_empty (map_of d' k) = or_empty (map_of ?d k) @ entries_for env family default_cl k (enumerate (Suc n) items)"
  proof (rule Cons.IH)
    show "context_table env family default_cl (Suc n) items ?d = Inr d'"
      using Cons.prems(1) by (simp split: if_splits)
    show "distinct (map fst (or_empty (map_of ?d k) @ entries_for env family default_cl k (enumerate (Suc n) items)))" for k
      using Cons.prems(2) [of k] unfolding put head by (simp only: append_assoc)
  qed
  then show ?case unfolding put head by simp
qed

lemma graph_context_entry:
  assumes "list_all (\<lambda>a. 0 \<le> a) (cc_ar_values it)" "length (cc_ar_values it) = length (cc_graph_names it)" "0 \<le> ar"
    "as_obj (context_entry env family n it) = Some c"
  shows "graph_context (int_str ar) c = Inr (ar \<in> set (cc_ar_values it))"
proof -
  let ?graphs = "map (\<lambda>(ar, g). (int_str ar, JStr g)) (zip (cc_ar_values it) (cc_graph_names it))"
  have "json_get c ''graphs_by_ar'' = JObj (dict_of ?graphs)"
    using assms(4) by (auto simp: context_entry_def graphs_json_def json_get_def)
  moreover have "map_of (dict_of ?graphs) (int_str ar) \<noteq> None \<longleftrightarrow> ar \<in> set (cc_ar_values it)"
  proof -
    have "fst ` set ?graphs = int_str ` fst ` set (zip (cc_ar_values it) (cc_graph_names it))" by force
    also have "fst ` set (zip (cc_ar_values it) (cc_graph_names it)) = set (cc_ar_values it)"
      using assms(2) by (metis map_fst_zip set_map)
    finally have "set (map fst (dict_of ?graphs)) = int_str ` set (cc_ar_values it)" by (simp only: set_map keys_dict_of)
    moreover have "int_str ar \<in> int_str ` set (cc_ar_values it) \<longleftrightarrow> ar \<in> set (cc_ar_values it)"
      using assms(1,3) int_str_inject by (fastforce simp: list_all_iff)
    ultimately show ?thesis by (simp only: map_of_None_set)
  qed
  ultimately show ?thesis by (simp only: graph_context_def dict_or_empty_JObj bind_res.simps)
qed

lemma context_table_lengths:
  "context_table env family default_cl n items d = Inr d' \<Longrightarrow>
   list_all (\<lambda>it. length (cc_ar_values it) = length (cc_graph_names it)) items"
  by (induction items arbitrary: n d) (auto split: if_splits)

lemma candidates_of_entries:
  assumes "list_all (\<lambda>(n, it). list_all (\<lambda>a. 0 \<le> a) (cc_ar_values it) \<and>
      length (cc_ar_values it) = length (cc_graph_names it)) items" "0 \<le> ar"
  shows "context_candidates (graph_context (int_str ar)) (map (numbered_entry env family) items) =
    Inr (map (\<lambda>(n, it). (context_name n it, the (as_obj (context_entry env family n it))))
      (filter (\<lambda>(n, it). ar \<in> set (cc_ar_values it)) items))"
  using assms(1)
proof (induction items)
  case (Cons x items)
  obtain n it where x: "x = (n, it)" by (cases x)
  obtain c where c: "as_obj (context_entry env family n it) = Some c" by (simp add: context_entry_def)
  have "graph_context (int_str ar) c = Inr (ar \<in> set (cc_ar_values it))"
    using graph_context_entry [OF _ _ assms(2) c] Cons.prems x by auto
  with Cons c x show ?case
    by (auto simp: context_candidates_def numbered_entry_def res_simps)
qed (simp add: context_candidates_def)

lemma single_graph_of_context:
  assumes "contexts_for index cl_key = Inr (map (numbered_entry env family) items)"
    "list_all (\<lambda>(n, it). list_all (\<lambda>a. 0 \<le> a) (cc_ar_values it) \<and> length (cc_ar_values it) = length (cc_graph_names it)) items"
    "0 \<le> ar" "filter (\<lambda>(n, it). ar \<in> set (cc_ar_values it)) items = [(i, item)]"
    "distinct (cc_ar_values item)" "map_of (zip (cc_ar_values item) (cc_graph_names item)) ar = Some g"
  shows "\<exists>b. single_graph_binding index cl_key (int_str ar) binding = Inr b \<and>
    map_of b ''context_path'' = Some (JStr (real_path env (cc_context_binary_path item))) \<and>
    map_of b ''graph_name'' = Some (JStr g)"
proof -
  let ?graphs = "map (\<lambda>(ar, g). (int_str ar, JStr g)) (zip (cc_ar_values item) (cc_graph_names item))"
  have nonneg: "list_all (\<lambda>(a, g). 0 \<le> a) (zip (cc_ar_values item) (cc_graph_names item))"
    using assms(2,4) by (force simp: list_all_iff dest: set_zip_leftD filter_eq_ConsD)
  have "(int_str ar, JStr g) \<in> set ?graphs" using assms(6) by (force dest: map_of_SomeD)
  have names: "map fst ?graphs = map int_str (map fst (zip (cc_ar_values item) (cc_graph_names item)))"
    by (simp add: case_prod_beta)
  have "inj_on int_str (set (map fst (zip (cc_ar_values item) (cc_graph_names item))))"
    using nonneg by (intro inj_int_str) (auto simp: list_all_iff)
  moreover have "distinct (map fst (zip (cc_ar_values item) (cc_graph_names item)))"
    using assms(5) by (simp only: map_fst_zip_take distinct_take)
  ultimately have "distinct (map fst ?graphs)" unfolding names by (simp only: distinct_map [of int_str])
  with \<open>(int_str ar, JStr g) \<in> set ?graphs\<close>
  have graph: "map_of (dict_of ?graphs) (int_str ar) = Some (JStr g)"
    by (simp only: dict_of_distinct map_of_is_SomeI)
  have "context_candidates (graph_context (int_str ar)) (map (numbered_entry env family) items) =
      Inr [(context_name i item, the (as_obj (context_entry env family i item)))]"
    using candidates_of_entries [OF assms(2,3)] assms(4) by simp
  with assms(1) graph show ?thesis
    by (simp add: single_graph_binding_def the_only_def context_entry_def graphs_json_def json_item_def map_of_dict_update
        map_add_def path_json_def del: map_of_dict_of)
qed

lemma filter_entries:
  "filter (\<lambda>(n, it). ar \<in> set (cc_ar_values it)) (filter (\<lambda>(n, it). context_key default_cl it = k) items) =
   filter (\<lambda>(n, it). context_key default_cl it = k \<and> ar \<in> set (cc_ar_values it)) items"
  by (induction items) auto


section \<open>A Qwen3-VL index is never executed end to end\<close>

lemma common_binding_component:
  "common_binding index ar cl (Some c) = Inr b \<Longrightarrow> map_of b ''component'' = Some (JStr c)"
  by (auto simp: common_binding_def res_simps Let_def map_add_def)

lemma vision_binding_Inr:
  "vision_binding index cl_key binding = Inr b \<Longrightarrow> map_of b ''component'' = map_of binding ''component'' \<and>
   map_of b ''vector_manifest'' = Some JNull \<and> map_of b ''coverage'' = Some (JStr ''vision_only'')"
  by (auto simp: vision_binding_def res_simps map_of_dict_update map_add_def the_only_Inr split: prod.splits)

lemma single_graph_binding_component:
  "single_graph_binding index cl_key ar_key binding = Inr b \<Longrightarrow> map_of b ''component'' = map_of binding ''component''"
  by (auto simp: single_graph_binding_def res_simps map_of_dict_update map_add_def the_only_Inr split: prod.splits option.splits)

lemma route_binding_component:
  assumes "route_binding env load ar_key (Some ''text'') v binding = Inr b"
  shows "map_of b ''component'' = Some (JStr ''text'')"
proof -
  from assms obtain entry scope excluded where "json_get entry ''component'' = JStr ''text''"
    and b: "b = dict_update (dict_update binding scope)
      [(''component'', json_get_or entry ''component'' (JStr ''model'')),
       (''coverage'', json_get_or entry ''coverage'' (JStr ''full_model'')), (''excluded_components'', JList excluded)]"
    by (auto simp: route_binding_def res_simps Let_def split: option.splits)
  then show ?thesis by (simp add: json_get_def json_get_or_def split: option.splits)
qed

text \<open>
  A binding of a Qwen3-VL index always names one component, the one asked for: without a
  component, or with any other, nothing is bound, and the vision component never gets the
  vectors of the text graph.
\<close>

theorem vl_binding_is_one_component:
  assumes "qwen3_vl_components index" "select_runtime_binding env load index given_ar given_cl component = Inr b"
  shows "\<exists>c. map_option (\<lambda>c. py_lower (py_strip c)) component = Some c \<and> c \<in> {''text'', ''vision''} \<and>
    map_of b ''component'' = Some (JStr c) \<and>
    (if c = ''vision'' then map_of b ''vector_manifest'' = Some JNull \<and> map_of b ''coverage'' = Some (JStr ''vision_only'')
     else True)"
proof -
  let ?requested = "map_option (\<lambda>c. py_lower (py_strip c)) component"
  from assms(2) obtain ar cl requested binding where requested: "requested_component index component = Inr requested"
    and common: "common_binding index ar cl requested = Inr binding"
    and rest: "(if json_get index ''lane'' = JStr ''genai_builder'' then genai_binding index (int_str ar) binding
       else if requested = Some ''vision'' then vision_binding index (int_str cl) binding
       else bind_res (obj_or_empty (json_get index ''routes'')) (\<lambda>routes. case json_get routes (int_str cl) of
           JNull \<Rightarrow> single_graph_binding index (int_str cl) (int_str ar) binding
         | entry \<Rightarrow> route_binding env load (int_str ar) requested entry binding)) = Inr b"
    unfolding select_runtime_binding_def bind_res_Inr by blast
  from requested assms(1) obtain c where c: "requested = Some c" "?requested = Some c" "c \<in> {''text'', ''vision''}"
    by (auto simp: requested_component_def res_simps Let_def)
  have lane: "json_get index ''lane'' \<noteq> JStr ''genai_builder''" using assms(1) by (simp add: qwen3_vl_components_def)
  have named: "map_of binding ''component'' = Some (JStr c)" using common c(1) by (simp add: common_binding_component)
  show ?thesis
  proof (cases "c = ''vision''")
    case True
    with rest lane c(1) have "vision_binding index (int_str cl) binding = Inr b" by simp
    with vision_binding_Inr named c True show ?thesis by fastforce
  next
    case False
    with rest lane c obtain routes where "(case json_get routes (int_str cl) of
           JNull \<Rightarrow> single_graph_binding index (int_str cl) (int_str ar) binding
         | entry \<Rightarrow> route_binding env load (int_str ar) (Some ''text'') entry binding) = Inr b"
      by (auto simp: res_simps)
    then have "map_of b ''component'' = Some (JStr c)"
      using named c(3) False
      by (auto split: json.splits dest: single_graph_binding_component route_binding_component)
    with c False show ?thesis by auto
  qed
qed

end
