(* ===== verification/RuntimeWitness.thy ===== *)
theory RuntimeWitness
  imports RuntimeProps
begin

text \<open>Published indexes on which the properties of the runtime index are applied.\<close>

definition demo_env :: path_env where
  "demo_env = \<lparr>pe_cwd = ''/w'', pe_home = ''/h'', pe_repr = (\<lambda>_. [])\<rparr>"

definition demo_load :: json_loader where
  "demo_load p = Inl (PyExn ''OSError'' [])"

section \<open>A GenAI container of two slices\<close>

definition demo_slices :: "GenAIRawSliceArtifact list" where
  "demo_slices =
    [\<lparr>gs_slice_id = ''a'', gs_context_binary_path = ''a.bin'', gs_graph_names_by_ar = [(1, ''g1'')],
      gs_input_names = [''ids'', ''past_key_0_in''], gs_output_names = [''hidden'', ''past_key_0_out'']\<rparr>,
     \<lparr>gs_slice_id = ''b'', gs_context_binary_path = ''b.bin'', gs_graph_names_by_ar = [(1, ''g2'')],
      gs_input_names = [''hidden''], gs_output_names = [''logits'']\<rparr>]"

definition demo_genai :: build_output where
  "demo_genai = \<lparr>bo_variants = [], bo_transformed_slices = [], bo_contexts = [], bo_diagnostic_contexts = [],
     bo_raw_slices = demo_slices, bo_raw_tensor_runtime_supported = True, bo_raw_tensor_runtime_notes = []\<rparr>"

definition demo_request :: "string \<Rightarrow> string \<Rightarrow> index_request" where
  "demo_request lane family = \<lparr>iq_lane = lane, iq_family = family, iq_default_ar = 1, iq_default_context_length = 512,
     iq_route_artifacts = [], iq_validation_manifest = None, iq_validation_manifests_by_ar = [],
     iq_runtime_supported = True, iq_container_path = None\<rparr>"

definition demo_answer :: "string list \<Rightarrow> (unit, int) SliceExecutor" where
  "demo_answer names = (\<lambda>inputs iv. eff_return (Some (map (\<lambda>n. (n, 7)) names)))"

definition demo_genai_chain :: "(unit, int) SliceChainRunner" where
  "demo_genai_chain = \<lparr>cn_routes = map rr_route (raw_routes [] demo_slices),
     cn_executors = [(''a'', Some (demo_answer [''hidden'', ''past_key_0_out''])), (''b'', Some (demo_answer [''logits'']))]\<rparr>"

lemma demo_routes:
  "map rr_route (raw_routes [] demo_slices) =
    [\<lparr>sr_slice_id = ''a'', sr_input_names = [''ids'', ''past_key_0_in''], sr_output_names = [''hidden'', ''past_key_0_out''],
      sr_graph_names = [(1, ''g1'')], sr_from_previous = [], sr_state_inputs = [(''past_key_0_in'', ''key_0'')],
      sr_state_outputs = [(''past_key_0_out'', ''key_0'')]\<rparr>,
     \<lparr>sr_slice_id = ''b'', sr_input_names = [''hidden''], sr_output_names = [''logits''], sr_graph_names = [(1, ''g2'')],
      sr_from_previous = [(''hidden'', ''hidden'')], sr_state_inputs = [], sr_state_outputs = []\<rparr>]"
  by code_simp

lemma demo_genai_answering: "answering demo_genai_chain"
  unfolding answering_def demo_genai_chain_def demo_routes
  by (auto simp: answers_def demo_answer_def eff_return_def SliceRoute_new_def keys_within_def ensure_def)

theorem genai_index_runs_witness:
  "\<exists>index binding runtime.
     make_runtime_index demo_env demo_load demo_genai (demo_request ''genai_builder'' ''qwen3_5'') = Inr index \<and>
     select_runtime_binding demo_env demo_load index (Some 1) None None = Inr binding \<and>
     map_of binding ''tensor_runtime'' = Some (JObj runtime) \<and>
     (\<exists>v. fst (run_device_chain demo_genai_chain [(''ids'', 3)] 1 [(''key_0'', 5)] ()) = Val v)"
proof -
  obtain index where index: "make_runtime_index demo_env demo_load demo_genai (demo_request ''genai_builder'' ''qwen3_5'') = Inr index"
    by (simp add: make_runtime_index_def demo_genai_def demo_request_def route_table_def vector_map_def)
  have ok: "list_all raw_slice_ok demo_slices" by (simp add: demo_slices_def raw_slice_ok_def)
  have ars: "list_all (\<lambda>item. map_of (gs_graph_names_by_ar item) 1 \<noteq> None) demo_slices" by (simp add: demo_slices_def)
  have runner: "SliceChainRunner_new (map rr_route (raw_routes [] demo_slices)) (cn_executors demo_genai_chain) = Inr demo_genai_chain"
    unfolding demo_genai_chain_def demo_routes by (simp add: SliceChainRunner_new_def ensure_def)
  have names: "external_names demo_slices = [''ids'']" "state_slots demo_slices = [''key_0'']" by code_simp+
  have "\<exists>binding runtime. select_runtime_binding demo_env demo_load index (Some 1) None None = Inr binding \<and>
      map_of binding ''tensor_runtime'' = Some (JObj runtime) \<and>
      bind_res (py_iter (json_get runtime ''routes'')) (map_res (SliceRoute_from_object (\<lambda>_. []))) = Inr (cn_routes demo_genai_chain) \<and>
      (\<exists>v. fst (run_device_chain demo_genai_chain [(''ids'', 3)] 1 [(''key_0'', 5)] ()) = Val v)"
    by (rule genai_index_runs [OF index _ _ _ _ _ _ demo_genai_answering])
      (use ok ars runner names in \<open>simp_all add: demo_genai_def demo_request_def demo_slices_def\<close>)
  with index show ?thesis by blast
qed

section \<open>A low-level build\<close>

definition demo_context :: "string \<Rightarrow> int list \<Rightarrow> string list \<Rightarrow> CompiledContextArtifact" where
  "demo_context name ars graphs = \<lparr>cc_context_binary_path = name @ ''.bin'', cc_slice_name = Some name,
     cc_graph_names = graphs, cc_ar_values = ars, cc_target_soc = ''SM8750'', cc_dsp_arch = ''v79'', cc_soc_model = 69,
     cc_weight_sharing = True, cc_native_kv_config_path = None, cc_context_length = Some 512\<rparr>"

definition demo_build :: build_output where
  "demo_build = \<lparr>bo_variants = [], bo_transformed_slices = [],
     bo_contexts = [demo_context ''s0'' [1, 128] [''ar1'', ''ar128''], demo_context ''s1'' [64] [''ar64'']],
     bo_diagnostic_contexts = [], bo_raw_slices = [], bo_raw_tensor_runtime_supported = False,
     bo_raw_tensor_runtime_notes = []\<rparr>"


section \<open>A Qwen3-VL build\<close>

definition demo_vl_build :: build_output where
  "demo_vl_build = demo_build\<lparr>
     bo_transformed_slices := [\<lparr>ts_slice_name = ''vision_projector'', ts_split_index = 0, ts_model_path = ''v.onnx'',
       ts_encodings_path = None, ts_ar = None, ts_context_length = None, ts_external_data_paths = []\<rparr>],
     bo_contexts := [demo_context ''vision_projector'' [1] [''vision'']]\<rparr>"

definition demo_vl_index :: "(string \<times> json) list" where
  "demo_vl_index = (case make_runtime_index demo_env demo_load demo_vl_build (demo_request ''low_level'' ''qwen3_vl'') of
     Inr i \<Rightarrow> i | Inl _ \<Rightarrow> [])"

theorem vl_binding_is_one_component_witness:
  "\<exists>b. select_runtime_binding demo_env demo_load demo_vl_index (Some 1) (Some 512) (Some '' Vision '') = Inr b \<and>
     map_of b ''component'' = Some (JStr ''vision'') \<and> map_of b ''vector_manifest'' = Some JNull"
proof -
  have vl: "qwen3_vl_components demo_vl_index" by code_simp
  have "is_ok (select_runtime_binding demo_env demo_load demo_vl_index (Some 1) (Some 512) (Some '' Vision ''))"
    by code_simp
  then obtain b where b: "select_runtime_binding demo_env demo_load demo_vl_index (Some 1) (Some 512) (Some '' Vision '') = Inr b"
    by (auto simp: is_ok_iff)
  have "py_lower (py_strip '' Vision '') = ''vision''" by code_simp
  with vl_binding_is_one_component [OF vl b] b show ?thesis by auto
qed

end
