(* ===== verification/FamilyRegistry.thy ===== *)
theory FamilyRegistry
  imports Errors
begin

text \<open>
  \<open>src/qairt_agent/family_registry.py\<close> and the family enum of
  \<open>src/qairt_agent/contracts.py\<close>: the family records, the normalizations of a spelling,
  the lookups derived from the records, and the agreement of the two resolvers.
\<close>

record FamilyRecord =
  fr_key :: string
  fr_model_family :: string
  fr_profile_id :: "string option"
  fr_preset_ids :: "string list"
  fr_canonical_name :: string
  fr_aliases :: "string list"
  fr_retarget_allowed :: bool
  fr_kv_state :: bool
  fr_allowed_ars :: "int list option"
  fr_has_decoder_lane :: bool
  fr_has_vision_component :: bool
  fr_has_audio_component :: bool
  fr_requires_derivation_evidence :: bool

text \<open>Canonical name and aliases, deduplicated in order.\<close>

definition spellings :: "FamilyRecord \<Rightarrow> string list" where
  "spellings r = dedup (fr_canonical_name r # fr_aliases r)"

definition FAMILY_RECORDS :: "FamilyRecord list" where
  "FAMILY_RECORDS =
   [\<lparr>fr_key = ''qwen3_dense'', fr_model_family = ''qwen3'', fr_profile_id = Some ''qwen3'',
     fr_preset_ids = [''qwen3_dense''], fr_canonical_name = ''qwen3'',
     fr_aliases = [''qwen3-dense'', ''qwen3_dense'', ''qwen_3'', ''qwen3-4b'', ''qwen3_4b''],
     fr_retarget_allowed = True, fr_kv_state = True, fr_allowed_ars = None,
     fr_has_decoder_lane = True, fr_has_vision_component = False,
     fr_has_audio_component = False, fr_requires_derivation_evidence = False\<rparr>,
    \<lparr>fr_key = ''qwen3_moe'', fr_model_family = ''qwen3_moe'', fr_profile_id = Some ''qwen3-moe'',
     fr_preset_ids = [''qwen3_moe''], fr_canonical_name = ''qwen3-moe'',
     fr_aliases = [''qwen3_moe'', ''qwen3moe''],
     fr_retarget_allowed = True, fr_kv_state = True, fr_allowed_ars = None,
     fr_has_decoder_lane = True, fr_has_vision_component = False,
     fr_has_audio_component = False, fr_requires_derivation_evidence = False\<rparr>,
    \<lparr>fr_key = ''qwen3_vl'', fr_model_family = ''qwen3_vl'', fr_profile_id = Some ''qwen3-vl'',
     fr_preset_ids = [''qwen3_vl''], fr_canonical_name = ''qwen3-vl'',
     fr_aliases = [''qwen3_vl'', ''qwen3vl''],
     fr_retarget_allowed = True, fr_kv_state = True, fr_allowed_ars = None,
     fr_has_decoder_lane = True, fr_has_vision_component = True,
     fr_has_audio_component = False, fr_requires_derivation_evidence = False\<rparr>,
    \<lparr>fr_key = ''qwen3_5'', fr_model_family = ''qwen3_5'', fr_profile_id = Some ''qwen3.5'',
     fr_preset_ids = [''qwen3_5''], fr_canonical_name = ''qwen3.5'',
     fr_aliases = [''qwen3-5'', ''qwen35'', ''qwen3_5''],
     fr_retarget_allowed = False, fr_kv_state = True, fr_allowed_ars = Some [1, 128],
     fr_has_decoder_lane = True, fr_has_vision_component = False,
     fr_has_audio_component = False, fr_requires_derivation_evidence = True\<rparr>,
    \<lparr>fr_key = ''qwen3_5_omni_thinker'', fr_model_family = ''qwen3_5'',
     fr_profile_id = Some ''qwen3.5'',
     fr_preset_ids = [''qwen3_5_omni_thinker''], fr_canonical_name = ''qwen3.5-omni-thinker'',
     fr_aliases = [''qwen3-5-omni-thinker'', ''qwen35-omni-thinker'', ''qwen3_5_omni_thinker''],
     fr_retarget_allowed = False, fr_kv_state = True, fr_allowed_ars = Some [1, 128],
     fr_has_decoder_lane = True, fr_has_vision_component = False,
     fr_has_audio_component = False, fr_requires_derivation_evidence = False\<rparr>,
    \<lparr>fr_key = ''qwen3_5_omni'', fr_model_family = ''qwen3_5_omni'',
     fr_profile_id = Some ''qwen3.5-omni'',
     fr_preset_ids = [''qwen3_5_omni''], fr_canonical_name = ''qwen3.5-omni'',
     fr_aliases = [''qwen3-5-omni'', ''qwen35-omni'', ''qwen3_5_omni''],
     fr_retarget_allowed = False, fr_kv_state = True, fr_allowed_ars = Some [1, 128],
     fr_has_decoder_lane = True, fr_has_vision_component = False,
     fr_has_audio_component = True, fr_requires_derivation_evidence = False\<rparr>,
    \<lparr>fr_key = ''vit'', fr_model_family = ''vit'', fr_profile_id = None,
     fr_preset_ids = [''vit''], fr_canonical_name = ''vit'',
     fr_aliases = [''vision-transformer'', ''vision_transformer''],
     fr_retarget_allowed = True, fr_kv_state = False, fr_allowed_ars = Some [1],
     fr_has_decoder_lane = False, fr_has_vision_component = False,
     fr_has_audio_component = False, fr_requires_derivation_evidence = False\<rparr>]"

text \<open>Dict comprehensions keep the last record of a key.\<close>

definition FAMILY_BY_KEY :: "string \<rightharpoonup> FamilyRecord" where
  "FAMILY_BY_KEY = map_of (rev (map (\<lambda>r. (fr_key r, r)) FAMILY_RECORDS))"

definition PRESET_TO_RECORD :: "string \<rightharpoonup> FamilyRecord" where
  "PRESET_TO_RECORD =
     map_of (rev (concat (map (\<lambda>r. map (\<lambda>p. (p, r)) (fr_preset_ids r)) FAMILY_RECORDS)))"

definition separator_char :: "char \<Rightarrow> bool" where
  "separator_char c \<longleftrightarrow> c = CHR ''-'' \<or> c = CHR ''_'' \<or> c = CHR ''.'' \<or> py_isspace_char c"

definition collapsed :: "string \<Rightarrow> string" where
  "collapsed v = filter (\<lambda>c. \<not> separator_char c) (py_lower (py_strip v))"

definition hyphenated :: "string \<Rightarrow> string" where
  "hyphenated v = py_replace_char (CHR ''_'') (CHR ''-'') (py_lower (py_strip v))"

definition aliases_for_profile :: "string \<Rightarrow> string list" where
  "aliases_for_profile profile_id =
     dedup (concat (map spellings (filter (\<lambda>r. fr_profile_id r = Some profile_id) FAMILY_RECORDS)))"

text \<open>The argument is the text \<open>str(getattr(value, "value", value))\<close>.\<close>

fun resolve_in :: "FamilyRecord list \<Rightarrow> string \<Rightarrow> FamilyRecord option" where
  "resolve_in [] raw = None"
| "resolve_in (r # rs) raw =
     (if list_ex (\<lambda>s. collapsed s = collapsed raw \<or> hyphenated s = hyphenated raw) (spellings r)
      then Some r else resolve_in rs raw)"

definition resolve :: "string \<Rightarrow> FamilyRecord option" where
  "resolve raw = resolve_in FAMILY_RECORDS raw"

definition record_for :: "string \<Rightarrow> exn + FamilyRecord" where
  "record_for family = (case resolve family of None \<Rightarrow> Inl value_error | Some r \<Rightarrow> Inr r)"

definition has_decoder_lane :: "string \<Rightarrow> exn + bool" where
  "has_decoder_lane family = bind_res (record_for family) (\<lambda>r. Inr (fr_has_decoder_lane r))"

definition has_vision_component :: "string \<Rightarrow> exn + bool" where
  "has_vision_component family = bind_res (record_for family) (\<lambda>r. Inr (fr_has_vision_component r))"

definition has_audio_component :: "string \<Rightarrow> exn + bool" where
  "has_audio_component family = bind_res (record_for family) (\<lambda>r. Inr (fr_has_audio_component r))"

definition requires_derivation_evidence :: "string \<Rightarrow> int \<Rightarrow> exn + bool" where
  "requires_derivation_evidence family ar_count =
     bind_res (record_for family) (\<lambda>r. Inr (fr_requires_derivation_evidence r \<and> ar_count > 1))"

section \<open>The family enum of the contracts\<close>

datatype ModelFamily = QWEN3_DENSE | QWEN3_MOE | QWEN3_VL | QWEN3_5 | QWEN3_5_OMNI | VIT

fun family_value :: "ModelFamily \<Rightarrow> string" where
  "family_value QWEN3_DENSE = ''qwen3''"
| "family_value QWEN3_MOE = ''qwen3_moe''"
| "family_value QWEN3_VL = ''qwen3_vl''"
| "family_value QWEN3_5 = ''qwen3_5''"
| "family_value QWEN3_5_OMNI = ''qwen3_5_omni''"
| "family_value VIT = ''vit''"

definition all_families :: "ModelFamily list" where
  "all_families = [QWEN3_DENSE, QWEN3_MOE, QWEN3_VL, QWEN3_5, QWEN3_5_OMNI, VIT]"

definition family_of_value :: "string \<Rightarrow> ModelFamily option" where
  "family_of_value v = List.find (\<lambda>f. family_value f = v) all_families"

definition fold_spelling :: "string \<Rightarrow> string" where
  "fold_spelling s = py_replace_char (CHR ''.'') (CHR ''_'')
     (py_replace_char (CHR ''-'') (CHR ''_'') (py_lower s))"

text \<open>\<open>ModelFamily._missing_\<close> on a string; \<open>None\<close> also where the enum lookup itself fails.\<close>

fun missing_in :: "FamilyRecord list \<Rightarrow> string \<Rightarrow> ModelFamily option" where
  "missing_in [] v = None"
| "missing_in (r # rs) v =
     (if list_ex (\<lambda>s. fold_spelling s = fold_spelling v) (spellings r)
      then family_of_value (fr_model_family r) else missing_in rs v)"

definition ModelFamily_of :: "string \<Rightarrow> ModelFamily option" where
  "ModelFamily_of v = (case family_of_value v of Some f \<Rightarrow> Some f | None \<Rightarrow> missing_in FAMILY_RECORDS v)"

definition FAMILY_TO_PRESET :: "ModelFamily \<rightharpoonup> string" where
  "FAMILY_TO_PRESET = (\<lambda>f. map_of (rev (map (\<lambda>r. (fr_model_family r, hd (fr_preset_ids r)))
     (filter (\<lambda>r. fr_key r = fr_model_family r \<or>
        fr_model_family r \<notin> set (map fr_key FAMILY_RECORDS)) FAMILY_RECORDS))) (family_value f))"

section \<open>Facts\<close>

lemma collapsed_hyphenated: "hyphenated a = hyphenated b \<Longrightarrow> collapsed a = collapsed b"
proof -
  have "collapsed v = filter (\<lambda>c. \<not> separator_char c) (hyphenated v)" for v
  proof -
    have "filter (\<lambda>c. \<not> separator_char c) (py_replace_char (CHR ''_'') (CHR ''-'') s) =
        filter (\<lambda>c. \<not> separator_char c) s" for s
      by (induction s) (auto simp: py_replace_char_def separator_char_def)
    then show ?thesis by (simp add: collapsed_def hyphenated_def)
  qed
  then show "hyphenated a = hyphenated b \<Longrightarrow> collapsed a = collapsed b" by simp
qed

lemma resolve_in_collapsed:
  "resolve_in rs raw =
     List.find (\<lambda>r. list_ex (\<lambda>s. collapsed s = collapsed raw) (spellings r)) rs"
proof -
  have "collapsed s = collapsed raw \<or> hyphenated s = hyphenated raw \<longleftrightarrow>
      collapsed s = collapsed raw" for s
    using collapsed_hyphenated [of s raw] by blast
  then show ?thesis by (induction rs) simp_all
qed

text \<open>
  Resolution ignores case and separators: two texts that agree once lower-cased,
  stripped and with hyphens, underscores, dots and whitespace removed resolve to the same
  record or both to none. (The hyphenated comparison never decides on its own.)
\<close>

theorem resolve_separator_insensitive:
  assumes "collapsed v = collapsed w"
  shows "resolve v = resolve w \<and> record_for v = record_for w"
  using assms by (simp add: resolve_def record_for_def resolve_in_collapsed)

theorem resolve_separator_insensitive_witness:
  "resolve '' Qwen 3.5_OMNI'' = resolve ''qwen35-omni'' \<and>
   record_for '' Qwen 3.5_OMNI'' = record_for ''qwen35-omni''"
proof -
  have "collapsed '' Qwen 3.5_OMNI'' = collapsed ''qwen35-omni''" by code_simp
  then show ?thesis by (rule resolve_separator_insensitive)
qed

lemma filter_separator_replace:
  "separator_char a \<Longrightarrow> separator_char b \<Longrightarrow>
   filter (\<lambda>c. \<not> separator_char c) (py_replace_char a b s) = filter (\<lambda>c. \<not> separator_char c) s"
  by (induction s) (auto simp: py_replace_char_def)

lemma filter_separator_strip:
  "filter (\<lambda>c. \<not> separator_char c) (py_lower (py_strip s)) =
   filter (\<lambda>c. \<not> separator_char c) (py_lower s)"
proof -
  have sp: "separator_char (py_lower_char c)" if "py_isspace_char c" for c
    using that by (auto simp: separator_char_def py_lower_char_def py_isspace_char_def)
  have dw: "filter (\<lambda>c. \<not> separator_char (py_lower_char c)) (dropWhile py_isspace_char t) =
      filter (\<lambda>c. \<not> separator_char (py_lower_char c)) t" for t
    by (induction t) (auto simp: sp)
  show ?thesis
    by (simp add: py_lower_def py_strip_def filter_map comp_def rev_filter [symmetric] dw)
qed

lemma separator_chars [simp]:
  "separator_char (CHR ''-'')" "separator_char (CHR ''_'')" "separator_char (CHR ''.'')"
  by (simp_all add: separator_char_def)

lemma fold_spelling_collapsed: "fold_spelling a = fold_spelling b \<Longrightarrow> collapsed a = collapsed b"
proof -
  have "collapsed v = filter (\<lambda>c. \<not> separator_char c) (fold_spelling v)" for v
    by (simp add: collapsed_def fold_spelling_def filter_separator_replace filter_separator_strip)
  then show "fold_spelling a = fold_spelling b \<Longrightarrow> collapsed a = collapsed b" by simp
qed

lemma missing_in_resolve:
  "missing_in rs v = Some f \<Longrightarrow>
   \<exists>r s. r \<in> set rs \<and> s \<in> set (spellings r) \<and> collapsed s = collapsed v \<and>
     family_of_value (fr_model_family r) = Some f"
proof (induction rs)
  case (Cons r rs)
  then show ?case
    by (cases "list_ex (\<lambda>s. fold_spelling s = fold_spelling v) (spellings r)")
      (auto simp: list_ex_iff dest!: fold_spelling_collapsed)
qed simp

text \<open>The collapsed spellings, record by record: no text occurs in two rows.\<close>

lemma collapsed_table:
  "map (\<lambda>r. map collapsed (spellings r)) FAMILY_RECORDS =
   [[''qwen3'', ''qwen3dense'', ''qwen3dense'', ''qwen3'', ''qwen34b'', ''qwen34b''],
    [''qwen3moe'', ''qwen3moe'', ''qwen3moe''],
    [''qwen3vl'', ''qwen3vl'', ''qwen3vl''],
    [''qwen35'', ''qwen35'', ''qwen35'', ''qwen35''],
    [''qwen35omnithinker'', ''qwen35omnithinker'', ''qwen35omnithinker'', ''qwen35omnithinker''],
    [''qwen35omni'', ''qwen35omni'', ''qwen35omni'', ''qwen35omni''],
    [''vit'', ''visiontransformer'', ''visiontransformer'']]"
  by code_simp

lemma collapsed_rows_disjoint:
  "sorted_wrt (\<lambda>r r'. set (map collapsed (spellings r)) \<inter> set (map collapsed (spellings r')) = {})
     FAMILY_RECORDS"
proof -
  have "sorted_wrt (\<lambda>a b. set a \<inter> set b = {}) (map (\<lambda>r. map collapsed (spellings r)) FAMILY_RECORDS)"
    unfolding collapsed_table by simp
  then show ?thesis by (simp only: sorted_wrt_map)
qed

lemma find_in_disjoint_rows:
  assumes "sorted_wrt (\<lambda>r r'. set (map g (f r)) \<inter> set (map g (f r')) = {}) rs"
    and "r \<in> set rs" "s \<in> set (f r)"
  shows "List.find (\<lambda>r. list_ex (\<lambda>s'. g s' = g s) (f r)) rs = Some r"
  using assms
proof (induction rs)
  case (Cons x rs)
  show ?case
  proof (cases "x = r")
    case True
    with Cons.prems show ?thesis by (auto simp: list_ex_iff)
  next
    case False
    with Cons.prems have r: "r \<in> set rs" by simp
    with Cons.prems have "set (map g (f x)) \<inter> set (map g (f r)) = {}" by simp
    with Cons.prems(3) have "\<not> list_ex (\<lambda>s'. g s' = g s) (f x)"
      by (force simp: list_ex_iff)
    with r Cons show ?thesis by simp
  qed
qed simp

lemma declared_resolves:
  assumes "r \<in> set FAMILY_RECORDS" "s \<in> set (spellings r)"
  shows "resolve s = Some r"
  unfolding resolve_def resolve_in_collapsed
  by (rule find_in_disjoint_rows [OF collapsed_rows_disjoint assms])

text \<open>
  Every declared spelling resolves to the record that declares it (no spelling is
  ambiguous), every key and preset id leads back to its own record, and each family's default
  preset belongs to a record that builds in that family's lane.
\<close>

theorem registry_consistent:
  "list_all (\<lambda>r. list_all (\<lambda>s. resolve s = Some r) (spellings r) \<and>
      FAMILY_BY_KEY (fr_key r) = Some r \<and>
      list_all (\<lambda>p. PRESET_TO_RECORD p = Some r) (fr_preset_ids r)) FAMILY_RECORDS \<and>
   list_all (\<lambda>f. case FAMILY_TO_PRESET f of None \<Rightarrow> False
      | Some p \<Rightarrow> map_option fr_model_family (PRESET_TO_RECORD p) = Some (family_value f))
     all_families"
proof -
  have "list_all (\<lambda>r. FAMILY_BY_KEY (fr_key r) = Some r \<and>
      list_all (\<lambda>p. PRESET_TO_RECORD p = Some r) (fr_preset_ids r)) FAMILY_RECORDS"
    by code_simp
  moreover have "list_all (\<lambda>f. case FAMILY_TO_PRESET f of None \<Rightarrow> False
      | Some p \<Rightarrow> map_option fr_model_family (PRESET_TO_RECORD p) = Some (family_value f))
     all_families"
    by code_simp
  ultimately show ?thesis
    by (auto simp: list_all_iff declared_resolves)
qed

text \<open>
  The two resolvers agree: whatever spelling the contract enum accepts through the
  registry, the registry's own resolver maps it to a record of that same family lane.
\<close>

theorem enum_agrees_with_registry:
  assumes "missing_in FAMILY_RECORDS v = Some f"
  shows "\<exists>r. resolve v = Some r \<and> fr_model_family r = family_value f"
proof -
  from missing_in_resolve [OF assms] obtain r s where
    r: "r \<in> set FAMILY_RECORDS" "s \<in> set (spellings r)" "collapsed s = collapsed v"
      "family_of_value (fr_model_family r) = Some f"
    by auto
  have "resolve v = resolve s" using r(3) by (simp add: resolve_def resolve_in_collapsed)
  also have "\<dots> = Some r" using r by (simp add: declared_resolves)
  finally have "resolve v = Some r" .
  moreover have "fr_model_family r = family_value f"
    using r(4) by (auto simp: family_of_value_def find_Some_iff)
  ultimately show ?thesis by blast
qed

theorem enum_agrees_with_registry_witness:
  "\<exists>r. resolve ''Qwen3-4B'' = Some r \<and> fr_model_family r = family_value QWEN3_DENSE"
proof -
  have "missing_in FAMILY_RECORDS ''Qwen3-4B'' = Some QWEN3_DENSE" by code_simp
  then show ?thesis by (rule enum_agrees_with_registry)
qed

end
