(* ===== verification/Contracts.thy ===== *)
theory Contracts
  imports FamilyRegistry PyValues
begin

text \<open>
  \<open>src/qairt_agent/contracts.py\<close>: the immutable contracts as records, one validation
  function per model, in the order pydantic runs the validators. A failing validator is a
  \<open>ValidationError\<close>, which is a \<open>ValueError\<close>. Paths are texts, timestamps are integers
  (microseconds UTC), JSON maps are association lists.
\<close>

definition validation_error :: exn where
  "validation_error = PyExn ''ValidationError'' ''contract''"

definition require :: "bool \<Rightarrow> exn + unit" where
  "require b = ensure b validation_error"

lemma require_Inr [res_simps]: "require b = Inr u \<longleftrightarrow> b"
  by (simp add: require_def res_simps)

lemma is_ok_require [simp]: "is_ok (require b) = b"
  by (simp add: require_def)

text \<open>Checks in sequence; the first failing one raises.\<close>

fun checks :: "bool list \<Rightarrow> exn + unit" where
  "checks [] = Inr ()"
| "checks (b # bs) = bind_res (require b) (\<lambda>_. checks bs)"

lemma checks_Inr: "checks bs = Inr u \<longleftrightarrow> (\<forall>b \<in> set bs. b)"
  by (induction bs) (auto simp: res_simps)

declare checks.simps [simp del]

section \<open>Artifacts\<close>

datatype ArtifactKind =
    AK_ONNX | AK_AIMET_ENCODINGS | AK_TEST_VECTORS | AK_GOLDEN_VECTORS | AK_DLC
  | AK_CONTEXT_BINARY | AK_MANIFEST | AK_REPORT | AK_CONFIG | AK_LOG | AK_OTHER

record ArtifactRef =
  ar_path :: string
  ar_sha256 :: string
  ar_size_bytes :: int
  ar_kind :: ArtifactKind
  ar_media_type :: string
  ar_logical_name :: "string option"

definition lower_hex_char :: "char \<Rightarrow> bool" where
  "lower_hex_char c \<longleftrightarrow> py_isdigit_char c \<or> (97 \<le> (of_char c :: nat) \<and> (of_char c :: nat) \<le> 102)"

definition is_sha256 :: "string \<Rightarrow> bool" where
  "is_sha256 s \<longleftrightarrow> length s = 64 \<and> list_all lower_hex_char s"

definition ArtifactRef_new :: "ArtifactRef \<Rightarrow> exn + ArtifactRef" where
  "ArtifactRef_new r =
     bind_res (require (is_sha256 (py_lower (ar_sha256 r)))) (\<lambda>_.
     bind_res (require (0 \<le> ar_size_bytes r)) (\<lambda>_.
     bind_res (require (case ar_logical_name r of None \<Rightarrow> True | Some n \<Rightarrow> py_strip n \<noteq> [])) (\<lambda>_.
     Inr (r\<lparr>ar_sha256 := py_lower (ar_sha256 r),
            ar_logical_name := map_option py_strip (ar_logical_name r)\<rparr>))))"

section \<open>Sequence, split and stage policy\<close>

record SequenceSpec =
  sq_ars :: "int list"
  sq_context_lengths :: "int list"
  sq_weight_sharing :: bool
  sq_native_kv :: bool
  sq_qwen35_experimental_auto_ar :: bool

definition default_sequence :: SequenceSpec where
  "default_sequence = \<lparr>sq_ars = [1, 128], sq_context_lengths = [4096], sq_weight_sharing = True,
     sq_native_kv = True, sq_qwen35_experimental_auto_ar = False\<rparr>"

definition axis_ok :: "int list \<Rightarrow> bool" where
  "axis_ok v \<longleftrightarrow> v \<noteq> [] \<and> distinct v"

definition validate_sequence :: "SequenceSpec \<Rightarrow> exn + unit" where
  "validate_sequence s =
     checks [list_all (\<lambda>a. 0 < a) (sq_ars s), axis_ok (sq_ars s),
       list_all (\<lambda>a. 0 < a) (sq_context_lengths s), axis_ok (sq_context_lengths s),
       Max (set (sq_ars s)) \<le> Min (set (sq_context_lengths s)),
       \<not> (sq_weight_sharing s \<and> set (sq_ars s) \<noteq> {1, 128}),
       \<not> (sq_native_kv s \<and> filter (\<lambda>l. l mod 256 \<noteq> 0) (sq_context_lengths s) \<noteq> [])]"

text \<open>
  The aliases the sequence contract accepts on a raw mapping: an old name moves to its
  canonical name unless that one is present; then a bare integer axis becomes a one-element
  tuple.
\<close>

definition sequence_aliases :: "(string \<times> string) list" where
  "sequence_aliases =
    [(''auto_regression_numbers'', ''ars''), (''auto_regression_number'', ''ars''),
     (''context_length'', ''context_lengths''),
     (''experimental_auto_ar'', ''qwen35_experimental_auto_ar''),
     (''experimental_qwen35_auto_ar'', ''qwen35_experimental_auto_ar''),
     (''qwen35_experimental'', ''qwen35_experimental_auto_ar''),
     (''qwen35_experimental_ar_conversion'', ''qwen35_experimental_auto_ar''),
     (''allow_experimental_qwen35'', ''qwen35_experimental_auto_ar''),
     (''allow_experimental_qwen35_auto_ar'', ''qwen35_experimental_auto_ar'')]"

definition source_aliases :: "(string \<times> string) list" where
  "source_aliases =
    [(''onnx'', ''onnx_path''), (''encodings'', ''encodings_path''),
     (''tokenizer'', ''tokenizer_path''), (''config'', ''config_path''),
     (''aimet_config'', ''aimet_config_path'')]"

type_synonym raw_map = "(string \<times> json) list"

definition dict_del :: "string \<Rightarrow> raw_map \<Rightarrow> raw_map" where
  "dict_del k d = filter (\<lambda>(k', _). k' \<noteq> k) d"

fun apply_aliases :: "(string \<times> string) list \<Rightarrow> raw_map \<Rightarrow> raw_map" where
  "apply_aliases [] data = data"
| "apply_aliases ((old, canonical) # rest) data =
     (if map_of data old \<noteq> None \<and> map_of data canonical = None
      then apply_aliases rest (dict_set canonical (the (map_of data old)) (dict_del old data))
      else apply_aliases rest data)"

definition wrap_axis :: "string \<Rightarrow> raw_map \<Rightarrow> raw_map" where
  "wrap_axis axis data = (case map_of data axis of
     Some (JInt i) \<Rightarrow> dict_set axis (JList [JInt i]) data
   | Some (JBool b) \<Rightarrow> dict_set axis (JList [JBool b]) data
   | _ \<Rightarrow> data)"

definition accept_sequence_aliases :: "raw_map \<Rightarrow> raw_map" where
  "accept_sequence_aliases data =
     wrap_axis ''context_lengths'' (wrap_axis ''ars'' (apply_aliases sequence_aliases data))"

definition accept_nested_path_aliases :: "raw_map \<Rightarrow> raw_map" where
  "accept_nested_path_aliases data = apply_aliases source_aliases data"

record GraphVariantSpec =
  gv_ar :: int
  gv_context_length :: int

definition validate_graph_variant :: "GraphVariantSpec \<Rightarrow> exn + unit" where
  "validate_graph_variant v =
     checks [0 < gv_ar v, 0 < gv_context_length v, gv_ar v \<le> gv_context_length v]"

datatype EmbeddingMode = EM_LUT | EM_COMPILED | EM_EXTERNAL

record SplitSpec =
  sl_decoder_slice_count :: int
  sl_embedding_mode :: EmbeddingMode
  sl_split_lm_head :: bool

definition validate_split :: "SplitSpec \<Rightarrow> exn + unit" where
  "validate_split s = checks [0 < sl_decoder_slice_count s]"

definition split_embedding :: "SplitSpec \<Rightarrow> bool" where
  "split_embedding s = True"

definition total_splits :: "SplitSpec \<Rightarrow> int" where
  "total_splits s = sl_decoder_slice_count s + 1 + (if sl_split_lm_head s then 1 else 0)"

record TransformSpec =
  tr_mha2sha :: bool
  tr_mha2sha_validate :: bool
  tr_permute_kv_cache_io :: bool
  tr_family_options :: raw_map

datatype QuantizationMode = APPLY_ENCODINGS | CALIBRATE

record QuantizationSpec =
  qz_mode :: QuantizationMode
  qz_act_precision :: int
  qz_bias_precision :: int
  qz_weights_precision :: int

definition validate_quantization :: "QuantizationSpec \<Rightarrow> exn + unit" where
  "validate_quantization q =
     checks [qz_act_precision q \<in> {8, 16}, qz_bias_precision q \<in> {8, 32},
       qz_weights_precision q \<in> {4, 8, 16}]"

record CompileSpec =
  cp_enable_intermediate_outputs :: bool
  cp_output_tensors :: "string list"
  cp_compiler_options :: raw_map

definition validate_compile :: "CompileSpec \<Rightarrow> exn + unit" where
  "validate_compile c =
     checks [\<not> (cp_enable_intermediate_outputs c \<and> cp_output_tensors c \<noteq> [])]"

datatype SqnrMode = SQ_FULL_REFERENCE | SQ_CHAIN | SQ_TEACHER_FORCED
datatype VectorMode = PROVIDED | CAPTURE

record VectorSpec =
  vc_mode :: VectorMode
  vc_validation_manifest :: "string option"
  vc_validation_manifests_by_ar :: "(int \<times> string) list"
  vc_calibration_manifest :: "string option"

definition validate_vectors :: "VectorSpec \<Rightarrow> exn + unit" where
  "validate_vectors v =
     (let manifests_present = (vc_validation_manifest v \<noteq> None \<or>
            vc_validation_manifests_by_ar v \<noteq> [] \<or> vc_calibration_manifest v \<noteq> None)
      in checks [\<not> (vc_mode v = PROVIDED \<and> \<not> manifests_present),
           \<not> (vc_mode v = CAPTURE \<and> manifests_present),
           filter (\<lambda>(ar, _). ar \<le> 0) (vc_validation_manifests_by_ar v) = []])"

record QualitySpec =
  ql_sqnr_modes :: "SqnrMode list"
  ql_dump_intermediates_on_failure :: bool

definition validate_quality :: "QualitySpec \<Rightarrow> exn + unit" where
  "validate_quality q = checks [distinct (ql_sqnr_modes q)]"

record BenchmarkSpec =
  bn_warmup_runs :: int
  bn_measured_runs :: int
  bn_optrace :: bool

definition validate_benchmark :: "BenchmarkSpec \<Rightarrow> exn + unit" where
  "validate_benchmark b = checks [0 \<le> bn_warmup_runs b, 0 < bn_measured_runs b]"

definition accept_validate_stage_alias :: "raw_map \<Rightarrow> exn + raw_map" where
  "accept_validate_stage_alias value =
     (case map_of value ''validate'' of
        None \<Rightarrow> Inr value
      | Some v \<Rightarrow>
          if map_of value ''validation'' \<noteq> None then Inl validation_error
          else Inr (dict_set ''validation'' v (dict_del ''validate'' value)))"

section \<open>The build specification\<close>

record ModelSourceSpec =
  so_onnx_path :: string
  so_encodings_path :: "string option"
  so_tokenizer_path :: "string option"
  so_config_path :: "string option"
  so_aimet_config_path :: "string option"

record ModelSourcesSpec =
  ms_text :: ModelSourceSpec
  ms_vision :: "ModelSourceSpec option"
  ms_audio :: "ModelSourceSpec option"
  ms_vision_projector_location :: "string option"

text \<open>
  The target after \<open>resolve_registered_target\<close> has filled in the registered entry; the
  constant backend \<open>HTP\<close> is left out.
\<close>

datatype TargetPlatform = ANDROID | X86_64_LINUX

record TargetSpec =
  tg_name :: string
  tg_chipset :: string
  tg_dsp_arch :: string
  tg_soc_model :: int
  tg_platform :: TargetPlatform
  tg_device_id :: "string option"
  tg_qairt_version :: string
  tg_qairt_build_id :: string

datatype DiagnoseKind = DK_QUALITY | DK_LATENCY

record DiagnoseStageConfig =
  dc_kind :: DiagnoseKind
  dc_config :: raw_map

record WorkflowStageConfigs =
  sc_build :: raw_map
  sc_validation :: raw_map
  sc_benchmark :: raw_map
  sc_diagnose :: DiagnoseStageConfig

record BuildSpec =
  bs_name :: string
  bs_family :: ModelFamily
  bs_sources :: ModelSourcesSpec
  bs_output_root :: string
  bs_sequence :: SequenceSpec
  bs_split :: SplitSpec
  bs_transforms :: TransformSpec
  bs_quantization :: QuantizationSpec
  bs_vectors :: VectorSpec
  bs_compile :: CompileSpec
  bs_target :: TargetSpec
  bs_quality :: QualitySpec
  bs_benchmark :: BenchmarkSpec
  bs_stage_configs :: WorkflowStageConfigs
  bs_metadata :: raw_map

definition attached_ars :: "BuildSpec \<Rightarrow> string list" where
  "attached_ars b = (case map_of (bs_metadata b) ''attached_models_by_ar'' of
     Some (JObj m) \<Rightarrow> map fst m | _ \<Rightarrow> [])"

definition is_qwen35 :: "ModelFamily \<Rightarrow> bool" where
  "is_qwen35 f \<longleftrightarrow> f = QWEN3_5 \<or> f = QWEN3_5_OMNI"

definition no_encodings :: "ModelSourceSpec option \<Rightarrow> bool" where
  "no_encodings s = (case s of None \<Rightarrow> False | Some m \<Rightarrow> so_encodings_path m = None)"

definition validate_pipeline_contract :: "BuildSpec \<Rightarrow> exn + unit" where
  "validate_pipeline_contract b =
    (let src = bs_sources b; v = bs_vectors b; sq = bs_sequence b; tr = bs_transforms b in
     bind_res
      (if qz_mode (bs_quantization b) = APPLY_ENCODINGS then
         checks [so_encodings_path (ms_text src) \<noteq> None, \<not> no_encodings (ms_vision src),
           \<not> no_encodings (ms_audio src)]
       else checks [\<not> (vc_mode v = PROVIDED \<and> vc_calibration_manifest v = None)]) (\<lambda>_.
     bind_res
      (checks [\<not> (ql_sqnr_modes (bs_quality b) \<noteq> [] \<and> vc_mode v = PROVIDED \<and>
           vc_validation_manifest v = None \<and> vc_validation_manifests_by_ar v = []),
         filter (\<lambda>(ar, _). ar \<notin> set (sq_ars sq)) (vc_validation_manifests_by_ar v) = [],
         \<not> (sq_native_kv sq \<and> \<not> tr_mha2sha tr),
         \<not> (tr_mha2sha_validate tr \<and> \<not> tr_mha2sha tr)]) (\<lambda>_.
     bind_res
      (if bs_family b = QWEN3_VL then
         checks [ms_vision src \<noteq> None,
           ms_vision_projector_location src = Some ''inside_vision_onnx'']
       else checks [ms_vision_projector_location src = None]) (\<lambda>_.
     bind_res
      (if bs_family b = QWEN3_5_OMNI then checks [ms_audio src \<noteq> None, ms_vision src = None]
       else checks [ms_audio src = None]) (\<lambda>_.
     bind_res
      (checks [\<not> (is_qwen35 (bs_family b) \<and> length (sq_ars sq) > 1 \<and>
           \<not> sq_qwen35_experimental_auto_ar sq \<and>
           \<not> set (map int_str (sq_ars sq)) \<subseteq> set (attached_ars b)),
         \<not> (is_qwen35 (bs_family b) \<and> length (sq_ars sq) > 1 \<and> \<not> sq_weight_sharing sq)]) (\<lambda>_.
     if bs_family b = VIT then
       checks [sq_ars sq = [1], \<not> (sq_weight_sharing sq \<or> sq_native_kv sq),
         \<not> (sl_decoder_slice_count (bs_split b) \<noteq> 1 \<or> sl_split_lm_head (bs_split b)),
         \<not> tr_mha2sha tr, \<not> (ms_vision src \<noteq> None \<or> ms_audio src \<noteq> None)]
     else Inr ()))))))"

text \<open>A complete specification: the nested contracts first, then the name, then the pipeline.\<close>

definition BuildSpec_new :: "BuildSpec \<Rightarrow> exn + BuildSpec" where
  "BuildSpec_new b =
     bind_res (require (py_strip (bs_name b) \<noteq> [])) (\<lambda>_.
     bind_res (validate_sequence (bs_sequence b)) (\<lambda>_.
     bind_res (validate_split (bs_split b)) (\<lambda>_.
     bind_res (validate_quantization (bs_quantization b)) (\<lambda>_.
     bind_res (validate_vectors (bs_vectors b)) (\<lambda>_.
     bind_res (validate_compile (bs_compile b)) (\<lambda>_.
     bind_res (validate_quality (bs_quality b)) (\<lambda>_.
     bind_res (validate_benchmark (bs_benchmark b)) (\<lambda>_.
     bind_res (validate_pipeline_contract (b\<lparr>bs_name := py_strip (bs_name b)\<rparr>)) (\<lambda>_.
     Inr (b\<lparr>bs_name := py_strip (bs_name b)\<rparr>))))))))))"

section \<open>Stage records, manifests and tool results\<close>

datatype StageStatus = SS_PENDING | SS_RUNNING | SS_SUCCEEDED | SS_FAILED | SS_SKIPPED

record StageRecord =
  sr_name :: string
  sr_attempt :: int
  sr_status :: StageStatus
  sr_started_at :: int
  sr_completed_at :: "int option"
  sr_inputs :: "ArtifactRef list"
  sr_outputs :: "ArtifactRef list"
  sr_metrics :: raw_map
  sr_error :: "ToolErrorData option"

text \<open>The state rules shared by stage records and receipts.\<close>

definition stage_state_checks ::
  "StageStatus \<Rightarrow> int \<Rightarrow> int option \<Rightarrow> ToolErrorData option \<Rightarrow> bool list"
where
  "stage_state_checks status started completed err =
     [\<not> (status = SS_FAILED \<and> err = None), \<not> (status \<noteq> SS_FAILED \<and> err \<noteq> None),
      \<not> ((status = SS_PENDING \<or> status = SS_RUNNING) \<and> completed \<noteq> None),
      (case completed of None \<Rightarrow> True | Some c \<Rightarrow> \<not> c < started)]"

definition validate_stage_record :: "StageRecord \<Rightarrow> exn + unit" where
  "validate_stage_record r = checks ((0 < sr_attempt r) #
     stage_state_checks (sr_status r) (sr_started_at r) (sr_completed_at r) (sr_error r))"

record RunManifest =
  rm_run_id :: string
  rm_revision :: int
  rm_created_at :: int
  rm_revision_created_at :: int
  rm_parent_manifest :: "ArtifactRef option"
  rm_build_spec :: BuildSpec
  rm_stages :: "StageRecord list"
  rm_artifacts :: "ArtifactRef list"
  rm_metadata :: raw_map

definition validate_revision_chain :: "RunManifest \<Rightarrow> exn + unit" where
  "validate_revision_chain m =
     checks [0 \<le> rm_revision m,
       \<not> (rm_revision m = 0 \<and> rm_parent_manifest m \<noteq> None),
       \<not> (rm_revision m > 0 \<and> rm_parent_manifest m = None),
       (case rm_parent_manifest m of None \<Rightarrow> True | Some p \<Rightarrow> ar_kind p = AK_MANIFEST),
       distinct (map (\<lambda>s. (sr_name s, sr_attempt s)) (rm_stages m))]"

record 'a ToolResult =
  tl_ok :: bool
  tl_data :: "'a option"
  tl_error :: "ToolErrorData option"
  tl_manifest :: "ArtifactRef option"
  tl_warnings :: "string list"

definition validate_result :: "'a ToolResult \<Rightarrow> exn + unit" where
  "validate_result r =
     checks [\<not> (tl_ok r \<and> tl_error r \<noteq> None), \<not> (\<not> tl_ok r \<and> tl_error r = None),
       \<not> (\<not> tl_ok r \<and> tl_data r \<noteq> None)]"

definition ToolResult_success ::
  "'a option \<Rightarrow> ArtifactRef option \<Rightarrow> string list \<Rightarrow> 'a ToolResult"
where
  "ToolResult_success d m warnings =
     \<lparr>tl_ok = True, tl_data = d, tl_error = None, tl_manifest = m, tl_warnings = warnings\<rparr>"

definition ToolResult_failure :: "exn \<Rightarrow> ArtifactRef option \<Rightarrow> exn + 'a ToolResult" where
  "ToolResult_failure e m = bind_res (from_exception e INTERNAL_ERROR None False []) (\<lambda>t.
     Inr \<lparr>tl_ok = False, tl_data = None, tl_error = Some t, tl_manifest = m, tl_warnings = []\<rparr>)"

section \<open>Presets and overlays\<close>

datatype PipelineKind = LOW_LEVEL | GENAI_BUILDER | GENAI_CAPABILITY_GATE

datatype ComponentKind = CK_EMBEDDING | CK_DECODER | CK_LM_HEAD | CK_VIT | CK_PROJECTOR | CK_AUDIO | CK_TEXT

record ComponentSpec =
  cm_kind :: ComponentKind
  cm_name :: string
  cm_slicable :: bool
  cm_independent :: bool
  cm_weight_sharing_eligible :: bool
  cm_native_kv_eligible :: bool
  cm_ar_aware :: bool

definition ComponentSpec_new :: "ComponentSpec \<Rightarrow> exn + ComponentSpec" where
  "ComponentSpec_new c = bind_res (require (py_strip (cm_name c) \<noteq> [])) (\<lambda>_.
     Inr (c\<lparr>cm_name := py_strip (cm_name c)\<rparr>))"

record OutputLayoutSpec =
  ol_directories :: "(string \<times> string) list"

record FamilyPreset =
  fp_preset_id :: string
  fp_pipeline :: PipelineKind
  fp_components :: "ComponentSpec list"
  fp_default_ars :: "int list"
  fp_default_decoder_slices :: int
  fp_default_weight_sharing :: bool
  fp_default_native_kv :: bool
  fp_embedding_independent :: bool
  fp_lm_head_independent :: bool
  fp_requires_per_ar_onnx :: bool
  fp_runtime_supported :: bool
  fp_capability_gate :: "string option"
  fp_output_layout :: OutputLayoutSpec
  fp_notes :: "string list"

definition preset_component :: "FamilyPreset \<Rightarrow> ComponentKind \<Rightarrow> ComponentSpec option" where
  "preset_component p kind = List.find (\<lambda>c. cm_kind c = kind) (fp_components p)"

definition validate_capability_gate :: "FamilyPreset \<Rightarrow> exn + unit" where
  "validate_capability_gate p =
     checks [\<not> (fp_capability_gate p \<noteq> None \<and> fp_runtime_supported p),
       \<not> (fp_pipeline p = GENAI_CAPABILITY_GATE \<and> fp_capability_gate p = None)]"

record SliceBoundary =
  sb_slice_id :: string
  sb_layer_start :: int
  sb_layer_end :: int
  sb_advisory :: bool

definition validate_range :: "SliceBoundary \<Rightarrow> exn + unit" where
  "validate_range s =
     checks [0 \<le> sb_layer_start s, 0 \<le> sb_layer_end s, \<not> sb_layer_end s < sb_layer_start s]"

record SkuOverlay =
  sk_sku_id :: string
  sk_preset_id :: string
  sk_model_sha256 :: "string option"
  sk_architecture :: "string option"
  sk_tensor_abi :: raw_map
  sk_ars :: "int list option"
  sk_decoder_slices :: "int option"
  sk_embedding_mode :: "string option"
  sk_lm_head_independent :: "bool option"
  sk_weight_sharing :: "bool option"
  sk_native_kv :: "bool option"
  sk_slice_boundaries :: "SliceBoundary list"
  sk_runtime_supported :: "bool option"
  sk_captured_at :: "int option"

definition SkuOverlay_new :: "SkuOverlay \<Rightarrow> exn + SkuOverlay" where
  "SkuOverlay_new s =
     bind_res (checks [py_strip (sk_sku_id s) \<noteq> [], py_strip (sk_preset_id s) \<noteq> [],
       case sk_ars s of None \<Rightarrow> True | Some a \<Rightarrow> list_all (\<lambda>x. 0 < x) a,
       case sk_decoder_slices s of None \<Rightarrow> True | Some n \<Rightarrow> 0 < n]) (\<lambda>_.
     Inr (s\<lparr>sk_sku_id := py_strip (sk_sku_id s), sk_preset_id := py_strip (sk_preset_id s)\<rparr>))"

section \<open>Jobs\<close>

datatype JobState =
    QUEUED | STAGING | RUNNING | COLLECTING | COMMITTING | SUCCEEDED | FAILED | CANCELLED | ORPHANED

definition terminal :: "JobState \<Rightarrow> bool" where
  "terminal s \<longleftrightarrow> s = SUCCEEDED \<or> s = FAILED \<or> s = CANCELLED"

record StageProvenance =
  pv_sdk_build :: string
  pv_adapter_capability :: string
  pv_platform_abi :: string
  pv_resolved_preset_sha256 :: "string option"
  pv_image_digest :: "string option"
  pv_host_arch :: "string option"
  pv_emulation :: bool
  pv_device_fingerprint :: "string option"

record StageReceipt =
  rc_stage_key :: string
  rc_stage_name :: string
  rc_attempt :: int
  rc_status :: StageStatus
  rc_started_at :: int
  rc_completed_at :: "int option"
  rc_inputs :: "ArtifactRef list"
  rc_outputs :: "ArtifactRef list"
  rc_metrics :: raw_map
  rc_provenance :: StageProvenance
  rc_error :: "ToolErrorData option"

definition StageReceipt_new :: "StageReceipt \<Rightarrow> exn + StageReceipt" where
  "StageReceipt_new r = bind_res (checks ((0 < rc_attempt r) #
     stage_state_checks (rc_status r) (rc_started_at r) (rc_completed_at r) (rc_error r))) (\<lambda>_. Inr r)"

definition verified :: "StageReceipt \<Rightarrow> bool" where
  "verified r \<longleftrightarrow> rc_status r = SS_SUCCEEDED"

record JobStatus =
  js_job_id :: string
  js_state :: JobState
  js_seq :: nat
  js_parent_job_id :: "string option"
  js_spec_sha256 :: string
  js_created_at :: int
  js_updated_at :: int
  js_current_stage :: "string option"
  js_stages :: "StageReceipt list"
  js_manifest :: "ArtifactRef option"
  js_heartbeat_at :: "int option"
  js_launcher :: raw_map
  js_error :: "ToolErrorData option"

definition JobStatus_ok :: "JobStatus \<Rightarrow> bool" where
  "JobStatus_ok s \<longleftrightarrow> (js_state s = FAILED \<longleftrightarrow> js_error s \<noteq> None)"

definition JobStatus_new :: "JobStatus \<Rightarrow> exn + JobStatus" where
  "JobStatus_new s = bind_res
     (checks [\<not> (js_state s = FAILED \<and> js_error s = None),
        \<not> (js_state s \<noteq> FAILED \<and> js_error s \<noteq> None)]) (\<lambda>_. Inr s)"

lemma JobStatus_new_Inr: "JobStatus_new s = Inr t \<longleftrightarrow> t = s \<and> JobStatus_ok s"
  by (auto simp: JobStatus_new_def res_simps checks_Inr JobStatus_ok_def)

lemma StageReceipt_new_Inr:
  "StageReceipt_new r = Inr t \<longleftrightarrow> t = r \<and> 0 < rc_attempt r \<and>
     (rc_status r = SS_FAILED \<longleftrightarrow> rc_error r \<noteq> None) \<and>
     (rc_completed_at r \<noteq> None \<longrightarrow> rc_status r \<noteq> SS_PENDING \<and> rc_status r \<noteq> SS_RUNNING) \<and>
     (\<forall>c. rc_completed_at r = Some c \<longrightarrow> rc_started_at r \<le> c)"
  by (cases "rc_completed_at r")
    (auto simp: StageReceipt_new_def res_simps checks_Inr stage_state_checks_def)

section \<open>Facts\<close>

lemma py_isspace_strip_ends:
  "py_strip s \<noteq> [] \<Longrightarrow> \<not> py_isspace_char (hd (py_strip s)) \<and> \<not> py_isspace_char (last (py_strip s))"
proof -
  assume ne: "py_strip s \<noteq> []"
  let ?t = "dropWhile py_isspace_char s"
  have l: "py_strip s = rev (dropWhile py_isspace_char (rev ?t))" by (simp add: py_strip_def)
  with ne have "dropWhile py_isspace_char (rev ?t) \<noteq> []" by simp
  then have last: "\<not> py_isspace_char (last (py_strip s))"
    by (simp add: l last_rev hd_dropWhile)
  obtain u where u: "rev ?t = u @ dropWhile py_isspace_char (rev ?t)"
    by (metis takeWhile_dropWhile_id)
  then have "?t = py_strip s @ rev u" by (metis l rev_append rev_rev_ident)
  with ne have "hd (py_strip s) = hd ?t" and "?t \<noteq> []" by (auto simp: hd_append)
  then have "\<not> py_isspace_char (hd (py_strip s))" by (simp add: hd_dropWhile)
  with last show ?thesis by simp
qed

lemma py_strip_idem [simp]: "py_strip (py_strip s) = py_strip s"
proof (cases "py_strip s = []")
  case False
  with py_isspace_strip_ends [OF False] show ?thesis by (intro py_strip_fixed) auto
next
  case True
  moreover have "py_strip [] = []" by (simp add: py_strip_def)
  ultimately show ?thesis by simp
qed

lemma validate_sequence_Inr:
  "validate_sequence s = Inr u \<longleftrightarrow>
     sq_ars s \<noteq> [] \<and> sq_context_lengths s \<noteq> [] \<and>
     distinct (sq_ars s) \<and> distinct (sq_context_lengths s) \<and>
     (\<forall>a \<in> set (sq_ars s). 0 < a \<and> (\<forall>c \<in> set (sq_context_lengths s). 0 < c \<and> a \<le> c)) \<and>
     (sq_weight_sharing s \<longrightarrow> set (sq_ars s) = {1, 128}) \<and>
     (sq_native_kv s \<longrightarrow> (\<forall>c \<in> set (sq_context_lengths s). 256 dvd c))"
  by (cases "sq_ars s"; cases "sq_context_lengths s")
    (auto simp: validate_sequence_def checks_Inr axis_ok_def list_all_iff filter_empty_conv
      Max_le_iff Min_ge_iff mod_eq_0_iff_dvd)

definition accepted_spec :: "BuildSpec \<Rightarrow> bool" where
  "accepted_spec b \<longleftrightarrow>
     (let sq = bs_sequence b; tr = bs_transforms b; src = bs_sources b in
      bs_name b \<noteq> [] \<and> py_strip (bs_name b) = bs_name b \<and>
      (\<forall>a \<in> set (sq_ars sq). \<forall>c \<in> set (sq_context_lengths sq). 0 < a \<and> a \<le> c) \<and>
      (sq_weight_sharing sq \<longrightarrow> set (sq_ars sq) = {1, 128}) \<and>
      (sq_native_kv sq \<longrightarrow> tr_mha2sha tr \<and> (\<forall>c \<in> set (sq_context_lengths sq). 256 dvd c)) \<and>
      (\<forall>ar \<in> fst ` set (vc_validation_manifests_by_ar (bs_vectors b)). ar \<in> set (sq_ars sq)) \<and>
      (bs_family b = QWEN3_VL \<longleftrightarrow> ms_vision_projector_location src = Some ''inside_vision_onnx'') \<and>
      (bs_family b = QWEN3_VL \<longrightarrow> ms_vision src \<noteq> None) \<and>
      (bs_family b = QWEN3_5_OMNI \<longleftrightarrow> ms_audio src \<noteq> None) \<and>
      (is_qwen35 (bs_family b) \<and> length (sq_ars sq) > 1 \<longrightarrow> set (sq_ars sq) = {1, 128} \<and>
         (sq_qwen35_experimental_auto_ar sq \<or>
          set (map int_str (sq_ars sq)) \<subseteq> set (attached_ars b))) \<and>
      (bs_family b = VIT \<longrightarrow> sq_ars sq = [1] \<and> \<not> tr_mha2sha tr \<and> \<not> sq_native_kv sq \<and>
         total_splits (bs_split b) = 2))"

lemma if_Inr: "(if c then x else y) = Inr u \<longleftrightarrow> (if c then x = Inr u else y = Inr u)"
  by simp

lemma pipeline_unfold:
  "validate_pipeline_contract b = Inr u \<longleftrightarrow>
    (let src = bs_sources b; v = bs_vectors b; sq = bs_sequence b; tr = bs_transforms b in
     (if qz_mode (bs_quantization b) = APPLY_ENCODINGS
      then so_encodings_path (ms_text src) \<noteq> None \<and> \<not> no_encodings (ms_vision src) \<and>
        \<not> no_encodings (ms_audio src)
      else vc_mode v = PROVIDED \<longrightarrow> vc_calibration_manifest v \<noteq> None) \<and>
     (ql_sqnr_modes (bs_quality b) \<noteq> [] \<and> vc_mode v = PROVIDED \<longrightarrow>
        vc_validation_manifest v \<noteq> None \<or> vc_validation_manifests_by_ar v \<noteq> []) \<and>
     (\<forall>ar \<in> fst ` set (vc_validation_manifests_by_ar v). ar \<in> set (sq_ars sq)) \<and>
     (sq_native_kv sq \<longrightarrow> tr_mha2sha tr) \<and> (tr_mha2sha_validate tr \<longrightarrow> tr_mha2sha tr) \<and>
     (if bs_family b = QWEN3_VL
      then ms_vision src \<noteq> None \<and> ms_vision_projector_location src = Some ''inside_vision_onnx''
      else ms_vision_projector_location src = None) \<and>
     (if bs_family b = QWEN3_5_OMNI then ms_audio src \<noteq> None \<and> ms_vision src = None
      else ms_audio src = None) \<and>
     (is_qwen35 (bs_family b) \<and> length (sq_ars sq) > 1 \<longrightarrow>
        (sq_qwen35_experimental_auto_ar sq \<or> set (map int_str (sq_ars sq)) \<subseteq> set (attached_ars b)) \<and>
        sq_weight_sharing sq) \<and>
     (bs_family b = VIT \<longrightarrow> sq_ars sq = [1] \<and> \<not> sq_weight_sharing sq \<and> \<not> sq_native_kv sq \<and>
        sl_decoder_slice_count (bs_split b) = 1 \<and> \<not> sl_split_lm_head (bs_split b) \<and>
        \<not> tr_mha2sha tr \<and> ms_vision src = None \<and> ms_audio src = None))"
proof -
  have f: "filter (\<lambda>(ar, _). ar \<notin> S) xs = [] \<longleftrightarrow> (\<forall>ar \<in> fst ` set xs. ar \<in> S)" for S and xs :: "(int \<times> string) list"
    by (auto simp: filter_empty_conv)
  show ?thesis
    unfolding validate_pipeline_contract_def Let_def bind_res_Inr if_Inr checks_Inr f
    by (simp del: image_eqI split del: if_split cong: if_cong) argo
qed

lemma validate_pipeline_Inr:
  assumes p: "validate_pipeline_contract b = Inr u" and s: "validate_sequence (bs_sequence b) = Inr ()"
    and n: "py_strip (bs_name b) = bs_name b" "bs_name b \<noteq> []"
  shows "accepted_spec b"
proof -
  note P = p [unfolded pipeline_unfold Let_def]
  note S = s [unfolded validate_sequence_Inr]
  have vl: "if bs_family b = QWEN3_VL
      then ms_vision (bs_sources b) \<noteq> None \<and>
        ms_vision_projector_location (bs_sources b) = Some ''inside_vision_onnx''
      else ms_vision_projector_location (bs_sources b) = None"
    using P by (elim conjE)
  have om: "if bs_family b = QWEN3_5_OMNI
      then ms_audio (bs_sources b) \<noteq> None \<and> ms_vision (bs_sources b) = None
      else ms_audio (bs_sources b) = None"
    using P by (elim conjE)
  have kv: "sq_native_kv (bs_sequence b) \<longrightarrow> tr_mha2sha (bs_transforms b)"
    using P by (elim conjE)
  have by_ar: "\<forall>ar \<in> fst ` set (vc_validation_manifests_by_ar (bs_vectors b)). ar \<in> set (sq_ars (bs_sequence b))"
    using P by (elim conjE)
  have q35: "is_qwen35 (bs_family b) \<and> length (sq_ars (bs_sequence b)) > 1 \<longrightarrow>
        (sq_qwen35_experimental_auto_ar (bs_sequence b) \<or>
         set (map int_str (sq_ars (bs_sequence b))) \<subseteq> set (attached_ars b)) \<and>
        sq_weight_sharing (bs_sequence b)"
    using P by (elim conjE)
  have vit: "bs_family b = VIT \<longrightarrow> sq_ars (bs_sequence b) = [1] \<and>
        \<not> sq_weight_sharing (bs_sequence b) \<and> \<not> sq_native_kv (bs_sequence b) \<and>
        sl_decoder_slice_count (bs_split b) = 1 \<and> \<not> sl_split_lm_head (bs_split b) \<and>
        \<not> tr_mha2sha (bs_transforms b) \<and> ms_vision (bs_sources b) = None \<and> ms_audio (bs_sources b) = None"
    using P by (elim conjE)
  have ws: "sq_weight_sharing (bs_sequence b) \<longrightarrow> set (sq_ars (bs_sequence b)) = {1, 128}"
    using S by (elim conjE)
  have al: "sq_native_kv (bs_sequence b) \<longrightarrow> (\<forall>c \<in> set (sq_context_lengths (bs_sequence b)). 256 dvd c)"
    using S by (elim conjE)
  have ax: "\<forall>a \<in> set (sq_ars (bs_sequence b)). 0 < a \<and>
      (\<forall>c \<in> set (sq_context_lengths (bs_sequence b)). 0 < c \<and> a \<le> c)"
    using S by (elim conjE)
  show ?thesis
    unfolding accepted_spec_def Let_def
  proof (intro conjI)
    show "bs_name b \<noteq> []" "py_strip (bs_name b) = bs_name b" using n by simp_all
    show "\<forall>a \<in> set (sq_ars (bs_sequence b)). \<forall>c \<in> set (sq_context_lengths (bs_sequence b)). 0 < a \<and> a \<le> c"
      using ax by blast
    show "sq_weight_sharing (bs_sequence b) \<longrightarrow> set (sq_ars (bs_sequence b)) = {1, 128}" by (rule ws)
    show "sq_native_kv (bs_sequence b) \<longrightarrow> tr_mha2sha (bs_transforms b) \<and>
        (\<forall>c \<in> set (sq_context_lengths (bs_sequence b)). 256 dvd c)" using kv al by blast
    show "\<forall>ar \<in> fst ` set (vc_validation_manifests_by_ar (bs_vectors b)). ar \<in> set (sq_ars (bs_sequence b))"
      by (rule by_ar)
    show "bs_family b = QWEN3_VL \<longleftrightarrow>
        ms_vision_projector_location (bs_sources b) = Some ''inside_vision_onnx''"
      using vl by (auto split: if_splits)
    show "bs_family b = QWEN3_VL \<longrightarrow> ms_vision (bs_sources b) \<noteq> None"
      using vl by auto
    show "bs_family b = QWEN3_5_OMNI \<longleftrightarrow> ms_audio (bs_sources b) \<noteq> None"
      using om by (auto split: if_splits)
    show "is_qwen35 (bs_family b) \<and> length (sq_ars (bs_sequence b)) > 1 \<longrightarrow>
        set (sq_ars (bs_sequence b)) = {1, 128} \<and>
        (sq_qwen35_experimental_auto_ar (bs_sequence b) \<or>
         set (map int_str (sq_ars (bs_sequence b))) \<subseteq> set (attached_ars b))"
      using q35 ws by blast
    show "bs_family b = VIT \<longrightarrow> sq_ars (bs_sequence b) = [1] \<and> \<not> tr_mha2sha (bs_transforms b) \<and>
        \<not> sq_native_kv (bs_sequence b) \<and> total_splits (bs_split b) = 2"
      using vit by (simp add: total_splits_def)
  qed
qed


definition sample_source :: ModelSourceSpec where
  "sample_source = \<lparr>so_onnx_path = ''m.onnx'', so_encodings_path = Some ''m.encodings'',
     so_tokenizer_path = None, so_config_path = None, so_aimet_config_path = None\<rparr>"

definition sample_spec :: BuildSpec where
  "sample_spec = \<lparr>bs_name = '' demo '', bs_family = QWEN3_DENSE,
     bs_sources = \<lparr>ms_text = sample_source, ms_vision = None, ms_audio = None,
        ms_vision_projector_location = None\<rparr>,
     bs_output_root = ''out'', bs_sequence = default_sequence,
     bs_split = \<lparr>sl_decoder_slice_count = 4, sl_embedding_mode = EM_LUT, sl_split_lm_head = True\<rparr>,
     bs_transforms = \<lparr>tr_mha2sha = True, tr_mha2sha_validate = False,
        tr_permute_kv_cache_io = False, tr_family_options = []\<rparr>,
     bs_quantization = \<lparr>qz_mode = APPLY_ENCODINGS, qz_act_precision = 16, qz_bias_precision = 32,
        qz_weights_precision = 8\<rparr>,
     bs_vectors = \<lparr>vc_mode = CAPTURE, vc_validation_manifest = None,
        vc_validation_manifests_by_ar = [], vc_calibration_manifest = None\<rparr>,
     bs_compile = \<lparr>cp_enable_intermediate_outputs = False, cp_output_tensors = [],
        cp_compiler_options = []\<rparr>,
     bs_target = \<lparr>tg_name = ''sm8850'', tg_chipset = ''SM8850'', tg_dsp_arch = ''v81'',
        tg_soc_model = 87, tg_platform = ANDROID, tg_device_id = None, tg_qairt_version = ''2.48'',
        tg_qairt_build_id = ''2.48.0''\<rparr>,
     bs_quality = \<lparr>ql_sqnr_modes = [], ql_dump_intermediates_on_failure = True\<rparr>,
     bs_benchmark = \<lparr>bn_warmup_runs = 10, bn_measured_runs = 50, bn_optrace = False\<rparr>,
     bs_stage_configs = \<lparr>sc_build = [], sc_validation = [], sc_benchmark = [], sc_diagnose = \<lparr>dc_kind = DK_QUALITY, dc_config = []\<rparr>\<rparr>,
     bs_metadata = []\<rparr>"

lemma sample_spec_ok: "BuildSpec_new sample_spec = Inr (sample_spec\<lparr>bs_name := ''demo''\<rparr>)"
proof -
  have n: "py_strip '' demo '' = ''demo''" by code_simp
  have s: "validate_sequence (bs_sequence sample_spec) = Inr ()"
    by (auto simp: validate_sequence_Inr sample_spec_def default_sequence_def)
  show ?thesis
    using s
    by (simp add: BuildSpec_new_def sample_spec_def n validate_split_def validate_quantization_def
        validate_vectors_def validate_compile_def validate_quality_def validate_benchmark_def
        validate_pipeline_contract_def sample_source_def no_encodings_def is_qwen35_def
        default_sequence_def require_def ensure_def checks.simps)
qed


section \<open>Aliases\<close>

fun first_alias :: "(string \<times> string) list \<Rightarrow> raw_map \<Rightarrow> string \<Rightarrow> json option" where
  "first_alias [] d c = None"
| "first_alias ((old, canonical) # rest) d c =
     (if canonical = c \<and> map_of d old \<noteq> None then map_of d old else first_alias rest d c)"

lemma map_of_dict_del: "map_of (dict_del k d) = (map_of d)(k := None)"
  by (induction d) (auto simp: dict_del_def fun_eq_iff)

lemma first_alias_cong:
  "(\<And>old. old \<in> fst ` set al \<Longrightarrow> map_of d old = map_of d' old) \<Longrightarrow> first_alias al d c = first_alias al d' c"
  by (induction al) auto

text \<open>
  Aliases never override: after normalization a canonical field holds its own value
  when it was given, and otherwise the value of the first of its aliases, in the declared
  order, that was given.
\<close>

theorem alias_precedence:
  assumes "distinct (map fst al)" "fst ` set al \<inter> snd ` set al = {}" "c \<notin> fst ` set al"
  shows "map_of (apply_aliases al d) c =
    (case map_of d c of Some v \<Rightarrow> Some v | None \<Rightarrow> first_alias al d c)"
  using assms
proof (induction al d rule: apply_aliases.induct)
  case (2 old can rest d)
  show ?case
  proof (cases "map_of d old \<noteq> None \<and> map_of d can = None")
    case True
    let ?d' = "dict_set can (the (map_of d old)) (dict_del old d)"
    have IH: "map_of (apply_aliases rest ?d') c =
        (case map_of ?d' c of Some v \<Rightarrow> Some v | None \<Rightarrow> first_alias rest ?d' c)"
      using "2.prems" by (intro "2.IH"(1) [OF True]) auto
    have "first_alias rest ?d' c = first_alias rest d c"
    proof (rule first_alias_cong)
      fix o' assume "o' \<in> fst ` set rest"
      then have "o' \<noteq> can" "o' \<noteq> old" using "2.prems" by auto
      then show "map_of ?d' o' = map_of d o'" by (simp add: map_of_dict_del)
    qed
    with IH True "2.prems"(3) show ?thesis
      by (auto simp: map_of_dict_del split: option.splits)
  next
    case False
    then have "map_of (apply_aliases rest d) c =
        (case map_of d c of Some v \<Rightarrow> Some v | None \<Rightarrow> first_alias rest d c)"
      using "2.prems" by (intro "2.IH"(2)) auto
    with False show ?thesis by (auto split: option.splits)
  qed
qed (simp split: option.split)

theorem alias_precedence_witness:
  "map_of (apply_aliases [(''v'', ''c''), (''w'', ''c'')] [(''w'', JInt 1), (''v'', JInt 128)]) ''c'' =
   Some (JInt 128)"
  by (subst alias_precedence) simp_all

end
