(* ===== verification/Presets.thy ===== *)
theory Presets
  imports Contracts Paths
begin

text \<open>
  \<open>src/qairt_agent/families/presets.py\<close> with the workflow specification and the output
  layout of \<open>contracts.py\<close>: the preset registry, the resolution of a workflow against its
  preset, and the conversion between workflow and build specifications. The notes of the
  presets are left out. A model built by pydantic remembers which fields its caller set; the
  benchmark fields the caller set are an argument where the code asks.
\<close>

section \<open>Output layouts\<close>

definition lower_char :: "char \<Rightarrow> bool" where
  "lower_char c \<longleftrightarrow> c \<in> set ''abcdefghijklmnopqrstuvwxyz''"

definition snake_case :: "string \<Rightarrow> bool" where
  "snake_case role \<longleftrightarrow> role \<noteq> [] \<and> lower_char (hd role) \<and>
     list_all (\<lambda>c. lower_char c \<or> py_isdigit_char c \<or> c = CHR ''_'') (tl role)"

text \<open>The texts between a pair of braces without a brace inside.\<close>

fun placeholders :: "string \<Rightarrow> string list" where
  "placeholders [] = []"
| "placeholders (c # cs) =
    (let name = takeWhile (\<lambda>x. x \<noteq> CHR ''{'' \<and> x \<noteq> CHR ''}'') cs;
         rest = drop (length name) cs
     in if c = CHR ''{'' \<and> name \<noteq> [] \<and> rest \<noteq> [] \<and> hd rest = CHR ''}'' then name # placeholders cs
        else placeholders cs)"

definition directory_ok :: "string \<times> string \<Rightarrow> bool" where
  "directory_ok = (\<lambda>(role, relative).
     py_strip role \<noteq> [] \<and> py_strip role = role \<and> snake_case role \<and>
     relative \<noteq> [] \<and> \<not> is_absolute relative \<and> ''..'' \<notin> set (py_split (CHR ''/'') relative) \<and>
     \<not> py_startswith relative ''~'' \<and> set (placeholders relative) \<subseteq> {''run_id''})"

definition OutputLayoutSpec_new :: "OutputLayoutSpec \<Rightarrow> exn + OutputLayoutSpec" where
  "OutputLayoutSpec_new l =
     bind_res (checks [ol_directories l \<noteq> [], list_all directory_ok (ol_directories l)]) (\<lambda>_. Inr l)"

definition RUN_ID_PLACEHOLDER :: string where
  "RUN_ID_PLACEHOLDER = ''{run_id}''"

text \<open>Every directory beneath the resolved output root.\<close>

definition render_layout :: "string \<Rightarrow> string \<Rightarrow> OutputLayoutSpec \<Rightarrow> string \<Rightarrow> string \<Rightarrow> (string \<times> string) list" where
  "render_layout cwd home l output_root run_id =
    (let root_dir = resolve_path cwd (expanduser home output_root)
     in map (\<lambda>(role, relative). (role, path_join root_dir (py_replace RUN_ID_PLACEHOLDER run_id relative)))
          (ol_directories l))"

definition default_output_layout :: OutputLayoutSpec where
  "default_output_layout = \<lparr>ol_directories =
     [(''manifest_revisions'', ''manifests/{run_id}''), (''run'', ''runs/{run_id}'')]\<rparr>"

definition COMMON_OUTPUT_DIRECTORIES :: "(string \<times> string) list" where
  "COMMON_OUTPUT_DIRECTORIES =
    [(''manifest_revisions'', ''manifests/{run_id}''), (''run'', ''runs/{run_id}''),
     (''effective_config'', ''runs/{run_id}/config''), (''source_records'', ''manifests/{run_id}''),
     (''vectors'', ''runs/{run_id}/vectors''), (''reports'', ''runs/{run_id}/diagnostics''),
     (''stage_attempts'', ''runs/{run_id}/stages'')]"

definition LOW_LEVEL_OUTPUT_LAYOUT :: OutputLayoutSpec where
  "LOW_LEVEL_OUTPUT_LAYOUT = \<lparr>ol_directories = COMMON_OUTPUT_DIRECTORIES @
    [(''ar_variants'', ''runs/{run_id}/build/variants''), (''transformed_slices'', ''runs/{run_id}/build/transformed''),
     (''converted_models'', ''runs/{run_id}/build/converted''), (''contexts'', ''runs/{run_id}/build/contexts''),
     (''diagnostic_contexts'', ''runs/{run_id}/build/diagnostic_contexts'')]\<rparr>"

definition GENAI_OUTPUT_LAYOUT :: OutputLayoutSpec where
  "GENAI_OUTPUT_LAYOUT = \<lparr>ol_directories = COMMON_OUTPUT_DIRECTORIES @
    [(''container'', ''runs/{run_id}/genai/container''), (''builder_cache'', ''runs/{run_id}/genai/cache'')]\<rparr>"

section \<open>The registry\<close>

definition component :: "ComponentKind \<Rightarrow> string \<Rightarrow> ComponentSpec" where
  "component kind name = \<lparr>cm_kind = kind, cm_name = name, cm_slicable = False, cm_independent = False,
     cm_weight_sharing_eligible = False, cm_native_kv_eligible = False, cm_ar_aware = False\<rparr>"

definition DECODER_COMPONENT :: ComponentSpec where
  "DECODER_COMPONENT = (component CK_DECODER ''decoder'')\<lparr>cm_slicable := True, cm_weight_sharing_eligible := True,
     cm_native_kv_eligible := True, cm_ar_aware := True\<rparr>"

definition independent_component :: "ComponentKind \<Rightarrow> string \<Rightarrow> ComponentSpec" where
  "independent_component kind name = (component kind name)\<lparr>cm_independent := True\<rparr>"

definition TEXT_COMPONENTS :: "ComponentSpec list" where
  "TEXT_COMPONENTS = [independent_component CK_EMBEDDING ''embedding'', DECODER_COMPONENT,
     independent_component CK_LM_HEAD ''lm_head'']"

definition QWEN3_DENSE_PRESET :: FamilyPreset where
  "QWEN3_DENSE_PRESET = \<lparr>fp_preset_id = ''qwen3_dense'', fp_pipeline = LOW_LEVEL, fp_components = TEXT_COMPONENTS,
     fp_default_ars = [1, 128], fp_default_decoder_slices = 4, fp_default_weight_sharing = True,
     fp_default_native_kv = True, fp_embedding_independent = True, fp_lm_head_independent = True,
     fp_requires_per_ar_onnx = False, fp_runtime_supported = True, fp_capability_gate = None,
     fp_output_layout = LOW_LEVEL_OUTPUT_LAYOUT, fp_notes = []\<rparr>"

definition QWEN3_MOE_PRESET :: FamilyPreset where
  "QWEN3_MOE_PRESET = QWEN3_DENSE_PRESET\<lparr>fp_preset_id := ''qwen3_moe''\<rparr>"

definition QWEN3_VL_PRESET :: FamilyPreset where
  "QWEN3_VL_PRESET = QWEN3_DENSE_PRESET\<lparr>fp_preset_id := ''qwen3_vl'',
     fp_components := [independent_component CK_VIT ''vit'', component CK_PROJECTOR ''projector''] @ TEXT_COMPONENTS\<rparr>"

definition VIT_PRESET :: FamilyPreset where
  "VIT_PRESET = QWEN3_DENSE_PRESET\<lparr>fp_preset_id := ''vit'', fp_components := [component CK_VIT ''vit''],
     fp_default_ars := [1], fp_default_decoder_slices := 1, fp_default_weight_sharing := False,
     fp_default_native_kv := False, fp_embedding_independent := False, fp_lm_head_independent := False\<rparr>"

definition QWEN3_5_PRESET :: FamilyPreset where
  "QWEN3_5_PRESET = QWEN3_DENSE_PRESET\<lparr>fp_preset_id := ''qwen3_5'', fp_pipeline := GENAI_BUILDER,
     fp_requires_per_ar_onnx := True, fp_output_layout := GENAI_OUTPUT_LAYOUT\<rparr>"

definition QWEN3_5_OMNI_THINKER_PRESET :: FamilyPreset where
  "QWEN3_5_OMNI_THINKER_PRESET = QWEN3_5_PRESET\<lparr>fp_preset_id := ''qwen3_5_omni_thinker''\<rparr>"

definition QWEN3_5_OMNI_PRESET :: FamilyPreset where
  "QWEN3_5_OMNI_PRESET = QWEN3_5_PRESET\<lparr>fp_preset_id := ''qwen3_5_omni'',
     fp_components := [independent_component CK_AUDIO ''audio'', independent_component CK_TEXT ''text''],
     fp_runtime_supported := False\<rparr>"

definition PRESETS :: "FamilyPreset list" where
  "PRESETS = [QWEN3_DENSE_PRESET, QWEN3_MOE_PRESET, QWEN3_VL_PRESET, VIT_PRESET, QWEN3_5_PRESET,
     QWEN3_5_OMNI_THINKER_PRESET, QWEN3_5_OMNI_PRESET]"

definition PRESET_REGISTRY :: "(string \<times> FamilyPreset) list" where
  "PRESET_REGISTRY = dict_of (map (\<lambda>p. (fp_preset_id p, p)) PRESETS)"

definition get_preset :: "string \<Rightarrow> exn + FamilyPreset" where
  "get_preset preset_id = (case map_of PRESET_REGISTRY preset_id of
     None \<Rightarrow> Inl (agent_exn PresetNotFoundError (Some ''preset'') False) | Some p \<Rightarrow> Inr p)"

definition FamilyPreset_new :: "FamilyPreset \<Rightarrow> exn + FamilyPreset" where
  "FamilyPreset_new p =
     bind_res (map_res ComponentSpec_new (fp_components p)) (\<lambda>components.
     bind_res (checks [list_all (\<lambda>a. 0 < a) (fp_default_ars p), 0 < fp_default_decoder_slices p,
       py_strip (fp_preset_id p) \<noteq> []]) (\<lambda>_.
     bind_res (OutputLayoutSpec_new (fp_output_layout p)) (\<lambda>_.
     bind_res (validate_capability_gate p) (\<lambda>_.
     Inr (p\<lparr>fp_preset_id := py_strip (fp_preset_id p), fp_components := components\<rparr>)))))"

section \<open>Workflow specifications\<close>

record WorkflowSpec =
  wf_name :: string
  wf_preset :: string
  wf_sku :: "SkuOverlay option"
  wf_sources :: ModelSourcesSpec
  wf_output_root :: string
  wf_sequence :: SequenceSpec
  wf_split :: SplitSpec
  wf_transforms :: TransformSpec
  wf_quantization :: QuantizationSpec
  wf_vectors :: VectorSpec
  wf_compile :: CompileSpec
  wf_target :: TargetSpec
  wf_quality :: QualitySpec
  wf_benchmark :: BenchmarkSpec
  wf_stage_configs :: WorkflowStageConfigs
  wf_metadata :: raw_map

definition WorkflowSpec_new :: "WorkflowSpec \<Rightarrow> exn + WorkflowSpec" where
  "WorkflowSpec_new w =
    (let w' = w\<lparr>wf_name := py_strip (wf_name w), wf_preset := py_strip (wf_preset w)\<rparr> in
     bind_res (validate_sequence (wf_sequence w)) (\<lambda>_.
     bind_res (validate_split (wf_split w)) (\<lambda>_.
     bind_res (validate_quantization (wf_quantization w)) (\<lambda>_.
     bind_res (validate_vectors (wf_vectors w)) (\<lambda>_.
     bind_res (validate_compile (wf_compile w)) (\<lambda>_.
     bind_res (validate_quality (wf_quality w)) (\<lambda>_.
     bind_res (validate_benchmark (wf_benchmark w)) (\<lambda>_.
     bind_res (checks [wf_name w' \<noteq> [], wf_preset w' \<noteq> [],
       case wf_sku w of None \<Rightarrow> True | Some s \<Rightarrow> sk_preset_id s = wf_preset w']) (\<lambda>_.
     Inr w')))))))))"

definition preset_id_for_family :: "ModelFamily \<Rightarrow> exn + string" where
  "preset_id_for_family family = (case FAMILY_TO_PRESET family of None \<Rightarrow> Inl key_error | Some p \<Rightarrow> Inr p)"

definition to_workflow_spec :: "BuildSpec \<Rightarrow> exn + WorkflowSpec" where
  "to_workflow_spec b = bind_res (preset_id_for_family (bs_family b)) (\<lambda>preset.
     WorkflowSpec_new \<lparr>wf_name = bs_name b, wf_preset = preset, wf_sku = None, wf_sources = bs_sources b,
       wf_output_root = bs_output_root b, wf_sequence = bs_sequence b, wf_split = bs_split b,
       wf_transforms = bs_transforms b, wf_quantization = bs_quantization b, wf_vectors = bs_vectors b,
       wf_compile = bs_compile b, wf_target = bs_target b, wf_quality = bs_quality b,
       wf_benchmark = bs_benchmark b, wf_stage_configs = bs_stage_configs b, wf_metadata = bs_metadata b\<rparr>)"

section \<open>Resolution\<close>

record ResolvedWorkflow =
  rw_preset :: FamilyPreset
  rw_sku :: "SkuOverlay option"
  rw_pipeline :: PipelineKind
  rw_ars :: "int list"
  rw_decoder_slices :: int
  rw_weight_sharing :: bool
  rw_native_kv :: bool
  rw_embedding_mode :: EmbeddingMode
  rw_lm_head_independent :: bool
  rw_runtime_supported :: bool
  rw_resolved_preset_sha256 :: string
  rw_output_root :: string

definition preset_error :: exn where
  "preset_error = agent_exn InvalidSpecError (Some ''preset'') False"

definition must :: "bool \<Rightarrow> exn + unit" where
  "must b = ensure b preset_error"

text \<open>The attached model of an AR: an entry under the AR's text.\<close>

definition attached_models :: "raw_map \<Rightarrow> raw_map option" where
  "attached_models metadata = as_obj (json_get metadata ''attached_models_by_ar'')"

definition attachment :: "raw_map option \<Rightarrow> int \<Rightarrow> raw_map" where
  "attachment attached ar = (case attached of
     None \<Rightarrow> [] | Some d \<Rightarrow> (case as_obj (json_get d (int_str ar)) of None \<Rightarrow> [] | Some e \<Rightarrow> e))"

definition check_genai :: "FamilyPreset \<Rightarrow> WorkflowSpec \<Rightarrow> exn + unit" where
  "check_genai preset w =
    (let ars = sq_ars (wf_sequence w); attached = attached_models (wf_metadata w) in
     bind_res (must (qz_mode (wf_quantization w) = APPLY_ENCODINGS)) (\<lambda>_.
     bind_res (must (tr_mha2sha (wf_transforms w))) (\<lambda>_.
     bind_res (must (\<not> (1 < length ars \<and> \<not> sq_weight_sharing (wf_sequence w)))) (\<lambda>_.
     if fp_requires_per_ar_onnx preset then
       bind_res (must (list_all (\<lambda>ar. case attached of
           None \<Rightarrow> False | Some d \<Rightarrow> int_str ar \<in> set (map fst d)) ars)) (\<lambda>_.
       must (list_all (\<lambda>ar. json_get (attachment attached ar) ''encodings_path'' \<noteq> JNull) ars))
     else Inr ()))))"

definition check_vit :: "WorkflowSpec \<Rightarrow> exn + unit" where
  "check_vit w =
     bind_res (must (\<not> sq_native_kv (wf_sequence w))) (\<lambda>_.
     bind_res (must (\<not> sq_weight_sharing (wf_sequence w))) (\<lambda>_.
     bind_res (must (sq_ars (wf_sequence w) = [1])) (\<lambda>_.
     bind_res (must (\<not> (sl_decoder_slice_count (wf_split w) \<noteq> 1 \<or> sl_split_lm_head (wf_split w)))) (\<lambda>_.
     must (\<not> tr_mha2sha (wf_transforms w))))))"

text \<open>An overlay can only restrict runtime support.\<close>

definition resolved_runtime :: "FamilyPreset \<Rightarrow> SkuOverlay option \<Rightarrow> bool" where
  "resolved_runtime preset sku = (case sku of
     None \<Rightarrow> fp_runtime_supported preset
   | Some s \<Rightarrow> if sk_runtime_supported s = Some False then False else fp_runtime_supported preset)"

text \<open>\<open>sha\<close> is the digest of a preset (canonical JSON, SHA-256).\<close>

definition resolve_workflow :: "(FamilyPreset \<Rightarrow> string) \<Rightarrow> WorkflowSpec \<Rightarrow> exn + ResolvedWorkflow" where
  "resolve_workflow sha w =
     bind_res (get_preset (wf_preset w)) (\<lambda>preset.
     bind_res (ensure (fp_capability_gate preset = None)
       (agent_exn UnsupportedSdkCapabilityError (Some ''preset'') False)) (\<lambda>_.
     bind_res (if fp_pipeline preset = GENAI_BUILDER then check_genai preset w else Inr ()) (\<lambda>_.
     bind_res (must (\<not> (fp_preset_id preset = ''qwen3_5_omni'' \<and> ms_audio (wf_sources w) = None))) (\<lambda>_.
     bind_res (if fp_preset_id preset = ''vit'' then check_vit w else Inr ()) (\<lambda>_.
     Inr \<lparr>rw_preset = preset, rw_sku = wf_sku w, rw_pipeline = fp_pipeline preset, rw_ars = sq_ars (wf_sequence w),
       rw_decoder_slices = sl_decoder_slice_count (wf_split w), rw_weight_sharing = sq_weight_sharing (wf_sequence w),
       rw_native_kv = sq_native_kv (wf_sequence w), rw_embedding_mode = sl_embedding_mode (wf_split w),
       rw_lm_head_independent = sl_split_lm_head (wf_split w),
       rw_runtime_supported = resolved_runtime preset (wf_sku w),
       rw_resolved_preset_sha256 = sha preset, rw_output_root = wf_output_root w\<rparr>)))))"

section \<open>The family of a preset\<close>

definition family_for_preset :: "string \<Rightarrow> ModelFamily option" where
  "family_for_preset preset_id = (case PRESET_TO_RECORD preset_id of
     None \<Rightarrow> None | Some r \<Rightarrow> ModelFamily_of (fr_model_family r))"

definition GENAI_BENCHMARK_DEFAULTS :: "(string \<times> int) list" where
  "GENAI_BENCHMARK_DEFAULTS = [(''warmup_runs'', 3), (''measured_runs'', 10)]"

definition is_genai_builder_family :: "ModelFamily \<Rightarrow> exn + bool" where
  "is_genai_builder_family family = bind_res (preset_id_for_family family) (\<lambda>p.
     bind_res (get_preset p) (\<lambda>preset. Inr (fp_pipeline preset = GENAI_BUILDER)))"

definition set_benchmark_field :: "string \<Rightarrow> int \<Rightarrow> BenchmarkSpec \<Rightarrow> BenchmarkSpec" where
  "set_benchmark_field k v b = (if k = ''warmup_runs'' then b\<lparr>bn_warmup_runs := v\<rparr>
     else if k = ''measured_runs'' then b\<lparr>bn_measured_runs := v\<rparr> else b)"

definition apply_lane_benchmark_defaults :: "ModelFamily \<Rightarrow> string list \<Rightarrow> BenchmarkSpec \<Rightarrow> exn + BenchmarkSpec" where
  "apply_lane_benchmark_defaults family fields_set benchmark =
     bind_res (is_genai_builder_family family) (\<lambda>genai.
     if \<not> genai then Inr benchmark
     else Inr (foldl (\<lambda>b (k, v). set_benchmark_field k v b) benchmark
       (filter (\<lambda>(k, _). k \<notin> set fields_set) GENAI_BENCHMARK_DEFAULTS)))"

text \<open>The benchmark policy a run executes, with its lane and sample unit.\<close>

definition effective_benchmark_policy :: "BuildSpec \<Rightarrow> exn + raw_map" where
  "effective_benchmark_policy b = bind_res (is_genai_builder_family (bs_family b)) (\<lambda>genai. Inr
     [(''warmup_runs'', JInt (bn_warmup_runs (bs_benchmark b))),
      (''measured_runs'', JInt (bn_measured_runs (bs_benchmark b))),
      (''optrace'', JBool (bn_optrace (bs_benchmark b))),
      (''lane'', JStr (if genai then ''genai_builder'' else ''low_level'')),
      (''sample_unit'', JStr (if genai then ''generate_call'' else ''graph_invocation'')),
      (''aa_calibration_doubles_runs'', JBool True)])"

text \<open>SQNR diagnosis of a failure needs the intermediate outputs.\<close>

definition compile_policy :: "WorkflowSpec \<Rightarrow> CompileSpec" where
  "compile_policy w =
    (let c = wf_compile w in
     if ql_sqnr_modes (wf_quality w) \<noteq> [] \<and> ql_dump_intermediates_on_failure (wf_quality w) \<and>
        \<not> cp_enable_intermediate_outputs c \<and> cp_output_tensors c = []
     then c\<lparr>cp_enable_intermediate_outputs := True\<rparr> else c)"

definition to_build_spec :: "string list \<Rightarrow> WorkflowSpec \<Rightarrow> exn + BuildSpec" where
  "to_build_spec fields_set w = (case family_for_preset (wf_preset w) of
     None \<Rightarrow> Inl preset_error
   | Some family \<Rightarrow> bind_res (apply_lane_benchmark_defaults family fields_set (wf_benchmark w)) (\<lambda>benchmark.
       BuildSpec_new \<lparr>bs_name = wf_name w, bs_family = family, bs_sources = wf_sources w,
         bs_output_root = wf_output_root w, bs_sequence = wf_sequence w, bs_split = wf_split w,
         bs_transforms = wf_transforms w, bs_quantization = wf_quantization w, bs_vectors = wf_vectors w,
         bs_compile = compile_policy w, bs_target = wf_target w, bs_quality = wf_quality w,
         bs_benchmark = benchmark, bs_stage_configs = wf_stage_configs w, bs_metadata = wf_metadata w\<rparr>))"

end
