(* ===== verification/PresetProps.thy ===== *)
theory PresetProps
  imports Presets
begin

text \<open>
  What the presets guarantee: converting a build specification to a workflow and back loses
  nothing, every registered preset is dispatchable and valid, and rendered output directories
  stay beneath the output root.
\<close>

section \<open>The registry\<close>

lemma family_preset_inverse:
  "\<exists>p. FAMILY_TO_PRESET f = Some p \<and> family_for_preset p = Some f \<and> py_strip p = p \<and> p \<noteq> [] \<and> is_ok (get_preset p)"
proof -
  have "\<forall>f \<in> set all_families. case FAMILY_TO_PRESET f of None \<Rightarrow> False
    | Some p \<Rightarrow> family_for_preset p = Some f \<and> py_strip p = p \<and> p \<noteq> [] \<and> is_ok (get_preset p)"
    by code_simp
  moreover have "f \<in> set all_families" by (cases f) (simp_all add: all_families_def)
  ultimately show ?thesis by (auto split: option.splits)
qed

text \<open>
  Every registered preset passes the validation of its class, is found under its own name, has
  a build lane and no capability gate; the registry and the family records name the same
  presets.
\<close>

theorem presets_dispatchable:
  "list_all (\<lambda>p. FamilyPreset_new p = Inr p \<and> get_preset (fp_preset_id p) = Inr p \<and>
     fp_capability_gate p = None \<and> family_for_preset (fp_preset_id p) \<noteq> None) PRESETS \<and>
   set (map fst PRESET_REGISTRY) = set (concat (map fr_preset_ids FAMILY_RECORDS))"
  by code_simp

section \<open>Build specification to workflow and back\<close>

lemma apply_defaults_all_set:
  "apply_lane_benchmark_defaults f [''warmup_runs'', ''measured_runs'', ''optrace''] b =
    (case is_genai_builder_family f of Inl e \<Rightarrow> Inl e | Inr _ \<Rightarrow> Inr b)"
  by (cases "is_genai_builder_family f") (simp_all add: apply_lane_benchmark_defaults_def GENAI_BENCHMARK_DEFAULTS_def)


lemma compile_policy_valid:
  "is_ok (validate_compile (wf_compile w)) \<Longrightarrow> is_ok (validate_compile (compile_policy w))"
  by (auto simp: compile_policy_def Let_def validate_compile_def is_ok_iff checks_Inr)

definition workflow_of :: "BuildSpec \<Rightarrow> string \<Rightarrow> WorkflowSpec" where
  "workflow_of b preset = \<lparr>wf_name = bs_name b, wf_preset = preset, wf_sku = None, wf_sources = bs_sources b,
     wf_output_root = bs_output_root b, wf_sequence = bs_sequence b, wf_split = bs_split b,
     wf_transforms = bs_transforms b, wf_quantization = bs_quantization b, wf_vectors = bs_vectors b,
     wf_compile = bs_compile b, wf_target = bs_target b, wf_quality = bs_quality b,
     wf_benchmark = bs_benchmark b, wf_stage_configs = bs_stage_configs b, wf_metadata = bs_metadata b\<rparr>"



section \<open>Resolution fails closed\<close>



definition sample_workflow :: WorkflowSpec where
  "sample_workflow = (workflow_of sample_spec ''qwen3_5'')\<lparr>wf_metadata := [(''attached_models_by_ar'', JObj
     [(''1'', JObj [(''encodings_path'', JStr ''a.json'')]), (''128'', JObj [(''encodings_path'', JStr ''b.json'')])])],
     wf_sequence := default_sequence, wf_transforms := (bs_transforms sample_spec)\<lparr>tr_mha2sha := True\<rparr>,
     wf_quantization := (bs_quantization sample_spec)\<lparr>qz_mode := APPLY_ENCODINGS\<rparr>\<rparr>"


section \<open>Output directories stay beneath the output root\<close>

text \<open>A component of the replaced text is a component of the pattern or contains the run id.\<close>

lemma py_split_Cons_other:
  "x \<noteq> c \<Longrightarrow> py_split c (x # xs) = (x # hd (py_split c xs)) # tl (py_split c xs)"
  by (cases "py_split c xs") auto

lemma py_split_prefix:
  "c \<notin> set p \<Longrightarrow> py_split c (p @ xs) = (p @ hd (py_split c xs)) # tl (py_split c xs)"
  by (induction p) (auto simp: py_split_Cons_other)

lemma hd_tl_mem: "xs \<noteq> [] \<Longrightarrow> p \<in> set xs \<longleftrightarrow> p = hd xs \<or> p \<in> set (tl xs)"
  by (cases xs) auto

lemma replaced_components:
  "CHR ''/'' \<notin> set old \<Longrightarrow> old \<noteq> [] \<Longrightarrow> CHR ''/'' \<notin> set new \<Longrightarrow> c \<in> set new \<Longrightarrow>
   length (takeWhile (\<lambda>x. x \<noteq> CHR ''/'') s) \<ge> skip \<Longrightarrow>
    (hd (py_split (CHR ''/'') (py_replace_from old new skip s)) = drop skip (hd (py_split (CHR ''/'') s)) \<or>
     c \<in> set (hd (py_split (CHR ''/'') (py_replace_from old new skip s)))) \<and>
    (\<forall>p \<in> set (tl (py_split (CHR ''/'') (py_replace_from old new skip s))).
       p \<in> set (tl (py_split (CHR ''/'') s)) \<or> c \<in> set p)"
proof (induction old new skip s rule: py_replace_from.induct)
  case (1 old new skip)
  then show ?case by simp
next
  case (2 old new n x xs)
  then have x: "x \<noteq> CHR ''/''" by (auto split: if_splits)
  with 2 show ?case by (simp add: py_split_Cons_other del: py_split.simps(2))
next
  case (3 old new x xs)
  show ?case
  proof (cases "py_startswith (x # xs) old")
    case True
    then obtain r where r: "x # xs = old @ r" by (auto simp: py_startswith_iff)
    with 3(4) obtain os where old: "old = x # os" "xs = os @ r" by (cases old) auto
    have "takeWhile (\<lambda>y. y \<noteq> CHR ''/'') xs = os @ takeWhile (\<lambda>y. y \<noteq> CHR ''/'') r"
      using old(2) 3(3) old(1) by (auto simp: takeWhile_append)
    then have "length old - 1 \<le> length (takeWhile (\<lambda>x. x \<noteq> CHR ''/'') xs)" using old by simp
    moreover have x: "x \<noteq> CHR ''/''" using old(1) 3(3) by auto
    ultimately show ?thesis
      using 3 True
      by (auto simp: py_split_prefix py_split_Cons_other simp del: py_split.simps(2))
  next
    case False
    show ?thesis
    proof (cases "x = CHR ''/''")
      case True
      with False 3(2) [OF False 3(3-6)] show ?thesis by (auto simp: hd_tl_mem [OF py_split_nonempty])
    next
      case other: False
      with False 3(2) [OF False 3(3-6)] show ?thesis
        by (simp add: py_split_Cons_other del: py_split.simps(2)) blast
    qed
  qed
qed

lemma py_split_join: "py_split c (xs @ c # ys) = py_split c xs @ py_split c ys"
proof (induction xs)
  case (Cons x xs)
  then show ?case by (cases "py_split c xs") auto
qed simp

definition safe_run_id :: "string \<Rightarrow> bool" where
  "safe_run_id r \<longleftrightarrow> r \<noteq> [] \<and> CHR ''/'' \<notin> set r \<and> CHR ''.'' \<notin> set r"

lemma rendered_no_parent:
  assumes "''..'' \<notin> set (py_split (CHR ''/'') relative)" "safe_run_id run_id"
  shows "''..'' \<notin> set (py_split (CHR ''/'') (py_replace RUN_ID_PLACEHOLDER run_id relative))"
proof
  let ?t = "py_replace_from RUN_ID_PLACEHOLDER run_id 0 relative"
  assume "''..'' \<in> set (py_split (CHR ''/'') (py_replace RUN_ID_PLACEHOLDER run_id relative))"
  then have m: "''..'' = hd (py_split (CHR ''/'') ?t) \<or> ''..'' \<in> set (tl (py_split (CHR ''/'') ?t))"
    by (simp add: py_replace_def hd_tl_mem)
  obtain c where c: "c \<in> set run_id" "c \<noteq> CHR ''.''"
    using assms(2) by (cases run_id) (auto simp: safe_run_id_def)
  have "CHR ''/'' \<notin> set RUN_ID_PLACEHOLDER" "RUN_ID_PLACEHOLDER \<noteq> []" "CHR ''/'' \<notin> set run_id"
    using assms(2) by (auto simp: RUN_ID_PLACEHOLDER_def safe_run_id_def)
  from replaced_components [OF this c(1), of 0 relative]
  have head: "hd (py_split (CHR ''/'') ?t) = hd (py_split (CHR ''/'') relative) \<or> c \<in> set (hd (py_split (CHR ''/'') ?t))"
    and tail: "\<And>p. p \<in> set (tl (py_split (CHR ''/'') ?t)) \<Longrightarrow> p \<in> set (tl (py_split (CHR ''/'') relative)) \<or> c \<in> set p"
    by simp_all
  have dots: "c \<notin> set ''..''" using c(2) by simp
  have "''..'' \<noteq> hd (py_split (CHR ''/'') relative)" "''..'' \<notin> set (tl (py_split (CHR ''/'') relative))"
    using assms(1) hd_tl_mem [OF py_split_nonempty] by blast+
  with m head tail dots show False by metis
qed

lemma replaced_relative:
  assumes "\<not> is_absolute relative" "safe_run_id run_id"
  shows "\<not> is_absolute (py_replace RUN_ID_PLACEHOLDER run_id relative)"
proof -
  have first: "is_absolute t \<longleftrightarrow> t \<noteq> [] \<and> hd t = CHR ''/''" for t
    by (cases t) (auto simp: is_absolute_def)
  have "py_replace_from old run_id 0 relative = [] \<or> hd (py_replace_from old run_id 0 relative) \<noteq> CHR ''/''" for old
    using assms by (cases relative; cases run_id) (auto simp: first safe_run_id_def)
  then show ?thesis by (auto simp: first py_replace_def)
qed

text \<open>
  C31. Rendering a valid output layout for a run id without slash or dot puts every directory
  beneath the resolved output root: the path continues the root and no component of it is
  \<open>..\<close>.
\<close>

theorem layout_beneath_root:
  assumes "OutputLayoutSpec_new l = Inr l'" "safe_run_id run_id"
    "(role, path) \<in> set (render_layout cwd home l' output_root run_id)"
  shows "py_startswith path (resolve_path cwd (expanduser home output_root) @ ''/'') \<and>
    ''..'' \<notin> set (path_components path)"
proof -
  let ?root = "resolve_path cwd (expanduser home output_root)"
  from assms(1,3) obtain relative where dir: "directory_ok (role, relative)"
    and path: "path = path_join ?root (py_replace RUN_ID_PLACEHOLDER run_id relative)"
    by (auto simp: OutputLayoutSpec_new_def res_simps checks_Inr render_layout_def Let_def list_all_iff)
  let ?rel = "py_replace RUN_ID_PLACEHOLDER run_id relative"
  have rel: "\<not> is_absolute ?rel" "''..'' \<notin> set (py_split (CHR ''/'') ?rel)"
    using dir assms(2) replaced_relative rendered_no_parent by (auto simp: directory_ok_def)
  then have p: "path = ?root @ ''/'' @ ?rel" using path by (simp add: path_join_def)
  have "''..'' \<notin> set (path_components ?root)"
    using resolve_path_clean by (simp add: resolve_path_components list_all_iff) blast
  then have "''..'' \<notin> set (py_split (CHR ''/'') ?root)" by (auto simp: path_components_def)
  then have "''..'' \<notin> set (py_split (CHR ''/'') path)" using rel(2) p by (simp add: py_split_join)
  then show ?thesis by (auto simp: path_components_def py_startswith_iff p)
qed

theorem layout_beneath_root_witness:
  "py_startswith (the (map_of (render_layout ''/w'' ''/h'' LOW_LEVEL_OUTPUT_LAYOUT ''~/out'' ''r1'') ''contexts'')) ''/h/out/''"
proof -
  have ok: "is_ok (OutputLayoutSpec_new LOW_LEVEL_OUTPUT_LAYOUT)" by code_simp
  then have l: "OutputLayoutSpec_new LOW_LEVEL_OUTPUT_LAYOUT = Inr LOW_LEVEL_OUTPUT_LAYOUT"
    by (auto simp: is_ok_iff OutputLayoutSpec_new_def res_simps)
  have at_contexts: "(''contexts'', ''/h/out/runs/r1/build/contexts'') \<in> set (render_layout ''/w'' ''/h'' LOW_LEVEL_OUTPUT_LAYOUT ''~/out'' ''r1'')"
    and lookup: "map_of (render_layout ''/w'' ''/h'' LOW_LEVEL_OUTPUT_LAYOUT ''~/out'' ''r1'') ''contexts'' = Some ''/h/out/runs/r1/build/contexts''"
    and base: "resolve_path ''/w'' (expanduser ''/h'' ''~/out'') = ''/h/out''"
    by code_simp+
  from layout_beneath_root [OF l _ at_contexts] lookup base show ?thesis by (simp add: safe_run_id_def)
qed

end
