(* ===== verification/SplitPlan.thy ===== *)
theory SplitPlan
  imports Errors
begin

text \<open>
  \<open>src/qairt_agent/families/split_plan.py\<close>: the deterministic split of a model's decoder
  layers into an embedding slice, decoder slices and an LM-head slice. Layer ranges are
  half-open and kept as Python integers (\<open>int\<close>).
\<close>

datatype SliceKind = EMBEDDING | DECODER | LM_HEAD

record SliceSpec =
  ss_index :: nat
  ss_name :: string
  ss_kind :: SliceKind
  ss_layer_start :: "int option"
  ss_layer_end :: "int option"

definition layer_count :: "SliceSpec \<Rightarrow> int" where
  "layer_count s = (case (ss_layer_start s, ss_layer_end s) of
     (Some a, Some b) \<Rightarrow> b - a | _ \<Rightarrow> 0)"

record SplitPlan =
  sp_num_decoder_layers :: int
  sp_slices :: "SliceSpec list"
  sp_split_embedding :: bool
  sp_split_lm_head :: bool

definition num_splits :: "SplitPlan \<Rightarrow> nat" where
  "num_splits p = length (sp_slices p)"

definition decoder_slices_of :: "SplitPlan \<Rightarrow> SliceSpec list" where
  "decoder_slices_of p = filter (\<lambda>s. ss_kind s = DECODER) (sp_slices p)"

definition distributed_decoder_layers :: "SplitPlan \<Rightarrow> int" where
  "distributed_decoder_layers p = sum_list (map layer_count (decoder_slices_of p))"

fun first_lm_head_layer :: "SliceSpec list \<Rightarrow> int option" where
  "first_lm_head_layer [] = None"
| "first_lm_head_layer (s # ss) =
     (if ss_kind s = LM_HEAD \<and> ss_layer_start s \<noteq> None then ss_layer_start s
      else first_lm_head_layer ss)"

definition folded_lm_head_layer :: "SplitPlan \<Rightarrow> int option" where
  "folded_lm_head_layer p = first_lm_head_layer (sp_slices p)"

record qairt_kwargs =
  kw_num_splits :: nat
  kw_split_embedding :: bool
  kw_split_lm_head :: bool

definition to_qairt_kwargs :: "SplitPlan \<Rightarrow> qairt_kwargs" where
  "to_qairt_kwargs p = \<lparr>kw_num_splits = num_splits p,
     kw_split_embedding = sp_split_embedding p, kw_split_lm_head = sp_split_lm_head p\<rparr>"

text \<open>
  The distribution loop over \<open>range(decoder_slices)\<close>: the index list left, the running
  \<open>layer_start\<close> and the slices so far.
\<close>

fun decoder_loop ::
  "nat list \<Rightarrow> int \<Rightarrow> int \<Rightarrow> nat \<Rightarrow> int \<Rightarrow> SliceSpec list \<Rightarrow> SliceSpec list"
where
  "decoder_loop [] base remainder width layer_start slices = slices"
| "decoder_loop (decoder_index # rest) base remainder width layer_start slices =
     (let layer_count' = base + (if int decoder_index < remainder then 1 else 0);
          layer_end = layer_start + layer_count'
      in decoder_loop rest base remainder width layer_end
           (slices @ [\<lparr>ss_index = length slices, ss_name = ''decoder_'' @ zpad width decoder_index,
              ss_kind = DECODER, ss_layer_start = Some layer_start, ss_layer_end = Some layer_end\<rparr>]))"

definition build_split_plan :: "int \<Rightarrow> int \<Rightarrow> bool \<Rightarrow> bool \<Rightarrow> exn + SplitPlan" where
  "build_split_plan num_decoder_layers decoder_slices split_embedding split_lm_head =
     (let distributed_layers = num_decoder_layers - (if split_lm_head then 1 else 0)
      in if num_decoder_layers \<le> 0 then Inl value_error
         else if decoder_slices \<le> 0 then Inl value_error
         else if decoder_slices > distributed_layers then Inl value_error
         else
           (let s0 = (if split_embedding
                 then [\<lparr>ss_index = 0, ss_name = ''embedding'', ss_kind = EMBEDDING,
                        ss_layer_start = None, ss_layer_end = None\<rparr>] else []);
                base = distributed_layers div decoder_slices;
                remainder = distributed_layers mod decoder_slices;
                decoder_width = max 2 (length (dec (nat (decoder_slices - 1))));
                s1 = decoder_loop [0..<nat decoder_slices] base remainder decoder_width 0 s0;
                s2 = (if split_lm_head
                  then s1 @ [\<lparr>ss_index = length s1, ss_name = ''lm_head'', ss_kind = LM_HEAD,
                         ss_layer_start = Some distributed_layers,
                         ss_layer_end = Some num_decoder_layers\<rparr>] else s1)
            in Inr \<lparr>sp_num_decoder_layers = num_decoder_layers, sp_slices = s2,
                 sp_split_embedding = split_embedding, sp_split_lm_head = split_lm_head\<rparr>))"

section \<open>The distribution loop\<close>

text \<open>The layers a slice owns, and those of a list of slices, in order.\<close>

definition slice_layers :: "SliceSpec \<Rightarrow> int list" where
  "slice_layers s = (case (ss_layer_start s, ss_layer_end s) of
     (Some a, Some b) \<Rightarrow> [a..b - 1] | _ \<Rightarrow> [])"

definition all_layers :: "SliceSpec list \<Rightarrow> int list" where
  "all_layers ss = concat (map slice_layers ss)"

lemma all_layers_append [simp]: "all_layers (a @ b) = all_layers a @ all_layers b"
  by (simp add: all_layers_def)

lemma upto_join: "a \<le> b \<Longrightarrow> b \<le> c + 1 \<Longrightarrow> [a..b - 1] @ [b..c] = [a..c]" for a b c :: int
proof (cases "b \<le> c")
  case True
  then show "a \<le> b \<Longrightarrow> ?thesis" by (simp add: upto_split1)
next
  case False
  moreover assume "b \<le> c + 1"
  ultimately have "c = b - 1" by simp
  then show ?thesis by simp
qed

text \<open>Number of extra layers among the first \<open>i\<close> slices.\<close>

definition loop_start :: "int \<Rightarrow> int \<Rightarrow> nat \<Rightarrow> int" where
  "loop_start base remainder i = int i * base + min (int i) remainder"

definition loop_slice :: "int \<Rightarrow> int \<Rightarrow> nat \<Rightarrow> nat \<Rightarrow> nat \<Rightarrow> SliceSpec" where
  "loop_slice base remainder width off i =
     \<lparr>ss_index = off + i, ss_name = ''decoder_'' @ zpad width i, ss_kind = DECODER,
      ss_layer_start = Some (loop_start base remainder i),
      ss_layer_end = Some (loop_start base remainder (Suc i))\<rparr>"

lemma loop_start_Suc:
  "loop_start base remainder (Suc i) =
     loop_start base remainder i + (base + (if int i < remainder then 1 else 0))"
  by (simp add: loop_start_def algebra_simps min_def)

text \<open>Closed form of the loop: slice \<open>i\<close> covers the layers between two starts.\<close>

lemma decoder_loop_closed:
  assumes "i \<le> n" "length acc = off + i"
  shows "decoder_loop [i..<n] base remainder width (loop_start base remainder i) acc =
    acc @ map (loop_slice base remainder width off) [i..<n]"
  using assms
proof (induction "n - i" arbitrary: i acc)
  case 0
  then show ?case by simp
next
  case (Suc k)
  then have lt: "i < n" by simp
  let ?s = "loop_slice base remainder width off i"
  have "decoder_loop [i..<n] base remainder width (loop_start base remainder i) acc =
      decoder_loop [Suc i..<n] base remainder width (loop_start base remainder (Suc i)) (acc @ [?s])"
    using lt Suc.prems by (simp add: upt_conv_Cons loop_slice_def loop_start_Suc Let_def)
  also have "\<dots> = (acc @ [?s]) @ map (loop_slice base remainder width off) [Suc i..<n]"
    using Suc.hyps(2) Suc.prems lt by (intro Suc.hyps(1)) auto
  also have "\<dots> = acc @ map (loop_slice base remainder width off) [i..<n]"
    using lt by (simp add: upt_conv_Cons)
  finally show ?case .
qed

lemma loop_start_mono: "0 \<le> base \<Longrightarrow> loop_start base remainder i \<le> loop_start base remainder (Suc i)"
  by (simp add: loop_start_Suc)

lemma loop_start_0 [simp]: "0 \<le> remainder \<Longrightarrow> loop_start base remainder 0 = 0"
  by (simp add: loop_start_def)

lemma loop_start_nonneg: "0 \<le> base \<Longrightarrow> 0 \<le> remainder \<Longrightarrow> 0 \<le> loop_start base remainder i"
  by (simp add: loop_start_def)

lemma all_layers_loop:
  assumes "0 \<le> base" "0 \<le> remainder"
  shows "all_layers (map (loop_slice base remainder width off) [0..<n]) =
    [0..loop_start base remainder n - 1]"
proof (induction n)
  case 0
  then show ?case using assms by (simp add: all_layers_def)
next
  case (Suc n)
  let ?L = "loop_start base remainder"
  have join: "[0..?L n - 1] @ [?L n..?L (Suc n) - 1] = [0..?L (Suc n) - 1]"
    using loop_start_nonneg [OF assms] loop_start_mono [OF assms(1), of remainder n]
    by (intro upto_join) simp_all
  have one: "all_layers [loop_slice base remainder width off n] = [?L n..?L (Suc n) - 1]"
    by (simp add: all_layers_def slice_layers_def loop_slice_def)
  have "all_layers (map (loop_slice base remainder width off) [0..<Suc n]) =
      all_layers (map (loop_slice base remainder width off) [0..<n]) @
      all_layers [loop_slice base remainder width off n]"
    by simp
  also have "\<dots> = [0..?L (Suc n) - 1]"
    by (simp only: Suc.IH one join)
  finally show ?case .
qed

lemma loop_start_total:
  "0 < k \<Longrightarrow> loop_start (n div int k) (n mod int k) k = n"
  by (simp add: loop_start_def min_absorb2 mult.commute less_imp_le)

section \<open>The plan in closed form\<close>

definition embedding_part :: "bool \<Rightarrow> SliceSpec list" where
  "embedding_part e = (if e then [\<lparr>ss_index = 0, ss_name = ''embedding'', ss_kind = EMBEDDING,
     ss_layer_start = None, ss_layer_end = None\<rparr>] else [])"

definition lm_head_part :: "bool \<Rightarrow> nat \<Rightarrow> int \<Rightarrow> SliceSpec list" where
  "lm_head_part l i n = (if l then [\<lparr>ss_index = i, ss_name = ''lm_head'', ss_kind = LM_HEAD,
     ss_layer_start = Some (n - 1), ss_layer_end = Some n\<rparr>] else [])"

definition plan_ok :: "int \<Rightarrow> int \<Rightarrow> bool \<Rightarrow> bool" where
  "plan_ok n k l \<longleftrightarrow> 0 < n \<and> 0 < k \<and> k \<le> n - (if l then 1 else 0)"

lemma build_split_plan_closed:
  assumes "plan_ok n k l"
  shows "\<exists>w. build_split_plan n k e l = Inr \<lparr>sp_num_decoder_layers = n,
     sp_slices = embedding_part e @
       map (loop_slice ((n - (if l then 1 else 0)) div k) ((n - (if l then 1 else 0)) mod k) w
             (length (embedding_part e))) [0..<nat k] @
       lm_head_part l (length (embedding_part e) + nat k) n,
     sp_split_embedding = e, sp_split_lm_head = l\<rparr>"
proof -
  let ?d = "n - (if l then 1 else 0)"
  let ?w = "max 2 (length (dec (nat (k - 1))))"
  have "decoder_loop [0..<nat k] (?d div k) (?d mod k) ?w (loop_start (?d div k) (?d mod k) 0)
        (embedding_part e) = embedding_part e @
      map (loop_slice (?d div k) (?d mod k) ?w (length (embedding_part e))) [0..<nat k]"
    by (rule decoder_loop_closed) auto
  moreover have "loop_start (?d div k) (?d mod k) 0 = 0"
    using assms by (simp add: plan_ok_def)
  ultimately have loop: "decoder_loop [0..<nat k] (?d div k) (?d mod k) ?w 0 (embedding_part e) =
      embedding_part e @
      map (loop_slice (?d div k) (?d mod k) ?w (length (embedding_part e))) [0..<nat k]"
    by simp
  show ?thesis
    using assms loop
    by (auto simp: build_split_plan_def plan_ok_def Let_def lm_head_part_def
        embedding_part_def [symmetric] intro!: exI [of _ ?w])
qed

lemma build_split_plan_fails: "\<not> plan_ok n k l \<Longrightarrow> build_split_plan n k e l = Inl value_error"
  by (auto simp: build_split_plan_def plan_ok_def Let_def)

section \<open>What a plan guarantees\<close>

lemma build_split_plan_cases:
  assumes "build_split_plan n k e l = Inr p"
  obtains w where "plan_ok n k l" and
    "p = \<lparr>sp_num_decoder_layers = n,
     sp_slices = embedding_part e @
       map (loop_slice ((n - (if l then 1 else 0)) div k) ((n - (if l then 1 else 0)) mod k) w
             (length (embedding_part e))) [0..<nat k] @
       lm_head_part l (length (embedding_part e) + nat k) n,
     sp_split_embedding = e, sp_split_lm_head = l\<rparr>"
proof -
  have ok: "plan_ok n k l"
    using assms build_split_plan_fails by fastforce
  from build_split_plan_closed [OF ok, of e] assms that ok show ?thesis by fastforce
qed

lemma plan_ok_pos: "plan_ok n k l \<Longrightarrow> 0 \<le> (n - (if l then 1 else 0)) div k"
  "plan_ok n k l \<Longrightarrow> 0 \<le> (n - (if l then 1 else 0)) mod k"
  by (auto simp: plan_ok_def pos_imp_zdiv_nonneg_iff)

lemma loop_start_end:
  assumes "plan_ok n k l"
  shows "loop_start ((n - (if l then 1 else 0)) div k) ((n - (if l then 1 else 0)) mod k) (nat k) =
    n - (if l then 1 else 0)"
  using assms loop_start_total [of "nat k" "n - (if l then 1 else 0)"] by (auto simp: plan_ok_def)

lemma all_layers_parts [simp]:
  "all_layers (embedding_part e) = []"
  "all_layers (lm_head_part l i n) = (if l then [n - 1] else [])"
  by (simp_all add: all_layers_def embedding_part_def lm_head_part_def slice_layers_def)

lemma plan_layers:
  assumes "plan_ok n k l"
  shows "all_layers (embedding_part e @
      map (loop_slice ((n - (if l then 1 else 0)) div k) ((n - (if l then 1 else 0)) mod k) w off)
        [0..<nat k] @ lm_head_part l i n) = [0..n - 1]"
proof -
  let ?d = "n - (if l then 1 else 0)"
  have "all_layers (map (loop_slice (?d div k) (?d mod k) w off) [0..<nat k]) = [0..?d - 1]"
    by (simp only: all_layers_loop [OF plan_ok_pos [OF assms]] loop_start_end [OF assms])
  then show ?thesis
    using assms upto_join [of 0 "n - 1" "n - 1"] by (simp add: plan_ok_def)
qed

lemma plan_covers:
  assumes "build_split_plan n k e l = Inr p"
  shows "all_layers (sp_slices p) = [0..n - 1]"
  using assms
proof (rule build_split_plan_cases)
  fix w
  let ?d = "n - (if l then 1 else 0)"
  let ?m = "map (loop_slice (?d div k) (?d mod k) w (length (embedding_part e))) [0..<nat k]"
  assume ok: "plan_ok n k l" and p: "p = \<lparr>sp_num_decoder_layers = n,
     sp_slices = embedding_part e @ ?m @ lm_head_part l (length (embedding_part e) + nat k) n,
     sp_split_embedding = e, sp_split_lm_head = l\<rparr>"
  have sl: "sp_slices p = embedding_part e @ ?m @ lm_head_part l (length (embedding_part e) + nat k) n"
    by (simp add: p)
  show ?thesis unfolding sl by (rule plan_layers [OF ok])
qed

lemma kind_loop_slice [simp]: "ss_kind (loop_slice b r w off i) = DECODER"
  by (simp add: loop_slice_def)

lemma layer_count_loop_slice [simp]:
  "layer_count (loop_slice b r w off i) = b + (if int i < r then 1 else 0)"
  by (simp add: layer_count_def loop_slice_def loop_start_Suc)

lemma filter_parts [simp]:
  "filter (\<lambda>s. ss_kind s = DECODER) (embedding_part e) = []"
  "filter (\<lambda>s. ss_kind s = DECODER) (lm_head_part l i n) = []"
  "filter (\<lambda>s. ss_kind s = DECODER) (map (loop_slice b r w off) is) = map (loop_slice b r w off) is"
  by (simp_all add: embedding_part_def lm_head_part_def filter_map comp_def)

lemma sum_layer_counts:
  "0 \<le> r \<Longrightarrow> sum_list (map layer_count (map (loop_slice b r w off) [0..<m])) = loop_start b r m"
  by (induction m) (simp_all add: loop_start_Suc)

lemma folded_append:
  "(\<forall>s \<in> set a. ss_kind s \<noteq> LM_HEAD) \<Longrightarrow> first_lm_head_layer (a @ b) = first_lm_head_layer b"
  by (induction a) auto

text \<open>
  C20. A plan covers the model exactly: reading the slices in order and concatenating the
  layers they own gives every decoder layer \<open>0..n-1\<close> once and in order. The plan has one
  slice per requested decoder slice plus the embedding and LM-head slices asked for, their
  indices are their positions, the layers spread over the decoder slices are all but the
  folded one, and the LM-head slice owns exactly the last layer.
\<close>

theorem build_split_plan_tiles:
  assumes "build_split_plan n k e l = Inr p"
  shows "all_layers (sp_slices p) = [0..n - 1] \<and>
    num_splits p = nat k + (if e then 1 else 0) + (if l then 1 else 0) \<and>
    map ss_index (sp_slices p) = [0..<num_splits p] \<and>
    distributed_decoder_layers p = n - (if l then 1 else 0) \<and>
    folded_lm_head_layer p = (if l then Some (n - 1) else None)"
  using assms
proof (rule build_split_plan_cases)
  fix w
  let ?d = "n - (if l then 1 else 0)"
  let ?o = "length (embedding_part e)"
  let ?m = "map (loop_slice (?d div k) (?d mod k) w ?o) [0..<nat k]"
  assume ok: "plan_ok n k l"
    and p: "p = \<lparr>sp_num_decoder_layers = n, sp_slices = embedding_part e @ ?m @
      lm_head_part l (?o + nat k) n, sp_split_embedding = e, sp_split_lm_head = l\<rparr>"
  note nn = plan_ok_pos [OF ok]
  have "all_layers (sp_slices p) = [0..n - 1]" using assms by (rule plan_covers)
  moreover have "num_splits p = nat k + (if e then 1 else 0) + (if l then 1 else 0)"
    by (simp add: p num_splits_def embedding_part_def lm_head_part_def)
  moreover have "map ss_index (sp_slices p) = [0..<num_splits p]"
    by (cases e; cases l) (simp_all add: p num_splits_def embedding_part_def lm_head_part_def
        loop_slice_def comp_def map_Suc_upt upt_conv_Cons del: upt_Suc flip: upt_Suc_append)
  moreover have "distributed_decoder_layers p = ?d"
    using nn loop_start_end [OF ok]
    by (simp add: p distributed_decoder_layers_def decoder_slices_of_def sum_layer_counts
        del: map_map)
  moreover have "folded_lm_head_layer p = (if l then Some (n - 1) else None)"
    using folded_append [of "embedding_part e @ ?m" "lm_head_part l (?o + nat k) n"]
    by (auto simp: p folded_lm_head_layer_def lm_head_part_def embedding_part_def)
  ultimately show ?thesis by blast
qed

theorem build_split_plan_tiles_witness:
  "\<exists>p. build_split_plan 28 4 True True = Inr p \<and> all_layers (sp_slices p) = [0..27] \<and>
     num_splits p = 6 \<and> folded_lm_head_layer p = Some 27"
proof -
  have "plan_ok 28 4 True" by (simp add: plan_ok_def)
  then obtain p where p: "build_split_plan 28 4 True True = Inr p"
    using build_split_plan_closed by blast
  from build_split_plan_tiles [OF p] p show ?thesis by auto
qed

text \<open>
  C40. The distribution is balanced and front-loaded as \<open>split_llm\<close> does it: every
  decoder slice owns at least one layer, an earlier slice never owns fewer layers than a
  later one, and they differ by at most one. The slice names of a plan are pairwise distinct.
\<close>

theorem build_split_plan_balanced:
  assumes "build_split_plan n k e l = Inr p"
    and "i \<le> j" "j < length (decoder_slices_of p)"
  shows "1 \<le> layer_count (decoder_slices_of p ! j) \<and>
    layer_count (decoder_slices_of p ! j) \<le> layer_count (decoder_slices_of p ! i) \<and>
    layer_count (decoder_slices_of p ! i) \<le> layer_count (decoder_slices_of p ! j) + 1 \<and>
    distinct (map ss_name (sp_slices p))"
  using assms(1)
proof (rule build_split_plan_cases)
  fix w
  let ?d = "n - (if l then 1 else 0)"
  let ?o = "length (embedding_part e)"
  let ?m = "map (loop_slice (?d div k) (?d mod k) w ?o) [0..<nat k]"
  assume ok: "plan_ok n k l"
    and p: "p = \<lparr>sp_num_decoder_layers = n, sp_slices = embedding_part e @ ?m @
      lm_head_part l (?o + nat k) n, sp_split_embedding = e, sp_split_lm_head = l\<rparr>"
  have ds: "decoder_slices_of p = ?m"
    by (simp add: p decoder_slices_of_def)
  have base: "1 \<le> ?d div k"
    using ok zdiv_mono1 [of k ?d k] by (auto simp: plan_ok_def)
  have "distinct (map ss_name (sp_slices p))"
    by (cases e; cases l) (auto simp: p embedding_part_def lm_head_part_def loop_slice_def comp_def
        distinct_map inj_on_def)
  with assms(2,3) ds base show ?thesis by auto
qed

theorem build_split_plan_balanced_witness:
  "\<exists>p. build_split_plan 28 4 True True = Inr p \<and>
     layer_count (decoder_slices_of p ! 3) \<le> layer_count (decoder_slices_of p ! 0)"
proof -
  have "plan_ok 28 4 True" by (simp add: plan_ok_def)
  then obtain p where p: "build_split_plan 28 4 True True = Inr p"
    using build_split_plan_closed by blast
  have "length (decoder_slices_of p) = 4"
    using p by (rule build_split_plan_cases) (simp add: decoder_slices_of_def)
  with build_split_plan_balanced [OF p, of 0 3] p show ?thesis by simp
qed

text \<open>
  C40. The planner fails exactly on the arguments it must reject (a non-positive count, or
  more decoder slices than layers left once the LM head takes its own), and always with a
  \<open>ValueError\<close>.
\<close>

theorem build_split_plan_fails_iff:
  "build_split_plan n k e l =
     Inl value_error \<longleftrightarrow> n \<le> 0 \<or> k \<le> 0 \<or> k > n - (if l then 1 else 0)"
  by (auto simp: build_split_plan_def Let_def)

end
