(* ===== verification/AdbPaths.thy ===== *)
theory AdbPaths
  imports Errors
begin

text \<open>
  \<open>src/qairt_agent/device/adb.py\<close>, the pure part: the canonical lease identity of an ADB
  server address, the grammar of remote attempt directories, and the device configuration.
  Loopback detection follows Python's \<open>ipaddress\<close> module: dotted quads without leading
  zeros, and IPv6 text with at most one \<open>::\<close>, an optional dotted tail and an optional scope.
\<close>

section \<open>IP addresses\<close>

definition octet_ok :: "string \<Rightarrow> bool" where
  "octet_ok s \<longleftrightarrow> py_isdigit s \<and> length s \<le> 3 \<and> (s = ''0'' \<or> hd s \<noteq> CHR ''0'') \<and> undec s \<le> 255"

definition ipv4_octets :: "string \<Rightarrow> nat list option" where
  "ipv4_octets s = (let ps = py_split (CHR ''.'') s
     in if length ps = 4 \<and> list_all octet_ok ps then Some (map undec ps) else None)"

definition hex_val :: "char \<Rightarrow> nat option" where
  "hex_val c = (let n = (of_char c :: nat)
     in if 48 \<le> n \<and> n \<le> 57 then Some (n - 48)
        else if 97 \<le> n \<and> n \<le> 102 then Some (n - 87)
        else if 65 \<le> n \<and> n \<le> 70 then Some (n - 55) else None)"

definition hextet :: "string \<Rightarrow> nat option" where
  "hextet s = (if 1 \<le> length s \<and> length s \<le> 4 \<and> list_all (\<lambda>c. hex_val c \<noteq> None) s
     then Some (foldl (\<lambda>a c. 16 * a + the (hex_val c)) 0 s) else None)"

fun hextets :: "string list \<Rightarrow> nat list option" where
  "hextets [] = Some []"
| "hextets (p # ps) = (case (hextet p, hextets ps) of (Some h, Some hs) \<Rightarrow> Some (h # hs) | _ \<Rightarrow> None)"

text \<open>The index of the one empty piece strictly inside the list, \<open>None\<close> when there are two.\<close>

definition skip_indices :: "string list \<Rightarrow> nat list" where
  "skip_indices ps = filter (\<lambda>i. ps ! i = []) [1..<length ps - 1]"

definition ipv6_pieces :: "string list \<Rightarrow> nat list option" where
  "ipv6_pieces ps =
     (if length ps < 3 \<or> length ps > 9 then None
      else case skip_indices ps of
        [] \<Rightarrow> if length ps = 8 then hextets ps else None
      | [k] \<Rightarrow>
          (let hi = (if ps ! 0 = [] then k - 1 else k);
               lo = (if last ps = [] then length ps - k - 2 else length ps - k - 1)
           in if (ps ! 0 = [] \<and> hi \<noteq> 0) \<or> (last ps = [] \<and> lo \<noteq> 0) \<or> hi + lo > 7 then None
              else (case (hextets (take hi ps), hextets (drop (length ps - lo) ps)) of
                 (Some a, Some b) \<Rightarrow> Some (a @ replicate (8 - (hi + lo)) 0 @ b)
               | _ \<Rightarrow> None))
      | _ \<Rightarrow> None)"

text \<open>The pieces after \<open>split(":")\<close>, a dotted tail replaced by its two hextets.\<close>

definition ipv6_hextets :: "string \<Rightarrow> nat list option" where
  "ipv6_hextets s =
     (let ps = py_split (CHR '':'') s
      in if length ps < 3 then None
         else if CHR ''.'' \<in> set (last ps)
         then (case ipv4_octets (last ps) of
             Some [a, b, c, d] \<Rightarrow>
               (case ipv6_pieces (butlast ps @ [''0'', ''0'']) of
                  Some hs \<Rightarrow> Some (take 6 hs @ [256 * a + b, 256 * c + d])
                | None \<Rightarrow> None)
           | _ \<Rightarrow> None)
         else ipv6_pieces ps)"

text \<open>The address before a non-empty \<open>%scope\<close>.\<close>

definition split_scope_id :: "string \<Rightarrow> string option" where
  "split_scope_id s = (case py_split (CHR ''%'') s of
     [a] \<Rightarrow> Some a | [a, sc] \<Rightarrow> (if sc = [] then None else Some a) | _ \<Rightarrow> None)"

text \<open>\<open>ip_address(host).is_loopback\<close>, \<open>False\<close> when the text is no address.\<close>

definition ip_is_loopback :: "string \<Rightarrow> bool" where
  "ip_is_loopback h =
     (case ipv4_octets h of
        Some os \<Rightarrow> hd os = 127
      | None \<Rightarrow>
          if CHR ''/'' \<in> set h then False
          else (case split_scope_id h of
            None \<Rightarrow> False
          | Some a \<Rightarrow> ipv6_hextets a = Some [0, 0, 0, 0, 0, 0, 0, 1]))"

section \<open>The canonical server identity\<close>

text \<open>The two container host aliases of \<open>harness/constraints.json\<close>.\<close>

record host_aliases =
  docker_host_alias :: string
  apple_container_host_alias :: string

definition fold_host :: "string \<Rightarrow> string" where
  "fold_host h = py_rstrip_char (CHR ''.'') (py_lower h)"

definition unbracket :: "string \<Rightarrow> string" where
  "unbracket h = (if py_startswith h ''['' \<and> py_endswith h '']'' then butlast (tl h) else h)"

definition is_loopback_host :: "host_aliases \<Rightarrow> string \<Rightarrow> bool" where
  "is_loopback_host al h \<longleftrightarrow>
     h = ''localhost'' \<or>
     h = fold_host (docker_host_alias al) \<or> h = fold_host (apple_container_host_alias al) \<or>
     ip_is_loopback h"

definition canonicalize_adb_server :: "host_aliases \<Rightarrow> string \<Rightarrow> exn + string" where
  "canonicalize_adb_server al server =
     (case py_rpartition (CHR '':'') (py_strip server) of
        None \<Rightarrow> Inl value_error
      | Some (host, port) \<Rightarrow>
          if host = [] \<or> \<not> py_isdigit port then Inl value_error
          else
            (let normalized_host = unbracket (fold_host (py_strip host));
                 normalized_host' =
                   (if is_loopback_host al normalized_host then ''localhost'' else normalized_host)
             in Inr (normalized_host' @ '':'' @ dec (undec port))))"

text \<open>A host that the normalization leaves alone.\<close>

definition normal_host :: "string \<Rightarrow> bool" where
  "normal_host h \<longleftrightarrow> h \<noteq> [] \<and> py_strip h = h \<and> fold_host h = h \<and> unbracket h = h \<and>
     \<not> py_isspace_char (hd h)"

lemma py_strip_keep:
  "s = h @ CHR '':'' # p \<Longrightarrow> h \<noteq> [] \<Longrightarrow> \<not> py_isspace_char (hd h) \<Longrightarrow> py_isdigit p \<Longrightarrow> py_strip s = s"
proof (rule py_strip_fixed)
  assume s: "s = h @ CHR '':'' # p" and h: "h \<noteq> []" "\<not> py_isspace_char (hd h)" and p: "py_isdigit p"
  show "s \<noteq> []" using s by simp
  show "\<not> py_isspace_char (hd s)" using s h by simp
  have "last p \<in> set p" using p by (auto simp: py_isdigit_def)
  then have "py_isdigit_char (last p)" using p by (auto simp: py_isdigit_def list_all_iff)
  then have "\<not> py_isspace_char (last p)" by (auto simp: py_isdigit_char_def py_isspace_char_def)
  then show "\<not> py_isspace_char (last s)" using s p by (simp add: py_isdigit_def)
qed

lemma colon_not_digit: "py_isdigit p \<Longrightarrow> CHR '':'' \<notin> set p"
  by (auto simp: py_isdigit_def list_all_iff py_isdigit_char_def)

lemma canonicalize_parts:
  assumes "h \<noteq> []" "\<not> py_isspace_char (hd h)" "py_isdigit p"
  shows "canonicalize_adb_server al (h @ '':'' @ p) =
    (let n = unbracket (fold_host (py_strip h))
     in Inr ((if is_loopback_host al n then ''localhost'' else n) @ '':'' @ dec (undec p)))"
proof -
  have "py_strip (h @ CHR '':'' # p) = h @ CHR '':'' # p"
    using assms by (intro py_strip_keep) auto
  moreover have "py_rpartition (CHR '':'') (h @ CHR '':'' # p) = Some (h, p)"
    using colon_not_digit [OF assms(3)] by (rule py_rpartition_append)
  ultimately show ?thesis
    using assms by (simp add: canonicalize_adb_server_def)
qed

lemma canonicalize_cases:
  assumes "canonicalize_adb_server al s = Inr t"
  obtains h p where "t = h @ '':'' @ dec p" "is_loopback_host al h \<longrightarrow> h = ''localhost''"
proof -
  from assms obtain host port where
    "py_rpartition (CHR '':'') (py_strip s) = Some (host, port)"
    and t: "t = (if is_loopback_host al (unbracket (fold_host (py_strip host))) then ''localhost''
              else unbracket (fold_host (py_strip host))) @ '':'' @ dec (undec port)"
    by (auto simp: canonicalize_adb_server_def Let_def split: option.splits if_splits)
  then show ?thesis
    using that [of "if is_loopback_host al (unbracket (fold_host (py_strip host))) then ''localhost''
              else unbracket (fold_host (py_strip host))" "undec port"]
    by auto
qed

text \<open>
  C35. Every spelling of the loopback host contends on one lease identity: whatever the
  case, trailing dots, surrounding spaces or brackets of the host, and leading zeros of the
  port, an address whose host normalizes to \<open>localhost\<close>, a container alias or a loopback IP
  canonicalizes to \<open>localhost:<port>\<close>.
\<close>

theorem canonicalize_loopback:
  assumes "h \<noteq> []" "\<not> py_isspace_char (hd h)" "py_isdigit p"
    and "is_loopback_host al (unbracket (fold_host (py_strip h)))"
  shows "canonicalize_adb_server al (h @ '':'' @ p) = Inr (''localhost:'' @ dec (undec p))"
proof -
  from canonicalize_parts [OF assms(1-3), of al] show ?thesis
    by (simp only: Let_def assms(4) if_True) simp
qed

definition sample_aliases :: host_aliases where
  "sample_aliases = \<lparr>docker_host_alias = ''host.docker.internal'',
     apple_container_host_alias = ''host.container.internal''\<rparr>"

theorem canonicalize_loopback_witness:
  "canonicalize_adb_server sample_aliases ''[::1]:05037'' = Inr ''localhost:5037'' \<and>
   canonicalize_adb_server sample_aliases ''HOST.docker.internal.:5037'' = Inr ''localhost:5037'' \<and>
   canonicalize_adb_server sample_aliases ''127.0.0.9:5037'' = Inr ''localhost:5037''"
proof -
  have d: "dec (undec ''05037'') = ''5037''" "dec (undec ''5037'') = ''5037''"
    by (simp_all add: undec_def digit_val_def dec.simps)
  have d5: "py_isdigit ''05037''" "py_isdigit ''5037''" by code_simp+
  have a: "is_loopback_host sample_aliases (unbracket (fold_host (py_strip ''[::1]'')))"
    by code_simp
  have b: "is_loopback_host sample_aliases (unbracket (fold_host (py_strip ''HOST.docker.internal.'')))"
    by code_simp
  have c: "is_loopback_host sample_aliases (unbracket (fold_host (py_strip ''127.0.0.9'')))"
    by code_simp
  show ?thesis
    using canonicalize_loopback [OF _ _ d5(1) a] canonicalize_loopback [OF _ _ d5(2) b]
      canonicalize_loopback [OF _ _ d5(2) c]
    by (simp add: py_isspace_char_def d)
qed

text \<open>
  The identity is stable: canonicalizing an identity whose host is in normal form gives
  the same identity again, so a recorded lease identity compares equal to a recomputed one.
\<close>

theorem canonicalize_idempotent:
  assumes "canonicalize_adb_server al s = Inr t" and "t = h @ '':'' @ p" "CHR '':'' \<notin> set p"
    and "normal_host h"
  shows "canonicalize_adb_server al t = Inr t"
  using assms(1)
proof (rule canonicalize_cases)
  fix h' p'
  assume t: "t = h' @ '':'' @ dec p'" and lb: "is_loopback_host al h' \<longrightarrow> h' = ''localhost''"
  have "h' @ CHR '':'' # dec p' = h @ CHR '':'' # p" using t assms(2) by simp
  moreover have "CHR '':'' \<notin> set (dec p')" by (rule colon_not_digit) simp
  ultimately have h: "h' = h" "dec p' = p"
    using assms(3) by (metis option.inject prod.inject py_rpartition_append)+
  have nh: "h \<noteq> []" "\<not> py_isspace_char (hd h)" "unbracket (fold_host (py_strip h)) = h"
    using assms(4) by (simp_all add: normal_host_def)
  from canonicalize_parts [OF nh(1,2), of "dec p'" al] nh(3) lb h show ?thesis
    by (auto simp: t Let_def)
qed

theorem canonicalize_idempotent_witness:
  "\<exists>t. canonicalize_adb_server sample_aliases ''Lab-7.:5037'' = Inr t \<and>
     canonicalize_adb_server sample_aliases t = Inr t"
proof -
  have c: "canonicalize_adb_server sample_aliases ''Lab-7.:5037'' = Inr (''lab-7'' @ '':'' @ ''5037'')"
  proof -
    have "unbracket (fold_host (py_strip ''Lab-7.'')) = ''lab-7''" by code_simp
    moreover have "\<not> is_loopback_host sample_aliases ''lab-7''" by code_simp
    moreover have "py_isdigit ''5037''" by code_simp
    moreover have "dec (undec ''5037'') = ''5037''"
      by (simp add: undec_def digit_val_def dec.simps)
    ultimately show ?thesis
      using canonicalize_parts [of "''Lab-7.''" "''5037''" sample_aliases]
      by (simp add: py_isspace_char_def)
  qed
  have n: "normal_host ''lab-7''" by code_simp
  from canonicalize_idempotent [OF c refl _ n] c show ?thesis by simp
qed

section \<open>Remote attempt directories\<close>

definition REMOTE_ROOT :: string where
  "REMOTE_ROOT = ''/data/local/tmp/qairt-agent''"

text \<open>\<open>[A-Za-z0-9._-]+\<close>\<close>

definition safe_char :: "char \<Rightarrow> bool" where
  "safe_char c \<longleftrightarrow> py_isalnum_char c \<or> c = CHR ''.'' \<or> c = CHR ''_'' \<or> c = CHR ''-''"

definition validate_component :: "string option \<Rightarrow> exn + string" where
  "validate_component value =
     (case value of
        None \<Rightarrow> Inl value_error
      | Some original \<Rightarrow>
          (let text = py_strip original
           in if text = [] then Inl value_error
              else if text \<noteq> original then Inl value_error
              else if text = ''.'' \<or> py_contains text ''..'' \<or> \<not> list_all safe_char text
              then Inl value_error
              else Inr text))"

definition attempt_path :: "string \<Rightarrow> string \<Rightarrow> string \<Rightarrow> string" where
  "attempt_path job stage attempt =
     REMOTE_ROOT @ ''/'' @ job @ ''/'' @ stage @ ''/'' @ attempt @ ''/''"

definition remote_attempt_dir ::
  "string option \<Rightarrow> string option \<Rightarrow> string option \<Rightarrow> exn + string"
where
  "remote_attempt_dir job_id stage_key attempt_id =
     bind_res (validate_component job_id) (\<lambda>job.
     bind_res (validate_component stage_key) (\<lambda>stage.
     bind_res (validate_component attempt_id) (\<lambda>attempt.
     Inr (attempt_path job stage attempt))))"

text \<open>The argument is \<open>None\<close> when it is not a string.\<close>

definition parse_remote_attempt_dir :: "string option \<Rightarrow> exn + (string \<times> string \<times> string)" where
  "parse_remote_attempt_dir remote =
     (case remote of
        None \<Rightarrow> Inl value_error
      | Some remote_dir \<Rightarrow>
          (let prefix = REMOTE_ROOT @ ''/''
           in if \<not> py_startswith remote_dir prefix \<or> \<not> py_endswith remote_dir ''/''
              then Inl value_error
              else (case py_split (CHR ''/'') (butlast (drop (length prefix) remote_dir)) of
                [job, stage, attempt] \<Rightarrow>
                  bind_res (validate_component (Some job)) (\<lambda>job'.
                  bind_res (validate_component (Some stage)) (\<lambda>stage'.
                  bind_res (validate_component (Some attempt)) (\<lambda>attempt'.
                  bind_res (remote_attempt_dir (Some job') (Some stage') (Some attempt')) (\<lambda>expected.
                  if remote_dir \<noteq> expected then Inl value_error
                  else Inr (job', stage', attempt')))))
              | _ \<Rightarrow> Inl value_error)))"

definition safe_component :: "string \<Rightarrow> bool" where
  "safe_component s \<longleftrightarrow> s \<noteq> [] \<and> s \<noteq> ''.'' \<and> \<not> py_contains s ''..'' \<and> list_all safe_char s"

lemma safe_char_not_space: "safe_char c \<Longrightarrow> \<not> py_isspace_char c"
  by (auto simp: safe_char_def py_isalnum_char_def py_isalpha_char_def py_isdigit_char_def
      py_isspace_char_def)

lemma safe_strip: "list_all safe_char s \<Longrightarrow> py_strip s = s"
proof (cases "s = []")
  case False
  assume "list_all safe_char s"
  with False have "\<not> py_isspace_char (hd s)" "\<not> py_isspace_char (last s)"
    by (simp_all add: list_all_iff safe_char_not_space)
  with False show ?thesis by (intro py_strip_fixed)
qed (simp add: py_strip_def)

lemma validate_component_iff:
  "validate_component v = Inr t \<longleftrightarrow> v = Some t \<and> safe_component t"
  by (auto simp: validate_component_def Let_def safe_component_def safe_strip
      split: option.splits if_splits)

lemma safe_component_no_slash: "safe_component s \<Longrightarrow> CHR ''/'' \<notin> set s"
  by (auto simp: safe_component_def list_all_iff safe_char_def py_isalnum_char_def
      py_isalpha_char_def py_isdigit_char_def)

lemma remote_attempt_dir_iff:
  "remote_attempt_dir j s a = Inr d \<longleftrightarrow>
     (\<exists>j' s' a'. j = Some j' \<and> s = Some s' \<and> a = Some a' \<and>
        safe_component j' \<and> safe_component s' \<and> safe_component a' \<and> d = attempt_path j' s' a')"
  by (auto simp: remote_attempt_dir_def res_simps validate_component_iff)

lemma attempt_path_split:
  assumes "safe_component j" "safe_component s" "safe_component a"
  shows "py_split (CHR ''/'') (butlast (drop (length (REMOTE_ROOT @ ''/'')) (attempt_path j s a))) =
    [j, s, a]"
proof -
  have "butlast (drop (length (REMOTE_ROOT @ ''/'')) (attempt_path j s a)) =
      j @ CHR ''/'' # s @ CHR ''/'' # a"
    by (simp add: attempt_path_def butlast_append)
  then show ?thesis
    using assms by (simp add: py_split_append py_split_no_sep safe_component_no_slash)
qed

lemma parse_attempt_path:
  assumes "safe_component j" "safe_component s" "safe_component a"
  shows "parse_remote_attempt_dir (Some (attempt_path j s a)) = Inr (j, s, a)"
proof -
  have "py_startswith (attempt_path j s a) (REMOTE_ROOT @ ''/'')"
    by (auto simp: py_startswith_iff attempt_path_def)
  moreover have "py_endswith (attempt_path j s a) ''/''"
    by (auto simp: py_endswith_iff attempt_path_def)
  moreover have "remote_attempt_dir (Some j) (Some s) (Some a) = Inr (attempt_path j s a)"
    using assms by (simp add: remote_attempt_dir_iff)
  moreover have "validate_component (Some j) = Inr j" "validate_component (Some s) = Inr s"
    "validate_component (Some a) = Inr a"
    using assms by (simp_all add: validate_component_iff)
  ultimately show ?thesis
    using attempt_path_split [OF assms] by (simp add: parse_remote_attempt_dir_def Let_def)
qed

lemma parse_remote_attempt_dir_Inr:
  assumes "parse_remote_attempt_dir (Some d) = Inr (j, s, a)"
  shows "d = attempt_path j s a \<and> safe_component j \<and> safe_component s \<and> safe_component a"
  using assms
  by (auto simp: parse_remote_attempt_dir_def Let_def res_simps validate_component_iff
      remote_attempt_dir_iff split: if_splits list.splits)

text \<open>
  The two directions as an interface: an encoder and a parser that accepts exactly the
  encodings of valid values.
\<close>

locale exact_codec =
  fixes enc :: "'a \<Rightarrow> 'b"
    and decode :: "'b \<Rightarrow> 'e + 'a"
    and valid :: "'a \<Rightarrow> bool"
  assumes decode_enc: "valid x \<Longrightarrow> decode (enc x) = Inr x"
    and decode_sound: "decode y = Inr x \<Longrightarrow> valid x \<and> y = enc x"
begin

lemma decode_iff: "decode y = Inr x \<longleftrightarrow> valid x \<and> y = enc x"
  using decode_enc decode_sound by blast

lemma enc_inj: "valid x \<Longrightarrow> valid x' \<Longrightarrow> enc x = enc x' \<Longrightarrow> x = x'"
  by (metis decode_enc sum.inject(2))

lemma decode_inj: "decode y = Inr x \<Longrightarrow> decode y' = Inr x \<Longrightarrow> y = y'"
  using decode_sound by blast

end

interpretation attempt: exact_codec
  "\<lambda>(j, s, a). attempt_path j s a"
  "\<lambda>d. parse_remote_attempt_dir (Some d)"
  "\<lambda>(j, s, a). safe_component j \<and> safe_component s \<and> safe_component a"
  by unfold_locales (auto simp: parse_attempt_path dest: parse_remote_attempt_dir_Inr)

text \<open>
  C37. Building and parsing attempt directories are inverse: a string parses to a
  \<open>(job, stage, attempt)\<close> triple exactly when building the directory of that triple
  succeeds and gives that string.
\<close>

theorem attempt_dir_roundtrip:
  "parse_remote_attempt_dir (Some d) = Inr (j, s, a) \<longleftrightarrow>
   remote_attempt_dir (Some j) (Some s) (Some a) = Inr d"
  using attempt.decode_iff [of d "(j, s, a)"] by (auto simp: remote_attempt_dir_iff)

lemma split_attempt_path:
  assumes "safe_component j" "safe_component s" "safe_component a"
  shows "py_split (CHR ''/'') (attempt_path j s a) =
    ['''', ''data'', ''local'', ''tmp'', ''qairt-agent'', j, s, a, '''']"
proof -
  have eq: "attempt_path j s a = [] @ CHR ''/'' # (''data'' @ CHR ''/'' # (''local'' @ CHR ''/'' #
      (''tmp'' @ CHR ''/'' # (''qairt-agent'' @ CHR ''/'' # (j @ CHR ''/'' # (s @ CHR ''/'' #
      (a @ CHR ''/'' # [])))))))"
    by (simp add: attempt_path_def REMOTE_ROOT_def)
  have no: "CHR ''/'' \<notin> set []" "CHR ''/'' \<notin> set ''data''" "CHR ''/'' \<notin> set ''local''"
    "CHR ''/'' \<notin> set ''tmp''" "CHR ''/'' \<notin> set ''qairt-agent''"
    by simp_all
  show ?thesis
    by (simp only: eq py_split_append no assms [THEN safe_component_no_slash] not_False_eq_True
        py_split.simps)
qed

text \<open>
  C30. Only a directory exactly three levels below the agent's root is ever accepted (and so
  only such a directory is ever removed recursively): its path components are those of the
  root followed by job, stage and attempt, none of which is empty, \<open>.\<close>, \<open>..\<close> or contains
  a separator, so the path cannot escape the root.
\<close>

theorem parsed_attempt_dir_contained:
  assumes "parse_remote_attempt_dir d = Inr (j, s, a)"
  shows "(\<exists>d'. d = Some d' \<and> py_split (CHR ''/'') d' =
      ['''', ''data'', ''local'', ''tmp'', ''qairt-agent'', j, s, a, '''']) \<and>
    {j, s, a} \<inter> {'''', ''.'', ''..''} = {} \<and>
    CHR ''/'' \<notin> set j \<union> set s \<union> set a"
proof -
  from assms obtain d' where d: "d = Some d'"
    by (cases d) (auto simp: parse_remote_attempt_dir_def)
  from assms have p: "d' = attempt_path j s a" "safe_component j" "safe_component s" "safe_component a"
    unfolding d by (auto dest: parse_remote_attempt_dir_Inr)
  have "x \<notin> {'''', ''.'', ''..''}" if "safe_component x" for x
    using that by (auto simp: safe_component_def)
  with p show ?thesis
    by (auto simp: d split_attempt_path safe_component_no_slash)
qed

theorem parsed_attempt_dir_contained_witness:
  "parse_remote_attempt_dir (Some ''/data/local/tmp/qairt-agent/job-1/build/3/'') =
     Inr (''job-1'', ''build'', ''3'') \<and>
   CHR ''/'' \<notin> set ''job-1'' \<union> set ''build'' \<union> set ''3''"
proof -
  have c: "safe_component ''job-1''" "safe_component ''build''" "safe_component ''3''"
    by code_simp+
  have p: "parse_remote_attempt_dir (Some ''/data/local/tmp/qairt-agent/job-1/build/3/'') =
     Inr (''job-1'', ''build'', ''3'')"
    using parse_attempt_path [OF c] by (simp add: attempt_path_def REMOTE_ROOT_def)
  from parsed_attempt_dir_contained [OF p] p show ?thesis by blast
qed

section \<open>Device configuration\<close>

text \<open>\<open>AdbConfig\<close>: both fields validated, nothing inferred.\<close>

record AdbConfig =
  ac_serial :: string
  ac_server :: string

definition AdbConfig_new :: "string \<Rightarrow> string \<Rightarrow> exn + AdbConfig" where
  "AdbConfig_new serial server =
     (if py_strip serial = [] then Inl (PyExn ''ValidationError'' ''serial'')
      else (case py_rpartition (CHR '':'') server of
          None \<Rightarrow> Inl (PyExn ''ValidationError'' ''server'')
        | Some (host, port) \<Rightarrow>
            if host = [] \<or> \<not> py_isdigit port then Inl (PyExn ''ValidationError'' ''server'')
            else Inr \<lparr>ac_serial = serial, ac_server = server\<rparr>))"

definition ENV_SERIAL :: string where "ENV_SERIAL = ''QAIRT_AGENT_ADB_SERIAL''"
definition ENV_SERVER :: string where "ENV_SERVER = ''QAIRT_AGENT_ADB_SERVER''"

definition env_get :: "(string \<rightharpoonup> string) \<Rightarrow> string \<Rightarrow> string" where
  "env_get env k = py_strip (case env k of None \<Rightarrow> [] | Some v \<Rightarrow> v)"

definition from_env :: "(string \<rightharpoonup> string) \<Rightarrow> exn + AdbConfig" where
  "from_env env =
     (let serial = env_get env ENV_SERIAL; server = env_get env ENV_SERVER
      in if serial = [] \<or> server = []
         then Inl (agent_exn DeviceUnavailableError (Some ''device'') False)
         else AdbConfig_new serial server)"

definition host_port :: "AdbConfig \<Rightarrow> string \<times> string" where
  "host_port c = (case py_rpartition (CHR '':'') (ac_server c) of
     None \<Rightarrow> ([], ac_server c) | Some hp \<Rightarrow> hp)"

definition device_identifier :: "AdbConfig \<Rightarrow> string" where
  "device_identifier c = ac_serial c @ ''@'' @ ac_server c"

definition adb_server_argv :: "AdbConfig \<Rightarrow> string list" where
  "adb_server_argv c = (case host_port c of (host, port) \<Rightarrow> [''adb'', ''-H'', host, ''-P'', port])"

definition adb_base_argv :: "AdbConfig \<Rightarrow> string list" where
  "adb_base_argv c = adb_server_argv c @ [''-s'', ac_serial c]"

text \<open>
  No device is ever auto-selected: without both environment variables the configuration
  fails closed, and a configuration that is built carries exactly the stripped values of the
  two variables, its command prefix naming that server and that serial.
\<close>

theorem from_env_fail_closed:
  assumes "from_env env = Inr c"
  shows "(\<exists>v u h p. env ENV_SERIAL = Some v \<and> env ENV_SERVER = Some u \<and>
     ac_serial c = py_strip v \<and> py_strip v \<noteq> [] \<and> ac_server c = py_strip u \<and>
     py_strip u = h @ '':'' @ p \<and> h \<noteq> [] \<and> py_isdigit p \<and>
     adb_base_argv c = [''adb'', ''-H'', h, ''-P'', p, ''-s'', py_strip v])"
proof -
  from assms have ne: "env_get env ENV_SERIAL \<noteq> []" "env_get env ENV_SERVER \<noteq> []"
    and new: "AdbConfig_new (env_get env ENV_SERIAL) (env_get env ENV_SERVER) = Inr c"
    by (auto simp: from_env_def Let_def split: if_splits)
  from ne obtain v u where v: "env ENV_SERIAL = Some v" and u: "env ENV_SERVER = Some u"
    by (auto simp: env_get_def py_strip_def split: option.splits)
  from new obtain h p where hp: "py_rpartition (CHR '':'') (py_strip u) = Some (h, p)"
    "h \<noteq> []" "py_isdigit p" and c: "c = \<lparr>ac_serial = py_strip v, ac_server = py_strip u\<rparr>"
    by (auto simp: AdbConfig_new_def env_get_def v u split: if_splits option.splits)
  from hp(1) have "py_strip u = h @ CHR '':'' # p"
    by (simp add: py_rpartition_Some)
  with hp c v u ne(1) show ?thesis
    by (auto simp: adb_base_argv_def adb_server_argv_def host_port_def env_get_def)
qed

theorem from_env_fail_closed_witness:
  "\<exists>c. from_env [ENV_SERIAL \<mapsto> ''R5CT'', ENV_SERVER \<mapsto> ''127.0.0.1:5037''] = Inr c \<and>
     ac_serial c = ''R5CT''"
proof -
  let ?env = "[ENV_SERIAL \<mapsto> ''R5CT'', ENV_SERVER \<mapsto> ''127.0.0.1:5037'']"
  have s: "py_strip ''R5CT'' = ''R5CT''" "py_strip ''127.0.0.1:5037'' = ''127.0.0.1:5037''"
    "py_isdigit ''5037''"
    by code_simp+
  have r: "py_rpartition (CHR '':'') ''127.0.0.1:5037'' = Some (''127.0.0.1'', ''5037'')"
    by code_simp
  have "ENV_SERIAL \<noteq> ENV_SERVER" by (simp add: ENV_SERIAL_def ENV_SERVER_def)
  then have g: "env_get ?env ENV_SERIAL = ''R5CT''" "env_get ?env ENV_SERVER = ''127.0.0.1:5037''"
    by (simp_all add: env_get_def s)
  then obtain c where c: "from_env ?env = Inr c"
    by (simp add: from_env_def g AdbConfig_new_def s r)
  from from_env_fail_closed [OF c] \<open>ENV_SERIAL \<noteq> ENV_SERVER\<close> c show ?thesis
    by (auto simp: s)
qed

end
