(* ===== verification/Sku.thy ===== *)
theory Sku
  imports Presets SplitPlan
begin

text \<open>
  \<open>src/qairt_agent/families/sku.py\<close>: merging a captured overlay over its preset's
  defaults, and the layer boundaries a capture takes from a split plan.
\<close>

record effective_policy =
  ef_preset_id :: string
  ef_ars :: "int list"
  ef_decoder_slices :: int
  ef_weight_sharing :: bool
  ef_native_kv :: bool
  ef_lm_head_independent :: bool
  ef_runtime_supported :: bool
  ef_slice_boundaries :: "SliceBoundary list"

text \<open>\<open>if sku.x is not None: effective[x] = sku.x\<close>\<close>

definition overlay :: "'a \<Rightarrow> 'a option \<Rightarrow> 'a" where
  "overlay d v = (case v of None \<Rightarrow> d | Some x \<Rightarrow> x)"

definition merge_sku :: "FamilyPreset \<Rightarrow> SkuOverlay option \<Rightarrow> exn + effective_policy" where
  "merge_sku preset sku =
    (let effective = \<lparr>ef_preset_id = fp_preset_id preset, ef_ars = fp_default_ars preset,
       ef_decoder_slices = fp_default_decoder_slices preset,
       ef_weight_sharing = fp_default_weight_sharing preset,
       ef_native_kv = fp_default_native_kv preset,
       ef_lm_head_independent = fp_lm_head_independent preset,
       ef_runtime_supported = fp_runtime_supported preset, ef_slice_boundaries = []\<rparr>
     in case sku of
       None \<Rightarrow> Inr effective
     | Some s \<Rightarrow>
         if sk_preset_id s \<noteq> fp_preset_id preset then Inl value_error
         else Inr (effective
           \<lparr>ef_ars := overlay (ef_ars effective) (sk_ars s),
            ef_decoder_slices := overlay (ef_decoder_slices effective) (sk_decoder_slices s),
            ef_weight_sharing := overlay (ef_weight_sharing effective) (sk_weight_sharing s),
            ef_native_kv := overlay (ef_native_kv effective) (sk_native_kv s),
            ef_lm_head_independent :=
              overlay (ef_lm_head_independent effective) (sk_lm_head_independent s),
            ef_runtime_supported := (case sk_runtime_supported s of
                None \<Rightarrow> ef_runtime_supported effective
              | Some r \<Rightarrow> fp_runtime_supported preset \<and> r),
            ef_slice_boundaries :=
              (if sk_slice_boundaries s \<noteq> [] then sk_slice_boundaries s
               else ef_slice_boundaries effective)\<rparr>))"

definition boundaries_from_split_plan :: "SplitPlan \<Rightarrow> exn + SliceBoundary list" where
  "boundaries_from_split_plan split_plan =
     map_res (\<lambda>s. let b = \<lparr>sb_slice_id = ss_name s, sb_layer_start = the (ss_layer_start s),
                sb_layer_end = the (ss_layer_end s), sb_advisory = True\<rparr>
              in bind_res (validate_range b) (\<lambda>_. Inr b))
       (filter (\<lambda>s. ss_layer_start s \<noteq> None \<and> ss_layer_end s \<noteq> None) (sp_slices split_plan))"

text \<open>
  What a capture is given: \<open>sku_id\<close>, \<open>architecture\<close> and the overlay fields in \<open>base\<close>, the digest
  or the path of the model, and the clock. \<open>sha\<close> digests a file and may raise.
\<close>

definition capture_sku ::
  "(string \<Rightarrow> exn + string) \<Rightarrow> int \<Rightarrow> SkuOverlay \<Rightarrow> string option \<Rightarrow> SplitPlan option \<Rightarrow> exn + SkuOverlay"
where
  "capture_sku sha now base model_path split_plan =
     bind_res (get_preset (sk_preset_id base)) (\<lambda>preset.
     bind_res (case (sk_model_sha256 base, model_path) of
         (None, Some p) \<Rightarrow> bind_res (sha p) (\<lambda>d. Inr (Some d)) | (d, _) \<Rightarrow> Inr d) (\<lambda>resolved_sha.
     bind_res (case split_plan of None \<Rightarrow> Inr [] | Some p \<Rightarrow> boundaries_from_split_plan p) (\<lambda>boundaries.
     SkuOverlay_new (base\<lparr>sk_preset_id := fp_preset_id preset, sk_model_sha256 := resolved_sha,
       sk_tensor_abi := dict_update [(''byte_order'', JStr ''little''), (''layout'', JStr ''C''), (''storage'', JStr ''raw'')]
         (sk_tensor_abi base),
       sk_slice_boundaries := boundaries, sk_captured_at := Some now\<rparr>))))"

text \<open>The layers a boundary covers.\<close>

definition boundary_layers :: "SliceBoundary \<Rightarrow> int list" where
  "boundary_layers b = [sb_layer_start b..sb_layer_end b - 1]"

lemma boundaries_layers:
  "boundaries_from_split_plan p = Inr bs \<Longrightarrow> concat (map boundary_layers bs) = all_layers (sp_slices p)"
proof -
  have "map_res (\<lambda>s. let b = \<lparr>sb_slice_id = ss_name s, sb_layer_start = the (ss_layer_start s),
                sb_layer_end = the (ss_layer_end s), sb_advisory = True\<rparr>
              in bind_res (validate_range b) (\<lambda>_. Inr b))
       (filter (\<lambda>s. ss_layer_start s \<noteq> None \<and> ss_layer_end s \<noteq> None) ss) = Inr bs \<Longrightarrow>
     concat (map boundary_layers bs) = all_layers ss" for ss
  proof (induction ss arbitrary: bs)
    case (Cons s ss)
    then show ?case
      by (cases "ss_layer_start s"; cases "ss_layer_end s")
        (auto simp: Let_def res_simps all_layers_def slice_layers_def boundary_layers_def)
  qed (simp add: all_layers_def)
  then show "boundaries_from_split_plan p = Inr bs \<Longrightarrow> ?thesis"
    by (simp add: boundaries_from_split_plan_def)
qed

lemma map_res_total: "(\<And>x. x \<in> set xs \<Longrightarrow> is_ok (f x)) \<Longrightarrow> is_ok (map_res f xs)"
  by (induction xs) (auto simp: res_simps)

lemma capture_boundaries_ok:
  assumes "build_split_plan n k e l = Inr p"
  shows "is_ok (boundaries_from_split_plan p)"
  unfolding boundaries_from_split_plan_def
proof (rule map_res_total)
  fix s
  assume s: "s \<in> set (filter (\<lambda>s. ss_layer_start s \<noteq> None \<and> ss_layer_end s \<noteq> None) (sp_slices p))"
  from assms show "is_ok (let b = \<lparr>sb_slice_id = ss_name s, sb_layer_start = the (ss_layer_start s),
                sb_layer_end = the (ss_layer_end s), sb_advisory = True\<rparr>
              in bind_res (validate_range b) (\<lambda>_. Inr b))"
  proof (rule build_split_plan_cases)
    fix w
    let ?d = "n - (if l then 1 else 0)"
    assume ok: "plan_ok n k l" and p: "p = \<lparr>sp_num_decoder_layers = n,
     sp_slices = embedding_part e @ map (loop_slice (?d div k) (?d mod k) w
       (length (embedding_part e))) [0..<nat k] @ lm_head_part l (length (embedding_part e) + nat k) n,
     sp_split_embedding = e, sp_split_lm_head = l\<rparr>"
    note nn = plan_ok_pos [OF ok]
    have "0 \<le> the (ss_layer_start s) \<and> the (ss_layer_start s) \<le> the (ss_layer_end s)"
      using s ok loop_start_nonneg [OF nn] loop_start_mono [OF nn(1)]
      by (auto simp: p embedding_part_def lm_head_part_def loop_slice_def plan_ok_def split: if_splits)
    then show ?thesis
      by (simp add: Let_def validate_range_def require_def ensure_def checks.simps)
  qed
qed

text \<open>
  Capturing the split plan of a model pins it completely: the recorded boundaries are
  valid ranges that, read in order, cover every decoder layer exactly once, the layer that
  the LM head folds in included.
\<close>

theorem captured_boundaries_tile:
  assumes "build_split_plan n k e l = Inr p"
  shows "\<exists>bs. boundaries_from_split_plan p = Inr bs \<and> concat (map boundary_layers bs) = [0..n - 1]"
proof -
  from capture_boundaries_ok [OF assms] obtain bs where bs: "boundaries_from_split_plan p = Inr bs"
    by (auto simp: is_ok_iff)
  have "all_layers (sp_slices p) = [0..n - 1]" using assms by (rule plan_covers)
  with bs boundaries_layers show ?thesis by fastforce
qed

theorem captured_boundaries_tile_witness:
  "\<exists>p bs. build_split_plan 5 2 True True = Inr p \<and> boundaries_from_split_plan p = Inr bs \<and>
     concat (map boundary_layers bs) = [0..4]"
proof -
  have "plan_ok 5 2 True" by (simp add: plan_ok_def)
  then obtain p where p: "build_split_plan 5 2 True True = Inr p"
    using build_split_plan_closed by blast
  from captured_boundaries_tile [OF p] p show ?thesis by auto
qed

text \<open>
  An overlay overrides exactly what it pins, and it can only revoke runtime support: the
  merged policy supports the runtime only when the preset does.
\<close>

theorem merge_sku_overrides:
  assumes "merge_sku preset (Some s) = Inr ef"
  shows "sk_preset_id s = fp_preset_id preset \<and>
    ef_ars ef = (if sk_ars s = None then fp_default_ars preset else the (sk_ars s)) \<and>
    ef_native_kv ef = (if sk_native_kv s = None then fp_default_native_kv preset
       else the (sk_native_kv s)) \<and>
    ef_runtime_supported ef =
      (fp_runtime_supported preset \<and> sk_runtime_supported s \<noteq> Some False) \<and>
    ef_slice_boundaries ef = sk_slice_boundaries s"
proof -
  have ov: "overlay d v = (if v = None then d else the v)" for d :: 'x and v
    by (cases v) (simp_all add: overlay_def)
  have rt: "(case v of None \<Rightarrow> d | Some r \<Rightarrow> d \<and> r) = (d \<and> v \<noteq> Some False)" for d v
    by (cases v) auto
  show ?thesis
  proof (cases "sk_preset_id s = fp_preset_id preset")
    case True
    have bd: "(if b \<noteq> [] then b else []) = b" for b :: "'x list" by simp
    have "ef = projr (merge_sku preset (Some s))" by (simp add: assms)
    with True have "ef = \<lparr>ef_preset_id = fp_preset_id preset,
      ef_ars = overlay (fp_default_ars preset) (sk_ars s),
      ef_decoder_slices = overlay (fp_default_decoder_slices preset) (sk_decoder_slices s),
      ef_weight_sharing = overlay (fp_default_weight_sharing preset) (sk_weight_sharing s),
      ef_native_kv = overlay (fp_default_native_kv preset) (sk_native_kv s),
      ef_lm_head_independent = overlay (fp_lm_head_independent preset) (sk_lm_head_independent s),
      ef_runtime_supported = (fp_runtime_supported preset \<and> sk_runtime_supported s \<noteq> Some False),
      ef_slice_boundaries = sk_slice_boundaries s\<rparr>"
      by (simp add: merge_sku_def Let_def rt bd cong: if_cong option.case_cong)
    with True show ?thesis by (simp add: ov)
  next
    case False
    with assms show ?thesis by (simp add: merge_sku_def Let_def)
  qed
qed

definition sample_preset :: FamilyPreset where
  "sample_preset = QWEN3_DENSE_PRESET\<lparr>fp_runtime_supported := False, fp_capability_gate := Some ''gate''\<rparr>"

definition sample_overlay :: SkuOverlay where
  "sample_overlay = \<lparr>sk_sku_id = ''s'', sk_preset_id = ''qwen3_dense'', sk_model_sha256 = None,
     sk_architecture = None, sk_tensor_abi = [], sk_ars = Some [1], sk_decoder_slices = None,
     sk_embedding_mode = None, sk_lm_head_independent = None, sk_weight_sharing = Some False,
     sk_native_kv = None, sk_slice_boundaries = [], sk_runtime_supported = Some True, sk_captured_at = None\<rparr>"

theorem merge_sku_overrides_witness:
  "\<exists>ef. merge_sku sample_preset (Some sample_overlay) = Inr ef \<and> ef_ars ef = [1] \<and>
     ef_native_kv ef \<and> \<not> ef_runtime_supported ef"
proof -
  obtain ef where ef: "merge_sku sample_preset (Some sample_overlay) = Inr ef"
    by (simp add: merge_sku_def Let_def sample_preset_def sample_overlay_def QWEN3_DENSE_PRESET_def)
  from merge_sku_overrides [OF ef] ef show ?thesis
    by (simp add: sample_preset_def sample_overlay_def QWEN3_DENSE_PRESET_def)
qed

end
