(* ===== verification/Journal.thy ===== *)
theory Journal
  imports Contracts
begin

text \<open>
  \<open>src/qairt_agent/jobs/journal.py\<close>: the file-backed journal of one job. A \<open>Journal\<close> is
  the content of the job directory: the \<open>state.json\<close> snapshot, the numbered event files,
  the receipt files by name, the heartbeat file, the cancel flag, the logs and the immutable
  specification files. Writing a file atomically is an update of one field. An operation that
  may raise after it has written something returns the journal beside its result. Times are
  microseconds since the epoch. The operations that read the snapshot before they take the
  lock are split at that point, so that \<open>jstep\<close> can interleave them the way concurrent
  processes do.
\<close>

record Event =
  ev_seq :: nat
  ev_type :: string
  ev_at :: int
  ev_payload :: raw_map

record Journal =
  jn_job_id :: string
  jn_state :: "JobStatus option"
  jn_events :: "(nat \<times> Event) list"
  jn_receipts :: "(string \<times> StageReceipt) list"
  jn_heartbeat :: "(int \<times> int) option"
  jn_cancel :: bool
  jn_logs :: "(string \<times> string) list"
  jn_spec_original :: raw_map
  jn_spec_resolved :: raw_map
  jn_launcher :: raw_map
  jn_worker_lock :: bool

definition journal_conflict :: exn where
  "journal_conflict = agent_exn JobConflictError (Some ''journal'') False"

definition IN_FLIGHT_JOB_STATES :: "JobState list" where
  "IN_FLIGHT_JOB_STATES = [STAGING, RUNNING, COLLECTING, COMMITTING]"

fun job_state_value :: "JobState \<Rightarrow> string" where
  "job_state_value QUEUED = ''queued''"
| "job_state_value STAGING = ''staging''"
| "job_state_value RUNNING = ''running''"
| "job_state_value COLLECTING = ''collecting''"
| "job_state_value COMMITTING = ''committing''"
| "job_state_value SUCCEEDED = ''succeeded''"
| "job_state_value FAILED = ''failed''"
| "job_state_value CANCELLED = ''cancelled''"
| "job_state_value ORPHANED = ''orphaned''"

fun stage_status_value :: "StageStatus \<Rightarrow> string" where
  "stage_status_value SS_PENDING = ''pending''"
| "stage_status_value SS_RUNNING = ''running''"
| "stage_status_value SS_SUCCEEDED = ''succeeded''"
| "stage_status_value SS_FAILED = ''failed''"
| "stage_status_value SS_SKIPPED = ''skipped''"

fun opt_str :: "string option \<Rightarrow> json" where
  "opt_str None = JNull"
| "opt_str (Some s) = JStr s"

section \<open>State and events\<close>

definition read_state :: "Journal \<Rightarrow> exn + JobStatus" where
  "read_state j = (case jn_state j of
     None \<Rightarrow> Inl (PyExn ''FileNotFoundError'' []) | Some s \<Rightarrow> JobStatus_new s)"

definition next_seq :: "Journal \<Rightarrow> nat" where
  "next_seq j = (let seqs = map fst (jn_events j) in
     if seqs \<noteq> [] then Max (set seqs) + 1 else 1)"

definition preserve_heartbeat :: "JobStatus \<Rightarrow> JobStatus \<Rightarrow> JobStatus" where
  "preserve_heartbeat current target =
     (case js_heartbeat_at current of
        None \<Rightarrow> target
      | Some c \<Rightarrow> (case js_heartbeat_at target of
            None \<Rightarrow> target\<lparr>js_heartbeat_at := Some c\<rparr>
          | Some t \<Rightarrow> if c > t then target\<lparr>js_heartbeat_at := Some c\<rparr> else target))"

text \<open>\<open>_commit\<close>: everything it does happens under the file lock.\<close>

definition commit ::
  "bool \<Rightarrow> JobStatus \<Rightarrow> string \<Rightarrow> raw_map \<Rightarrow> int \<Rightarrow> Journal \<Rightarrow> exn + Journal \<times> JobStatus"
where
  "commit initial target event_type payload now j =
     bind_res
       (if initial then Inr target
        else bind_res (read_state j) (\<lambda>current.
          bind_res (ensure (\<not> (terminal (js_state current) \<and> js_state target \<noteq> js_state current))
            journal_conflict) (\<lambda>_.
          Inr (preserve_heartbeat current target))))
       (\<lambda>target.
         let seq = next_seq j;
             final = target\<lparr>js_seq := seq, js_updated_at := now\<rparr>;
             event = \<lparr>ev_seq = seq, ev_type = event_type, ev_at = now, ev_payload = payload\<rparr>
         in Inr (j\<lparr>jn_events := dict_set seq event (jn_events j), jn_state := Some final\<rparr>, final))"

definition committed :: "Journal \<Rightarrow> exn + Journal \<times> JobStatus \<Rightarrow> Journal \<times> (exn + JobStatus)" where
  "committed j r = (case r of Inl e \<Rightarrow> (j, Inl e) | Inr (j', s) \<Rightarrow> (j', Inr s))"

definition append_event :: "string \<Rightarrow> raw_map \<Rightarrow> int \<Rightarrow> Journal \<Rightarrow> Journal \<times> (exn + JobStatus)" where
  "append_event event_type payload now j =
     committed j (bind_res (read_state j) (\<lambda>target. commit False target event_type payload now j))"

text \<open>The part of \<open>set_state\<close> before the lock: the validated target and the event payload.\<close>

definition set_state_target ::
  "JobState \<Rightarrow> string option \<Rightarrow> ToolErrorData option \<Rightarrow> ArtifactRef option \<Rightarrow> int option
   \<Rightarrow> raw_map \<Rightarrow> Journal \<Rightarrow> exn + JobStatus \<times> raw_map"
where
  "set_state_target st current_stage err manifest heartbeat_at event_payload j =
     bind_res (read_state j) (\<lambda>current.
     bind_res (JobStatus_new
       \<lparr>js_job_id = jn_job_id j, js_state = st, js_seq = js_seq current,
        js_parent_job_id = js_parent_job_id current, js_spec_sha256 = js_spec_sha256 current,
        js_created_at = js_created_at current, js_updated_at = js_updated_at current,
        js_current_stage = (if current_stage \<noteq> None then current_stage else js_current_stage current),
        js_stages = js_stages current,
        js_manifest = (if manifest \<noteq> None then manifest else js_manifest current),
        js_heartbeat_at = (if heartbeat_at \<noteq> None then heartbeat_at else js_heartbeat_at current),
        js_launcher = js_launcher current, js_error = err\<rparr>) (\<lambda>target.
     Inr (target, dict_update [(''state'', JStr (job_state_value st)),
            (''current_stage'', opt_str (js_current_stage target))] event_payload)))"

definition set_state ::
  "JobState \<Rightarrow> string option \<Rightarrow> ToolErrorData option \<Rightarrow> ArtifactRef option \<Rightarrow> int option
   \<Rightarrow> raw_map \<Rightarrow> int \<Rightarrow> Journal \<Rightarrow> Journal \<times> (exn + JobStatus)"
where
  "set_state st current_stage err manifest heartbeat_at event_payload now j =
     committed j
       (bind_res (set_state_target st current_stage err manifest heartbeat_at event_payload j)
         (\<lambda>(target, payload). commit False target ''state_changed'' payload now j))"

definition events :: "nat \<Rightarrow> Journal \<Rightarrow> Event list" where
  "events after_seq j =
     map snd (sort_key fst (filter (\<lambda>(seq, _). \<not> seq \<le> after_seq) (jn_events j)))"

section \<open>Creation and lookup\<close>

type_synonym jobs_root = "(string \<times> Journal) list"

definition JobJournal_create ::
  "string \<Rightarrow> raw_map \<Rightarrow> raw_map \<Rightarrow> string \<Rightarrow> raw_map option \<Rightarrow> string option \<Rightarrow> int \<Rightarrow> jobs_root
   \<Rightarrow> exn + jobs_root \<times> Journal"
where
  "JobJournal_create job_id spec_original spec_resolved spec_sha256 launcher parent_job_id now jobs =
    (if map_of jobs job_id \<noteq> None then Inl journal_conflict
     else
       let launch = (case launcher of None \<Rightarrow> [] | Some l \<Rightarrow> l);
         journal = \<lparr>jn_job_id = job_id, jn_state = None, jn_events = [], jn_receipts = [],
           jn_heartbeat = None, jn_cancel = False, jn_logs = [], jn_spec_original = spec_original,
           jn_spec_resolved = spec_resolved, jn_launcher = launch, jn_worker_lock = False\<rparr>
       in bind_res (JobStatus_new
         \<lparr>js_job_id = job_id, js_state = QUEUED, js_seq = 0, js_parent_job_id = parent_job_id,
          js_spec_sha256 = spec_sha256, js_created_at = now, js_updated_at = now,
          js_current_stage = None, js_stages = [], js_manifest = None, js_heartbeat_at = None,
          js_launcher = launch, js_error = None\<rparr>) (\<lambda>status.
       bind_res (commit True status ''job_created''
         [(''job_id'', JStr job_id), (''parent_job_id'', opt_str parent_job_id),
          (''spec_sha256'', JStr spec_sha256)] now journal) (\<lambda>(j, _).
       Inr (dict_set job_id j jobs, j))))"

definition JobJournal_open :: "string \<Rightarrow> jobs_root \<Rightarrow> exn + Journal" where
  "JobJournal_open job_id jobs = (case map_of jobs job_id of
     None \<Rightarrow> Inl (agent_exn JobNotFoundError (Some ''journal'') False)
   | Some j \<Rightarrow> if jn_state j = None then Inl (agent_exn JobNotFoundError (Some ''journal'') False)
       else Inr j)"

definition JobJournal_exists :: "string \<Rightarrow> jobs_root \<Rightarrow> bool" where
  "JobJournal_exists job_id jobs =
     (case map_of jobs job_id of None \<Rightarrow> False | Some j \<Rightarrow> jn_state j \<noteq> None)"

definition list_jobs :: "jobs_root \<Rightarrow> string list" where
  "list_jobs jobs = sort (map fst (filter (\<lambda>(_, j). jn_state j \<noteq> None) jobs))"

text \<open>
  Entering \<open>worker_lease\<close>: neither the in-process lock nor the file lock blocks. The
  conflict reports the current state, so it reads the snapshot first.
\<close>

definition worker_lease_enter :: "Journal \<Rightarrow> exn + Journal" where
  "worker_lease_enter j =
     (if jn_worker_lock j
      then bind_res (read_state j) (\<lambda>_. Inl (agent_exn JobConflictError (Some ''worker'') False))
      else Inr (j\<lparr>jn_worker_lock := True\<rparr>))"

definition worker_lease_exit :: "Journal \<Rightarrow> Journal" where
  "worker_lease_exit j = j\<lparr>jn_worker_lock := False\<rparr>"

section \<open>Receipts\<close>

definition safe_name :: "string \<Rightarrow> string" where
  "safe_name s = map (\<lambda>c. if py_isalnum_char c \<or> c \<in> set ''-_'' then c else CHR ''-'') s"

definition receipt_path :: "StageReceipt \<Rightarrow> string" where
  "receipt_path r = safe_name (rc_stage_name r) @ ''-'' @ take 16 (rc_stage_key r) @ ''-'' @
     zpad 3 (nat (rc_attempt r)) @ ''.json''"

definition with_receipt :: "StageReceipt \<Rightarrow> JobStatus \<Rightarrow> JobStatus" where
  "with_receipt r current =
    (let already = (\<exists>x \<in> set (js_stages current).
           rc_stage_key x = rc_stage_key r \<and> rc_attempt x = rc_attempt r);
         stages = (if already then js_stages current else js_stages current @ [r])
     in current\<lparr>js_stages := stages, js_current_stage := Some (rc_stage_name r)\<rparr>)"

text \<open>The part of \<open>record_receipt\<close> before the lock: the receipt file, then the target.\<close>

definition receipt_target :: "StageReceipt \<Rightarrow> Journal \<Rightarrow> Journal \<times> (exn + JobStatus)" where
  "receipt_target r j =
    (let path = receipt_path r in
     if map_of (jn_receipts j) path \<noteq> None \<and> map_of (jn_receipts j) path \<noteq> Some r
     then (j, Inl journal_conflict)
     else
       let j1 = (if map_of (jn_receipts j) path \<noteq> None then j
                 else j\<lparr>jn_receipts := dict_set path r (jn_receipts j)\<rparr>)
       in (j1, bind_res (read_state j1) (\<lambda>current. Inr (with_receipt r current))))"

definition receipt_payload :: "StageReceipt \<Rightarrow> raw_map" where
  "receipt_payload r = [(''stage_name'', JStr (rc_stage_name r)), (''stage_key'', JStr (rc_stage_key r)),
     (''attempt'', JInt (rc_attempt r)), (''status'', JStr (stage_status_value (rc_status r)))]"

definition record_receipt :: "StageReceipt \<Rightarrow> int \<Rightarrow> Journal \<Rightarrow> Journal \<times> (exn + JobStatus)" where
  "record_receipt r now j =
    (case receipt_target r j of
       (j1, Inl e) \<Rightarrow> (j1, Inl e)
     | (j1, Inr target) \<Rightarrow>
         committed j1 (commit False target ''stage_receipt'' (receipt_payload r) now j1))"

definition receipts :: "Journal \<Rightarrow> exn + StageReceipt list" where
  "receipts j = map_res (\<lambda>(_, r). StageReceipt_new r) (sort_key fst (jn_receipts j))"

text \<open>
  \<open>verify_artifact\<close> is an argument: a failing integrity or existence check drops the
  receipt, any other exception of the check propagates.
\<close>

fun outputs_verify :: "(ArtifactRef \<Rightarrow> exn + unit) \<Rightarrow> ArtifactRef list \<Rightarrow> exn + bool" where
  "outputs_verify vfy [] = Inr True"
| "outputs_verify vfy (a # as) = (case vfy a of
     Inr _ \<Rightarrow> outputs_verify vfy as
   | Inl (AgentExn e) \<Rightarrow>
       if ae_code e = class_code ArtifactIntegrityError \<or> ae_code e = class_code ArtifactNotFoundError
       then Inr False else Inl (AgentExn e)
   | Inl e \<Rightarrow> Inl e)"

fun verified_from ::
  "(ArtifactRef \<Rightarrow> exn + unit) \<Rightarrow> StageReceipt list \<Rightarrow> exn + StageReceipt list"
where
  "verified_from vfy [] = Inr []"
| "verified_from vfy (r # rs) =
     (if \<not> verified r then verified_from vfy rs
      else bind_res (outputs_verify vfy (rc_outputs r)) (\<lambda>ok.
           bind_res (verified_from vfy rs) (\<lambda>rest. Inr (if ok then r # rest else rest))))"

definition verified_receipts ::
  "(ArtifactRef \<Rightarrow> exn + unit) \<Rightarrow> Journal \<Rightarrow> exn + StageReceipt list" where
  "verified_receipts vfy j = bind_res (receipts j) (verified_from vfy)"

definition receipt_for_stage_key ::
  "(ArtifactRef \<Rightarrow> exn + unit) \<Rightarrow> string \<Rightarrow> Journal \<Rightarrow> exn + StageReceipt option"
where
  "receipt_for_stage_key vfy stage_key j = bind_res (verified_receipts vfy j) (\<lambda>rs.
     Inr (List.find (\<lambda>r. rc_stage_key r = stage_key) rs))"

definition receipt_time :: "StageReceipt \<Rightarrow> int" where
  "receipt_time r = (case rc_completed_at r of None \<Rightarrow> rc_started_at r | Some c \<Rightarrow> c)"

text \<open>\<open>max(rs, key=...)\<close>: the first of the maximal elements.\<close>

fun first_max :: "('a \<Rightarrow> int) \<Rightarrow> 'a \<Rightarrow> 'a list \<Rightarrow> 'a" where
  "first_max f best [] = best"
| "first_max f best (x # xs) = first_max f (if f x > f best then x else best) xs"

definition last_verified_receipt ::
  "(ArtifactRef \<Rightarrow> exn + unit) \<Rightarrow> Journal \<Rightarrow> exn + StageReceipt option"
where
  "last_verified_receipt vfy j = bind_res (verified_receipts vfy j) (\<lambda>rs.
     Inr (case rs of [] \<Rightarrow> None | r # rest \<Rightarrow> Some (first_max receipt_time r rest)))"

section \<open>Heartbeat, cancellation and logs\<close>

definition touch_heartbeat :: "int \<Rightarrow> int \<Rightarrow> Journal \<Rightarrow> exn + Journal \<times> bool" where
  "touch_heartbeat pid t j = bind_res (read_state j) (\<lambda>current.
     Inr (if terminal (js_state current) then (j, False)
          else (j\<lparr>jn_heartbeat := Some (t, pid),
                  jn_state := Some (current\<lparr>js_heartbeat_at := Some t, js_updated_at := t\<rparr>)\<rparr>, True)))"

definition last_heartbeat_at :: "Journal \<Rightarrow> exn + int option" where
  "last_heartbeat_at j = bind_res (read_state j) (\<lambda>status.
     let candidates = (case jn_heartbeat j of None \<Rightarrow> [] | Some (t, _) \<Rightarrow> [t]) @
           (case js_heartbeat_at status of None \<Rightarrow> [] | Some t \<Rightarrow> [t])
     in Inr (if candidates = [] then None else Some (Max (set candidates))))"

definition heartbeat_stale :: "int \<Rightarrow> int \<Rightarrow> Journal \<Rightarrow> exn + bool" where
  "heartbeat_stale stale_after now j =
     bind_res (ensure (\<not> stale_after \<le> 0) value_error) (\<lambda>_.
     bind_res (read_state j) (\<lambda>status.
       if js_state status \<notin> set IN_FLIGHT_JOB_STATES then Inr False
       else bind_res (last_heartbeat_at j) (\<lambda>l.
         let last = (case l of None \<Rightarrow> js_updated_at status | Some t \<Rightarrow> t)
         in Inr (now - last \<ge> stale_after))))"

definition opt_time :: "int option \<Rightarrow> json" where
  "opt_time t = (case t of None \<Rightarrow> JNull | Some i \<Rightarrow> JInt i)"

text \<open>\<open>clock\<close> is the time of the commit, \<open>now\<close> the caller's time for the staleness test.\<close>

definition mark_orphaned_if_stale ::
  "int \<Rightarrow> int \<Rightarrow> int \<Rightarrow> Journal \<Rightarrow> Journal \<times> (exn + JobStatus)"
where
  "mark_orphaned_if_stale stale_after now clock j =
    (case read_state j of
       Inl e \<Rightarrow> (j, Inl e)
     | Inr status \<Rightarrow>
         if js_state status \<notin> set IN_FLIGHT_JOB_STATES then (j, Inr status)
         else case heartbeat_stale stale_after now j of
             Inl e \<Rightarrow> (j, Inl e)
           | Inr stale \<Rightarrow>
               if \<not> stale then (j, Inr status)
               else case last_heartbeat_at j of
                   Inl e \<Rightarrow> (j, Inl e)
                 | Inr heartbeat_at \<Rightarrow>
                     set_state ORPHANED (js_current_stage status) None None None
                       [(''previous_state'', JStr (job_state_value (js_state status))),
                        (''last_heartbeat_at'', opt_time heartbeat_at),
                        (''stale_after_seconds'', JInt stale_after)] clock j)"

definition request_cancel :: "int \<Rightarrow> Journal \<Rightarrow> Journal \<times> (exn + JobStatus)" where
  "request_cancel now j =
     append_event ''cancel_requested'' [(''at'', JInt now)] now (j\<lparr>jn_cancel := True\<rparr>)"

definition cancel_requested :: "Journal \<Rightarrow> bool" where
  "cancel_requested j = jn_cancel j"

definition clear_cancel :: "Journal \<Rightarrow> Journal" where
  "clear_cancel j = j\<lparr>jn_cancel := False\<rparr>"

definition read_log :: "string \<Rightarrow> Journal \<Rightarrow> string" where
  "read_log stage_name j = (case map_of (jn_logs j) (safe_name stage_name @ ''.log'') of
     None \<Rightarrow> [] | Some t \<Rightarrow> t)"

definition write_log :: "string \<Rightarrow> string \<Rightarrow> Journal \<Rightarrow> Journal" where
  "write_log stage_name line j = j\<lparr>jn_logs := dict_set (safe_name stage_name @ ''.log'')
     (read_log stage_name j @ (if py_endswith line [newline] then line else line @ [newline]))
     (jn_logs j)\<rparr>"

section \<open>Interleavings\<close>

text \<open>
  A journal shared by processes: every operation that has read the snapshot and not yet taken
  the lock is \<open>pending\<close>. \<open>jstep\<close> is one atomic action of one process; commits and
  heartbeats read a clock that does not run backwards.
\<close>

record jsys =
  sy_journal :: Journal
  sy_pending :: "(JobStatus \<times> string \<times> raw_map) list"
  sy_clock :: int

inductive jstep :: "jsys \<Rightarrow> jsys \<Rightarrow> bool" where
  prepare_event:
    "read_state (sy_journal s) = Inr target \<Longrightarrow>
     jstep s (s\<lparr>sy_pending := (target, ty, payload) # sy_pending s\<rparr>)"
| prepare_state:
    "(case hb of None \<Rightarrow> True | Some t \<Rightarrow> t \<le> sy_clock s) \<Longrightarrow>
     set_state_target st stage err manifest hb ep (sy_journal s) = Inr (target, payload) \<Longrightarrow>
     jstep s (s\<lparr>sy_pending := (target, ''state_changed'', payload) # sy_pending s\<rparr>)"
| prepare_receipt:
    "receipt_target r (sy_journal s) = (j, Inr target) \<Longrightarrow>
     jstep s (s\<lparr>sy_journal := j,
       sy_pending := (target, ''stage_receipt'', receipt_payload r) # sy_pending s\<rparr>)"
| commit_pending:
    "sy_pending s = before @ (target, ty, payload) # after \<Longrightarrow> sy_clock s \<le> now \<Longrightarrow>
     commit False target ty payload now (sy_journal s) = Inr (j, final) \<Longrightarrow>
     jstep s (s\<lparr>sy_journal := j, sy_pending := before @ after, sy_clock := now\<rparr>)"
| commit_refused:
    "sy_pending s = before @ (target, ty, payload) # after \<Longrightarrow> sy_clock s \<le> now \<Longrightarrow>
     commit False target ty payload now (sy_journal s) = Inl e \<Longrightarrow>
     jstep s (s\<lparr>sy_pending := before @ after, sy_clock := now\<rparr>)"
| beat:
    "sy_clock s \<le> now \<Longrightarrow> touch_heartbeat pid now (sy_journal s) = Inr (j, live) \<Longrightarrow>
     jstep s (s\<lparr>sy_journal := j, sy_clock := now\<rparr>)"
| cancel_flag:
    "jstep s (s\<lparr>sy_journal := (sy_journal s)\<lparr>jn_cancel := b\<rparr>\<rparr>)"
| log_line:
    "jstep s (s\<lparr>sy_journal := write_log stage line (sy_journal s)\<rparr>)"

text \<open>What identifies the job, fixed at creation.\<close>

definition identity :: "JobStatus \<Rightarrow> string \<times> string option \<times> string \<times> int \<times> raw_map" where
  "identity s = (js_job_id s, js_parent_job_id s, js_spec_sha256 s, js_created_at s, js_launcher s)"

text \<open>
  The journal is complete: the event files are numbered \<open>1..n\<close>, each holds its own number,
  and the snapshot is a valid status that carries the last number.
\<close>

definition journal_ok :: "Journal \<Rightarrow> bool" where
  "journal_ok j \<longleftrightarrow> (case jn_state j of None \<Rightarrow> False | Some s \<Rightarrow>
     JobStatus_ok s \<and> js_job_id s = jn_job_id j \<and> 0 < js_seq s \<and>
     map fst (jn_events j) = [1..<Suc (js_seq s)] \<and>
     (\<forall>(n, e) \<in> set (jn_events j). ev_seq e = n))"

inductive journal_reachable :: "jsys \<Rightarrow> bool" where
  created:
    "JobJournal_create job_id so sr sha launcher parent now jobs = Inr (jobs', j) \<Longrightarrow>
     journal_reachable \<lparr>sy_journal = j, sy_pending = [], sy_clock = now\<rparr>"
| stepped:
    "journal_reachable s \<Longrightarrow> jstep s s' \<Longrightarrow> journal_reachable s'"

section \<open>The invariant\<close>

definition hb_le :: "JobStatus \<Rightarrow> int \<Rightarrow> bool" where
  "hb_le s t \<longleftrightarrow> (case js_heartbeat_at s of None \<Rightarrow> True | Some b \<Rightarrow> b \<le> t)"

definition status_fits ::
  "string \<times> string option \<times> string \<times> int \<times> raw_map \<Rightarrow> int \<Rightarrow> JobStatus \<Rightarrow> bool"
where
  "status_fits I clock s \<longleftrightarrow> JobStatus_ok s \<and> identity s = I \<and> hb_le s clock"

definition sys_inv :: "string \<times> string option \<times> string \<times> int \<times> raw_map \<Rightarrow> jsys \<Rightarrow> bool" where
  "sys_inv I s \<longleftrightarrow> journal_ok (sy_journal s) \<and>
     status_fits I (sy_clock s) (the (jn_state (sy_journal s))) \<and>
     (\<forall>p \<in> set (sy_pending s). status_fits I (sy_clock s) (fst p))"

lemma journal_ok_state:
  assumes "journal_ok j"
  obtains st where "jn_state j = Some st" "read_state j = Inr st" "JobStatus_ok st"
    "js_job_id st = jn_job_id j" "next_seq j = Suc (js_seq st)"
    "map fst (jn_events j) = [1..<Suc (js_seq st)]" "0 < js_seq st"
proof -
  from assms obtain st where st: "jn_state j = Some st" "JobStatus_ok st" "js_job_id st = jn_job_id j"
    "map fst (jn_events j) = [1..<Suc (js_seq st)]" "0 < js_seq st"
    by (auto simp: journal_ok_def split: option.splits)
  from st(5) have "Max {1..<Suc (js_seq st)} = js_seq st"
    by (intro Max_eqI) auto
  with st have "next_seq j = Suc (js_seq st)"
    by (simp add: next_seq_def Let_def del: upt_Suc)
  moreover have "read_state j = Inr st"
    using st by (simp add: read_state_def JobStatus_new_Inr)
  ultimately show ?thesis using st that by blast
qed

lemma read_state_Inr: "read_state j = Inr s \<longleftrightarrow> jn_state j = Some s \<and> JobStatus_ok s"
  by (auto simp: read_state_def JobStatus_new_Inr split: option.splits)

lemma commit_Inr:
  "commit False target ty payload now j = Inr (j', final) \<longleftrightarrow>
   (\<exists>current. read_state j = Inr current \<and>
      \<not> (terminal (js_state current) \<and> js_state target \<noteq> js_state current) \<and>
      final = (preserve_heartbeat current target)\<lparr>js_seq := next_seq j, js_updated_at := now\<rparr> \<and>
      j' = j\<lparr>jn_events := dict_set (next_seq j)
               \<lparr>ev_seq = next_seq j, ev_type = ty, ev_at = now, ev_payload = payload\<rparr> (jn_events j),
             jn_state := Some final\<rparr>)"
  by (auto simp: commit_def res_simps Let_def)

lemma preserve_heartbeat_fields [simp]:
  "js_state (preserve_heartbeat c t) = js_state t" "js_error (preserve_heartbeat c t) = js_error t"
  "identity (preserve_heartbeat c t) = identity t" "js_job_id (preserve_heartbeat c t) = js_job_id t"
  "js_stages (preserve_heartbeat c t) = js_stages t"
  by (auto simp: preserve_heartbeat_def identity_def split: option.splits)

lemma identity_updates [simp]:
  "identity (s\<lparr>js_seq := n, js_updated_at := u\<rparr>) = identity s"
  "identity (s\<lparr>js_heartbeat_at := b, js_updated_at := u\<rparr>) = identity s"
  "identity (s\<lparr>js_stages := st, js_current_stage := c\<rparr>) = identity s"
  by (simp_all add: identity_def)

lemma hb_le_preserve: "hb_le c t \<Longrightarrow> hb_le s t \<Longrightarrow> hb_le (preserve_heartbeat c s) t"
  by (auto simp: hb_le_def preserve_heartbeat_def split: option.splits)

lemma preserve_heartbeat_ge:
  "js_heartbeat_at c = Some a \<Longrightarrow> \<exists>b \<ge> a. js_heartbeat_at (preserve_heartbeat c t) = Some b"
  by (auto simp: preserve_heartbeat_def split: option.splits)

lemma hb_le_mono: "hb_le s t \<Longrightarrow> t \<le> u \<Longrightarrow> hb_le s u"
  by (auto simp: hb_le_def split: option.splits)

lemma status_fits_mono: "status_fits I t s \<Longrightarrow> t \<le> u \<Longrightarrow> status_fits I u s"
  by (auto simp: status_fits_def hb_le_mono)

lemma identity_job_id: "identity s = identity t \<Longrightarrow> js_job_id s = js_job_id t"
  by (simp add: identity_def)

lemma commit_appends:
  assumes ok: "journal_ok j" and c: "commit False target ty payload now j = Inr (j', final)"
  shows "\<exists>e. jn_events j' = jn_events j @ [(next_seq j, e)] \<and> ev_seq e = next_seq j"
proof -
  obtain st :: JobStatus where st: "map fst (jn_events j) = [1..<Suc (js_seq st)]"
    "next_seq j = Suc (js_seq st)"
    using ok by (metis journal_ok_state)
  then have "next_seq j \<notin> fst ` set (jn_events j)"
    by (metis atLeastLessThan_iff less_irrefl list.set_map set_upt)
  with c show ?thesis by (auto simp: commit_Inr dict_set_fresh)
qed

lemma commit_keeps_ok:
  assumes ok: "journal_ok j" and I: "identity (the (jn_state j)) = I"
    and t: "JobStatus_ok target" "identity target = I"
    and c: "commit False target ty payload now j = Inr (j', final)"
  shows "journal_ok j' \<and> jn_state j' = Some final \<and> JobStatus_ok final \<and> identity final = I"
proof -
  from ok obtain st where st: "jn_state j = Some st" "js_job_id st = jn_job_id j"
    "map fst (jn_events j) = [1..<Suc (js_seq st)]" "next_seq j = Suc (js_seq st)"
    by (metis journal_ok_state)
  from commit_appends [OF ok c] obtain e
    where e: "jn_events j' = jn_events j @ [(next_seq j, e)]" "ev_seq e = next_seq j" by blast
  from c obtain current where cur: "read_state j = Inr current"
    and f: "final = (preserve_heartbeat current target)\<lparr>js_seq := next_seq j, js_updated_at := now\<rparr>"
    and j': "jn_state j' = Some final" "jn_job_id j' = jn_job_id j"
    by (auto simp: commit_Inr)
  have "js_job_id target = jn_job_id j"
    using I t st by (metis identity_job_id option.sel)
  moreover have "\<forall>(n, e) \<in> set (jn_events j). ev_seq e = n"
    using ok by (auto simp: journal_ok_def split: option.splits)
  ultimately show ?thesis
    using t f j' e st by (auto simp: journal_ok_def JobStatus_ok_def)
qed

lemma receipt_target_frame:
  assumes "receipt_target r j = (j', t)"
  shows "jn_state j' = jn_state j \<and> jn_events j' = jn_events j \<and> jn_job_id j' = jn_job_id j"
  using assms by (auto simp: receipt_target_def Let_def split: if_splits)

lemma journal_ok_frame:
  "jn_state j' = jn_state j \<Longrightarrow> jn_events j' = jn_events j \<Longrightarrow> jn_job_id j' = jn_job_id j \<Longrightarrow>
   journal_ok j' = journal_ok j"
  by (simp add: journal_ok_def cong: option.case_cong)


lemma read_state_identity:
  "journal_ok j \<Longrightarrow> read_state j = Inr st \<Longrightarrow> the (jn_state j) = st"
  by (auto simp: read_state_Inr)

lemma set_state_target_fits:
  assumes "journal_ok j" "status_fits I t (the (jn_state j))"
    and "case hb of None \<Rightarrow> True | Some b \<Rightarrow> b \<le> t"
    and "set_state_target st stage err manifest hb ep j = Inr (target, payload)"
  shows "status_fits I t target"
proof -
  from assms(1) obtain cur where cur: "jn_state j = Some cur" "js_job_id cur = jn_job_id j"
    by (metis journal_ok_state)
  with assms show ?thesis
    by (auto simp: set_state_target_def res_simps JobStatus_new_Inr read_state_Inr status_fits_def
        identity_def hb_le_def split: option.splits)
qed

lemma status_fits_updates [simp]:
  "status_fits I t (s\<lparr>js_stages := x, js_current_stage := y\<rparr>) = status_fits I t s"
  "status_fits I t (s\<lparr>js_seq := n, js_updated_at := u\<rparr>) = status_fits I t s"
  by (simp_all add: status_fits_def JobStatus_ok_def hb_le_def)

lemma status_fits_beat:
  "status_fits I t s \<Longrightarrow> status_fits I now (s\<lparr>js_heartbeat_at := Some now, js_updated_at := now\<rparr>)"
  by (simp add: status_fits_def JobStatus_ok_def hb_le_def)

lemma receipt_target_fits:
  assumes "status_fits I t (the (jn_state j))" "receipt_target r j = (j', Inr target)"
  shows "status_fits I t target"
proof -
  have "jn_state j' = jn_state j" using receipt_target_frame [OF assms(2)] by simp
  moreover from assms(2) obtain cur where "read_state j' = Inr cur"
    "target = with_receipt r cur"
    by (auto simp: receipt_target_def Let_def res_simps split: if_split_asm)
  ultimately show ?thesis using assms(1) by (simp add: read_state_Inr with_receipt_def Let_def)
qed

lemma touch_heartbeat_Inr:
  "touch_heartbeat pid t j = Inr (j', live) \<longleftrightarrow>
   (\<exists>st. read_state j = Inr st \<and> live = (\<not> terminal (js_state st)) \<and>
      j' = (if terminal (js_state st) then j
            else j\<lparr>jn_heartbeat := Some (t, pid),
                   jn_state := Some (st\<lparr>js_heartbeat_at := Some t, js_updated_at := t\<rparr>)\<rparr>))"
  by (auto simp: touch_heartbeat_def res_simps)

lemma touch_heartbeat_keeps_ok:
  assumes "journal_ok j" "status_fits I t (the (jn_state j))" "t \<le> now"
    and "touch_heartbeat pid now j = Inr (j', live)"
  shows "journal_ok j' \<and> status_fits I now (the (jn_state j'))"
proof -
  from assms(4) obtain st where st: "read_state j = Inr st"
    and j': "j' = (if terminal (js_state st) then j
            else j\<lparr>jn_heartbeat := Some (now, pid),
                   jn_state := Some (st\<lparr>js_heartbeat_at := Some now, js_updated_at := now\<rparr>)\<rparr>)"
    by (auto simp: touch_heartbeat_Inr)
  show ?thesis
  proof (cases "terminal (js_state st)")
    case True
    with j' assms show ?thesis by (simp add: status_fits_mono)
  next
    case False
    with j' st assms(1,2) show ?thesis
      using status_fits_beat [of I t st now] by (simp add: journal_ok_def read_state_Inr JobStatus_ok_def)
  qed
qed

lemma commit_keeps_fits:
  assumes "journal_ok j" "status_fits I t (the (jn_state j))" "status_fits I t target" "t \<le> now"
    and "commit False target ty payload now j = Inr (j', final)"
  shows "journal_ok j' \<and> status_fits I now (the (jn_state j'))"
proof -
  have ok: "journal_ok j' \<and> jn_state j' = Some final \<and> JobStatus_ok final \<and> identity final = I"
    by (rule commit_keeps_ok [OF assms(1) _ _ _ assms(5)])
      (use assms(2,3) in \<open>auto simp: status_fits_def\<close>)
  from assms(5) obtain cur where "read_state j = Inr cur" "js_heartbeat_at final =
      js_heartbeat_at (preserve_heartbeat cur target)"
    by (auto simp: commit_Inr)
  moreover have "hb_le cur now" "hb_le target now"
    using assms calculation by (auto simp: status_fits_def read_state_Inr intro: hb_le_mono)
  then have "hb_le (preserve_heartbeat cur target) now" by (rule hb_le_preserve)
  ultimately show ?thesis using ok by (simp add: status_fits_def hb_le_def)
qed

lemma write_log_frame [simp]:
  "jn_state (write_log st l j) = jn_state j" "jn_events (write_log st l j) = jn_events j"
  "jn_job_id (write_log st l j) = jn_job_id j" "jn_receipts (write_log st l j) = jn_receipts j"
  by (simp_all add: write_log_def)

lemma jstep_inv:
  assumes "jstep s s'" "sys_inv I s"
  shows "sys_inv I s'"
  using assms
proof cases
  case (prepare_event target ty payload)
  with assms(2) show ?thesis by (auto simp: sys_inv_def read_state_Inr)
next
  case (prepare_state hb st stage err manifest ep target payload)
  with assms(2) show ?thesis
    using set_state_target_fits [OF _ _ prepare_state(2,3)] by (auto simp: sys_inv_def)
next
  case (prepare_receipt r j target)
  with assms(2) receipt_target_frame [OF prepare_receipt(2)] show ?thesis
    using receipt_target_fits [OF _ prepare_receipt(2)] journal_ok_frame [of j "sy_journal s"]
    by (auto simp: sys_inv_def)
next
  case (commit_pending before target ty payload after now j final)
  moreover have "journal_ok j \<and> status_fits I now (the (jn_state j))"
    by (rule commit_keeps_fits [OF _ _ _ commit_pending(3,4)])
      (use assms(2) commit_pending(2) in \<open>auto simp: sys_inv_def\<close>)
  ultimately show ?thesis using assms(2) by (auto simp: sys_inv_def intro: status_fits_mono)
next
  case (commit_refused before target ty payload after now e)
  with assms(2) show ?thesis by (auto simp: sys_inv_def intro: status_fits_mono)
next
  case (beat now pid j live)
  with assms(2) touch_heartbeat_keeps_ok [OF _ _ beat(2,3), of I] show ?thesis
    by (auto simp: sys_inv_def intro: status_fits_mono)
next
  case (cancel_flag b)
  with assms(2) journal_ok_frame [of "sy_journal s'" "sy_journal s"] show ?thesis
    by (auto simp: sys_inv_def)
next
  case (log_line stage line)
  with assms(2) journal_ok_frame [of "sy_journal s'" "sy_journal s"] show ?thesis
    by (auto simp: sys_inv_def)
qed

lemma create_inv:
  assumes "JobJournal_create job_id so sr sha launcher parent now jobs = Inr (jobs', j)"
  shows "sys_inv (job_id, parent, sha, now, case launcher of None \<Rightarrow> [] | Some l \<Rightarrow> l)
    \<lparr>sy_journal = j, sy_pending = [], sy_clock = now\<rparr>"
  using assms
  by (auto simp: JobJournal_create_def Let_def res_simps commit_def JobStatus_new_Inr sys_inv_def
      journal_ok_def next_seq_def status_fits_def JobStatus_ok_def identity_def hb_le_def
      split: if_splits)

lemma journal_reachable_inv: "journal_reachable s \<Longrightarrow> \<exists>I. sys_inv I s"
proof (induction rule: journal_reachable.induct)
  case created
  then show ?case using create_inv by blast
next
  case stepped
  then show ?case using jstep_inv by blast
qed

lemma jsteps_inv: "jstep\<^sup>*\<^sup>* s s' \<Longrightarrow> sys_inv I s \<Longrightarrow> sys_inv I s'"
  by (induction rule: rtranclp_induct) (auto intro: jstep_inv)


lemma jstep_events:
  assumes "jstep s s'" "journal_ok (sy_journal s)"
  shows "\<exists>new. jn_events (sy_journal s') = jn_events (sy_journal s) @ new"
  using assms
proof cases
  case (commit_pending before target ty payload after now j final)
  with commit_appends [OF assms(2) commit_pending(4)] show ?thesis by auto
next
  case (prepare_receipt r j target)
  with receipt_target_frame [OF prepare_receipt(2)] show ?thesis by simp
qed (auto simp: touch_heartbeat_Inr)

lemma jstep_receipts:
  assumes "jstep s s'"
  shows "map_of (jn_receipts (sy_journal s)) \<subseteq>\<^sub>m map_of (jn_receipts (sy_journal s'))"
  using assms
proof cases
  case (prepare_receipt r j target)
  then show ?thesis
    by (auto simp: receipt_target_def Let_def map_le_def split: if_split_asm)
qed (auto simp: touch_heartbeat_Inr commit_Inr)

text \<open>How a snapshot may change: a terminal state stays, a heartbeat does not go back.\<close>

definition evolves :: "JobStatus \<Rightarrow> JobStatus \<Rightarrow> bool" where
  "evolves s t \<longleftrightarrow> (terminal (js_state s) \<longrightarrow> js_state t = js_state s) \<and>
     (case js_heartbeat_at s of None \<Rightarrow> True
      | Some a \<Rightarrow> (case js_heartbeat_at t of None \<Rightarrow> False | Some b \<Rightarrow> a \<le> b))"

lemma evolves_refl [simp]: "evolves s s"
  by (simp add: evolves_def split: option.split)

lemma evolves_trans: "evolves s t \<Longrightarrow> evolves t u \<Longrightarrow> evolves s u"
  by (auto simp: evolves_def split: option.splits)

lemma jstep_status:
  assumes "jstep s s'" "journal_ok (sy_journal s)" "jn_state (sy_journal s) = Some st"
    and "hb_le st (sy_clock s)"
  shows "\<exists>st'. jn_state (sy_journal s') = Some st' \<and> evolves st st'"
  using assms(1)
proof cases
  case (prepare_receipt r j target)
  with assms receipt_target_frame [OF prepare_receipt(2)] show ?thesis by auto
next
  case (commit_pending before target ty payload after now j final)
  with assms(3) preserve_heartbeat_ge [of st _ target] show ?thesis
    by (fastforce simp: commit_Inr read_state_Inr evolves_def split: option.splits)
next
  case (beat now pid j live)
  with assms show ?thesis
    by (auto simp: touch_heartbeat_Inr read_state_Inr hb_le_def evolves_def split: option.splits)
qed (use assms in auto)

lemma run_status:
  assumes "jstep\<^sup>*\<^sup>* s s'" "sys_inv I s" "jn_state (sy_journal s) = Some st"
  shows "\<exists>st'. jn_state (sy_journal s') = Some st' \<and> evolves st st'"
  using assms(1)
proof (induction rule: rtranclp_induct)
  case base
  with assms(3) show ?case by auto
next
  case (step t u)
  then obtain st1 where st1: "jn_state (sy_journal t) = Some st1" "evolves st st1" by blast
  have inv: "sys_inv I t" using step(1) assms(2) by (rule jsteps_inv)
  then have "journal_ok (sy_journal t)" "hb_le st1 (sy_clock t)"
    using st1(1) by (simp_all add: sys_inv_def status_fits_def)
  from jstep_status [OF step(2) this(1) st1(1) this(2)] st1(2) show ?case
    by (blast intro: evolves_trans)
qed

lemma sort_key_sorted: "sorted (map f xs) \<Longrightarrow> sort_key f xs = xs"
  by (simp add: sort_key_id_if_sorted)

lemma events_after:
  assumes "journal_ok j"
  shows "events n j = map snd (drop n (jn_events j))"
proof -
  from assms obtain st :: JobStatus where m: "map fst (jn_events j) = [1..<Suc (js_seq st)]"
    by (metis journal_ok_state)
  have flt: "filter (\<lambda>(q, _). \<not> q \<le> n) xs = drop n xs"
    if "map fst xs = [1..<Suc k]" for k and xs :: "(nat \<times> Event) list"
    using that
  proof (induction k arbitrary: xs)
    case (Suc k)
    then obtain ys y where xs: "xs = ys @ [y]"
      by (cases xs rule: rev_exhaust) auto
    with Suc.prems have "map fst ys = [1..<Suc k]" "fst y = Suc k" by auto
    moreover from this(1) have "length ys = k"
      by (metis diff_Suc_1 length_map length_upt)
    ultimately show ?case using Suc.IH [of ys] xs by (cases y) (auto simp: not_le)
  qed simp
  have "sorted (map fst (filter (\<lambda>(q, _). \<not> q \<le> n) (jn_events j)))"
    using m by (intro sorted_filter) (simp del: upt_Suc)
  then show ?thesis
    by (simp add: events_def sort_key_sorted flt [OF m])
qed


section \<open>Properties\<close>

text \<open>
  C3. However the operations of concurrent processes interleave after a job was created, its
  journal is complete: the event files are numbered \<open>1..n\<close> without a gap, the snapshot is
  a valid status whose \<open>seq\<close> is the last event's, and the job's identity is the one it was
  created with.
\<close>

theorem journal_complete:
  assumes "JobJournal_create job_id so sr sha launcher parent now jobs = Inr (jobs', j)"
    and "jstep\<^sup>*\<^sup>* \<lparr>sy_journal = j, sy_pending = [], sy_clock = now\<rparr> s"
  shows "journal_ok (sy_journal s) \<and>
    (\<exists>st. jn_state (sy_journal s) = Some st \<and>
       identity st = (job_id, parent, sha, now, case launcher of None \<Rightarrow> [] | Some l \<Rightarrow> l))"
proof -
  have "sys_inv (job_id, parent, sha, now, case launcher of None \<Rightarrow> [] | Some l \<Rightarrow> l) s"
    using assms by (blast intro: jsteps_inv create_inv)
  then show ?thesis
    by (auto simp: sys_inv_def status_fits_def journal_ok_def split: option.splits)
qed

definition demo_journal :: Journal where
  "demo_journal = snd (projr (JobJournal_create ''j1'' [] [] ''sha'' None None 5 []))"

definition demo_sys :: jsys where
  "demo_sys = \<lparr>sy_journal = demo_journal, sy_pending = [], sy_clock = 5\<rparr>"

lemma demo_created:
  "JobJournal_create ''j1'' [] [] ''sha'' None None 5 [] = Inr ([(''j1'', demo_journal)], demo_journal)"
  by (simp add: JobJournal_create_def demo_journal_def Let_def JobStatus_new_def commit_def
      next_seq_def checks.simps require_def ensure_def)

lemma demo_reachable: "journal_reachable demo_sys"
  unfolding demo_sys_def by (rule created [OF demo_created])

theorem journal_complete_witness:
  "journal_ok demo_journal"
  using journal_complete [OF demo_created rtranclp.rtrancl_refl] by simp


lemma demo_state:
  "jn_state demo_journal = Some \<lparr>js_job_id = ''j1'', js_state = QUEUED, js_seq = 1,
     js_parent_job_id = None, js_spec_sha256 = ''sha'', js_created_at = 5, js_updated_at = 5,
     js_current_stage = None, js_stages = [], js_manifest = None, js_heartbeat_at = None,
     js_launcher = [], js_error = None\<rparr>"
  "jn_events demo_journal = [(1, \<lparr>ev_seq = 1, ev_type = ''job_created'', ev_at = 5,
     ev_payload = [(''job_id'', JStr ''j1''), (''parent_job_id'', JNull),
       (''spec_sha256'', JStr ''sha'')]\<rparr>)]"
  "jn_receipts demo_journal = []" "next_seq demo_journal = 2" "jn_job_id demo_journal = ''j1''"
  by (simp_all add: demo_journal_def JobJournal_create_def Let_def JobStatus_new_def
        commit_def next_seq_def checks.simps require_def ensure_def)

lemma run_append_event:
  assumes "append_event ty payload now j = (j', Inr f)" "c \<le> now"
  shows "jstep\<^sup>*\<^sup>* \<lparr>sy_journal = j, sy_pending = ps, sy_clock = c\<rparr>
    \<lparr>sy_journal = j', sy_pending = ps, sy_clock = now\<rparr>"
proof -
  let ?s = "\<lparr>sy_journal = j, sy_pending = ps, sy_clock = c\<rparr>"
  from assms obtain t where t: "read_state j = Inr t" "commit False t ty payload now j = Inr (j', f)"
    by (auto simp: append_event_def committed_def res_simps split: sum.splits)
  let ?m = "?s\<lparr>sy_pending := (t, ty, payload) # ps\<rparr>"
  have "jstep ?s ?m" using prepare_event [of ?s t ty payload] t by simp
  moreover have "jstep ?m \<lparr>sy_journal = j', sy_pending = ps, sy_clock = now\<rparr>"
    using commit_pending [of ?m "[]" t ty payload ps now j' f] t assms by simp
  ultimately show ?thesis by (blast intro: rtranclp_trans)
qed

lemma run_set_state:
  assumes "set_state st stage err manifest None ep now j = (j', Inr f)" "c \<le> now"
  shows "jstep\<^sup>*\<^sup>* \<lparr>sy_journal = j, sy_pending = ps, sy_clock = c\<rparr>
    \<lparr>sy_journal = j', sy_pending = ps, sy_clock = now\<rparr>"
proof -
  let ?s = "\<lparr>sy_journal = j, sy_pending = ps, sy_clock = c\<rparr>"
  from assms obtain t p where t: "set_state_target st stage err manifest None ep j = Inr (t, p)"
    "commit False t ''state_changed'' p now j = Inr (j', f)"
    by (auto simp: set_state_def committed_def res_simps split: sum.splits)
  let ?m = "?s\<lparr>sy_pending := (t, ''state_changed'', p) # ps\<rparr>"
  have "jstep ?s ?m" using prepare_state [where hb = None and s = ?s] t by fastforce
  moreover have "jstep ?m \<lparr>sy_journal = j', sy_pending = ps, sy_clock = now\<rparr>"
    using commit_pending [of ?m "[]" t _ p ps now j' f] t assms by simp
  ultimately show ?thesis by (blast intro: rtranclp_trans)
qed

lemma reachable_run: "journal_reachable s \<Longrightarrow> jstep\<^sup>*\<^sup>* s s' \<Longrightarrow> journal_reachable s'"
  by (rotate_tac, induction rule: rtranclp_induct) (auto intro: stepped)


text \<open>
  The journal only grows: along every run the event log is extended at its end and a
  recorded receipt file keeps its content.
\<close>

theorem journal_append_only:
  assumes "journal_reachable s" "jstep\<^sup>*\<^sup>* s s'"
  shows "(\<exists>new. jn_events (sy_journal s') = jn_events (sy_journal s) @ new) \<and>
    map_of (jn_receipts (sy_journal s)) \<subseteq>\<^sub>m map_of (jn_receipts (sy_journal s'))"
  using assms(2)
proof (induction rule: rtranclp_induct)
  case (step t u)
  obtain I where "sys_inv I s" using assms(1) journal_reachable_inv by blast
  with step(1) have "sys_inv I t" by (rule jsteps_inv)
  then have "journal_ok (sy_journal t)" by (simp add: sys_inv_def)
  from jstep_events [OF step(2) this] jstep_receipts [OF step(2)] step.IH show ?case
    by (auto intro: map_le_trans)
qed simp

theorem journal_append_only_witness:
  "map_of (jn_receipts (sy_journal demo_sys)) \<subseteq>\<^sub>m map_of (jn_receipts (sy_journal demo_sys))"
  using journal_append_only [OF demo_reachable rtranclp.rtrancl_refl] by simp

text \<open>
  C36. Watching resumes without loss or repetition: in every reachable journal, what
  \<open>events(after_seq=n)\<close> returns is numbered \<open>n+1, n+2, ...\<close> up to the snapshot's
  \<open>seq\<close>, and the first \<open>n\<close> events followed by it are all the events.
\<close>

theorem events_resume:
  assumes "journal_reachable s" "jn_state (sy_journal s) = Some st"
  shows "map ev_seq (events n (sy_journal s)) = [Suc n..<Suc (js_seq st)] \<and>
    take n (events 0 (sy_journal s)) @ events n (sy_journal s) = events 0 (sy_journal s)"
proof -
  from assms(1) obtain I where "sys_inv I s" using journal_reachable_inv by blast
  then have ok: "journal_ok (sy_journal s)" by (simp add: sys_inv_def)
  let ?ev = "jn_events (sy_journal s)"
  from ok assms(2) have m: "map fst ?ev = [1..<Suc (js_seq st)]"
    and e: "\<forall>(n, e) \<in> set ?ev. ev_seq e = n"
    by (auto simp: journal_ok_def)
  have "map ev_seq (map snd (drop n ?ev)) = map fst (drop n ?ev)"
    using e by (auto dest!: in_set_dropD)
  also have "\<dots> = [Suc n..<Suc (js_seq st)]"
    using m by (simp add: drop_map [symmetric] del: upt_Suc)
  finally have "map ev_seq (events n (sy_journal s)) = [Suc n..<Suc (js_seq st)]"
    by (simp add: events_after [OF ok])
  moreover have "take n (map snd ?ev) @ drop n (map snd ?ev) = map snd ?ev"
    by (rule append_take_drop_id)
  ultimately show ?thesis by (simp add: events_after [OF ok] drop_map)
qed

theorem events_resume_witness: "\<exists>st. jn_state demo_journal = Some st \<and>
   map ev_seq (events 0 demo_journal) = [1..<Suc (js_seq st)]"
proof -
  obtain st where st: "jn_state (sy_journal demo_sys) = Some st"
    by (simp add: demo_sys_def demo_journal_def JobJournal_create_def Let_def JobStatus_new_def
        commit_def next_seq_def checks.simps require_def ensure_def)
  from events_resume [OF demo_reachable st, of 0] st show ?thesis
    by (auto simp: demo_sys_def simp del: upt_Suc)
qed


definition demo_receipt :: StageReceipt where
  "demo_receipt = \<lparr>rc_stage_key = ''k'', rc_stage_name = ''build'', rc_attempt = 1,
     rc_status = SS_SUCCEEDED, rc_started_at = 5, rc_completed_at = Some 6, rc_inputs = [],
     rc_outputs = [], rc_metrics = [],
     rc_provenance = \<lparr>pv_sdk_build = ''2'', pv_adapter_capability = ''c'', pv_platform_abi = ''a'',
       pv_resolved_preset_sha256 = None, pv_image_digest = None, pv_host_arch = None,
       pv_emulation = False, pv_device_fingerprint = None\<rparr>,
     rc_error = None\<rparr>"

text \<open>
  A lost update the journal admits: a cancellation request reads the snapshot, the worker
  records a receipt and commits it, and the cancellation then commits its stale snapshot. The
  receipt file and its event are there, but the published status no longer lists the stage.
\<close>

theorem stale_commit_drops_receipt:
  "\<exists>s. jstep\<^sup>*\<^sup>* demo_sys s \<and>
     map_of (jn_receipts (sy_journal s)) (receipt_path demo_receipt) = Some demo_receipt \<and>
     map ev_type (events 0 (sy_journal s)) = [''job_created'', ''stage_receipt'', ''cancel_requested''] \<and>
     js_stages (the (jn_state (sy_journal s))) = []"
proof -
  let ?st = "the (jn_state demo_journal)"
  let ?pend = "(?st, ''cancel_requested'', [])"
  obtain j1 t1 where r: "receipt_target demo_receipt demo_journal = (j1, Inr t1)"
    and t1: "t1 = with_receipt demo_receipt ?st"
    and j1: "j1 = demo_journal\<lparr>jn_receipts := [(receipt_path demo_receipt, demo_receipt)]\<rparr>"
    by (simp add: receipt_target_def demo_state read_state_def JobStatus_new_def checks.simps
        require_def ensure_def)
  have rd: "read_state demo_journal = Inr ?st" "read_state j1 = Inr ?st"
    by (simp_all add: read_state_def demo_state j1 JobStatus_new_def checks.simps require_def ensure_def)
  obtain j2 f2 where c2: "commit False t1 ''stage_receipt'' (receipt_payload demo_receipt) 6 j1 = Inr (j2, f2)"
    by (simp add: commit_def rd t1 with_receipt_def Let_def demo_state terminal_def ensure_def)
  then have rd2: "read_state j2 = Inr f2" and f2: "js_state f2 = QUEUED" "js_heartbeat_at f2 = None"
    by (auto simp: commit_Inr rd read_state_Inr t1 with_receipt_def Let_def demo_state
        preserve_heartbeat_def JobStatus_ok_def)
  obtain j3 f3 where c3: "commit False ?st ''cancel_requested'' [] 7 j2 = Inr (j3, f3)"
    by (simp add: commit_def rd2 f2 Let_def demo_state terminal_def ensure_def)
  let ?s1 = "demo_sys\<lparr>sy_pending := [?pend]\<rparr>"
  let ?s2 = "?s1\<lparr>sy_journal := j1, sy_pending := [(t1, ''stage_receipt'', receipt_payload demo_receipt), ?pend]\<rparr>"
  let ?s3 = "?s2\<lparr>sy_journal := j2, sy_pending := [?pend], sy_clock := 6\<rparr>"
  let ?s4 = "?s3\<lparr>sy_journal := j3, sy_pending := [], sy_clock := 7\<rparr>"
  have a: "jstep demo_sys ?s1" using prepare_event [of demo_sys ?st "''cancel_requested''" "[]"] rd
    by (simp add: demo_sys_def)
  have b: "jstep ?s1 ?s2"
    using prepare_receipt [of demo_receipt ?s1 j1 t1] r by (simp add: demo_sys_def)
  have c: "jstep ?s2 ?s3"
    using commit_pending [of ?s2 "[]" t1 _ _ "[?pend]" 6 j2 f2] c2 by (simp add: demo_sys_def)
  have d: "jstep ?s3 ?s4"
    using commit_pending [of ?s3 "[]" ?st _ _ "[]" 7 j3 f3] c3 by (simp add: demo_sys_def)
  have run: "jstep\<^sup>*\<^sup>* demo_sys ?s4"
    by (intro rtranclp.rtrancl_into_rtrancl [OF rtranclp.rtrancl_into_rtrancl
          [OF rtranclp.rtrancl_into_rtrancl [OF r_into_rtranclp]]]) (rule a b c d)+
  have ok: "journal_reachable ?s4" using demo_reachable run by (rule reachable_run)
  have "jn_receipts j3 = jn_receipts j1" "js_stages (the (jn_state j3)) = []"
    using c2 c3 by (auto simp: commit_Inr demo_state)
  moreover have "map ev_type (events 0 j3) = [''job_created'', ''stage_receipt'', ''cancel_requested'']"
  proof -
    have e1: "jn_events j1 = jn_events demo_journal" by (simp add: j1)
    then have "next_seq j1 = 2" by (simp add: next_seq_def demo_state)
    with c2 e1 obtain e where e2: "jn_events j2 = jn_events demo_journal @ [(2, e)]" "ev_type e = ''stage_receipt''"
      by (auto simp: commit_Inr demo_state)
    then have "next_seq j2 = 3" by (simp add: next_seq_def demo_state)
    with c3 e2 have "map (ev_type \<circ> snd) (jn_events j3) = [''job_created'', ''stage_receipt'', ''cancel_requested'']"
      by (auto simp: commit_Inr demo_state)
    moreover obtain I where "sys_inv I ?s4" using ok journal_reachable_inv by blast
    then have "journal_ok j3" by (simp add: sys_inv_def)
    ultimately show ?thesis by (simp add: events_after)
  qed
  ultimately show ?thesis using run j1 by (intro exI [of _ ?s4]) simp
qed


lemma Max_le_silent: "finite S \<Longrightarrow> S \<noteq> {} \<Longrightarrow> now - Max S \<ge> d \<Longrightarrow> x \<in> S \<Longrightarrow> now - x \<ge> (d :: int)"
  using Max_ge [of S x] by linarith

text \<open>
  C37. Orphaning needs silence: \<open>mark_orphaned_if_stale\<close> changes the journal only when the
  job was in flight and every recorded heartbeat, in the heartbeat file and in the snapshot,
  is at least the limit old, and then it moves the job to \<open>ORPHANED\<close> and nowhere else.
\<close>

theorem orphaned_only_when_silent:
  assumes "mark_orphaned_if_stale stale_after now clock j = (j', r)" "j' \<noteq> j"
  shows "\<exists>cur st. read_state j = Inr cur \<and> r = Inr st \<and> js_state st = ORPHANED \<and>
    js_state cur \<in> {STAGING, RUNNING, COLLECTING, COMMITTING} \<and> 0 < stale_after \<and>
    (\<forall>t pid. jn_heartbeat j = Some (t, pid) \<longrightarrow> now - t \<ge> stale_after) \<and>
    (\<forall>t. js_heartbeat_at cur = Some t \<longrightarrow> now - t \<ge> stale_after)"
proof -
  from assms obtain cur ep where cur: "read_state j = Inr cur" "js_state cur \<in> set IN_FLIGHT_JOB_STATES"
    and stale: "heartbeat_stale stale_after now j = Inr True"
    and set: "set_state ORPHANED (js_current_stage cur) None None None ep clock j = (j', r)"
    by (auto simp: mark_orphaned_if_stale_def split: sum.splits if_splits)
  from stale cur obtain l where l: "last_heartbeat_at j = Inr l" "0 < stale_after"
    "now - (case l of None \<Rightarrow> js_updated_at cur | Some t \<Rightarrow> t) \<ge> stale_after"
    by (auto simp: heartbeat_stale_def res_simps split: if_splits)
  define c where "c = (case jn_heartbeat j of None \<Rightarrow> [] | Some (t, _) \<Rightarrow> [t]) @
           (case js_heartbeat_at cur of None \<Rightarrow> [] | Some t \<Rightarrow> [t])"
  have le: "l = (if c = [] then None else Some (Max (set c)))"
    using l(1) unfolding last_heartbeat_at_def cur(1) bind_res.simps Let_def c_def [symmetric]
    by simp
  have all: "now - t \<ge> stale_after" if "t \<in> set c" for t
  proof -
    from that have "c \<noteq> []" by auto
    with le l(3) have "now - Max (set c) \<ge> stale_after" by simp
    with that show ?thesis by (intro Max_le_silent [OF _ _ _ that]) auto
  qed
  from set assms(2) obtain st where "r = Inr st" "js_state st = ORPHANED"
    by (auto simp: set_state_def set_state_target_def committed_def res_simps commit_Inr
        JobStatus_new_Inr split: sum.splits)
  moreover have "\<forall>t pid. jn_heartbeat j = Some (t, pid) \<longrightarrow> now - t \<ge> stale_after"
    using all by (auto simp: c_def)
  moreover have "\<forall>t. js_heartbeat_at cur = Some t \<longrightarrow> now - t \<ge> stale_after"
    using all by (auto simp: c_def)
  ultimately show ?thesis using cur l(2) by (auto simp: IN_FLIGHT_JOB_STATES_def)
qed

theorem orphaned_only_when_silent_witness:
  "\<exists>j f j' st. set_state RUNNING None None None (Some 7) [] 7 demo_journal = (j, Inr f) \<and>
     mark_orphaned_if_stale 100 107 107 j = (j', Inr st) \<and> js_state st = ORPHANED"
proof -
  obtain j f where j: "set_state RUNNING None None None (Some 7) [] 7 demo_journal = (j, Inr f)"
    "jn_state j = Some f" "js_state f = RUNNING" "js_error f = None" "js_heartbeat_at f = Some 7"
    "jn_heartbeat j = None" "jn_events j \<noteq> []"
    by (simp add: set_state_def set_state_target_def read_state_def demo_state JobStatus_new_def
        checks.simps require_def ensure_def commit_def committed_def preserve_heartbeat_def terminal_def
        Let_def demo_journal_def JobJournal_create_def next_seq_def)
  then have rd: "read_state j = Inr f" by (simp add: read_state_Inr JobStatus_ok_def)
  obtain j' st where m: "mark_orphaned_if_stale 100 107 107 j = (j', Inr st)"
    "jn_state j' = Some st" "js_state st = ORPHANED"
    using j rd
    by (simp add: mark_orphaned_if_stale_def IN_FLIGHT_JOB_STATES_def heartbeat_stale_def ensure_def
        last_heartbeat_at_def set_state_def set_state_target_def JobStatus_new_def checks.simps
        require_def commit_def committed_def preserve_heartbeat_def terminal_def Let_def)
  moreover have "j' \<noteq> j" using m j by auto
  from orphaned_only_when_silent [OF m(1) this] have "js_state st = ORPHANED" by auto
  ultimately show ?thesis using j by blast
qed

lemma verified_from_Inr:
  "verified_from vfy rs = Inr vs \<Longrightarrow> r \<in> set vs \<Longrightarrow>
   r \<in> set rs \<and> verified r \<and> outputs_verify vfy (rc_outputs r) = Inr True"
  by (induction rs arbitrary: vs) (auto simp: res_simps split: if_splits)

lemma outputs_verify_True: "outputs_verify vfy as = Inr True \<Longrightarrow> a \<in> set as \<Longrightarrow> vfy a = Inr ()"
  by (induction vfy as rule: outputs_verify.induct) (auto split: sum.splits exn.splits if_splits)

lemma receipts_Inr: "receipts j = Inr rs \<Longrightarrow> set rs = snd ` set (jn_receipts j)"
proof -
  assume "receipts j = Inr rs"
  then have l: "list_all2 (\<lambda>x y. StageReceipt_new (snd x) = Inr y) (sort_key fst (jn_receipts j)) rs"
    by (simp add: receipts_def map_res_Inr case_prod_beta)
  have "rs = map snd (sort_key fst (jn_receipts j))"
    using l by (induction rule: list_all2_induct) (auto simp: StageReceipt_new_Inr)
  then show ?thesis by simp
qed

lemma StageReceipt_new_id: "StageReceipt_new r = Inr t \<Longrightarrow> t = r"
  by (simp add: StageReceipt_new_Inr)

text \<open>
  C21. A receipt offered for reuse is sound: it is one of the recorded receipt files, has the
  stage key asked for, succeeded, and every output it lists verifies now.
\<close>

theorem reusable_receipt_sound:
  assumes "receipt_for_stage_key vfy key j = Inr (Some r)"
  shows "r \<in> snd ` set (jn_receipts j) \<and> rc_stage_key r = key \<and> rc_status r = SS_SUCCEEDED \<and>
    list_all (\<lambda>a. vfy a = Inr ()) (rc_outputs r)"
proof -
  from assms obtain vs where vs: "verified_receipts vfy j = Inr vs"
    and f: "List.find (\<lambda>r. rc_stage_key r = key) vs = Some r"
    by (auto simp: receipt_for_stage_key_def res_simps)
  from f have r: "r \<in> set vs" "rc_stage_key r = key" by (auto simp: find_Some_iff)
  from vs obtain rs where rs: "receipts j = Inr rs" "verified_from vfy rs = Inr vs"
    by (auto simp: verified_receipts_def res_simps)
  from verified_from_Inr [OF rs(2) r(1)] receipts_Inr [OF rs(1)] r show ?thesis
    by (auto simp: verified_def list_all_iff outputs_verify_True)
qed

theorem reusable_receipt_sound_witness:
  "rc_status demo_receipt = SS_SUCCEEDED \<and>
   receipt_for_stage_key (\<lambda>_. Inr ()) ''k''
     (demo_journal\<lparr>jn_receipts := [(''f'', demo_receipt)]\<rparr>) = Inr (Some demo_receipt)"
proof -
  have "receipt_for_stage_key (\<lambda>_. Inr ()) ''k''
     (demo_journal\<lparr>jn_receipts := [(''f'', demo_receipt)]\<rparr>) = Inr (Some demo_receipt)"
    by (simp add: receipt_for_stage_key_def verified_receipts_def receipts_def StageReceipt_new_def
        checks.simps require_def ensure_def stage_state_checks_def demo_receipt_def verified_def)
  with reusable_receipt_sound [OF this] show ?thesis by simp
qed

text \<open>
  C33. Receipts are write-once: recording a receipt makes its file hold exactly it, recording
  it again changes neither the files nor the stage list, and recording a different receipt
  under the same name is refused with nothing changed.
\<close>

theorem receipts_write_once:
  assumes "receipt_target r j = (j1, Inr t)" "read_state j = Inr st"
  shows "map_of (jn_receipts j1) (receipt_path r) = Some r \<and>
    receipt_target r j1 = (j1, Inr t) \<and>
    js_stages (with_receipt r t) = js_stages t \<and>
    (receipt_path r' = receipt_path r \<and> r' \<noteq> r \<longrightarrow>
       record_receipt r' now j1 = (j1, Inl journal_conflict))"
proof -
  have st: "read_state j1 = Inr st"
    using assms receipt_target_frame [OF assms(1)] by (simp add: read_state_def)
  from assms(1) have m: "map_of (jn_receipts j1) (receipt_path r) = Some r"
    by (auto simp: receipt_target_def Let_def split: if_split_asm)
  have t: "t = with_receipt r st"
    using assms st by (auto simp: receipt_target_def Let_def split: if_split_asm)
  have "receipt_target r j1 = (j1, Inr t)"
    using m st t by (simp add: receipt_target_def)
  moreover have "js_stages (with_receipt r t) = js_stages t"
    by (auto simp: t with_receipt_def Let_def)
  moreover have "record_receipt r' now j1 = (j1, Inl journal_conflict)"
    if "receipt_path r' = receipt_path r" "r' \<noteq> r"
    using m that by (simp add: record_receipt_def receipt_target_def)
  ultimately show ?thesis using m by blast
qed

theorem receipts_write_once_witness:
  "\<exists>j1. record_receipt (demo_receipt\<lparr>rc_started_at := 0\<rparr>) 9 j1 = (j1, Inl journal_conflict)"
proof -
  obtain j1 t st where r: "receipt_target demo_receipt demo_journal = (j1, Inr t)"
    "read_state demo_journal = Inr st"
    by (simp add: receipt_target_def demo_state read_state_def JobStatus_new_def checks.simps
        require_def ensure_def)
  have "demo_receipt\<lparr>rc_started_at := 0\<rparr> \<noteq> demo_receipt"
    by (simp add: demo_receipt_def)
  moreover have "receipt_path (demo_receipt\<lparr>rc_started_at := 0\<rparr>) = receipt_path demo_receipt"
    by (simp add: receipt_path_def)
  ultimately show ?thesis
    using receipts_write_once [OF r, of "demo_receipt\<lparr>rc_started_at := 0\<rparr>" 9] by blast
qed

end
