(* ===== verification/Lease.thy ===== *)
theory Lease
  imports Effects AdbPaths PyValues
begin

text \<open>
  \<open>src/qairt_agent/device/lease.py\<close>: crash-safe device leases. The leases directory holds
  one owner record per device and one heartbeat file per owner token. File times and durations
  are seconds as real numbers (rounding of floats is not modelled). A record's content is the
  JSON value it parses to, or \<open>None\<close>. The compare-and-swap token of a record is its inode,
  modification time and content: the SHA-256 digest stands for the content, and the digest that
  names a lease file stands for the server and serial it is computed from.
\<close>

record owner_file =
  of_ino :: nat
  of_mtime :: real
  of_content :: "json option"

record hb_file =
  hf_text :: string
  hf_mtime :: real

record lease_dir =
  ld_owners :: "(string \<times> owner_file) list"
  ld_heartbeats :: "(string \<times> hb_file) list"
  ld_next_ino :: nat

definition LEASE_HEARTBEAT_INTERVAL_SECONDS :: real where "LEASE_HEARTBEAT_INTERVAL_SECONDS = 5"
definition LEASE_STALE_AFTER_SECONDS :: real where "LEASE_STALE_AFTER_SECONDS = 30"
definition INVALID_LEASE_GRACE_SECONDS :: real where "INVALID_LEASE_GRACE_SECONDS = 30"
definition MAX_LEASE_HEARTBEAT_INTERVAL_SECONDS :: real where
  "MAX_LEASE_HEARTBEAT_INTERVAL_SECONDS = 60"

section \<open>Reading a record\<close>

text \<open>
  The expected heartbeat file of an owner token. The source also requires the name to have no
  directory part, which a name built from two hexadecimal digests never has.
\<close>

definition heartbeat_name :: "string \<Rightarrow> string \<Rightarrow> string" where
  "heartbeat_name stem token = ''.'' @ stem @ ''.'' @ token @ ''.heartbeat''"

definition token_ok :: "string \<Rightarrow> bool" where
  "token_ok t \<longleftrightarrow> length t = 32 \<and> list_all (\<lambda>c. c \<in> set ''0123456789abcdef'') t"

definition heartbeat_path :: "string \<Rightarrow> (string \<times> json) list \<Rightarrow> string option" where
  "heartbeat_path stem data =
     (case (map_of data ''owner_token'', map_of data ''heartbeat_file'') of
        (Some (JStr token), Some (JStr file)) \<Rightarrow>
          if token_ok token \<and> file = heartbeat_name stem token then Some file else None
      | _ \<Rightarrow> None)"

definition json_text :: "json \<Rightarrow> string option" where
  "json_text v = (case v of JStr s \<Rightarrow> Some s | _ \<Rightarrow> None)"

definition nonempty_text :: "json option \<Rightarrow> bool" where
  "nonempty_text v = (case v of Some (JStr s) \<Rightarrow> s \<noteq> [] | _ \<Rightarrow> False)"

definition valid_base_record :: "host_aliases \<Rightarrow> (string \<times> json) list \<Rightarrow> bool" where
  "valid_base_record h data =
     (list_all (\<lambda>f. nonempty_text (map_of data f)) [''owner'', ''server'', ''serial''] \<and>
      (case map_of data ''server'' of
         Some (JStr s) \<Rightarrow> is_ok (canonicalize_adb_server h s) | _ \<Rightarrow> False) \<and>
      (case map_of data ''attempt_dirs'' of
         Some (JList ds) \<Rightarrow> list_all (\<lambda>d. is_ok (parse_remote_attempt_dir (json_text d))) ds
       | _ \<Rightarrow> False))"

record LeaseSnapshot =
  sn_path :: string
  sn_data :: "(string \<times> json) list option"
  sn_cas_token :: owner_file
  sn_owner_token :: "string option"
  sn_heartbeat_path :: "string option"
  sn_stale :: bool
  sn_stale_reason :: "string option"

text \<open>A usable recorded interval: a finite positive number that is not a boolean.\<close>

definition recorded_interval :: "json option \<Rightarrow> real option" where
  "recorded_interval v = (case v of
     Some (JInt i) \<Rightarrow> if 0 < i then Some (of_int i) else None
   | Some (JFloat (Fin r)) \<Rightarrow> if 0 < r then Some r else None
   | _ \<Rightarrow> None)"

definition effective_stale_after :: "real \<Rightarrow> json option \<Rightarrow> real" where
  "effective_stale_after stale_after v = (case recorded_interval v of
     None \<Rightarrow> stale_after
   | Some r \<Rightarrow> max stale_after (min r MAX_LEASE_HEARTBEAT_INTERVAL_SECONDS * 3))"

definition reason_if :: "bool \<Rightarrow> string \<Rightarrow> string option" where
  "reason_if stale r = (if stale then Some r else None)"

text \<open>\<open>pid == 1\<close> and \<open>isinstance(pid, int)\<close> as Python decides them.\<close>

definition pid_is_one :: "json option \<Rightarrow> bool" where
  "pid_is_one v = (v = Some (JInt 1) \<or> v = Some (JBool True) \<or> v = Some (JFloat (Fin 1)))"

definition pid_int :: "json option \<Rightarrow> int option" where
  "pid_int v = (case v of
     Some (JInt i) \<Rightarrow> Some i | Some (JBool b) \<Rightarrow> Some (if b then 1 else 0) | _ \<Rightarrow> None)"

text \<open>
  \<open>alive\<close> probes a process of the host. \<open>None\<close> is the answer when the owner file does not
  exist or cannot be read.
\<close>

definition lease_snapshot ::
  "host_aliases \<Rightarrow> (int \<Rightarrow> bool) \<Rightarrow> real \<Rightarrow> real \<Rightarrow> real \<Rightarrow> string \<Rightarrow> lease_dir
   \<Rightarrow> exn + LeaseSnapshot option"
where
  "lease_snapshot h alive now stale_after invalid_grace_after path ld =
    bind_res (ensure (\<not> stale_after \<le> 0) value_error) (\<lambda>_.
    bind_res (ensure (\<not> invalid_grace_after \<le> 0) value_error) (\<lambda>_.
    case map_of (ld_owners ld) path of
      None \<Rightarrow> Inr None
    | Some f \<Rightarrow>
       let owner_age = max 0 (now - of_mtime f);
           expired = owner_age > invalid_grace_after;
           invalid = \<lparr>sn_path = path, sn_data = None, sn_cas_token = f, sn_owner_token = None,
             sn_heartbeat_path = None, sn_stale = expired,
             sn_stale_reason = reason_if expired ''invalid_owner_record''\<rparr>
       in case of_content f of
         Some (JObj data) \<Rightarrow>
           if \<not> valid_base_record h data then Inr (Some invalid)
           else
             let owner_token = Option.bind (map_of data ''owner_token'') json_text in
             (case heartbeat_path path data of
                Some hb \<Rightarrow>
                  let (stale, reason) =
                    (case map_of (ld_heartbeats ld) hb of
                       Some b \<Rightarrow>
                         (let s = max 0 (now - hf_mtime b) >
                              effective_stale_after stale_after
                                (map_of data ''heartbeat_interval_seconds'')
                          in (s, reason_if s ''heartbeat_stale''))
                     | None \<Rightarrow> (expired, reason_if expired ''heartbeat_missing''))
                  in Inr (Some \<lparr>sn_path = path, sn_data = Some data, sn_cas_token = f,
                       sn_owner_token = owner_token, sn_heartbeat_path = Some hb,
                       sn_stale = stale, sn_stale_reason = reason\<rparr>)
              | None \<Rightarrow>
                  let pid = map_of data ''pid'';
                    (stale, reason) =
                      (if map_of data ''owner_token'' \<noteq> None \<or>
                          map_of data ''heartbeat_file'' \<noteq> None \<or>
                          map_of data ''heartbeat_mode'' \<noteq> None
                       then (expired, reason_if expired ''invalid_owner_record'')
                       else if pid_is_one pid
                       then (expired, reason_if expired ''legacy_container_owner_expired'')
                       else (case pid_int pid of
                           Some p \<Rightarrow> (\<not> alive p, reason_if (\<not> alive p) ''legacy_owner_pid_dead'')
                         | None \<Rightarrow> (expired, reason_if expired ''invalid_owner_record'')))
                  in Inr (Some \<lparr>sn_path = path, sn_data = Some data, sn_cas_token = f,
                       sn_owner_token = owner_token, sn_heartbeat_path = None,
                       sn_stale = stale, sn_stale_reason = reason\<rparr>))
       | _ \<Rightarrow> Inr (Some invalid)))"

definition scan_stale_lease_snapshots ::
  "host_aliases \<Rightarrow> (int \<Rightarrow> bool) \<Rightarrow> real \<Rightarrow> real \<Rightarrow> real \<Rightarrow> lease_dir \<Rightarrow> exn + LeaseSnapshot list"
where
  "scan_stale_lease_snapshots h alive now stale_after invalid_grace_after ld =
     bind_res (map_res (\<lambda>p. lease_snapshot h alive now stale_after invalid_grace_after p ld)
       (sort (map fst (ld_owners ld)))) (\<lambda>ss.
     Inr (filter sn_stale (List.map_filter (\<lambda>s. s) ss)))"

definition list_stale_leases ::
  "host_aliases \<Rightarrow> (int \<Rightarrow> bool) \<Rightarrow> real \<Rightarrow> real \<Rightarrow> real \<Rightarrow> lease_dir \<Rightarrow> exn + string list"
where
  "list_stale_leases h alive now stale_after invalid_grace_after ld =
     bind_res (scan_stale_lease_snapshots h alive now stale_after invalid_grace_after ld) (\<lambda>ss.
     Inr (map sn_path ss))"

section \<open>The lease of one process\<close>

record DeviceLease =
  dl_server :: string
  dl_serial :: string
  dl_owner :: string
  dl_interval :: real
  dl_path :: string
  dl_owner_token :: "string option"
  dl_heartbeat_path :: "string option"
  dl_running :: bool

definition lease_path :: "string \<Rightarrow> string \<Rightarrow> string" where
  "lease_path server serial = server @ [char_of (0 :: nat)] @ serial"

definition DeviceLease_new ::
  "host_aliases \<Rightarrow> string \<Rightarrow> string \<Rightarrow> string \<Rightarrow> pyfloat \<Rightarrow> exn + DeviceLease"
where
  "DeviceLease_new h server serial owner heartbeat_interval =
    (case heartbeat_interval of
       Fin i \<Rightarrow>
         if i \<le> 0 \<or> i > MAX_LEASE_HEARTBEAT_INTERVAL_SECONDS then Inl value_error
         else bind_res (canonicalize_adb_server h server) (\<lambda>canonical.
           Inr \<lparr>dl_server = canonical, dl_serial = serial, dl_owner = owner, dl_interval = i,
             dl_path = lease_path canonical serial, dl_owner_token = None,
             dl_heartbeat_path = None, dl_running = False\<rparr>)
     | _ \<Rightarrow> Inl value_error)"

definition read_owner :: "DeviceLease \<Rightarrow> lease_dir \<Rightarrow> (string \<times> json) list option" where
  "read_owner dl ld = (case map_of (ld_owners ld) (dl_path dl) of
     None \<Rightarrow> None
   | Some f \<Rightarrow> (case of_content f of Some (JObj data) \<Rightarrow> Some data | _ \<Rightarrow> None))"

definition is_held :: "DeviceLease \<Rightarrow> lease_dir \<Rightarrow> bool" where
  "is_held dl ld \<longleftrightarrow> map_of (ld_owners ld) (dl_path dl) \<noteq> None"

text \<open>Publishing a complete file under a fresh inode.\<close>

definition put_owner :: "string \<Rightarrow> json \<Rightarrow> real \<Rightarrow> lease_dir \<Rightarrow> lease_dir" where
  "put_owner path content now ld =
     ld\<lparr>ld_owners := dict_set path
          \<lparr>of_ino = ld_next_ino ld, of_mtime = now, of_content = Some content\<rparr> (ld_owners ld),
        ld_next_ino := Suc (ld_next_ino ld)\<rparr>"

definition put_heartbeat :: "string \<Rightarrow> string \<Rightarrow> real \<Rightarrow> lease_dir \<Rightarrow> lease_dir" where
  "put_heartbeat file txt now ld =
     ld\<lparr>ld_heartbeats := dict_set file \<lparr>hf_text = txt, hf_mtime = now\<rparr> (ld_heartbeats ld)\<rparr>"

definition unlink_owner :: "string \<Rightarrow> lease_dir \<Rightarrow> lease_dir" where
  "unlink_owner path ld = ld\<lparr>ld_owners := dict_remove path (ld_owners ld)\<rparr>"

definition unlink_heartbeat :: "string option \<Rightarrow> lease_dir \<Rightarrow> lease_dir" where
  "unlink_heartbeat file ld = (case file of None \<Rightarrow> ld
     | Some f \<Rightarrow> ld\<lparr>ld_heartbeats := dict_remove f (ld_heartbeats ld)\<rparr>)"

definition owner_payload :: "DeviceLease \<Rightarrow> string \<Rightarrow> int \<Rightarrow> string \<Rightarrow> (string \<times> json) list" where
  "owner_payload dl token pid acquired_at =
     [(''owner'', JStr (dl_owner dl)), (''owner_token'', JStr token), (''server'', JStr (dl_server dl)),
      (''serial'', JStr (dl_serial dl)), (''acquired_at'', JStr acquired_at), (''pid'', JInt pid),
      (''pid_scope'', JStr ''diagnostic-only''), (''heartbeat_mode'', JStr ''process-sidecar-v1''),
      (''heartbeat_file'', JStr (heartbeat_name (dl_path dl) token)),
      (''heartbeat_interval_seconds'', JFloat (Fin (dl_interval dl))), (''attempt_dirs'', JList [])]"

text \<open>
  One iteration of the sidecar (\<open>device/heartbeat.py\<close>): the time stamp it writes is
  \<open>stamp\<close>, the file's modification time is \<open>now\<close>.
\<close>

definition sidecar_beat :: "string \<Rightarrow> string \<Rightarrow> string \<Rightarrow> real \<Rightarrow> lease_dir \<Rightarrow> lease_dir" where
  "sidecar_beat file token stamp now ld =
     put_heartbeat file (token @ '':'' @ stamp @ [newline]) now ld"

text \<open>
  \<open>acquire\<close>, under the device's file lock. \<open>token\<close>, \<open>pid\<close> and \<open>acquired_at\<close> are the
  values drawn; \<open>first_beat\<close> is the sidecar's first write, \<open>None\<close> when it exits or is not
  ready in time.
\<close>

definition acquire ::
  "string \<Rightarrow> int \<Rightarrow> string \<Rightarrow> real \<Rightarrow> (string \<times> real) option \<Rightarrow> DeviceLease \<Rightarrow> lease_dir
   \<Rightarrow> (exn + DeviceLease) \<times> lease_dir"
where
  "acquire token pid acquired_at now first_beat dl ld =
    (if map_of (ld_owners ld) (dl_path dl) \<noteq> None
     then (Inl (agent_exn LeaseConflictError (Some ''device'') True), ld)
     else
       let hb = heartbeat_name (dl_path dl) token;
         ld1 = put_owner (dl_path dl) (JObj (owner_payload dl token pid acquired_at)) now ld;
         ld2 = put_heartbeat hb (''pending'' @ [newline]) now ld1
       in case first_beat of
         Some (stamp, t) \<Rightarrow>
           (Inr (dl\<lparr>dl_owner_token := Some token, dl_heartbeat_path := Some hb, dl_running := True\<rparr>),
            sidecar_beat hb token stamp t ld2)
       | None \<Rightarrow> (Inl (PyExn ''RuntimeError'' []),
           unlink_owner (dl_path dl) (unlink_heartbeat (Some hb) ld2)))"

definition owns :: "DeviceLease \<Rightarrow> (string \<times> json) list option \<Rightarrow> bool" where
  "owns dl current = (case (current, dl_owner_token dl) of
     (Some data, Some token) \<Rightarrow> map_of data ''owner_token'' = Some (JStr token) | _ \<Rightarrow> False)"

definition has_attempts :: "(string \<times> json) list \<Rightarrow> bool" where
  "has_attempts data = (case map_of data ''attempt_dirs'' of None \<Rightarrow> False | Some v \<Rightarrow> py_truthy v)"

definition release :: "DeviceLease \<Rightarrow> lease_dir \<Rightarrow> DeviceLease \<times> lease_dir" where
  "release dl ld =
    (let current = read_owner dl ld;
         dl' = dl\<lparr>dl_running := False\<rparr>
     in if owns dl current \<and> \<not> has_attempts (the current)
        then (dl', unlink_owner (dl_path dl) (unlink_heartbeat (dl_heartbeat_path dl) ld))
        else if \<not> owns dl current
        then (dl', unlink_heartbeat (dl_heartbeat_path dl) ld)
        else (dl', ld))"

definition lease_conflict :: exn where
  "lease_conflict = agent_exn LeaseConflictError (Some ''device'') True"

definition replace_owner ::
  "(string \<times> json) list \<Rightarrow> real \<Rightarrow> DeviceLease \<Rightarrow> lease_dir \<Rightarrow> exn + lease_dir"
where
  "replace_owner payload now dl ld =
     (if \<not> owns dl (read_owner dl ld) then Inl lease_conflict
      else Inr (put_owner (dl_path dl) (JObj payload) now ld))"

text \<open>The strings among the recorded attempts (iterating a JSON value as Python does).\<close>

definition attempt_items :: "json option \<Rightarrow> exn + string list" where
  "attempt_items v = (case v of
     None \<Rightarrow> Inr []
   | Some (JList xs) \<Rightarrow> Inr (List.map_filter json_text xs)
   | Some (JStr s) \<Rightarrow> Inr (map (\<lambda>c. [c]) s)
   | Some (JObj d) \<Rightarrow> Inr (map fst d)
   | Some _ \<Rightarrow> Inl (PyExn ''TypeError'' []))"

definition record_attempt_dir ::
  "string option \<Rightarrow> real \<Rightarrow> DeviceLease \<Rightarrow> lease_dir \<Rightarrow> exn + lease_dir"
where
  "record_attempt_dir attempt_dir now dl ld =
     bind_res (parse_remote_attempt_dir attempt_dir) (\<lambda>_.
     let normalized = the attempt_dir; payload = read_owner dl ld
     in if \<not> owns dl payload then Inl lease_conflict
        else bind_res (attempt_items (map_of (the payload) ''attempt_dirs'')) (\<lambda>attempts.
          replace_owner (dict_set ''attempt_dirs''
             (JList (map JStr (sort (if normalized \<in> set attempts then attempts
                                     else attempts @ [normalized])))) (the payload)) now dl ld))"

definition forget_attempt_dir ::
  "string option \<Rightarrow> real \<Rightarrow> DeviceLease \<Rightarrow> lease_dir \<Rightarrow> exn + lease_dir"
where
  "forget_attempt_dir attempt_dir now dl ld =
     bind_res (parse_remote_attempt_dir attempt_dir) (\<lambda>_.
     let normalized = the attempt_dir; payload = read_owner dl ld
     in if \<not> owns dl payload then Inl lease_conflict
        else bind_res (attempt_items (map_of (the payload) ''attempt_dirs'')) (\<lambda>attempts.
          replace_owner (dict_set ''attempt_dirs''
             (JList (map JStr (filter (\<lambda>a. a \<noteq> normalized) attempts))) (the payload)) now dl ld))"

section \<open>What a lease record holds\<close>

lemma map_filter_json_text [simp]: "List.map_filter json_text (map JStr ds) = ds"
  by (induction ds) (simp_all add: map_filter_def json_text_def)

lemma attempt_items_list [simp]: "attempt_items (Some (JList (map JStr ds))) = Inr ds"
  by (simp add: attempt_items_def)

text \<open>The lease is held: the record is this instance's, its attempts are a list of texts.\<close>

definition held :: "DeviceLease \<Rightarrow> lease_dir \<Rightarrow> bool" where
  "held dl ld \<longleftrightarrow> owns dl (read_owner dl ld) \<and>
     (\<exists>ds. map_of (the (read_owner dl ld)) ''attempt_dirs'' = Some (JList (map JStr ds)))"

definition recorded :: "DeviceLease \<Rightarrow> lease_dir \<Rightarrow> string list" where
  "recorded dl ld = (case read_owner dl ld of
     None \<Rightarrow> []
   | Some data \<Rightarrow> (case attempt_items (map_of data ''attempt_dirs'') of Inr ds \<Rightarrow> ds | Inl _ \<Rightarrow> []))"

lemma heldE:
  assumes "held dl ld"
  obtains data ds token where "read_owner dl ld = Some data" "dl_owner_token dl = Some token"
    "map_of data ''owner_token'' = Some (JStr token)"
    "map_of data ''attempt_dirs'' = Some (JList (map JStr ds))" "recorded dl ld = ds"
  using assms
  by (auto simp: held_def owns_def recorded_def split: option.splits)

lemma read_put_owner [simp]:
  "read_owner dl (put_owner (dl_path dl) (JObj data) now ld) = Some data"
  by (simp add: read_owner_def put_owner_def)

lemma held_put:
  assumes "held dl ld"
  shows "held dl (put_owner (dl_path dl)
      (JObj (dict_set ''attempt_dirs'' (JList (map JStr ds)) (the (read_owner dl ld)))) now ld) \<and>
    recorded dl (put_owner (dl_path dl)
      (JObj (dict_set ''attempt_dirs'' (JList (map JStr ds)) (the (read_owner dl ld)))) now ld) = ds"
  using assms by (elim heldE) (auto simp: held_def recorded_def owns_def)

lemma record_attempt_dir_held:
  assumes "held dl ld"
  shows "record_attempt_dir (Some d) now dl ld = Inr ld' \<longleftrightarrow>
    is_ok (parse_remote_attempt_dir (Some d)) \<and>
    ld' = put_owner (dl_path dl) (JObj (dict_set ''attempt_dirs'' (JList (map JStr
       (sort (if d \<in> set (recorded dl ld) then recorded dl ld else recorded dl ld @ [d]))))
       (the (read_owner dl ld)))) now ld"
  using assms
  by (elim heldE) (auto simp: record_attempt_dir_def res_simps replace_owner_def owns_def)

lemma forget_attempt_dir_held:
  assumes "held dl ld"
  shows "forget_attempt_dir (Some d) now dl ld = Inr ld' \<longleftrightarrow>
    is_ok (parse_remote_attempt_dir (Some d)) \<and>
    ld' = put_owner (dl_path dl) (JObj (dict_set ''attempt_dirs'' (JList (map JStr
       (filter (\<lambda>a. a \<noteq> d) (recorded dl ld)))) (the (read_owner dl ld)))) now ld"
  using assms
  by (elim heldE) (auto simp: forget_attempt_dir_def res_simps replace_owner_def owns_def)

text \<open>
  The ledger of recovery pointers as an interface: recording inserts, forgetting removes, and
  neither fails on a valid directory while the ledger is held.
\<close>

locale attempt_ledger =
  fixes record_dir :: "string \<Rightarrow> 's \<Rightarrow> exn + 's"
    and forget_dir :: "string \<Rightarrow> 's \<Rightarrow> exn + 's"
    and dirs :: "'s \<Rightarrow> string set"
    and usable :: "'s \<Rightarrow> bool"
    and valid :: "string \<Rightarrow> bool"
  assumes record_ok: "usable s \<Longrightarrow> valid d \<Longrightarrow>
      \<exists>s'. record_dir d s = Inr s' \<and> usable s' \<and> dirs s' = insert d (dirs s)"
    and forget_ok: "usable s \<Longrightarrow> valid d \<Longrightarrow>
      \<exists>s'. forget_dir d s = Inr s' \<and> usable s' \<and> dirs s' = dirs s - {d}"
begin

lemma record_then_forget:
  "usable s \<Longrightarrow> valid d \<Longrightarrow>
   \<exists>s1 s2. record_dir d s = Inr s1 \<and> d \<in> dirs s1 \<and> forget_dir d s1 = Inr s2 \<and> usable s2 \<and>
     dirs s2 = dirs s - {d}"
proof -
  assume u: "usable s" and v: "valid d"
  then obtain s1 where s1: "record_dir d s = Inr s1" "usable s1" "dirs s1 = insert d (dirs s)"
    using record_ok by blast
  from forget_ok [OF s1(2) v] s1 show ?thesis by auto
qed

lemma forget_keeps_others:
  "usable s \<Longrightarrow> valid d \<Longrightarrow> e \<noteq> d \<Longrightarrow> e \<in> dirs s \<Longrightarrow> forget_dir d s = Inr s' \<Longrightarrow> e \<in> dirs s'"
  using forget_ok [of s d] by fastforce

end

interpretation lease_ledger: attempt_ledger
  "\<lambda>d. record_attempt_dir (Some d) now dl" "\<lambda>d. forget_attempt_dir (Some d) now dl"
  "\<lambda>ld. set (recorded dl ld)" "held dl" "\<lambda>d. is_ok (parse_remote_attempt_dir (Some d))"
  for dl :: DeviceLease and now :: real
proof
  fix s d assume s: "held dl s" and d: "is_ok (parse_remote_attempt_dir (Some d))"
  show "\<exists>s'. record_attempt_dir (Some d) now dl s = Inr s' \<and> held dl s' \<and>
      set (recorded dl s') = insert d (set (recorded dl s))"
    using s d held_put [OF s] by (auto simp: record_attempt_dir_held [OF s] insert_absorb)
  show "\<exists>s'. forget_attempt_dir (Some d) now dl s = Inr s' \<and> held dl s' \<and>
      set (recorded dl s') = set (recorded dl s) - {d}"
    using s d held_put [OF s] by (auto simp: forget_attempt_dir_held [OF s])
qed


section \<open>A live record\<close>

definition live_record :: "host_aliases \<Rightarrow> DeviceLease \<Rightarrow> lease_dir \<Rightarrow> bool" where
  "live_record h dl ld \<longleftrightarrow> (case (dl_owner_token dl, read_owner dl ld) of
     (Some token, Some data) \<Rightarrow>
       held dl ld \<and> valid_base_record h data \<and> token_ok token \<and>
       dl_heartbeat_path dl = Some (heartbeat_name (dl_path dl) token) \<and>
       map_of data ''heartbeat_file'' = Some (JStr (heartbeat_name (dl_path dl) token)) \<and>
       map_of data ''heartbeat_interval_seconds'' = Some (JFloat (Fin (dl_interval dl))) \<and>
       0 < dl_interval dl \<and> dl_interval dl \<le> MAX_LEASE_HEARTBEAT_INTERVAL_SECONDS
   | _ \<Rightarrow> False)"

lemma live_recordE:
  assumes "live_record h dl ld"
  obtains token data where "dl_owner_token dl = Some token" "read_owner dl ld = Some data"
    "held dl ld" "valid_base_record h data" "token_ok token"
    "dl_heartbeat_path dl = Some (heartbeat_name (dl_path dl) token)"
    "map_of data ''owner_token'' = Some (JStr token)"
    "map_of data ''heartbeat_file'' = Some (JStr (heartbeat_name (dl_path dl) token))"
    "map_of data ''heartbeat_interval_seconds'' = Some (JFloat (Fin (dl_interval dl)))"
    "0 < dl_interval dl" "dl_interval dl \<le> MAX_LEASE_HEARTBEAT_INTERVAL_SECONDS"
  using assms by (auto simp: live_record_def held_def owns_def split: option.splits)

lemma acquire_Inr:
  "acquire token pid stampd now beat dl ld = (Inr dl', ld') \<longleftrightarrow>
   map_of (ld_owners ld) (dl_path dl) = None \<and>
   (\<exists>stamp t. beat = Some (stamp, t) \<and>
     dl' = dl\<lparr>dl_owner_token := Some token,
        dl_heartbeat_path := Some (heartbeat_name (dl_path dl) token), dl_running := True\<rparr> \<and>
     ld' = sidecar_beat (heartbeat_name (dl_path dl) token) token stamp t
       (put_heartbeat (heartbeat_name (dl_path dl) token) (''pending'' @ [newline]) now
         (put_owner (dl_path dl) (JObj (owner_payload dl token pid stampd)) now ld)))"
  by (auto simp: acquire_def Let_def split: option.splits)

lemma read_owner_heartbeat [simp]:
  "read_owner dl (put_heartbeat f t now ld) = read_owner dl ld"
  "read_owner dl (sidecar_beat f tok st now ld) = read_owner dl ld"
  "read_owner dl (unlink_heartbeat o' ld) = read_owner dl ld"
  by (simp_all add: read_owner_def put_heartbeat_def sidecar_beat_def unlink_heartbeat_def
      split: option.split)

lemma read_owner_fields [simp]:
  "read_owner (dl\<lparr>dl_owner_token := a, dl_heartbeat_path := b, dl_running := c\<rparr>) ld = read_owner dl ld"
  by (simp add: read_owner_def)

definition lease_identity_ok :: "host_aliases \<Rightarrow> DeviceLease \<Rightarrow> bool" where
  "lease_identity_ok h dl \<longleftrightarrow> dl_owner dl \<noteq> [] \<and> dl_serial dl \<noteq> [] \<and> dl_server dl \<noteq> [] \<and>
     is_ok (canonicalize_adb_server h (dl_server dl)) \<and> 0 < dl_interval dl \<and>
     dl_interval dl \<le> MAX_LEASE_HEARTBEAT_INTERVAL_SECONDS"

lemma acquire_held:
  assumes "acquire token pid stampd now beat dl ld = (Inr dl', ld')"
  shows "held dl' ld' \<and> recorded dl' ld' = [] \<and> dl_path dl' = dl_path dl"
proof -
  have r: "read_owner dl' ld' = Some (owner_payload dl token pid stampd)" "dl_owner_token dl' = Some token"
    "dl_path dl' = dl_path dl"
    using assms by (auto simp: acquire_Inr)
  then show ?thesis
    by (simp add: held_def owns_def recorded_def owner_payload_def attempt_items_def map_filter_def
        exI [of _ "[]"])
qed

lemma acquire_live:
  assumes "lease_identity_ok h dl" "token_ok token"
    and "acquire token pid stampd now beat dl ld = (Inr dl', ld')"
  shows "live_record h dl' ld' \<and> recorded dl' ld' = []"
proof -
  have r: "read_owner dl' ld' = Some (owner_payload dl token pid stampd)"
    using assms(3) by (auto simp: acquire_Inr)
  have d: "dl_owner_token dl' = Some token" "dl_path dl' = dl_path dl" "dl_interval dl' = dl_interval dl"
    "dl_heartbeat_path dl' = Some (heartbeat_name (dl_path dl) token)"
    using assms(3) by (auto simp: acquire_Inr)
  have "is_ok (canonicalize_adb_server h (dl_server dl))" using assms(1) by (simp add: lease_identity_ok_def)
  then have "valid_base_record h (owner_payload dl token pid stampd)"
    using assms(1)
    by (simp add: valid_base_record_def owner_payload_def nonempty_text_def lease_identity_ok_def)
  moreover have "held dl' ld'"
    by (simp add: held_def owns_def r d owner_payload_def exI [of _ "[]"])
  ultimately show ?thesis
    using assms(1,2) r d
    by (simp add: live_record_def recorded_def owner_payload_def lease_identity_ok_def attempt_items_def
        map_filter_def)
qed

lemma valid_base_record_attempts:
  assumes "valid_base_record h data" "list_all (\<lambda>d. is_ok (parse_remote_attempt_dir (Some d))) ds"
  shows "valid_base_record h (dict_set ''attempt_dirs'' (JList (map JStr ds)) data)"
  using assms by (simp add: valid_base_record_def list_all_iff json_text_def)

lemma live_recorded_valid:
  assumes "live_record h dl ld" "d \<in> set (recorded dl ld)"
  shows "is_ok (parse_remote_attempt_dir (Some d))"
proof -
  from assms(1) obtain data where data: "read_owner dl ld = Some data" "valid_base_record h data"
    "held dl ld" by (rule live_recordE)
  from data(3) obtain data' ds token where "read_owner dl ld = Some data'" "dl_owner_token dl = Some token"
    "map_of data' ''owner_token'' = Some (JStr token)"
    "map_of data' ''attempt_dirs'' = Some (JList (map JStr ds))" "recorded dl ld = ds"
    by (rule heldE)
  with data(1,2) assms(2) show ?thesis by (auto simp: valid_base_record_def list_all_iff json_text_def)
qed

lemma live_record_put:
  assumes live: "live_record h dl ld"
    and ds: "list_all (\<lambda>d. is_ok (parse_remote_attempt_dir (Some d))) ds"
  shows "live_record h dl (put_owner (dl_path dl)
      (JObj (dict_set ''attempt_dirs'' (JList (map JStr ds)) (the (read_owner dl ld)))) now ld)"
  using live
proof (rule live_recordE)
  fix token data assume a: "dl_owner_token dl = Some token" "read_owner dl ld = Some data"
    "held dl ld" "valid_base_record h data" "token_ok token"
    "dl_heartbeat_path dl = Some (heartbeat_name (dl_path dl) token)"
    "map_of data ''owner_token'' = Some (JStr token)"
    "map_of data ''heartbeat_file'' = Some (JStr (heartbeat_name (dl_path dl) token))"
    "map_of data ''heartbeat_interval_seconds'' = Some (JFloat (Fin (dl_interval dl)))"
    "0 < dl_interval dl" "dl_interval dl \<le> MAX_LEASE_HEARTBEAT_INTERVAL_SECONDS"
  from held_put [OF a(3)] a valid_base_record_attempts [OF a(4) ds] show ?thesis
    by (simp add: live_record_def)
qed

lemma record_keeps_live:
  assumes "live_record h dl ld" "record_attempt_dir (Some d) now dl ld = Inr ld'"
  shows "live_record h dl ld'"
proof -
  have h: "held dl ld" using assms(1) by (rule live_recordE)
  from assms(2) h have "is_ok (parse_remote_attempt_dir (Some d))"
    by (simp add: record_attempt_dir_held)
  then have "list_all (\<lambda>d. is_ok (parse_remote_attempt_dir (Some d)))
      (sort (if d \<in> set (recorded dl ld) then recorded dl ld else recorded dl ld @ [d]))"
    using live_recorded_valid [OF assms(1)] by (auto simp: list_all_iff)
  from live_record_put [OF assms(1) this] assms(2) h show ?thesis
    by (simp add: record_attempt_dir_held)
qed

lemma forget_keeps_live:
  assumes "live_record h dl ld" "forget_attempt_dir (Some d) now dl ld = Inr ld'"
  shows "live_record h dl ld'"
proof -
  have h: "held dl ld" using assms(1) by (rule live_recordE)
  have "list_all (\<lambda>d. is_ok (parse_remote_attempt_dir (Some d))) (filter (\<lambda>a. a \<noteq> d) (recorded dl ld))"
    using live_recorded_valid [OF assms(1)] by (auto simp: list_all_iff)
  from live_record_put [OF assms(1) this] assms(2) h show ?thesis
    by (simp add: forget_attempt_dir_held)
qed


lemma live_snapshot:
  assumes "live_record h dl ld" "0 < stale_after" "0 < grace"
  shows "\<exists>s data f. map_of (ld_owners ld) (dl_path dl) = Some f \<and>
    lease_snapshot h alive now stale_after grace (dl_path dl) ld = Inr (Some s) \<and>
    sn_path s = dl_path dl \<and> sn_data s = Some data \<and> read_owner dl ld = Some data \<and>
    sn_cas_token s = f \<and> sn_owner_token s = dl_owner_token dl \<and>
    sn_heartbeat_path s = dl_heartbeat_path dl \<and>
    (\<forall>b. map_of (ld_heartbeats ld) (the (dl_heartbeat_path dl)) = Some b \<longrightarrow>
       sn_stale s = (max 0 (now - hf_mtime b) > max stale_after (dl_interval dl * 3)))"
  using assms(1)
proof (rule live_recordE)
  fix token data assume a: "dl_owner_token dl = Some token" "read_owner dl ld = Some data"
    "valid_base_record h data" "token_ok token"
    "dl_heartbeat_path dl = Some (heartbeat_name (dl_path dl) token)"
    "map_of data ''owner_token'' = Some (JStr token)"
    "map_of data ''heartbeat_file'' = Some (JStr (heartbeat_name (dl_path dl) token))"
    "map_of data ''heartbeat_interval_seconds'' = Some (JFloat (Fin (dl_interval dl)))"
    "0 < dl_interval dl" "dl_interval dl \<le> MAX_LEASE_HEARTBEAT_INTERVAL_SECONDS"
  from a(2) obtain f where f: "map_of (ld_owners ld) (dl_path dl) = Some f"
    "of_content f = Some (JObj data)"
    by (auto simp: read_owner_def split: option.splits json.splits)
  have hb: "heartbeat_path (dl_path dl) data = Some (heartbeat_name (dl_path dl) token)"
    using a by (simp add: heartbeat_path_def)
  have e: "effective_stale_after stale_after (map_of data ''heartbeat_interval_seconds'') =
      max stale_after (dl_interval dl * 3)"
    using a by (simp add: effective_stale_after_def recorded_interval_def)
  show ?thesis
    using a(1-6) assms(2,3) f hb e
    by (cases "map_of (ld_heartbeats ld) (heartbeat_name (dl_path dl) token)")
      (simp_all add: lease_snapshot_def ensure_def Let_def json_text_def)
qed

text \<open>
  C14. One lease per device: a lease is acquired only when the device has no owner record, and
  then no instance for the same device can acquire it, however its server is spelled, as long
  as both spellings have one canonical identity; the failed attempt changes nothing.
\<close>

theorem lease_mutual_exclusion:
  assumes "DeviceLease_new h s1 serial o1 i1 = Inr d1" "DeviceLease_new h s2 serial o2 i2 = Inr d2"
    and "canonicalize_adb_server h s1 = canonicalize_adb_server h s2"
    and "acquire token pid t0 now beat d1 ld = (Inr d1', ld')"
  shows "\<not> is_held d1 ld \<and> is_held d1' ld' \<and> owns d1' (read_owner d1' ld') \<and>
    acquire token2 pid2 t2 now2 beat2 d2 ld' =
      (Inl (agent_exn LeaseConflictError (Some ''device'') True), ld')"
proof -
  have p: "dl_path d2 = dl_path d1"
    using assms(1-3) by (auto simp: DeviceLease_new_def res_simps split: pyfloat.splits if_splits)
  have r: "read_owner d1' ld' = Some (owner_payload d1 token pid t0)" "dl_owner_token d1' = Some token"
    "dl_path d1' = dl_path d1"
    using assms(4) by (auto simp: acquire_Inr)
  then have "map_of (ld_owners ld') (dl_path d1) \<noteq> None"
    by (auto simp: read_owner_def split: option.splits)
  moreover have "map_of (ld_owners ld) (dl_path d1) = None"
    using assms(4) by (simp add: acquire_Inr)
  ultimately show ?thesis
    using p r by (auto simp: is_held_def owns_def owner_payload_def acquire_def)
qed

definition empty_leases :: lease_dir where
  "empty_leases = \<lparr>ld_owners = [], ld_heartbeats = [], ld_next_ino = 0\<rparr>"

definition demo_token :: string where
  "demo_token = ''0123456789abcdef0123456789abcdef''"

definition demo_lease :: DeviceLease where
  "demo_lease = \<lparr>dl_server = ''localhost:5037'', dl_serial = ''S1'', dl_owner = ''job'', dl_interval = 5,
     dl_path = lease_path ''localhost:5037'' ''S1'', dl_owner_token = None, dl_heartbeat_path = None,
     dl_running = False\<rparr>"

definition held_lease :: DeviceLease where
  "held_lease = demo_lease\<lparr>dl_owner_token := Some demo_token,
     dl_heartbeat_path := Some (heartbeat_name (dl_path demo_lease) demo_token), dl_running := True\<rparr>"

definition held_dir :: lease_dir where
  "held_dir = snd (acquire demo_token 7 ''t'' 100 (Some (''1'', 101)) demo_lease empty_leases)"

lemma demo_acquired:
  "acquire demo_token 7 ''t'' 100 (Some (''1'', 101)) demo_lease empty_leases = (Inr held_lease, held_dir)"
  by (simp add: held_dir_def acquire_def empty_leases_def held_lease_def Let_def)

lemma demo_canonical:
  "canonicalize_adb_server sample_aliases ''localhost:5037'' = Inr ''localhost:5037''"
  "canonicalize_adb_server sample_aliases ''127.0.0.1:5037'' = Inr ''localhost:5037''"
proof -
  have "unbracket (fold_host (py_strip ''localhost'')) = ''localhost''"
    "unbracket (fold_host (py_strip ''127.0.0.1'')) = ''127.0.0.1''"
    "is_loopback_host sample_aliases ''localhost''" "is_loopback_host sample_aliases ''127.0.0.1''"
    "py_isdigit ''5037''" by code_simp+
  moreover have "dec (undec ''5037'') = ''5037''"
    by (simp add: undec_def digit_val_def dec.simps)
  ultimately show "canonicalize_adb_server sample_aliases ''localhost:5037'' = Inr ''localhost:5037''"
    "canonicalize_adb_server sample_aliases ''127.0.0.1:5037'' = Inr ''localhost:5037''"
    using canonicalize_parts [of "''localhost''" "''5037''" sample_aliases]
      canonicalize_parts [of "''127.0.0.1''" "''5037''" sample_aliases]
    by (simp_all add: py_isspace_char_def)
qed

lemma demo_identity: "lease_identity_ok sample_aliases demo_lease"
  by (simp add: lease_identity_ok_def demo_lease_def demo_canonical
      MAX_LEASE_HEARTBEAT_INTERVAL_SECONDS_def)

lemma demo_token_ok: "token_ok demo_token"
  by (simp add: token_ok_def demo_token_def)

lemma demo_live: "live_record sample_aliases held_lease held_dir" "recorded held_lease held_dir = []"
  using acquire_live [OF demo_identity demo_token_ok demo_acquired] by simp_all


lemma demo_held: "read_owner held_lease held_dir = Some (owner_payload demo_lease demo_token 7 ''t'')"
  by (simp add: held_lease_def held_dir_def acquire_def empty_leases_def Let_def)

lemma demo_beat: "map_of (ld_heartbeats held_dir) (the (dl_heartbeat_path held_lease)) =
    Some \<lparr>hf_text = demo_token @ '':'' @ ''1'' @ [newline], hf_mtime = 101\<rparr>"
  by (simp add: held_lease_def held_dir_def acquire_def empty_leases_def Let_def sidecar_beat_def
      put_heartbeat_def)

lemma demo_new:
  "DeviceLease_new sample_aliases ''localhost:5037'' ''S1'' ''job'' (Fin 5) = Inr demo_lease"
  "DeviceLease_new sample_aliases ''127.0.0.1:5037'' ''S1'' ''other'' (Fin 5) =
     Inr (demo_lease\<lparr>dl_owner := ''other''\<rparr>)"
  by (simp_all add: DeviceLease_new_def demo_canonical demo_lease_def
      MAX_LEASE_HEARTBEAT_INTERVAL_SECONDS_def)

theorem lease_mutual_exclusion_witness:
  "acquire ''t2'' 8 ''t'' 102 None (demo_lease\<lparr>dl_owner := ''other''\<rparr>) held_dir =
     (Inl (agent_exn LeaseConflictError (Some ''device'') True), held_dir)"
  using lease_mutual_exclusion [OF demo_new _ demo_acquired] by (simp add: demo_canonical)

text \<open>
  Only the owner changes a lease: an instance whose token is not the recorded one cannot
  record or forget an attempt, and its release leaves every owner record as it is and removes
  at most its own heartbeat file.
\<close>

theorem foreign_instance_harmless:
  assumes "\<not> owns dl (read_owner dl ld)" "parse_remote_attempt_dir (Some d) = Inr x"
  shows "record_attempt_dir (Some d) now dl ld = Inl lease_conflict \<and>
    forget_attempt_dir (Some d) now dl ld = Inl lease_conflict \<and>
    ld_owners (snd (release dl ld)) = ld_owners ld \<and>
    (f \<noteq> dl_heartbeat_path dl \<longrightarrow>
       Option.bind f (map_of (ld_heartbeats (snd (release dl ld)))) =
       Option.bind f (map_of (ld_heartbeats ld)))"
  using assms
  by (cases f; cases "dl_heartbeat_path dl")
    (auto simp: record_attempt_dir_def forget_attempt_dir_def release_def unlink_heartbeat_def Let_def)

definition demo_attempt :: string where
  "demo_attempt = attempt_path ''j1'' ''s1'' ''1''"

lemma demo_attempt_ok: "parse_remote_attempt_dir (Some demo_attempt) = Inr (''j1'', ''s1'', ''1'')"
proof -
  have "safe_component ''j1''" "safe_component ''s1''" "safe_component ''1''" by code_simp+
  then show ?thesis unfolding demo_attempt_def by (rule parse_attempt_path)
qed

theorem foreign_instance_harmless_witness:
  "record_attempt_dir (Some demo_attempt) 103 (held_lease\<lparr>dl_owner_token := Some ''x''\<rparr>) held_dir =
     Inl lease_conflict"
proof -
  have r: "read_owner held_lease held_dir = Some (owner_payload demo_lease demo_token 7 ''t'')"
    by (rule demo_held)
  have "\<not> owns (held_lease\<lparr>dl_owner_token := Some ''x''\<rparr>)
      (read_owner (held_lease\<lparr>dl_owner_token := Some ''x''\<rparr>) held_dir)"
    using r by (simp add: owns_def read_owner_def owner_payload_def demo_token_def)
  from foreign_instance_harmless [OF this demo_attempt_ok, of 103 None] show ?thesis by simp
qed

lemma release_held:
  assumes "held dl ld"
  shows "snd (release dl ld) = (if recorded dl ld = []
    then unlink_owner (dl_path dl) (unlink_heartbeat (dl_heartbeat_path dl) ld) else ld)"
  using assms
  by (elim heldE) (auto simp: release_def owns_def has_attempts_def Let_def)

lemma is_held_owned: "held dl ld \<Longrightarrow> is_held dl ld"
  by (elim heldE) (auto simp: is_held_def read_owner_def split: option.splits)

lemma is_held_unlinked [simp]: "\<not> is_held dl (unlink_owner (dl_path dl) ld)"
  by (simp add: is_held_def unlink_owner_def)

text \<open>
  A released lease never loses a recovery pointer: the owner's release removes the record
  exactly when no attempt directory is recorded any more, and otherwise keeps record and
  heartbeat for garbage collection.
\<close>

theorem release_keeps_pointers:
  assumes "held dl ld"
  shows "is_held dl (snd (release dl ld)) = (recorded dl ld \<noteq> []) \<and>
    (recorded dl ld \<noteq> [] \<longrightarrow> snd (release dl ld) = ld)"
  using is_held_owned [OF assms] by (simp add: release_held [OF assms])

theorem release_keeps_pointers_witness:
  "\<not> is_held held_lease (snd (release held_lease held_dir)) \<and>
   (\<exists>ld'. record_attempt_dir (Some demo_attempt) 103 held_lease held_dir = Inr ld' \<and>
      is_held held_lease (snd (release held_lease ld')))"
proof -
  have h: "held held_lease held_dir" using demo_live(1) by (rule live_recordE)
  have v: "is_ok (parse_remote_attempt_dir (Some demo_attempt))"
    by (simp only: demo_attempt_ok is_ok_simps)
  from lease_ledger.record_ok [OF h v, of 103] obtain ld'
    where ld': "record_attempt_dir (Some demo_attempt) 103 held_lease held_dir = Inr ld'"
      "held held_lease ld'"
      "set (recorded held_lease ld') = insert demo_attempt (set (recorded held_lease held_dir))"
    by blast
  have "recorded held_lease ld' \<noteq> []" using ld'(3) by force
  with release_keeps_pointers [OF ld'(2)] release_keeps_pointers [OF h] ld'(1) demo_live(2)
  show ?thesis by blast
qed

text \<open>
  The recovery ledger: while the lease is held, recording a valid directory succeeds and
  adds it, and forgetting it afterwards removes it and leaves every
  other pointer; the lease stays held throughout.
\<close>

theorem attempt_bookkeeping:
  assumes "held dl ld" "parse_remote_attempt_dir (Some d) = Inr x"
  shows "\<exists>ld1 ld2. record_attempt_dir (Some d) now dl ld = Inr ld1 \<and>
    set (recorded dl ld1) = insert d (set (recorded dl ld)) \<and>
    forget_attempt_dir (Some d) now dl ld1 = Inr ld2 \<and> held dl ld2 \<and>
    set (recorded dl ld2) = set (recorded dl ld) - {d}"
proof -
  have v: "is_ok (parse_remote_attempt_dir (Some d))" using assms(2) by simp
  from lease_ledger.record_ok [OF assms(1) v, of now] obtain ld1
    where ld1: "record_attempt_dir (Some d) now dl ld = Inr ld1" "held dl ld1"
      "set (recorded dl ld1) = insert d (set (recorded dl ld))" by blast
  from lease_ledger.forget_ok [OF ld1(2) v, of now] ld1 show ?thesis by fastforce
qed

theorem attempt_bookkeeping_witness:
  "\<exists>ld1. record_attempt_dir (Some demo_attempt) 103 held_lease held_dir = Inr ld1 \<and>
     set (recorded held_lease ld1) = {demo_attempt}"
proof -
  have h: "held held_lease held_dir" using demo_live(1) by (rule live_recordE)
  from attempt_bookkeeping [OF h demo_attempt_ok, of 103] demo_live(2) show ?thesis by auto
qed

text \<open>
  A beating lease is not stale: as long as the sidecar has missed fewer than three beats,
  scanning the record of a live lease with any positive limits classifies it as live.
\<close>

theorem beating_lease_not_stale:
  assumes "live_record h dl ld" "0 < stale_after" "0 < grace"
    and "map_of (ld_heartbeats ld) (the (dl_heartbeat_path dl)) = Some b"
    and "now - hf_mtime b \<le> 3 * dl_interval dl"
  shows "\<exists>s. lease_snapshot h alive now stale_after grace (dl_path dl) ld = Inr (Some s) \<and>
    \<not> sn_stale s"
proof -
  have "0 < dl_interval dl" using assms(1) by (rule live_recordE)
  then have "\<not> max 0 (now - hf_mtime b) > max stale_after (dl_interval dl * 3)"
    using assms(2,5) by auto
  with live_snapshot [OF assms(1-3), of alive now] assms(4) show ?thesis by auto
qed

theorem beating_lease_not_stale_witness:
  "\<exists>s. lease_snapshot sample_aliases (\<lambda>_. False) 115 1 1 (dl_path held_lease) held_dir = Inr (Some s) \<and>
     \<not> sn_stale s"
proof -
  have "map_of (ld_heartbeats held_dir) (the (dl_heartbeat_path held_lease)) =
      Some \<lparr>hf_text = demo_token @ '':'' @ ''1'' @ [newline], hf_mtime = 101\<rparr>"
    by (rule demo_beat)
  from beating_lease_not_stale [OF demo_live(1) _ _ this] show ?thesis
    by (simp add: held_lease_def demo_lease_def)
qed

end
