(* ===== verification/Adb.thy ===== *)
theory Adb
  imports Effects AdbPaths
begin

text \<open>
  The operations of \<open>AdbClient\<close> (\<open>src/qairt_agent/device/adb.py\<close>) over an executor of
  commands, and the SoC verification of \<open>src/qairt_agent/device/soc.py\<close>. The executor is
  the injected \<open>command_executor\<close>; it may do anything, fail, or be the moment the process
  is killed. \<open>shlex.split\<close> is \<open>py_words\<close>: the command texts contain no quote, escape or
  comment character.
\<close>

definition device_error :: "bool \<Rightarrow> exn" where
  "device_error retryable = agent_exn DeviceUnavailableError (Some ''device'') retryable"

definition run :: "'w executor \<Rightarrow> string list \<Rightarrow> ('w, cmd_result) eff" where
  "run exec argv = eff_bind (execute exec argv) (\<lambda>result.
     if cr_returncode result \<noteq> 0 then eff_raise (device_error True) else eff_return result)"

definition shell :: "'w executor \<Rightarrow> AdbConfig \<Rightarrow> string \<Rightarrow> ('w, cmd_result) eff" where
  "shell exec c command = run exec (adb_base_argv c @ [''shell''] @ py_words command)"

definition device_serial :: "string \<Rightarrow> string option" where
  "device_serial raw_line =
     (let line = py_strip raw_line
      in if line = [] \<or> py_startswith (py_lower line) ''list of devices'' then None
         else (case py_words line of [] \<Rightarrow> None | p # _ \<Rightarrow> Some p))"

definition devices :: "'w executor \<Rightarrow> AdbConfig \<Rightarrow> ('w, string list) eff" where
  "devices exec c = eff_bind (run exec (adb_server_argv c @ [''devices''])) (\<lambda>result.
     eff_return (List.map_filter device_serial (py_splitlines (cr_stdout result))))"

definition device_state :: "'w executor \<Rightarrow> AdbConfig \<Rightarrow> ('w, string) eff" where
  "device_state exec c = eff_bind (run exec (adb_base_argv c @ [''get-state''])) (\<lambda>result.
     eff_return (py_strip (cr_stdout result)))"

definition push :: "'w executor \<Rightarrow> AdbConfig \<Rightarrow> string \<Rightarrow> string \<Rightarrow> ('w, unit) eff" where
  "push exec c loc remote =
     eff_bind (run exec (adb_base_argv c @ [''push'', loc, remote])) (\<lambda>_. eff_return ())"

definition pull :: "'w executor \<Rightarrow> AdbConfig \<Rightarrow> string \<Rightarrow> string \<Rightarrow> ('w, unit) eff" where
  "pull exec c remote loc =
     eff_bind (run exec (adb_base_argv c @ [''pull'', remote, loc])) (\<lambda>_. eff_return ())"

definition sha256_hex_char :: "char \<Rightarrow> bool" where
  "sha256_hex_char c \<longleftrightarrow> py_isdigit_char c \<or> c \<in> set ''abcdef''"

definition remote_sha256 :: "'w executor \<Rightarrow> AdbConfig \<Rightarrow> string \<Rightarrow> ('w, string) eff" where
  "remote_sha256 exec c remote_path =
     eff_bind (shell exec c (''sha256sum '' @ remote_path)) (\<lambda>result.
     case py_words (cr_stdout result) of
       [] \<Rightarrow> eff_raise (device_error False)
     | token # _ \<Rightarrow>
         let digest = py_lower token
         in if length digest = 64 \<and> list_all sha256_hex_char digest then eff_return digest
            else eff_raise (device_error False))"

record soc_reading =
  sc_soc_id :: "nat option"
  sc_sources :: "(string \<times> (exn + string)) list"

definition soc_commands :: "(string \<times> string) list" where
  "soc_commands = [(''getprop ro.soc.id'', ''getprop ro.soc.id''),
     (''getprop ro.soc.model'', ''getprop ro.soc.model''), (''sysfs'', ''cat /sys/devices/soc0/soc_id'')]"

text \<open>One round of the loop: a failing source is recorded and skipped.\<close>

fun read_soc_loop ::
  "'w executor \<Rightarrow> AdbConfig \<Rightarrow> (string \<times> string) list \<Rightarrow> soc_reading \<Rightarrow> ('w, soc_reading) eff"
where
  "read_soc_loop exec c [] acc = eff_return acc"
| "read_soc_loop exec c ((kind, command) # rest) acc =
     eff_bind
       (eff_catch
         (eff_bind (shell exec c command) (\<lambda>result.
            let raw = py_strip (cr_stdout result)
            in eff_return
              \<lparr>sc_soc_id = (if sc_soc_id acc = None \<and> py_isdigit raw then Some (undec raw)
                           else sc_soc_id acc),
               sc_sources = sc_sources acc @ [(kind, Inr raw)]\<rparr>))
         (\<lambda>e. eff_return (acc\<lparr>sc_sources := sc_sources acc @ [(kind, Inl e)]\<rparr>)))
       (read_soc_loop exec c rest)"

definition read_soc_id :: "'w executor \<Rightarrow> AdbConfig \<Rightarrow> ('w, soc_reading) eff" where
  "read_soc_id exec c = read_soc_loop exec c soc_commands \<lparr>sc_soc_id = None, sc_sources = []\<rparr>"

definition remote_exists :: "'w executor \<Rightarrow> AdbConfig \<Rightarrow> string \<Rightarrow> ('w, bool) eff" where
  "remote_exists exec c remote_path =
     eff_bind (execute exec (adb_base_argv c @ [''shell'', ''test'', ''-e'', remote_path])) (\<lambda>result.
     eff_return (cr_returncode result = 0))"

definition rm_argv :: "AdbConfig \<Rightarrow> string \<Rightarrow> string list" where
  "rm_argv c dir = adb_base_argv c @ [''shell'', ''rm'', ''-rf'', dir]"

definition remove_exact :: "'w executor \<Rightarrow> AdbConfig \<Rightarrow> string \<Rightarrow> ('w, unit) eff" where
  "remove_exact exec c remote_dir =
     eff_bind (eff_lift (parse_remote_attempt_dir (Some remote_dir))) (\<lambda>_.
     eff_bind (run exec (rm_argv c remote_dir)) (\<lambda>_. eff_return ()))"

section \<open>Staging\<close>

record AttemptSession =
  as_attempt_dir :: string
  as_incoming_dir :: string
  as_ready_dir :: string
  as_files :: "string list"

text \<open>Pushing one file: the local digest is read from the host's file system.\<close>

definition push_verified ::
  "'w executor \<Rightarrow> AdbConfig \<Rightarrow> (string \<Rightarrow> exn + string) \<Rightarrow> (string \<times> string) list \<Rightarrow> string \<Rightarrow> string
   \<Rightarrow> ('w, unit) eff"
where
  "push_verified exec c local_sha256 push_files incoming_dir name =
    (let local_path = the (map_of push_files name); remote_path = incoming_dir @ ''/'' @ name
     in eff_bind (push exec c local_path remote_path) (\<lambda>_.
        eff_bind (eff_lift (local_sha256 local_path)) (\<lambda>local_sha.
        eff_bind (remote_sha256 exec c remote_path) (\<lambda>remote_sha.
        if remote_sha \<noteq> local_sha
        then eff_raise (agent_exn ArtifactIntegrityError (Some ''device'') False)
        else eff_return ()))))"

text \<open>The part of \<open>stage_attempt\<close> inside its \<open>try\<close>.\<close>

definition staging_work ::
  "'w executor \<Rightarrow> AdbConfig \<Rightarrow> (string \<Rightarrow> exn + string) \<Rightarrow> (string \<times> string) list \<Rightarrow> string list \<Rightarrow> string
   \<Rightarrow> (AttemptSession \<Rightarrow> ('w, 'a) eff) \<Rightarrow> ('w, 'a) eff"
where
  "staging_work exec c local_sha256 push_files names attempt_dir body =
    (let incoming_dir = attempt_dir @ ''incoming''; ready_dir = attempt_dir @ ''ready''
     in eff_bind (shell exec c (''mkdir -p '' @ incoming_dir)) (\<lambda>_.
        eff_bind (eff_foreach names (push_verified exec c local_sha256 push_files incoming_dir)) (\<lambda>_.
        eff_bind (shell exec c (''mv '' @ incoming_dir @ '' '' @ ready_dir)) (\<lambda>_.
        body \<lparr>as_attempt_dir = attempt_dir, as_incoming_dir = incoming_dir,
              as_ready_dir = ready_dir, as_files = names\<rparr>))))"

definition stage_attempt ::
  "'w executor \<Rightarrow> AdbConfig \<Rightarrow> (string \<Rightarrow> exn + string) \<Rightarrow> string option \<Rightarrow> string option \<Rightarrow> string option
   \<Rightarrow> (string \<times> string) list \<Rightarrow> (string \<Rightarrow> ('w, unit) eff) \<Rightarrow> (AttemptSession \<Rightarrow> ('w, 'a) eff) \<Rightarrow> ('w, 'a) eff"
where
  "stage_attempt exec c local_sha256 job_id stage_key attempt_id push_files cleanup_callback body =
     eff_bind (eff_lift (remote_attempt_dir job_id stage_key attempt_id)) (\<lambda>attempt_dir.
     let names = sort (map fst push_files)
     in eff_bind (eff_lift (map_res (\<lambda>n. validate_component (Some n)) names)) (\<lambda>_.
        eff_finally (staging_work exec c local_sha256 push_files names attempt_dir body)
          (eff_bind (remove_exact exec c attempt_dir) (\<lambda>_. cleanup_callback attempt_dir))))"

section \<open>SoC verification\<close>

text \<open>The registry entry of a target, and the verdict recorded with a run.\<close>

record TargetEntry =
  te_source_path :: string
  te_name :: string
  te_chipset :: string
  te_dsp_arch :: string
  te_soc_model :: int
  te_soc_id :: "int list"
  te_notes :: "string list"
  te_verified :: "(string \<times> json) list option"

datatype soc_status = UNREADABLE | NOT_RECORDED | VERIFIED | CONTRADICTED_ACCEPTANCE_OVERRIDE

record soc_record =
  sv_serial :: string
  sv_target :: string
  sv_expected :: "int list"
  sv_observed :: "nat option"
  sv_sources :: "(string \<times> (exn + string)) list"
  sv_acceptance_run :: bool
  sv_status :: soc_status

definition verify_device_soc ::
  "'w executor \<Rightarrow> AdbConfig \<Rightarrow> TargetEntry \<Rightarrow> string \<Rightarrow> bool \<Rightarrow> ('w, soc_record) eff"
where
  "verify_device_soc exec c entry serial qualifying =
     eff_bind (read_soc_id exec c) (\<lambda>reading.
     let observed = sc_soc_id reading; expected = te_soc_id entry;
         record_of = (\<lambda>st. \<lparr>sv_serial = serial, sv_target = te_name entry, sv_expected = expected,
           sv_observed = observed, sv_sources = sc_sources reading, sv_acceptance_run = qualifying,
           sv_status = st\<rparr>)
     in case observed of
          None \<Rightarrow> eff_return (record_of UNREADABLE)
        | Some soc \<Rightarrow>
            if expected = [] then eff_return (record_of NOT_RECORDED)
            else if int soc \<in> set expected then eff_return (record_of VERIFIED)
            else if qualifying then eff_return (record_of CONTRADICTED_ACCEPTANCE_OVERRIDE)
            else eff_raise (device_error False))"

section \<open>Which commands a staging issues\<close>

lemma py_words_cons:
  assumes "p \<noteq> []" "list_all (\<lambda>c. \<not> py_isspace_char c) p"
  shows "py_words (p @ CHR '' '' # s) = p # py_words s"
proof -
  have "py_words_acc [] (p @ CHR '' '' # s) = py_words_acc (rev p) (CHR '' '' # s)"
    using py_words_acc_word [OF assms(2), of "[]" "CHR '' '' # s"] by simp
  also have "\<dots> = p # py_words_acc [] s" using assms(1) by (simp add: py_isspace_char_def)
  finally show ?thesis by (simp add: py_words_def)
qed

definition no_space :: "string \<Rightarrow> bool" where
  "no_space s \<longleftrightarrow> s \<noteq> [] \<and> list_all (\<lambda>c. \<not> py_isspace_char c) s"

lemma no_space_append: "no_space a \<Longrightarrow> list_all (\<lambda>c. \<not> py_isspace_char c) b \<Longrightarrow> no_space (a @ b)"
  by (simp add: no_space_def)

lemma safe_component_no_space: "safe_component s \<Longrightarrow> no_space s"
  by (auto simp: safe_component_def no_space_def list_all_iff safe_char_not_space)

lemma attempt_path_no_space:
  assumes "safe_component j" "safe_component s" "safe_component a"
  shows "no_space (attempt_path j s a)"
proof -
  have "no_space REMOTE_ROOT" by code_simp
  with assms show ?thesis
    by (auto simp: attempt_path_def no_space_def py_isspace_char_def dest!: safe_component_no_space)
qed

lemma words_two: "no_space a \<Longrightarrow> no_space b \<Longrightarrow> py_words (a @ CHR '' '' # b) = [a, b]"
  by (simp add: no_space_def py_words_cons py_words_word)

lemma words_three:
  "no_space a \<Longrightarrow> no_space b \<Longrightarrow> no_space c \<Longrightarrow> py_words (a @ CHR '' '' # b @ CHR '' '' # c) = [a, b, c]"
  by (simp add: no_space_def py_words_cons py_words_word)

text \<open>The commands of the staging of one attempt directory, without the server prefix.\<close>

definition staging_args :: "string \<Rightarrow> string list \<Rightarrow> bool" where
  "staging_args dir args \<longleftrightarrow>
     args = [''shell'', ''mkdir'', ''-p'', dir @ ''incoming''] \<or>
     args = [''shell'', ''mv'', dir @ ''incoming'', dir @ ''ready''] \<or>
     args = [''shell'', ''rm'', ''-rf'', dir] \<or>
     (\<exists>name. safe_component name \<and>
        (args = [''shell'', ''sha256sum'', dir @ ''incoming/'' @ name] \<or>
         (\<exists>loc. args = [''push'', loc, dir @ ''incoming/'' @ name])))"

definition staging_argv :: "AdbConfig \<Rightarrow> string \<Rightarrow> string list \<Rightarrow> bool" where
  "staging_argv c dir argv \<longleftrightarrow> (\<exists>args. argv = adb_base_argv c @ args \<and> staging_args dir args)"

lemma keeps_run: "(\<And>w. I w \<Longrightarrow> I (snd (exec argv w))) \<Longrightarrow> keeps I (run exec argv)"
  unfolding run_def by (intro keeps_bind keeps_execute) auto

lemma keeps_shell:
  "(\<And>w. I w \<Longrightarrow> I (snd (exec (adb_base_argv c @ [''shell''] @ py_words cmd) w))) \<Longrightarrow>
   keeps I (shell exec c cmd)"
  unfolding shell_def by (rule keeps_run)

lemma keeps_push_verified:
  assumes "safe_component name" "no_space dir"
    and "\<And>argv w. staging_argv c dir argv \<Longrightarrow> I w \<Longrightarrow> I (snd (exec argv w))"
  shows "keeps I (push_verified exec c sha files (dir @ ''incoming'') name)"
proof -
  have n: "no_space (dir @ ''incoming/'' @ name)"
    using assms(1,2) safe_component_no_space
    by (auto simp: no_space_def py_isspace_char_def)
  have "no_space ''sha256sum''" by code_simp
  from words_two [OF this n] have w: "py_words (''sha256sum '' @ (dir @ ''incoming'') @ ''/'' @ name) =
      [''sha256sum'', dir @ ''incoming/'' @ name]" by simp
  have "keeps I (remote_sha256 exec c ((dir @ ''incoming'') @ ''/'' @ name))"
    unfolding remote_sha256_def
    using assms(1,3) w
    by (intro keeps_bind keeps_shell)
      (auto simp: staging_argv_def staging_args_def Let_def split: list.split)
  moreover have "keeps I (push exec c loc ((dir @ ''incoming'') @ ''/'' @ name))" for loc
    unfolding push_def using assms(1,3)
    by (intro keeps_bind keeps_run) (auto simp: staging_argv_def staging_args_def)
  ultimately show ?thesis
    unfolding push_verified_def Let_def by (intro keeps_bind) auto
qed

lemma validated_names:
  "map_res (\<lambda>n. validate_component (Some n)) names = Inr vs \<Longrightarrow> n \<in> set names \<Longrightarrow> safe_component n"
  by (auto simp: map_res_Inr validate_component_iff list_all2_conv_all_nth in_set_conv_nth)

lemma remove_exact_keeps:
  assumes "\<And>w. I w \<Longrightarrow> I (snd (exec (rm_argv c dir) w))"
  shows "keeps I (remove_exact exec c dir)"
  unfolding remove_exact_def using assms by (intro keeps_bind keeps_run) auto

lemma staging_work_keeps:
  assumes dir: "remote_attempt_dir j s a = Inr dir"
    and names: "\<And>n. n \<in> set names \<Longrightarrow> safe_component n"
    and ex: "\<And>argv w. staging_argv c dir argv \<Longrightarrow> I w \<Longrightarrow> I (snd (exec argv w))"
    and body: "\<And>ses. keeps I (body ses)"
  shows "keeps I (staging_work exec c sha files names dir body)"
proof -
  from dir obtain j' s' a' where p: "safe_component j'" "safe_component s'" "safe_component a'"
    "dir = attempt_path j' s' a'"
    by (auto simp: remote_attempt_dir_iff)
  then have ns: "no_space dir" by (simp add: attempt_path_no_space)
  then have ns': "no_space (dir @ ''incoming'')" "no_space (dir @ ''ready'')"
    by (auto simp: no_space_def py_isspace_char_def)
  have k: "no_space ''mkdir''" "no_space ''-p''" "no_space ''mv''" by code_simp+
  have mk: "py_words (''mkdir -p '' @ dir @ ''incoming'') = [''mkdir'', ''-p'', dir @ ''incoming'']"
    using words_three [OF k(1,2) ns'(1)] by simp
  have mv: "py_words (''mv '' @ (dir @ ''incoming'') @ '' '' @ dir @ ''ready'') =
      [''mv'', dir @ ''incoming'', dir @ ''ready'']"
    using words_three [OF k(3) ns'(1,2)] by simp
  have sh: "I (snd (exec (adb_base_argv c @ [''shell''] @ args) w))"
    if "staging_args dir (''shell'' # args)" "I w" for args w
    using ex [of "adb_base_argv c @ [''shell''] @ args"] that by (auto simp: staging_argv_def)
  have k1: "keeps I (shell exec c (''mkdir -p '' @ dir @ ''incoming''))"
    by (rule keeps_shell, subst mk, rule sh) (simp_all add: staging_args_def)
  have k2: "keeps I (shell exec c (''mv '' @ (dir @ ''incoming'') @ '' '' @ dir @ ''ready''))"
    by (rule keeps_shell, subst mv, rule sh) (simp_all add: staging_args_def)
  have k3: "keeps I (eff_foreach names (push_verified exec c sha files (dir @ ''incoming'')))"
    using names by (intro keeps_foreach keeps_push_verified ns ex)
  show ?thesis
    unfolding staging_work_def Let_def
    by (intro keeps_bind [OF k1] keeps_bind [OF k3] keeps_bind [OF k2 body])
qed

lemma rm_is_staging: "staging_argv c dir (rm_argv c dir)"
  by (auto simp: staging_argv_def staging_args_def rm_argv_def)

lemma stage_attempt_keeps:
  assumes dir: "remote_attempt_dir j s a = Inr dir"
    and ex: "\<And>argv w. staging_argv c dir argv \<Longrightarrow> I w \<Longrightarrow> I (snd (exec argv w))"
    and cb: "keeps I (cb dir)" and body: "\<And>ses. keeps I (body ses)"
  shows "keeps I (stage_attempt exec c sha j s a files cb body)"
  unfolding stage_attempt_def dir Let_def eff_bind_lift_Inr
proof (rule keeps_lift_bind)
  fix vs assume "map_res (\<lambda>n. validate_component (Some n)) (sort (map fst files)) = Inr vs"
  then have n: "\<And>n. n \<in> set (sort (map fst files)) \<Longrightarrow> safe_component n" by (rule validated_names)
  have "keeps I (eff_bind (remove_exact exec c dir) (\<lambda>_. cb dir))"
    by (intro keeps_bind remove_exact_keeps ex rm_is_staging cb)
  with staging_work_keeps [OF dir n ex body]
  show "keeps I (eff_finally (staging_work exec c sha files (sort (map fst files)) dir body)
       (eff_bind (remove_exact exec c dir) (\<lambda>_. cb dir)))"
    by (intro keeps_finally)
qed

text \<open>An executor that keeps the list of the commands it ran.\<close>

definition logged :: "'w executor \<Rightarrow> ('w \<times> string list list) executor" where
  "logged exec = (\<lambda>argv s. case exec argv (fst s) of (r, w') \<Rightarrow> (r, (w', snd s @ [argv])))"

definition silent :: "('w \<times> string list list, 'a) eff \<Rightarrow> bool" where
  "silent m \<longleftrightarrow> (\<forall>s. snd (snd (m s)) = snd s)"

lemma snd_logged [simp]: "snd (snd (logged exec argv s)) = snd s @ [argv]"
  by (simp add: logged_def split: prod.split)

lemma silent_keeps: "silent m \<Longrightarrow> keeps (\<lambda>s. P (snd s)) m"
  by (simp add: silent_def keeps_def)

lemma removal_logged:
  assumes "remote_attempt_dir j s a = Inr dir" "silent m"
  shows "snd (snd (eff_bind (remove_exact (logged exec) c dir) (\<lambda>_. m) s0)) = snd s0 @ [rm_argv c dir]"
proof -
  from assms(1) obtain j' s' a' where "parse_remote_attempt_dir (Some dir) = Inr (j', s', a')"
    by (auto simp: remote_attempt_dir_iff parse_attempt_path)
  then show ?thesis
    using assms(2)
    by (auto simp: remove_exact_def run_def execute_def eff_bind_def eff_lift_def eff_raise_def
        eff_return_def silent_def logged_def split: prod.split outcome.split option.split)
qed

lemma finally_last:
  assumes "eff_finally m c s0 = (r, (w', cmds))" "r \<noteq> Dead"
    and "\<And>s. snd (snd (c s)) = snd s @ [argv]"
  shows "last cmds = argv"
  using assms(1)
proof (cases rule: eff_finally_cases)
  case dead
  with assms(2) show ?thesis by simp
next
  case (ran r1 w1 r2)
  with assms(3) [of w1] show ?thesis by simp
qed

text \<open>
  C6. Staging touches nothing but its own attempt directory: every command it issues goes to
  the configured server and serial and is one of creating, filling, hashing, renaming or
  removing that exact directory, and unless the process is killed the last command it issues is
  the removal of exactly that directory, whatever happened in between.
\<close>

theorem staging_confined:
  assumes "remote_attempt_dir j s a = Inr dir" "silent (cb dir)" "\<And>ses. silent (body ses)"
    and "stage_attempt (logged exec) c sha j s a files cb body (w, []) = (r, (w', cmds))"
  shows "list_all (staging_argv c dir) cmds \<and> (r = Dead \<or> cmds = [] \<or> last cmds = rm_argv c dir)"
proof
  let ?I = "\<lambda>s :: _ \<times> string list list. list_all (staging_argv c dir) (snd s)"
  have "keeps ?I (stage_attempt (logged exec) c sha j s a files cb body)"
    using assms(1) by (rule stage_attempt_keeps) (auto intro: silent_keeps assms(2,3))
  then have "?I (snd (stage_attempt (logged exec) c sha j s a files cb body (w, [])))"
    by (rule keepsD) simp
  then show "list_all (staging_argv c dir) cmds" by (simp add: assms(4))
  show "r = Dead \<or> cmds = [] \<or> last cmds = rm_argv c dir"
  proof (cases "map_res (\<lambda>n. validate_component (Some n)) (sort (map fst files))")
    case Inl
    then have "cmds = []"
      using assms(1,4) by (simp add: stage_attempt_def eff_bind_def eff_lift_def Let_def)
    then show ?thesis by simp
  next
    case (Inr ns)
    then have "\<exists>m. eff_finally m (eff_bind (remove_exact (logged exec) c dir) (\<lambda>_. cb dir)) (w, []) =
        (r, (w', cmds))"
      using assms(4) unfolding stage_attempt_def assms(1) Let_def eff_bind_lift_Inr Inr by blast
    then show ?thesis
      using finally_last removal_logged [OF assms(1,2)] by metis
  qed
qed


text \<open>A device that answers every command with success and no output.\<close>

definition quiet_device :: "unit executor" where
  "quiet_device argv w = (Some \<lparr>cr_returncode = 0, cr_stdout = [], cr_stderr = []\<rparr>, w)"

theorem staging_confined_witness:
  "\<exists>cmds r w'. stage_attempt (logged quiet_device) \<lparr>ac_serial = ''S1'', ac_server = ''h:5037''\<rparr> (\<lambda>_. Inr [])
      (Some ''j1'') (Some ''s1'') (Some ''1'') [] (\<lambda>_. eff_return ()) (\<lambda>_. eff_return ()) ((), []) =
      (r, (w', cmds)) \<and>
    list_all (staging_argv \<lparr>ac_serial = ''S1'', ac_server = ''h:5037''\<rparr> (attempt_path ''j1'' ''s1'' ''1'')) cmds"
proof -
  let ?c = "\<lparr>ac_serial = ''S1'', ac_server = ''h:5037''\<rparr>"
  have "safe_component ''j1''" "safe_component ''s1''" "safe_component ''1''" by code_simp+
  then have d: "remote_attempt_dir (Some ''j1'') (Some ''s1'') (Some ''1'') = Inr (attempt_path ''j1'' ''s1'' ''1'')"
    by (simp add: remote_attempt_dir_iff)
  have q: "silent (eff_return ())" by (simp add: silent_def eff_return_def)
  obtain r w' cmds where st: "stage_attempt (logged quiet_device) ?c (\<lambda>_. Inr []) (Some ''j1'') (Some ''s1'')
      (Some ''1'') [] (\<lambda>_. eff_return ()) (\<lambda>_. eff_return ()) ((), []) = (r, (w', cmds))"
    by (metis prod.exhaust)
  from staging_confined [OF d q q this] st show ?thesis by blast
qed

text \<open>
  Removal is exact: asked to remove anything but a well-formed attempt directory,
  \<open>remove_exact\<close> raises without issuing a command, and otherwise it issues exactly one,
  succeeding only when that command returned zero.
\<close>

theorem remove_exact_guarded:
  "remove_exact (logged exec) c d (w, cmds) = (r, (w', cmds')) \<longleftrightarrow>
   (if is_ok (parse_remote_attempt_dir (Some d))
    then cmds' = cmds @ [rm_argv c d] \<and> snd (exec (rm_argv c d) w) = w' \<and>
      r = (case fst (exec (rm_argv c d) w) of
             None \<Rightarrow> Dead
           | Some res \<Rightarrow> if cr_returncode res = 0 then Val () else Exc (device_error True))
    else cmds' = cmds \<and> w' = w \<and> (\<exists>e. r = Exc e \<and> parse_remote_attempt_dir (Some d) = Inl e))"
  by (cases "exec (rm_argv c d) w"; cases "parse_remote_attempt_dir (Some d)")
    (auto simp: remove_exact_def run_def execute_def logged_def eff_bind_def eff_lift_def
      eff_raise_def eff_return_def split: option.splits)

section \<open>The verdict on the device's SoC\<close>

text \<open>
  Fail closed on contradiction, warn on absence: the verification fails exactly when the
  device reports a SoC outside the target's non-empty list in a run that is not qualifying the
  target; it answers \<open>VERIFIED\<close> only for a reported SoC of the list, and an unreadable or
  unlisted SoC is a recorded warning, never a verification.
\<close>

theorem soc_verdict:
  assumes "read_soc_id exec c w = (Val reading, w')"
  shows "verify_device_soc exec c entry serial qualifying w =
    (case sc_soc_id reading of
       Some soc \<Rightarrow>
         if te_soc_id entry \<noteq> [] \<and> int soc \<notin> set (te_soc_id entry) \<and> \<not> qualifying
         then (Exc (device_error False), w')
         else (Val \<lparr>sv_serial = serial, sv_target = te_name entry, sv_expected = te_soc_id entry,
             sv_observed = Some soc, sv_sources = sc_sources reading, sv_acceptance_run = qualifying,
             sv_status = (if int soc \<in> set (te_soc_id entry) then VERIFIED
               else if te_soc_id entry = [] then NOT_RECORDED else CONTRADICTED_ACCEPTANCE_OVERRIDE)\<rparr>, w')
     | None \<Rightarrow> (Val \<lparr>sv_serial = serial, sv_target = te_name entry, sv_expected = te_soc_id entry,
             sv_observed = None, sv_sources = sc_sources reading, sv_acceptance_run = qualifying,
             sv_status = UNREADABLE\<rparr>, w'))"
  using assms
  by (auto simp: verify_device_soc_def eff_bind_def eff_return_def eff_raise_def Let_def split: option.split)

definition soc_device :: "string \<Rightarrow> unit executor" where
  "soc_device soc argv w = (Some \<lparr>cr_returncode = 0, cr_stdout = soc, cr_stderr = []\<rparr>, w)"

theorem soc_verdict_witness:
  "\<exists>reading. read_soc_id (soc_device ''618'') \<lparr>ac_serial = ''S1'', ac_server = ''h:5037''\<rparr> () =
      (Val reading, ()) \<and>
    verify_device_soc (soc_device ''618'') \<lparr>ac_serial = ''S1'', ac_server = ''h:5037''\<rparr>
      \<lparr>te_source_path = ''/h/targets/sm8850.json'', te_name = ''sm8850'', te_chipset = ''SM8850'', te_dsp_arch = ''v81'', te_soc_model = 87,
       te_soc_id = [660], te_notes = [], te_verified = None\<rparr> ''S1'' False () = (Exc (device_error False), ())"
proof -
  let ?c = "\<lparr>ac_serial = ''S1'', ac_server = ''h:5037''\<rparr>"
  have n: "py_strip ''618'' = ''618''" "py_isdigit ''618''" by code_simp+
  have u: "undec ''618'' = 618" by (simp add: undec_def digit_val_def)
  obtain reading where r: "read_soc_id (soc_device ''618'') ?c () = (Val reading, ())"
    "sc_soc_id reading = Some 618"
    by (simp add: read_soc_id_def soc_commands_def shell_def run_def execute_def soc_device_def
        eff_bind_def eff_catch_def eff_return_def Let_def n u)
  from soc_verdict [OF r(1)] r show ?thesis by simp
qed

end
