(* ===== verification/DeviceRuntime.thy ===== *)
theory DeviceRuntime
  imports Lease Adb
begin

text \<open>
  \<open>DeviceRuntime.stage\<close> (\<open>src/qairt_agent/device/runtime.py\<close>): the exclusive, exactly
  cleaned staging of one attempt, composed of the lease and the staging of the client. The
  state is the leases directory beside the state of the world the commands act on. Lease
  operations touch only the first, commands and the staged operation only the second.
\<close>

record 'w rt_state =
  rt_leases :: lease_dir
  rt_world :: 'w

definition on_device :: "'w executor \<Rightarrow> 'w rt_state executor" where
  "on_device exec = (\<lambda>argv s. case exec argv (rt_world s) of (r, w') \<Rightarrow> (r, s\<lparr>rt_world := w'\<rparr>))"

definition on_world :: "('w, 'a) eff \<Rightarrow> ('w rt_state, 'a) eff" where
  "on_world m = (\<lambda>s. case m (rt_world s) of (r, w') \<Rightarrow> (r, s\<lparr>rt_world := w'\<rparr>))"

definition on_leases :: "(lease_dir \<Rightarrow> exn + lease_dir) \<Rightarrow> ('w rt_state, unit) eff" where
  "on_leases f = (\<lambda>s. case f (rt_leases s) of
     Inl e \<Rightarrow> (Exc e, s) | Inr ld \<Rightarrow> (Val (), s\<lparr>rt_leases := ld\<rparr>))"

definition do_acquire ::
  "string \<Rightarrow> int \<Rightarrow> string \<Rightarrow> real \<Rightarrow> (string \<times> real) option \<Rightarrow> DeviceLease \<Rightarrow> ('w rt_state, DeviceLease) eff"
where
  "do_acquire token pid acquired_at now first_beat dl = (\<lambda>s.
     case acquire token pid acquired_at now first_beat dl (rt_leases s) of
       (Inl e, ld) \<Rightarrow> (Exc e, s\<lparr>rt_leases := ld\<rparr>) | (Inr dl', ld) \<Rightarrow> (Val dl', s\<lparr>rt_leases := ld\<rparr>))"

definition do_release :: "DeviceLease \<Rightarrow> ('w rt_state, unit) eff" where
  "do_release dl = (\<lambda>s. (Val (), s\<lparr>rt_leases := snd (release dl (rt_leases s))\<rparr>))"

text \<open>The identity the lease is taken under: the actual server, which a declared one must equal.\<close>

definition lease_server :: "host_aliases \<Rightarrow> AdbConfig \<Rightarrow> string \<Rightarrow> exn + string" where
  "lease_server h config configured_canonical_server =
     bind_res (canonicalize_adb_server h (ac_server config)) (\<lambda>actual.
     if configured_canonical_server \<noteq> [] then
       (case canonicalize_adb_server h configured_canonical_server of
          Inl _ \<Rightarrow> Inl (device_error False)
        | Inr declared \<Rightarrow> if declared \<noteq> actual then Inl (device_error False) else Inr actual)
     else Inr actual)"

text \<open>
  What one call draws from its surroundings: the random token, the process id, the times, the
  sidecar's first beat and the declared canonical server.
\<close>

record stage_env =
  en_token :: string
  en_pid :: int
  en_acquired_at :: string
  en_now :: real
  en_first_beat :: "(string \<times> real) option"
  en_canonical_server :: string

definition stage_owner :: "string \<Rightarrow> string \<Rightarrow> string \<Rightarrow> string" where
  "stage_owner job_id stage_key attempt_id = job_id @ '':'' @ stage_key @ '':'' @ attempt_id"

text \<open>
  The staged part, once the attempt is recorded: stage, build the device, run the operation,
  always clean up, and forget the attempt only in the callback that follows the removal.
\<close>

definition staged ::
  "'w executor \<Rightarrow> AdbConfig \<Rightarrow> (string \<Rightarrow> exn + string) \<Rightarrow> string \<Rightarrow> string \<Rightarrow> string
   \<Rightarrow> (string \<times> string) list \<Rightarrow> (AttemptSession \<Rightarrow> ('w, 'a) eff) \<Rightarrow> real \<Rightarrow> DeviceLease \<Rightarrow> ('w rt_state, 'a) eff"
where
  "staged exec config local_sha256 job_id stage_key attempt_id push_files operation now dl =
     eff_finally
       (stage_attempt (on_device exec) config local_sha256 (Some job_id) (Some stage_key) (Some attempt_id)
          push_files (\<lambda>d. on_leases (forget_attempt_dir (Some d) now dl)) (\<lambda>session. on_world (operation session)))
       (do_release dl)"

definition stage ::
  "host_aliases \<Rightarrow> 'w executor \<Rightarrow> (exn + AdbConfig) \<Rightarrow> (string \<Rightarrow> exn + string) \<Rightarrow> stage_env
   \<Rightarrow> string \<Rightarrow> string \<Rightarrow> string \<Rightarrow> (string \<times> string) list \<Rightarrow> (TargetEntry \<times> bool) option
   \<Rightarrow> (AttemptSession \<Rightarrow> ('w, 'a) eff) \<Rightarrow> ('w rt_state, 'a) eff"
where
  "stage h exec config_factory local_sha256 env job_id stage_key attempt_id push_files expected_target operation =
     eff_bind (eff_lift config_factory) (\<lambda>config.
     eff_bind (case expected_target of
         None \<Rightarrow> eff_return None
       | Some (entry, qualifying) \<Rightarrow>
           eff_bind (verify_device_soc (on_device exec) config entry (ac_serial config) qualifying)
             (\<lambda>v. eff_return (Some v))) (\<lambda>soc_verification.
     eff_bind (eff_lift (remote_attempt_dir (Some job_id) (Some stage_key) (Some attempt_id))) (\<lambda>attempt_dir.
     eff_bind (eff_lift (lease_server h config (en_canonical_server env))) (\<lambda>server.
     eff_bind (eff_lift (DeviceLease_new h server (ac_serial config)
         (stage_owner job_id stage_key attempt_id) (Fin LEASE_HEARTBEAT_INTERVAL_SECONDS))) (\<lambda>lease.
     eff_bind (do_acquire (en_token env) (en_pid env) (en_acquired_at env) (en_now env)
         (en_first_beat env) lease) (\<lambda>dl.
     eff_bind (eff_catch (on_leases (record_attempt_dir (Some attempt_dir) (en_now env) dl))
         (\<lambda>e. eff_bind (do_release dl) (\<lambda>_. eff_raise e))) (\<lambda>_.
     staged exec config local_sha256 job_id stage_key attempt_id push_files operation (en_now env) dl)))))))"

section \<open>Recovery pointers\<close>

text \<open>The owner record of a device lists an attempt directory.\<close>

definition pointer :: "lease_dir \<Rightarrow> string \<Rightarrow> string \<Rightarrow> bool" where
  "pointer ld path dir = (case map_of (ld_owners ld) path of
     Some f \<Rightarrow> (case of_content f of
         Some (JObj data) \<Rightarrow> (case map_of data ''attempt_dirs'' of
             Some (JList ds) \<Rightarrow> JStr dir \<in> set ds | _ \<Rightarrow> False)
       | _ \<Rightarrow> False)
   | None \<Rightarrow> False)"

lemma pointer_recorded: "held dl ld \<Longrightarrow> pointer ld (dl_path dl) d \<longleftrightarrow> d \<in> set (recorded dl ld)"
  by (elim heldE) (auto simp: pointer_def read_owner_def split: option.splits json.splits)

text \<open>
  What is assumed of a device: \<open>present\<close> says the attempt directory exists. Only the staging
  commands of that directory and the staged operation may create it, and a removal that
  returned zero removed it.
\<close>

definition device_ok :: "'w executor \<Rightarrow> AdbConfig \<Rightarrow> string \<Rightarrow> ('w \<Rightarrow> bool) \<Rightarrow> bool" where
  "device_ok exec c dir present \<longleftrightarrow>
     (\<forall>argv w. \<not> staging_argv c dir argv \<longrightarrow> present (snd (exec argv w)) \<longrightarrow> present w) \<and>
     (\<forall>w res. fst (exec (rm_argv c dir) w) = Some res \<and> cr_returncode res = 0 \<longrightarrow>
        \<not> present (snd (exec (rm_argv c dir) w)))"

text \<open>The attempt is safe: recorded for recovery, or not on the device.\<close>

definition covered :: "DeviceLease \<Rightarrow> string \<Rightarrow> ('w \<Rightarrow> bool) \<Rightarrow> 'w rt_state \<Rightarrow> bool" where
  "covered dl dir present s \<longleftrightarrow>
     pointer (rt_leases s) (dl_path dl) dir \<or> \<not> present (rt_world s)"

definition recorded_state :: "DeviceLease \<Rightarrow> string \<Rightarrow> 'w rt_state \<Rightarrow> bool" where
  "recorded_state dl dir s \<longleftrightarrow> held dl (rt_leases s) \<and> recorded dl (rt_leases s) = [dir]"

lemma on_device_leases [simp]: "rt_leases (snd (on_device exec argv s)) = rt_leases s"
  "rt_world (snd (on_device exec argv s)) = snd (exec argv (rt_world s))"
  "fst (on_device exec argv s) = fst (exec argv (rt_world s))"
  by (simp_all add: on_device_def split: prod.split)

lemma on_world_leases [simp]: "rt_leases (snd (on_world m s)) = rt_leases s"
  by (simp add: on_world_def split: prod.split)

lemma staged_removal:
  assumes dir: "remote_attempt_dir j k a = Inr dir" and dev: "device_ok exec c dir present"
    and s: "recorded_state dl dir s"
    and r: "eff_bind (remove_exact (on_device exec) c dir)
      (\<lambda>_. on_leases (forget_attempt_dir (Some dir) now dl)) s = (r, s')"
  shows "(recorded_state dl dir s' \<and> r \<noteq> Val ()) \<or>
    (r = Val () \<and> held dl (rt_leases s') \<and> recorded dl (rt_leases s') = [] \<and> \<not> present (rt_world s'))"
proof -
  from dir obtain x where p: "parse_remote_attempt_dir (Some dir) = Inr x"
    by (auto simp: remote_attempt_dir_iff parse_attempt_path)
  from s have h: "held dl (rt_leases s)" "recorded dl (rt_leases s) = [dir]"
    by (simp_all add: recorded_state_def)
  obtain o' w' where e: "exec (rm_argv c dir) (rt_world s) = (o', w')" by fastforce
  from lease_ledger.forget_ok [OF h(1), of dir now] p h(2)
  obtain ld where ld: "forget_attempt_dir (Some dir) now dl (rt_leases s) = Inr ld" "held dl ld"
    "recorded dl ld = []" by auto
  show ?thesis
  proof (cases o')
    case None
    then show ?thesis
      using r e p h by (auto simp: remove_exact_def run_def execute_def eff_bind_def eff_lift_def
          on_device_def recorded_state_def)
  next
    case (Some res)
    then have gone: "cr_returncode res = 0 \<Longrightarrow> \<not> present w'"
      using dev e unfolding device_ok_def by (metis fst_conv snd_conv)
    show ?thesis
      using r e p h Some ld gone
      by (cases "cr_returncode res = 0")
        (auto simp: remove_exact_def run_def execute_def eff_bind_def eff_lift_def eff_return_def
          eff_raise_def on_device_def on_leases_def recorded_state_def)
  qed
qed

text \<open>How a staged attempt ends: still recorded, or removed and forgotten.\<close>

lemma staged_attempt_ends:
  assumes dir: "remote_attempt_dir (Some j) (Some k) (Some a) = Inr dir"
    and dev: "device_ok exec c dir present" and s: "recorded_state dl dir s"
    and r: "stage_attempt (on_device exec) c sha (Some j) (Some k) (Some a) files
      (\<lambda>d. on_leases (forget_attempt_dir (Some d) now dl)) (\<lambda>ses. on_world (op ses)) s = (r, s')"
  shows "(recorded_state dl dir s' \<and> (\<forall>x. r \<noteq> Val x)) \<or>
    (r \<noteq> Dead \<and> held dl (rt_leases s') \<and> recorded dl (rt_leases s') = [] \<and> \<not> present (rt_world s'))"
proof (cases "map_res (\<lambda>n. validate_component (Some n)) (sort (map fst files))")
  case (Inl e)
  with r s show ?thesis
    unfolding stage_attempt_def dir Let_def eff_bind_lift_Inr Inl
    by (auto simp: eff_bind_def eff_lift_def)
next
  case (Inr ns)
  let ?work = "staging_work (on_device exec) c sha files (sort (map fst files)) dir (\<lambda>ses. on_world (op ses))"
  let ?clean = "eff_bind (remove_exact (on_device exec) c dir)
    (\<lambda>_. on_leases (forget_attempt_dir (Some dir) now dl))"
  have k: "keeps (recorded_state dl dir) ?work"
    by (rule staging_work_keeps [OF dir])
      (use validated_names [OF Inr] in \<open>auto simp: recorded_state_def keeps_def\<close>)
  from r have "eff_finally ?work ?clean s = (r, s')"
    unfolding stage_attempt_def dir Let_def eff_bind_lift_Inr Inr .
  then show ?thesis
  proof (cases rule: eff_finally_cases)
    case dead
    with keepsD [OF k s] show ?thesis by simp
  next
    case (ran r1 w1 r2)
    then have "recorded_state dl dir w1" using keepsD [OF k s] by simp
    from staged_removal [OF dir dev this ran(3)] ran(2,4) show ?thesis
      by (auto split: outcome.splits)
  qed
qed

lemma staged_ends:
  assumes dir: "remote_attempt_dir (Some j) (Some k) (Some a) = Inr dir"
    and dev: "device_ok exec c dir present" and s: "recorded_state dl dir s"
    and r: "staged exec c sha j k a files op now dl s = (r, s')"
  shows "covered dl dir present s' \<and>
    ((\<exists>x. r = Val x) \<longrightarrow> \<not> present (rt_world s') \<and> \<not> is_held dl (rt_leases s'))"
  using r unfolding staged_def
proof (cases rule: eff_finally_cases)
  case dead
  from staged_attempt_ends [OF dir dev s dead(2)] dead(1) show ?thesis
    by (auto simp: covered_def recorded_state_def pointer_recorded)
next
  case (ran r1 w1 r2)
  from ran(3) have rel: "r2 = Val ()" "s' = w1\<lparr>rt_leases := snd (release dl (rt_leases w1))\<rparr>"
    by (auto simp: do_release_def)
  from staged_attempt_ends [OF dir dev s ran(1)] rel ran(4) show ?thesis
    by (auto simp: covered_def recorded_state_def pointer_recorded release_held)
qed

lemma keeps_soc:
  assumes "\<And>args w. hd args \<noteq> ''mkdir'' \<Longrightarrow> hd args \<noteq> ''mv'' \<Longrightarrow> hd args \<noteq> ''rm'' \<Longrightarrow>
      hd args \<noteq> ''sha256sum'' \<Longrightarrow> args \<noteq> [] \<Longrightarrow> I w \<Longrightarrow> I (snd (exec (adb_base_argv c @ ''shell'' # args) w))"
  shows "keeps I (verify_device_soc exec c entry serial q)"
proof -
  have w: "py_words ''getprop ro.soc.id'' = [''getprop'', ''ro.soc.id'']"
    "py_words ''getprop ro.soc.model'' = [''getprop'', ''ro.soc.model'']"
    "py_words ''cat /sys/devices/soc0/soc_id'' = [''cat'', ''/sys/devices/soc0/soc_id'']" by code_simp+
  have sh: "keeps I (shell exec c cmd)" if "cmd \<in> snd ` set soc_commands" for cmd
    using that assms by (intro keeps_shell) (auto simp: soc_commands_def w)
  have loop: "keeps I (read_soc_loop exec c cmds acc)" if "snd ` set cmds \<subseteq> snd ` set soc_commands" for cmds acc
    using that
  proof (induction cmds arbitrary: acc)
    case (Cons x cmds)
    obtain kind cmd where x: "x = (kind, cmd)" by fastforce
    with Cons.prems have c: "cmd \<in> snd ` set soc_commands" "snd ` set cmds \<subseteq> snd ` set soc_commands"
      by auto
    show ?case
      unfolding x read_soc_loop.simps Let_def
      by (intro keeps_bind keeps_catch sh c Cons.IH keeps_return)
  qed simp
  then show ?thesis
    unfolding verify_device_soc_def read_soc_id_def Let_def
    by (intro keeps_bind) (auto split: option.split)
qed

section \<open>Properties\<close>

lemma pre_phase_clean:
  assumes "device_ok exec c dir present" "\<not> present (rt_world s)"
    and "verify_device_soc (on_device exec) c entry serial q s = (r, s')"
  shows "\<not> present (rt_world s') \<and> rt_leases s' = rt_leases s"
proof -
  have nst: "\<not> staging_argv c dir (adb_base_argv c @ ''shell'' # args)"
    if "hd args \<noteq> ''mkdir''" "hd args \<noteq> ''mv''" "hd args \<noteq> ''rm''" "hd args \<noteq> ''sha256sum''" "args \<noteq> []" for args
    using that by (cases args) (auto simp: staging_argv_def staging_args_def)
  have "keeps (\<lambda>t. \<not> present (rt_world t) \<and> rt_leases t = rt_leases s)
      (verify_device_soc (on_device exec) c entry serial q)"
    by (rule keeps_soc) (use assms(1) nst in \<open>auto simp: device_ok_def\<close>)
  from keepsD [OF this, of s] assms(2,3) show ?thesis by simp
qed

text \<open>The part of \<open>stage\<close> that holds the lease.\<close>

lemma leased_part:
  assumes dir: "remote_attempt_dir (Some j) (Some k) (Some a) = Inr dir"
    and dev: "device_ok exec c dir present" and np: "\<not> present (rt_world s)"
    and r: "eff_bind (do_acquire tok pid t0 now fb dl0) (\<lambda>dl.
      eff_bind (eff_catch (on_leases (record_attempt_dir (Some dir) now dl))
         (\<lambda>e. eff_bind (do_release dl) (\<lambda>_. eff_raise e))) (\<lambda>_.
      staged exec c sha j k a files op now dl)) s = (r, s')"
  shows "(present (rt_world s') \<longrightarrow> pointer (rt_leases s') (dl_path dl0) dir) \<and>
    ((\<exists>x. r = Val x) \<longrightarrow> \<not> present (rt_world s') \<and> \<not> is_held dl0 (rt_leases s'))"
  using r
proof (cases rule: eff_bind_cases)
  case (val dl s1)
  then have acq: "acquire tok pid t0 now fb dl0 (rt_leases s) = (Inr dl, rt_leases s1)"
    and w1: "rt_world s1 = rt_world s"
    by (auto simp: do_acquire_def split: prod.splits sum.splits)
  from acquire_held [OF acq] have h: "held dl (rt_leases s1)" "recorded dl (rt_leases s1) = []"
    "dl_path dl = dl_path dl0" by simp_all
  have v: "is_ok (parse_remote_attempt_dir (Some dir))"
    using dir by (auto simp: remote_attempt_dir_iff parse_attempt_path)
  from lease_ledger.record_ok [OF h(1) v, of now] h(2)
  obtain ld where ld: "record_attempt_dir (Some dir) now dl (rt_leases s1) = Inr ld" "held dl ld"
    "set (recorded dl ld) = {dir}" by auto
  have "recorded dl ld = [dir]"
    using ld(1) h(1,2) v held_put [OF h(1), of "[dir]" now]
    by (simp add: record_attempt_dir_held)
  then have rs: "recorded_state dl dir (s1\<lparr>rt_leases := ld\<rparr>)" using ld(2) by (simp add: recorded_state_def)
  have "eff_catch (on_leases (record_attempt_dir (Some dir) now dl))
      (\<lambda>e. eff_bind (do_release dl) (\<lambda>_. eff_raise e)) s1 = (Val (), s1\<lparr>rt_leases := ld\<rparr>)"
    using ld(1) by (simp add: eff_catch_def on_leases_def)
  with val(2) have "staged exec c sha j k a files op now dl (s1\<lparr>rt_leases := ld\<rparr>) = (r, s')"
    by (simp add: eff_bind_def)
  from staged_ends [OF dir dev rs this] h(3) show ?thesis
    by (auto simp: covered_def is_held_def)
qed (use np in \<open>auto simp: do_acquire_def split: prod.splits sum.splits\<close>)

lemma pre_phase:
  assumes "device_ok exec c dir present" "\<not> present (rt_world s)"
    and "(case target of None \<Rightarrow> eff_return None
       | Some (entry, q) \<Rightarrow> eff_bind (verify_device_soc (on_device exec) c entry (ac_serial c) q)
           (\<lambda>v. eff_return (Some v))) s = (r, s')"
  shows "\<not> present (rt_world s')"
proof (cases target)
  case None
  with assms(2,3) show ?thesis by (simp add: eff_return_def)
next
  case (Some t)
  then obtain entry q where t: "target = Some (entry, q)" by (cases t) auto
  obtain r1 where "verify_device_soc (on_device exec) c entry (ac_serial c) q s = (r1, s')"
    using assms(3) t by (auto simp: eff_bind_def eff_return_def split: prod.splits outcome.splits)
  from pre_phase_clean [OF assms(1,2) this] show ?thesis by simp
qed

text \<open>
  C2. No sandbox is orphaned: whatever the commands and the staged operation do, fail or
  raise, and wherever the process is killed, an attempt directory left on the device is listed
  in the lease record of that device, where garbage collection finds it; and when \<open>stage\<close>
  returns a value, the directory is gone and the lease is released.
\<close>

theorem no_orphaned_sandbox:
  assumes "remote_attempt_dir (Some job) (Some key) (Some att) = Inr dir"
    and "device_ok exec config dir present" "\<not> present (rt_world s)"
    and "lease_server h config (en_canonical_server env) = Inr server"
    and "DeviceLease_new h server (ac_serial config) (stage_owner job key att)
      (Fin LEASE_HEARTBEAT_INTERVAL_SECONDS) = Inr dl0"
    and "stage h exec (Inr config) sha env job key att files target operation s = (r, s')"
  shows "(present (rt_world s') \<longrightarrow> pointer (rt_leases s') (dl_path dl0) dir) \<and>
    ((\<exists>x. r = Val x) \<longrightarrow> \<not> present (rt_world s') \<and> \<not> is_held dl0 (rt_leases s'))"
  using assms(6) unfolding stage_def eff_bind_lift_Inr assms(1)
proof (cases rule: eff_bind_cases)
  case (val soc s1)
  from val(2) show ?thesis
    unfolding assms(4,5) eff_bind_lift_Inr
    by (rule leased_part [OF assms(1,2) pre_phase [OF assms(2,3) val(1)]])
next
  case (exc e)
  with pre_phase [OF assms(2,3) exc(1)] show ?thesis by simp
next
  case dead
  with pre_phase [OF assms(2,3) dead(1)] show ?thesis by simp
qed

definition demo_config :: AdbConfig where
  "demo_config = \<lparr>ac_serial = ''S1'', ac_server = ''localhost:5037''\<rparr>"

text \<open>
  A device that only knows whether the attempt directory exists, and during whose creation the
  process is killed.
\<close>

definition demo_device :: "bool executor" where
  "demo_device argv w =
     (if argv = adb_base_argv demo_config @ [''shell'', ''mkdir'', ''-p'', demo_attempt @ ''incoming'']
      then (None, True)
      else (Some \<lparr>cr_returncode = 0, cr_stdout = [], cr_stderr = []\<rparr>,
        if argv = rm_argv demo_config demo_attempt then False else w))"

definition demo_env :: stage_env where
  "demo_env = \<lparr>en_token = demo_token, en_pid = 7, en_acquired_at = ''t'', en_now = 100,
     en_first_beat = Some (''1'', 101), en_canonical_server = []\<rparr>"

lemma demo_device_ok: "device_ok demo_device demo_config demo_attempt (\<lambda>b. b)"
  by (auto simp: device_ok_def demo_device_def rm_is_staging rm_argv_def staging_argv_def staging_args_def)

theorem no_orphaned_sandbox_witness:
  "\<exists>s'. stage sample_aliases demo_device (Inr demo_config) (\<lambda>_. Inr []) demo_env ''j1'' ''s1'' ''1'' []
      None (\<lambda>_. eff_return ()) \<lparr>rt_leases = empty_leases, rt_world = False\<rparr> = (Dead, s') \<and>
    rt_world s' \<and> pointer (rt_leases s') (dl_path demo_lease) demo_attempt"
proof -
  let ?s = "\<lparr>rt_leases = empty_leases, rt_world = False\<rparr>"
  have safe: "safe_component ''j1''" "safe_component ''s1''" "safe_component ''1''" by code_simp+
  then have d: "remote_attempt_dir (Some ''j1'') (Some ''s1'') (Some ''1'') = Inr demo_attempt"
    by (simp add: remote_attempt_dir_iff demo_attempt_def)
  have l: "lease_server sample_aliases demo_config (en_canonical_server demo_env) = Inr ''localhost:5037''"
    by (simp add: lease_server_def demo_config_def demo_env_def demo_canonical)
  let ?dl = "demo_lease\<lparr>dl_owner := stage_owner ''j1'' ''s1'' ''1''\<rparr>"
  have n: "DeviceLease_new sample_aliases ''localhost:5037'' (ac_serial demo_config)
      (stage_owner ''j1'' ''s1'' ''1'') (Fin LEASE_HEARTBEAT_INTERVAL_SECONDS) = Inr ?dl"
    by (simp add: DeviceLease_new_def demo_canonical demo_lease_def demo_config_def
        MAX_LEASE_HEARTBEAT_INTERVAL_SECONDS_def LEASE_HEARTBEAT_INTERVAL_SECONDS_def)
  obtain dl ld where a: "acquire demo_token 7 ''t'' 100 (Some (''1'', 101)) ?dl empty_leases = (Inr dl, ld)"
    by (simp add: acquire_def empty_leases_def Let_def)
  with acquire_held have h: "held dl ld" "recorded dl ld = []" "dl_path dl = dl_path ?dl" by blast+
  obtain ld' where ld': "record_attempt_dir (Some demo_attempt) 100 dl ld = Inr ld'"
    by (simp add: record_attempt_dir_held [OF h(1)] demo_attempt_ok)
  have words: "py_words (''mkdir -p '' @ demo_attempt @ ''incoming'') =
      [''mkdir'', ''-p'', demo_attempt @ ''incoming'']"
    by code_simp
  let ?s' = "\<lparr>rt_leases = ld', rt_world = True\<rparr>"
  have "staged demo_device demo_config (\<lambda>_. Inr []) ''j1'' ''s1'' ''1'' [] (\<lambda>_. eff_return ()) 100 dl
      \<lparr>rt_leases = ld', rt_world = False\<rparr> = (Dead, ?s')"
    unfolding staged_def stage_attempt_def d eff_bind_lift_Inr
    by (simp add: eff_finally_def eff_bind_def eff_lift_def staging_work_def shell_def words [simplified] run_def
        execute_def on_device_def demo_device_def Let_def)
  then have st: "stage sample_aliases demo_device (Inr demo_config) (\<lambda>_. Inr []) demo_env ''j1'' ''s1'' ''1'' []
      None (\<lambda>_. eff_return ()) ?s = (Dead, ?s')"
    using a ld' unfolding stage_def eff_bind_lift_Inr d l n
    by (simp add: eff_bind_def eff_return_def do_acquire_def eff_catch_def on_leases_def demo_env_def)
  from no_orphaned_sandbox [OF d demo_device_ok _ l n st]
  have "pointer ld' (dl_path demo_lease) demo_attempt" by simp
  with st show ?thesis by simp
qed

end
