(* ===== verification/Doctor.thy ===== *)
theory Doctor
  imports DeviceRuntime
begin

text \<open>
  \<open>src/qairt_agent/device/doctor.py\<close>: garbage collection of stale leases and the device
  health report. A collection scans the leases directory and then handles the candidates one
  by one, each under its device's lock: \<open>gc_one\<close> is that critical section, on whatever the
  directory has become since the scan. Report texts are left out, verdicts are kept.
\<close>

section \<open>Garbage collection\<close>

datatype gc_outcome =
    Cleaned string "string list" bool "string option"
  | Skipped string string

record gc_options =
  go_dry_run :: bool
  go_stale_after :: real
  go_invalid_grace_after :: real

text \<open>The strings of \<open>data["attempt_dirs"]\<close>; a snapshot's data is a valid record or empty.\<close>

definition recorded_attempts :: "(string \<times> json) list \<Rightarrow> string list" where
  "recorded_attempts data = (case map_of data ''attempt_dirs'' of
     Some (JList xs) \<Rightarrow> List.map_filter json_text xs | _ \<Rightarrow> [])"

definition recorded_server :: "host_aliases \<Rightarrow> (string \<times> json) list \<Rightarrow> string option" where
  "recorded_server h data = (case map_of data ''server'' of
     Some (JStr s) \<Rightarrow> (case canonicalize_adb_server h s of Inr c \<Rightarrow> Some c | Inl _ \<Rightarrow> None)
   | _ \<Rightarrow> None)"

definition expected_server :: "host_aliases \<Rightarrow> AdbConfig option \<Rightarrow> exn + string" where
  "expected_server h client = (case client of
     None \<Rightarrow> Inr []
   | Some c \<Rightarrow> if ac_server c = [] then Inr [] else canonicalize_adb_server h (ac_server c))"

definition configured_device :: "host_aliases \<Rightarrow> AdbConfig \<Rightarrow> string \<Rightarrow> (string \<times> json) list \<Rightarrow> bool" where
  "configured_device h c expected data \<longleftrightarrow>
     recorded_server h data = Some expected \<and> map_of data ''serial'' = Some (JStr (ac_serial c))"

text \<open>One candidate, under its lock: recheck, then remove its recorded directories and itself.\<close>

definition gc_one ::
  "host_aliases \<Rightarrow> (int \<Rightarrow> bool) \<Rightarrow> 'w executor \<Rightarrow> AdbConfig option \<Rightarrow> gc_options \<Rightarrow> real
   \<Rightarrow> LeaseSnapshot \<Rightarrow> ('w rt_state, gc_outcome) eff"
where
  "gc_one h alive exec client opts now candidate = (\<lambda>s.
    (let path = sn_path candidate in
     case lease_snapshot h alive now (go_stale_after opts) (go_invalid_grace_after opts) path (rt_leases s) of
       Inl e \<Rightarrow> (Exc e, s)
     | Inr None \<Rightarrow> (Val (Skipped path ''lease_disappeared_after_scan''), s)
     | Inr (Some current) \<Rightarrow>
         if sn_cas_token current \<noteq> sn_cas_token candidate \<or>
            sn_owner_token current \<noteq> sn_owner_token candidate
         then (Val (Skipped path ''lease_changed_after_scan''), s)
         else if \<not> sn_stale current then (Val (Skipped path ''lease_no_longer_stale''), s)
         else
           (let data = (case sn_data current of None \<Rightarrow> [] | Some d \<Rightarrow> d) in
            case expected_server h client of
              Inl e \<Rightarrow> (Exc e, s)
            | Inr expected \<Rightarrow>
                if \<not> go_dry_run opts \<and> client \<noteq> None \<and> data \<noteq> [] \<and>
                   \<not> configured_device h (the client) expected data
                then (Val (Skipped path ''configured_device_mismatch''), s)
                else
                  eff_bind
                    (if go_dry_run opts then eff_return ()
                     else eff_foreach (recorded_attempts data)
                       (\<lambda>d. remove_exact (on_device exec) (the client) d)) (\<lambda>_.
                  eff_bind
                    (if go_dry_run opts then eff_return ()
                     else on_leases (\<lambda>ld. Inr (unlink_owner path (unlink_heartbeat (sn_heartbeat_path current) ld)))) (\<lambda>_.
                  eff_return (Cleaned path (recorded_attempts data) (\<not> go_dry_run opts)
                    (sn_stale_reason current)))) s)))"

fun gc_all ::
  "host_aliases \<Rightarrow> (int \<Rightarrow> bool) \<Rightarrow> 'w executor \<Rightarrow> AdbConfig option \<Rightarrow> gc_options \<Rightarrow> real
   \<Rightarrow> LeaseSnapshot list \<Rightarrow> ('w rt_state, gc_outcome list) eff"
where
  "gc_all h alive exec client opts now [] = eff_return []"
| "gc_all h alive exec client opts now (c # cs) =
     eff_bind (gc_one h alive exec client opts now c) (\<lambda>r.
     eff_bind (gc_all h alive exec client opts now cs) (\<lambda>rs. eff_return (r # rs)))"

definition scan ::
  "host_aliases \<Rightarrow> (int \<Rightarrow> bool) \<Rightarrow> gc_options \<Rightarrow> real \<Rightarrow> ('w rt_state, LeaseSnapshot list) eff" where
  "scan h alive opts now = (\<lambda>s. eff_lift (scan_stale_lease_snapshots h alive now (go_stale_after opts)
      (go_invalid_grace_after opts) (rt_leases s)) s)"

text \<open>\<open>declared\<close> is the stripped \<open>QAIRT_AGENT_ADB_CANONICAL_SERVER\<close>.\<close>

definition device_gc ::
  "host_aliases \<Rightarrow> (int \<Rightarrow> bool) \<Rightarrow> 'w executor \<Rightarrow> AdbConfig option \<Rightarrow> gc_options \<Rightarrow> string
   \<Rightarrow> real \<Rightarrow> real \<Rightarrow> ('w rt_state, gc_outcome list) eff"
where
  "device_gc h alive exec client opts declared scan_time recheck_time =
     eff_bind (case client of
         Some c \<Rightarrow> if go_dry_run opts then eff_return () else
             eff_bind (eff_lift (lease_server h c declared)) (\<lambda>_. eff_return ())
       | None \<Rightarrow> eff_return ()) (\<lambda>_.
     eff_bind (scan h alive opts scan_time) (\<lambda>stale.
     if \<not> go_dry_run opts \<and> client = None then eff_raise (device_error False)
     else gc_all h alive exec client opts recheck_time stale))"

section \<open>A live lease survives\<close>

lemma heartbeat_name_inj:
  assumes "token_ok t1" "token_ok t2"
  shows "heartbeat_name p1 t1 = heartbeat_name p2 t2 \<longleftrightarrow> p1 = p2 \<and> t1 = t2"
proof
  assume "heartbeat_name p1 t1 = heartbeat_name p2 t2"
  then have "(p1 @ ''.'') @ t1 = (p2 @ ''.'') @ t2" by (simp add: heartbeat_name_def)
  moreover have "length t1 = length t2" using assms by (simp add: token_ok_def)
  ultimately show "p1 = p2 \<and> t1 = t2" by (metis append_eq_append_conv append_same_eq)
qed simp

text \<open>The lease of \<open>dl\<close> is as before: its owner record and its heartbeat file.\<close>

definition same_lease :: "DeviceLease \<Rightarrow> lease_dir \<Rightarrow> lease_dir \<Rightarrow> bool" where
  "same_lease dl ld ld' \<longleftrightarrow>
     map_of (ld_owners ld') (dl_path dl) = map_of (ld_owners ld) (dl_path dl) \<and>
     map_of (ld_heartbeats ld') (the (dl_heartbeat_path dl)) =
       map_of (ld_heartbeats ld) (the (dl_heartbeat_path dl))"

definition fresh_beat :: "DeviceLease \<Rightarrow> real \<Rightarrow> lease_dir \<Rightarrow> bool" where
  "fresh_beat dl now ld \<longleftrightarrow> (case map_of (ld_heartbeats ld) (the (dl_heartbeat_path dl)) of
     None \<Rightarrow> False | Some b \<Rightarrow> now - hf_mtime b \<le> 3 * dl_interval dl)"

definition live_at :: "host_aliases \<Rightarrow> DeviceLease \<Rightarrow> real \<Rightarrow> lease_dir \<Rightarrow> bool" where
  "live_at h dl now ld \<longleftrightarrow> live_record h dl ld \<and> fresh_beat dl now ld"

lemma same_lease_refl [simp]: "same_lease dl ld ld"
  by (simp add: same_lease_def)

lemma same_lease_live: "same_lease dl ld ld' \<Longrightarrow> live_at h dl t ld \<Longrightarrow> live_at h dl t ld'"
  by (simp add: same_lease_def live_at_def live_record_def fresh_beat_def read_owner_def held_def
      cong: option.case_cong)

lemma live_has_owner: "live_record h dl ld \<Longrightarrow> map_of (ld_owners ld) (dl_path dl) \<noteq> None"
  using is_held_owned by (auto simp: is_held_def elim!: live_recordE)

lemma live_not_stale:
  assumes "live_at h dl now ld" "0 < stale_after" "0 < grace"
  shows "\<exists>s. lease_snapshot h alive now stale_after grace (dl_path dl) ld = Inr (Some s) \<and> \<not> sn_stale s"
proof -
  from assms(1) obtain b where b: "map_of (ld_heartbeats ld) (the (dl_heartbeat_path dl)) = Some b"
    "now - hf_mtime b \<le> 3 * dl_interval dl" and l: "live_record h dl ld"
    by (auto simp: live_at_def fresh_beat_def split: option.splits)
  have "0 < dl_interval dl" using l by (rule live_recordE)
  with b(2) assms(2) have "\<not> max 0 (now - hf_mtime b) > max stale_after (dl_interval dl * 3)" by auto
  with live_snapshot [OF l assms(2,3), of alive now] b(1) show ?thesis by auto
qed

text \<open>An instance of another owner: its heartbeat file is the one of its own token.\<close>

definition other_instance :: "DeviceLease \<Rightarrow> DeviceLease \<Rightarrow> bool" where
  "other_instance dl dl2 \<longleftrightarrow> dl_owner_token dl2 \<noteq> dl_owner_token dl \<and>
     (case dl_owner_token dl2 of
        None \<Rightarrow> dl_heartbeat_path dl2 = None
      | Some t \<Rightarrow> token_ok t \<and> dl_heartbeat_path dl2 = Some (heartbeat_name (dl_path dl2) t))"

lemma other_not_owner:
  assumes "live_record h dl ld" "other_instance dl dl2" "dl_path dl2 = dl_path dl"
  shows "\<not> owns dl2 (read_owner dl2 ld)"
  using assms by (elim live_recordE) (auto simp: owns_def other_instance_def read_owner_def split: option.splits)

lemma other_heartbeat:
  assumes "live_record h dl ld" "other_instance dl dl2"
  shows "dl_heartbeat_path dl2 \<noteq> dl_heartbeat_path dl"
  using assms
  by (elim live_recordE) (auto simp: other_instance_def heartbeat_name_inj split: option.splits)

lemma same_lease_put_other: "p \<noteq> dl_path dl \<Longrightarrow> same_lease dl ld (put_owner p x now ld)"
  by (simp add: same_lease_def put_owner_def)

lemma same_lease_unlink:
  "p \<noteq> dl_path dl \<Longrightarrow> hb \<noteq> dl_heartbeat_path dl \<Longrightarrow> dl_heartbeat_path dl \<noteq> None \<Longrightarrow>
   same_lease dl ld (unlink_owner p (unlink_heartbeat hb ld))"
  by (auto simp: same_lease_def unlink_owner_def unlink_heartbeat_def split: option.split)

lemma same_lease_unlink_hb:
  "hb \<noteq> dl_heartbeat_path dl \<Longrightarrow> dl_heartbeat_path dl \<noteq> None \<Longrightarrow>
   same_lease dl ld (unlink_heartbeat hb ld)"
  by (auto simp: same_lease_def unlink_heartbeat_def split: option.split)

lemma live_hb_some: "live_record h dl ld \<Longrightarrow> dl_heartbeat_path dl \<noteq> None"
  by (elim live_recordE) simp

lemma acquire_same_lease:
  assumes l: "live_record h dl ld" and tok: "token_ok token2" "Some token2 \<noteq> dl_owner_token dl"
    and a: "acquire token2 pid t0 now beat dl2 ld = (r, ld')"
  shows "same_lease dl ld ld'"
proof (cases "dl_path dl2 = dl_path dl")
  case True
  with live_has_owner [OF l] a show ?thesis by (auto simp: acquire_def)
next
  case False
  have hb: "heartbeat_name (dl_path dl2) token2 \<noteq> the (dl_heartbeat_path dl)"
    using l tok False by (elim live_recordE) (auto simp: heartbeat_name_inj)
  with False a show ?thesis
    by (auto simp: acquire_def Let_def same_lease_def put_owner_def put_heartbeat_def sidecar_beat_def
        unlink_owner_def unlink_heartbeat_def split: if_splits option.splits)
qed

lemma other_write_same_lease:
  assumes l: "live_record h dl ld" and o: "other_instance dl dl2"
  shows "record_attempt_dir d now dl2 ld = Inr ld' \<Longrightarrow> same_lease dl ld ld'"
    "forget_attempt_dir d now dl2 ld = Inr ld' \<Longrightarrow> same_lease dl ld ld'"
  using other_not_owner [OF l o]
  by (cases "dl_path dl2 = dl_path dl"; auto simp: record_attempt_dir_def forget_attempt_dir_def res_simps
      replace_owner_def Let_def same_lease_put_other split: if_splits)+

lemma other_release_same_lease:
  assumes l: "live_record h dl ld" and o: "other_instance dl dl2"
  shows "same_lease dl ld (snd (release dl2 ld))"
proof (cases "dl_path dl2 = dl_path dl")
  case True
  with other_not_owner [OF l o] show ?thesis
    by (simp add: release_def Let_def same_lease_unlink_hb other_heartbeat [OF l o] live_hb_some [OF l])
next
  case False
  then show ?thesis
    by (simp add: release_def Let_def same_lease_unlink same_lease_unlink_hb other_heartbeat [OF l o]
        live_hb_some [OF l])
qed


lemma heartbeat_path_name:
  "heartbeat_path p data = Some f \<Longrightarrow> \<exists>tok. token_ok tok \<and> f = heartbeat_name p tok"
  by (auto simp: heartbeat_path_def split: option.splits json.splits if_splits)

lemma snapshot_heartbeat:
  assumes "lease_snapshot h alive now sa gr p ld = Inr (Some cur)" "sn_heartbeat_path cur = Some f"
  shows "\<exists>tok. token_ok tok \<and> f = heartbeat_name p tok"
proof -
  from assms obtain data where "heartbeat_path p data = Some f"
    by (auto simp: lease_snapshot_def res_simps Let_def
        split: option.splits json.splits if_splits prod.splits)
  then show ?thesis by (rule heartbeat_path_name)
qed

lemma snapshot_path: "lease_snapshot h alive now sa gr p ld = Inr (Some cur) \<Longrightarrow> sn_path cur = p"
  by (auto simp: lease_snapshot_def res_simps Let_def split: option.splits json.splits if_splits prod.splits)

lemma keeps_remove_on_device:
  "keeps (\<lambda>t. P (rt_leases t)) (eff_foreach ds (\<lambda>d. remove_exact (on_device exec) c d))"
  by (intro keeps_foreach remove_exact_keeps) simp

lemma gc_one_frame:
  assumes "gc_one h alive exec client opts now cand s = (r, s')"
  shows "rt_leases s' = rt_leases s \<or>
    (\<exists>cur. lease_snapshot h alive now (go_stale_after opts) (go_invalid_grace_after opts) (sn_path cand)
        (rt_leases s) = Inr (Some cur) \<and> sn_stale cur \<and> \<not> go_dry_run opts \<and>
      sn_cas_token cur = sn_cas_token cand \<and>
      rt_leases s' = unlink_owner (sn_path cand) (unlink_heartbeat (sn_heartbeat_path cur) (rt_leases s)))"
proof -
  have k: "rt_leases (snd (eff_foreach ds (remove_exact (on_device exec) c) s)) = rt_leases s" for ds c
    by (rule keepsD [OF keeps_remove_on_device [of "\<lambda>ld. ld = rt_leases s"]]) simp
  show ?thesis
  proof (cases "lease_snapshot h alive now (go_stale_after opts) (go_invalid_grace_after opts) (sn_path cand)
        (rt_leases s)")
    case Inl
    with assms show ?thesis by (simp add: gc_one_def)
  next
    case (Inr o')
    show ?thesis
    proof (cases o')
      case None
      with Inr assms show ?thesis by (simp add: gc_one_def)
    next
      case (Some cur)
      let ?data = "case sn_data cur of None \<Rightarrow> [] | Some d \<Rightarrow> d"
      have k': "rt_leases (snd (eff_foreach (recorded_attempts ?data)
          (\<lambda>d. remove_exact (on_device exec) (the client) d) s)) = rt_leases s" by (rule k)
      obtain r1 s1 where rm: "eff_foreach (recorded_attempts ?data)
          (\<lambda>d. remove_exact (on_device exec) (the client) d) s = (r1, s1)" by fastforce
      with k' have "rt_leases s1 = rt_leases s" by simp
      with Inr Some rm assms show ?thesis
        by (cases r1) (auto simp: gc_one_def Let_def eff_bind_def eff_return_def on_leases_def
            split: if_splits sum.splits)
    qed
  qed
qed

lemma gc_one_same_lease:
  assumes live: "live_at h dl now (rt_leases s)"
    and gc: "gc_one h alive exec client opts now cand s = (r, s')"
  shows "same_lease dl (rt_leases s) (rt_leases s')"
  using gc_one_frame [OF gc]
proof (elim disjE exE conjE)
  fix cur assume cur: "lease_snapshot h alive now (go_stale_after opts) (go_invalid_grace_after opts)
      (sn_path cand) (rt_leases s) = Inr (Some cur)" "sn_stale cur"
    and s': "rt_leases s' = unlink_owner (sn_path cand) (unlink_heartbeat (sn_heartbeat_path cur) (rt_leases s))"
  have pos: "0 < go_stale_after opts" "0 < go_invalid_grace_after opts"
    using cur(1) by (auto simp: lease_snapshot_def res_simps)
  have p: "sn_path cand \<noteq> dl_path dl"
    using live_not_stale [OF live pos, of alive] cur by auto
  have l: "live_record h dl (rt_leases s)" using live by (simp add: live_at_def)
  have "sn_heartbeat_path cur \<noteq> dl_heartbeat_path dl"
  proof (cases "sn_heartbeat_path cur")
    case None
    with live_hb_some [OF l] show ?thesis by auto
  next
    case (Some f)
    with snapshot_heartbeat [OF cur(1)] p l show ?thesis
      by (elim live_recordE) (auto simp: heartbeat_name_inj)
  qed
  with p live_hb_some [OF l] show ?thesis unfolding s' by (intro same_lease_unlink)
qed simp

text \<open>
  The life of one held lease among other processes. Its own process records and forgets
  attempts, its sidecar beats and never falls three beats behind; other processes try to
  acquire, write and release leases under their own tokens, beat for them, and collect garbage
  with any candidate of any earlier scan and any options. \<open>t\<close> is the time.
\<close>

inductive lease_step ::
  "host_aliases \<Rightarrow> 'w executor \<Rightarrow> DeviceLease \<Rightarrow> 'w rt_state \<times> real \<Rightarrow> 'w rt_state \<times> real \<Rightarrow> bool"
  for h exec dl where
  own_record: "record_attempt_dir (Some d) t dl (rt_leases s) = Inr ld \<Longrightarrow>
    lease_step h exec dl (s, t) (s\<lparr>rt_leases := ld\<rparr>, t)"
| own_forget: "forget_attempt_dir (Some d) t dl (rt_leases s) = Inr ld \<Longrightarrow>
    lease_step h exec dl (s, t) (s\<lparr>rt_leases := ld\<rparr>, t)"
| own_beat: "dl_heartbeat_path dl = Some hb \<Longrightarrow>
    lease_step h exec dl (s, t) (s\<lparr>rt_leases := sidecar_beat hb tok stamp t (rt_leases s)\<rparr>, t)"
| tick: "t \<le> t' \<Longrightarrow> fresh_beat dl t' (rt_leases s) \<Longrightarrow> lease_step h exec dl (s, t) (s, t')"
| other_acquire: "token_ok tok2 \<Longrightarrow> Some tok2 \<noteq> dl_owner_token dl \<Longrightarrow>
    acquire tok2 pid t0 t beat dl2 (rt_leases s) = (r, ld) \<Longrightarrow>
    lease_step h exec dl (s, t) (s\<lparr>rt_leases := ld\<rparr>, t)"
| other_record: "other_instance dl dl2 \<Longrightarrow> record_attempt_dir d t dl2 (rt_leases s) = Inr ld \<Longrightarrow>
    lease_step h exec dl (s, t) (s\<lparr>rt_leases := ld\<rparr>, t)"
| other_forget: "other_instance dl dl2 \<Longrightarrow> forget_attempt_dir d t dl2 (rt_leases s) = Inr ld \<Longrightarrow>
    lease_step h exec dl (s, t) (s\<lparr>rt_leases := ld\<rparr>, t)"
| other_release: "other_instance dl dl2 \<Longrightarrow>
    lease_step h exec dl (s, t) (s\<lparr>rt_leases := snd (release dl2 (rt_leases s))\<rparr>, t)"
| other_beat: "Some hb2 \<noteq> dl_heartbeat_path dl \<Longrightarrow>
    lease_step h exec dl (s, t) (s\<lparr>rt_leases := sidecar_beat hb2 tok2 stamp t (rt_leases s)\<rparr>, t)"
| collect: "gc_one h alive exec client opts t cand s = (r, s') \<Longrightarrow>
    lease_step h exec dl (s, t) (s', t)"
| device: "lease_step h exec dl (s, t) (s\<lparr>rt_world := w\<rparr>, t)"

lemma lease_step_live:
  assumes "lease_step h exec dl p q" "live_at h dl (snd p) (rt_leases (fst p))"
  shows "live_at h dl (snd q) (rt_leases (fst q))"
  using assms
proof (induction rule: lease_step.induct)
  case (own_record d t s ld)
  then have l: "live_record h dl (rt_leases s)" by (simp add: live_at_def)
  then have hd: "held dl (rt_leases s)" by (rule live_recordE)
  from own_record record_keeps_live [OF l own_record(1)] show ?case
    by (auto simp: live_at_def fresh_beat_def record_attempt_dir_held [OF hd] put_owner_def)
next
  case (own_forget d t s ld)
  then have l: "live_record h dl (rt_leases s)" by (simp add: live_at_def)
  then have hd: "held dl (rt_leases s)" by (rule live_recordE)
  from own_forget forget_keeps_live [OF l own_forget(1)] show ?case
    by (auto simp: live_at_def fresh_beat_def forget_attempt_dir_held [OF hd] put_owner_def)
next
  case (own_beat hb s t tok stamp)
  then have l: "live_record h dl (rt_leases s)" by (simp add: live_at_def)
  then have "0 < dl_interval dl" by (rule live_recordE)
  with own_beat l show ?case
    by (auto simp: live_at_def live_record_def fresh_beat_def held_def sidecar_beat_def put_heartbeat_def
        read_owner_def split: option.splits)
next
  case (tick t t' s)
  then show ?case by (simp add: live_at_def)
next
  case (other_acquire tok2 pid t0 t beat dl2 s r ld)
  then have "same_lease dl (rt_leases s) ld"
    by (intro acquire_same_lease) (auto simp: live_at_def)
  with other_acquire show ?case by (simp add: same_lease_live)
next
  case (other_record dl2 d t s ld)
  then have "same_lease dl (rt_leases s) ld"
    by (intro other_write_same_lease(1)) (auto simp: live_at_def)
  with other_record show ?case by (simp add: same_lease_live)
next
  case (other_forget dl2 d t s ld)
  then have "same_lease dl (rt_leases s) ld"
    by (intro other_write_same_lease(2)) (auto simp: live_at_def)
  with other_forget show ?case by (simp add: same_lease_live)
next
  case (other_release dl2 s t)
  then have "same_lease dl (rt_leases s) (snd (release dl2 (rt_leases s)))"
    by (intro other_release_same_lease) (auto simp: live_at_def)
  with other_release show ?case by (simp add: same_lease_live)
next
  case (other_beat hb2 s t tok2 stamp)
  then have "same_lease dl (rt_leases s) (sidecar_beat hb2 tok2 stamp t (rt_leases s))"
    using live_hb_some [of h dl "rt_leases s"]
    by (auto simp: same_lease_def sidecar_beat_def put_heartbeat_def live_at_def)
  with other_beat show ?case by (simp add: same_lease_live)
next
  case (collect alive client opts t cand s r s')
  have "same_lease dl (rt_leases s) (rt_leases s')"
    by (rule gc_one_same_lease [OF _ collect(1)]) (use collect(2) in simp)
  with collect show ?case by (simp add: same_lease_live)
qed simp


section \<open>Properties\<close>

text \<open>
  C1. A live lease is never taken away: from its acquisition on, along any run in which its
  sidecar never misses three beats in a row, whatever other processes acquire, write, release
  or collect, the lease keeps its owner record, is never classified stale, and a collection of
  it removes nothing and leaves the whole state as it is.
\<close>

theorem live_lease_survives:
  assumes "lease_identity_ok h dl0" "token_ok token"
    and "acquire token pid t0 now (Some (stamp, now)) dl0 ld = (Inr dl, ld1)"
    and "(lease_step h exec dl)\<^sup>*\<^sup>* (\<lparr>rt_leases = ld1, rt_world = w\<rparr>, now) (s, t)"
    and "0 < go_stale_after opts" "0 < go_invalid_grace_after opts" "sn_path cand = dl_path dl"
  shows "owns dl (read_owner dl (rt_leases s)) \<and>
    (\<exists>reason. gc_one h alive exec client opts t cand s = (Val (Skipped (dl_path dl) reason), s))"
proof -
  from acquire_live [OF assms(1-3)] have l: "live_record h dl ld1" by simp
  then have "0 < dl_interval dl" by (rule live_recordE)
  then have "live_at h dl now ld1"
    using assms(3) l by (auto simp: live_at_def fresh_beat_def acquire_Inr sidecar_beat_def put_heartbeat_def)
  with assms(4) have live: "live_at h dl t (rt_leases s)"
  proof (induction rule: rtranclp_induct2)
    case (step a b c d)
    then show ?case using lease_step_live by fastforce
  qed simp
  from live_not_stale [OF live assms(5,6)] obtain cur
    where cur: "lease_snapshot h alive t (go_stale_after opts) (go_invalid_grace_after opts) (dl_path dl)
      (rt_leases s) = Inr (Some cur)" "\<not> sn_stale cur" by blast
  have "held dl (rt_leases s)" using live unfolding live_at_def by (blast elim: live_recordE)
  then have "owns dl (read_owner dl (rt_leases s))" by (simp add: held_def)
  with cur assms(7) show ?thesis by (simp add: gc_one_def Let_def)
qed

lemma demo_acquired_now:
  "\<exists>ld1. acquire demo_token 7 ''t'' 100 (Some (''1'', 100)) demo_lease empty_leases = (Inr held_lease, ld1)"
  by (simp add: acquire_def empty_leases_def held_lease_def Let_def)

theorem live_lease_survives_witness:
  "\<exists>ld1 cand reason.
     acquire demo_token 7 ''t'' 100 (Some (''1'', 100)) demo_lease empty_leases = (Inr held_lease, ld1) \<and>
     gc_one sample_aliases (\<lambda>_. False) quiet_device None
       \<lparr>go_dry_run = True, go_stale_after = 1, go_invalid_grace_after = 1\<rparr> 115 cand
       \<lparr>rt_leases = ld1, rt_world = ()\<rparr> =
     (Val (Skipped (dl_path held_lease) reason), \<lparr>rt_leases = ld1, rt_world = ()\<rparr>)"
proof -
  from demo_acquired_now obtain ld1
    where a: "acquire demo_token 7 ''t'' 100 (Some (''1'', 100)) demo_lease empty_leases = (Inr held_lease, ld1)"
    by blast
  let ?s = "\<lparr>rt_leases = ld1, rt_world = ()\<rparr>"
  have "fresh_beat held_lease 115 ld1"
    using a by (auto simp: fresh_beat_def acquire_def empty_leases_def Let_def sidecar_beat_def
        put_heartbeat_def held_lease_def demo_lease_def)
  then have "lease_step sample_aliases quiet_device held_lease (?s, 100) (?s, 115)"
    by (intro tick) simp_all
  then have run: "(lease_step sample_aliases quiet_device held_lease)\<^sup>*\<^sup>* (?s, 100) (?s, 115)" by blast
  let ?cand = "\<lparr>sn_path = dl_path held_lease, sn_data = None,
    sn_cas_token = \<lparr>of_ino = 0, of_mtime = 0, of_content = None\<rparr>, sn_owner_token = None,
    sn_heartbeat_path = None, sn_stale = True, sn_stale_reason = None\<rparr>"
  have "\<exists>reason. gc_one sample_aliases (\<lambda>_. False) quiet_device None
       \<lparr>go_dry_run = True, go_stale_after = 1, go_invalid_grace_after = 1\<rparr> 115 ?cand ?s =
     (Val (Skipped (dl_path held_lease) reason), ?s)"
    using live_lease_survives [OF demo_identity demo_token_ok a run,
        of "\<lparr>go_dry_run = True, go_stale_after = 1, go_invalid_grace_after = 1\<rparr>" ?cand] by simp
  with a show ?thesis by blast
qed

lemma gc_all_dry: "go_dry_run opts \<Longrightarrow> snd (gc_all h alive exec client opts now cs s) = s"
proof (induction cs arbitrary: s)
  case (Cons c cs)
  have one: "snd (gc_one h alive exec client opts now c s) = s" for s
    using Cons.prems by (auto simp: gc_one_def Let_def eff_bind_def eff_return_def split: sum.splits option.splits)
  obtain r s1 where g: "gc_one h alive exec client opts now c s = (r, s1)" by fastforce
  with one [of s] have "s1 = s" by simp
  moreover have "snd (gc_all h alive exec client opts now cs s) = s" by (rule Cons.IH [OF Cons.prems])
  ultimately show ?case
    using g by (cases "gc_all h alive exec client opts now cs s")
      (auto simp: eff_bind_def eff_return_def split: outcome.split)
qed (simp add: eff_return_def)

text \<open>
  A dry run changes nothing: no lease, no heartbeat, no command on the device.
\<close>

theorem gc_dry_run_pure:
  assumes "go_dry_run opts"
  shows "snd (device_gc h alive exec client opts declared t1 t2 s) = s"
proof -
  obtain r s1 where g: "scan h alive opts t1 s = (r, s1)" by fastforce
  then have "s1 = s" by (auto simp: scan_def eff_lift_def)
  moreover have "snd (gc_all h alive exec client opts t2 cs s) = s" for cs
    using assms by (rule gc_all_dry)
  ultimately show ?thesis
    using g assms
    by (cases client) (simp_all add: device_gc_def eff_bind_def eff_return_def split: outcome.split)
qed

theorem gc_dry_run_pure_witness:
  "snd (device_gc sample_aliases (\<lambda>_. False) quiet_device None
      \<lparr>go_dry_run = True, go_stale_after = 1, go_invalid_grace_after = 1\<rparr> [] 999 999
      \<lparr>rt_leases = held_dir, rt_world = ()\<rparr>) = \<lparr>rt_leases = held_dir, rt_world = ()\<rparr>"
  by (rule gc_dry_run_pure) simp


lemma snapshot_cas:
  "lease_snapshot h alive now sa gr p ld = Inr (Some cur) \<Longrightarrow> map_of (ld_owners ld) p = Some (sn_cas_token cur)"
  by (auto simp: lease_snapshot_def res_simps Let_def split: option.splits json.splits if_splits prod.splits)

lemma gc_one_Val:
  assumes "gc_one h alive exec client opts now cand s = (r, s')" "rt_leases s' \<noteq> rt_leases s"
  shows "\<exists>ds reason. r = Val (Cleaned (sn_path cand) ds True reason)"
proof -
  have k: "rt_leases (snd (eff_foreach ds (remove_exact (on_device exec) c) s)) = rt_leases s" for ds c
    by (rule keepsD [OF keeps_remove_on_device [of "\<lambda>ld. ld = rt_leases s"]]) simp
  from gc_one_frame [OF assms(1)] assms(2) obtain cur
    where cur: "lease_snapshot h alive now (go_stale_after opts) (go_invalid_grace_after opts) (sn_path cand)
        (rt_leases s) = Inr (Some cur)" "\<not> go_dry_run opts" by auto
  let ?data = "case sn_data cur of None \<Rightarrow> [] | Some d \<Rightarrow> d"
  obtain r1 s1 where rm: "eff_foreach (recorded_attempts ?data)
      (\<lambda>d. remove_exact (on_device exec) (the client) d) s = (r1, s1)" by fastforce
  have "rt_leases s1 = rt_leases s" using k [of "recorded_attempts ?data" "the client"] rm by simp
  with cur rm assms show ?thesis
    by (cases r1) (auto simp: gc_one_def Let_def eff_bind_def eff_return_def on_leases_def
        split: if_splits sum.splits)
qed

text \<open>
  C7. Collection is a compare-and-swap: it changes the leases directory only when the owner
  file found under the lock is the very file the scan saw (inode, time and content), is stale
  now, and every removal on the device succeeded; then it removes that record and its own
  heartbeat. A failed or interrupted removal keeps the record, so no recovery pointer is lost.
\<close>

theorem gc_compare_and_swap:
  assumes "gc_one h alive exec client opts now cand s = (r, s')" "rt_leases s' \<noteq> rt_leases s"
  shows "map_of (ld_owners (rt_leases s)) (sn_path cand) = Some (sn_cas_token cand) \<and>
    (\<exists>cur. lease_snapshot h alive now (go_stale_after opts) (go_invalid_grace_after opts) (sn_path cand)
       (rt_leases s) = Inr (Some cur) \<and> sn_stale cur) \<and>
    \<not> go_dry_run opts \<and> (\<exists>ds reason. r = Val (Cleaned (sn_path cand) ds True reason)) \<and>
    map_of (ld_owners (rt_leases s')) = (map_of (ld_owners (rt_leases s)))(sn_path cand := None)"
  using gc_one_frame [OF assms(1)] gc_one_Val [OF assms] assms(2) snapshot_cas
  by (fastforce simp: unlink_owner_def unlink_heartbeat_def split: option.splits)

definition stale_cand :: LeaseSnapshot where
  "stale_cand = \<lparr>sn_path = dl_path held_lease, sn_data = Some (owner_payload demo_lease demo_token 7 ''t''),
     sn_cas_token = the (map_of (ld_owners held_dir) (dl_path held_lease)), sn_owner_token = Some demo_token,
     sn_heartbeat_path = dl_heartbeat_path held_lease, sn_stale = True, sn_stale_reason = Some ''heartbeat_stale''\<rparr>"

theorem gc_compare_and_swap_witness:
  "\<exists>s' ds reason. gc_one sample_aliases (\<lambda>_. False) quiet_device (Some demo_config)
      \<lparr>go_dry_run = False, go_stale_after = 30, go_invalid_grace_after = 30\<rparr> 500 stale_cand
      \<lparr>rt_leases = held_dir, rt_world = ()\<rparr> = (Val (Cleaned (dl_path held_lease) ds True reason), s')"
proof -
  let ?s = "\<lparr>rt_leases = held_dir, rt_world = ()\<rparr>"
  let ?o = "\<lparr>go_dry_run = False, go_stale_after = 30, go_invalid_grace_after = 30\<rparr>"
  from live_snapshot [OF demo_live(1), of 30 30 "\<lambda>_. False" 500] demo_held demo_beat
  obtain cur f where cur: "lease_snapshot sample_aliases (\<lambda>_. False) 500 30 30 (dl_path held_lease) held_dir = Inr (Some cur)"
    and f: "sn_cas_token cur = the (map_of (ld_owners held_dir) (dl_path held_lease))"
      "sn_owner_token cur = Some demo_token" "sn_stale cur"
      "sn_data cur = Some (owner_payload demo_lease demo_token 7 ''t'')"
    by (auto simp: held_lease_def demo_lease_def)
  have cd: "configured_device sample_aliases demo_config ''localhost:5037'' (owner_payload demo_lease demo_token 7 ''t'')"
    by (simp add: configured_device_def recorded_server_def owner_payload_def demo_lease_def demo_canonical
        demo_config_def)
  have ra: "recorded_attempts (owner_payload demo_lease demo_token 7 ''t'') = []"
    by (simp add: recorded_attempts_def owner_payload_def map_filter_def)
  have es: "expected_server sample_aliases (Some demo_config) = Inr ''localhost:5037''"
    by (simp add: expected_server_def demo_config_def demo_canonical)
  let ?t = "\<lparr>rt_leases = unlink_owner (dl_path held_lease)
      (unlink_heartbeat (sn_heartbeat_path cur) held_dir), rt_world = ()\<rparr>"
  have g: "gc_one sample_aliases (\<lambda>_. False) quiet_device (Some demo_config) ?o 500 stale_cand ?s =
      (Val (Cleaned (dl_path held_lease) [] True (sn_stale_reason cur)), ?t)"
    using cur f cd ra es
    by (simp add: gc_one_def Let_def stale_cand_def eff_bind_def eff_return_def on_leases_def)
  have "map_of (ld_owners held_dir) (dl_path held_lease) \<noteq> None"
    using live_has_owner [OF demo_live(1)] .
  moreover have "map_of (ld_owners (rt_leases ?t)) (dl_path held_lease) = None"
    by (simp add: unlink_owner_def)
  ultimately have "rt_leases ?t \<noteq> rt_leases ?s" by auto
  from gc_compare_and_swap [OF g this] g show ?thesis by blast
qed


section \<open>The health report\<close>

text \<open>
  \<open>float(s)\<close> on decimal texts with an optional sign and fraction (the texts \<open>df\<close> prints;
  exponents, infinities and digit separators are not modelled).
\<close>

definition py_float :: "string \<Rightarrow> real option" where
  "py_float txt =
    (let s = py_strip txt;
         neg = py_startswith s ''-'';
         body = (if neg \<or> py_startswith s ''+'' then tl s else s);
         digits = (case py_split (CHR ''.'') body of
             [a] \<Rightarrow> if py_isdigit a then Some (real (undec a)) else None
           | [a, b] \<Rightarrow> if a @ b \<noteq> [] \<and> list_all py_isdigit_char (a @ b)
               then Some (real (undec (a @ b)) / 10 ^ length b) else None
           | _ \<Rightarrow> None)
     in map_option (\<lambda>r. if neg then - r else r) digits)"

definition size_multiplier :: "char \<Rightarrow> real option" where
  "size_multiplier c =
     (if c \<in> set ''Kk'' then Some 1 else if c \<in> set ''Mm'' then Some 1024
      else if c \<in> set ''Gg'' then Some (1024 * 1024)
      else if c \<in> set ''Tt'' then Some (1024 * 1024 * 1024) else None)"

definition parse_size_kb :: "string \<Rightarrow> int option" where
  "parse_size_kb raw =
    (let token = py_strip raw in
     if token = [] then None
     else
       let (number, factor) = (case size_multiplier (last token) of
           Some m \<Rightarrow> (butlast token, m) | None \<Rightarrow> (token, 1))
       in map_option (\<lambda>r. py_int_of_float (r * factor)) (py_float number))"

definition FREE_SPACE_COLUMNS :: "string list" where
  "FREE_SPACE_COLUMNS = [''available'', ''avail'', ''free'']"

fun column_of :: "nat \<Rightarrow> string list \<Rightarrow> nat" where
  "column_of i [] = 3"
| "column_of i (t # ts) = (if t \<in> set FREE_SPACE_COLUMNS then i else column_of (Suc i) ts)"

fun find_header :: "string list \<Rightarrow> string list \<Rightarrow> nat \<times> string list" where
  "find_header lines [] = (3, lines)"
| "find_header lines (l # ls) =
    (let tokens = map py_lower (py_words l) in
     if tokens = [] \<or> hd tokens \<noteq> ''filesystem'' then find_header lines ls
     else (column_of 0 tokens, ls))"

definition parse_field :: "string list \<Rightarrow> nat \<Rightarrow> int option" where
  "parse_field fs i = (if i < length fs then parse_size_kb (fs ! i) else None)"

fun first_free :: "nat \<Rightarrow> string list \<Rightarrow> int option" where
  "first_free column [] = None"
| "first_free column (l # ls) =
    (let fs = py_words l in
     case parse_field fs column of
       Some n \<Rightarrow> Some n
     | None \<Rightarrow> (case (if column = 0 then None else parse_field fs (column - 1)) of
           Some n \<Rightarrow> Some n | None \<Rightarrow> first_free column ls))"

definition free_space_of :: "string \<Rightarrow> int option" where
  "free_space_of out =
    (let lines = filter (\<lambda>l. py_strip l \<noteq> []) (py_splitlines out);
         (column, data_lines) = find_header lines lines
     in first_free column data_lines)"

definition free_space_kb :: "'w executor \<Rightarrow> AdbConfig \<Rightarrow> ('w, int option) eff" where
  "free_space_kb exec c = eff_bind (shell exec c ''df /data/local/tmp'') (\<lambda>result.
     eff_return (free_space_of (cr_stdout result)))"

text \<open>\<open>try: ... except Exception\<close> with the exception captured.\<close>

definition eff_try :: "('w, 'a) eff \<Rightarrow> ('w, exn + 'a) eff" where
  "eff_try m = eff_catch (eff_bind m (\<lambda>x. eff_return (Inr x))) (\<lambda>e. eff_return (Inl e))"

record health_report =
  hr_ok :: bool
  hr_device_identifier :: string
  hr_checks :: "(string \<times> bool) list"

definition ok_if :: "('a \<Rightarrow> bool) \<Rightarrow> exn + 'a \<Rightarrow> bool" where
  "ok_if P r = (case r of Inl _ \<Rightarrow> False | Inr x \<Rightarrow> P x)"

text \<open>
  \<open>target\<close> is the resolved registry entry or \<open>None\<close> when it does not resolve; builds are
  the given (or default) and the expected SDK build.
\<close>

definition device_doctor ::
  "'w executor \<Rightarrow> AdbConfig \<Rightarrow> string \<Rightarrow> string \<Rightarrow> TargetEntry option \<Rightarrow> bool \<Rightarrow> int
   \<Rightarrow> ('w, health_report) eff"
where
  "device_doctor exec c sdk_build expected_sdk_build target qualifying min_free_kb =
     eff_bind (eff_try (devices exec c)) (\<lambda>serials.
     eff_bind (eff_try (device_state exec c)) (\<lambda>state.
     eff_bind (case target of None \<Rightarrow> eff_return (Inl value_error)
         | Some entry \<Rightarrow> eff_try (verify_device_soc exec c entry (ac_serial c) qualifying)) (\<lambda>soc.
     eff_bind (eff_try (free_space_kb exec c)) (\<lambda>free.
     let checks =
       [(''server_reachable'', ok_if (\<lambda>_. True) serials),
        (''device_present'', ok_if (\<lambda>ss. ac_serial c \<in> set ss) serials),
        (''device_state'', ok_if (\<lambda>st. st = ''device'') state),
        (''target_resolved'', True),
        (''device_soc'', ok_if (\<lambda>_. True) soc),
        (''remote_free_space'', ok_if (\<lambda>f. case f of None \<Rightarrow> False | Some kb \<Rightarrow> kb \<ge> min_free_kb) free),
        (''sdk_compatible'', sdk_build = expected_sdk_build)]
     in eff_return \<lparr>hr_ok = list_all snd checks, hr_device_identifier = device_identifier c,
          hr_checks = checks\<rparr>))))"

definition require_healthy :: "health_report \<Rightarrow> exn + unit" where
  "require_healthy r = ensure (hr_ok r) (device_error True)"

lemma eff_try_not_exc: "fst (eff_try m w) \<noteq> Exc e"
  by (auto simp: eff_try_def eff_catch_def eff_bind_def eff_return_def split: prod.split outcome.split)

lemma eff_bind_not_exc:
  "(\<And>w e. fst (m w) \<noteq> Exc e) \<Longrightarrow> (\<And>x w e. fst (f x w) \<noteq> Exc e) \<Longrightarrow> fst (eff_bind m f w) \<noteq> Exc e"
  by (auto simp: eff_bind_def split: prod.split outcome.split) (metis fst_conv)+

text \<open>
  The doctor reports, it never raises: whatever the commands do, it returns a report with
  all seven checks unless the process is killed, and \<open>require_healthy\<close> raises exactly on a
  report with a failed check; the report is healthy only on the expected SDK build.
\<close>

theorem doctor_never_raises:
  "case device_doctor exec c build expected target q min_kb w of
     (Val report, w') \<Rightarrow>
       map fst (hr_checks report) = [''server_reachable'', ''device_present'', ''device_state'',
         ''target_resolved'', ''device_soc'', ''remote_free_space'', ''sdk_compatible''] \<and>
       is_ok (require_healthy report) = list_all snd (hr_checks report) \<and>
       snd (last (hr_checks report)) = (build = expected)
   | (Exc e, w') \<Rightarrow> False
   | (Dead, w') \<Rightarrow> True"
proof -
  let ?d = "device_doctor exec c build expected target q min_kb w"
  have ne: "fst ?d \<noteq> Exc e" for e
    unfolding device_doctor_def
    by (intro eff_bind_not_exc eff_try_not_exc)
      (auto simp: eff_return_def Let_def eff_try_not_exc split: option.split)
  obtain r w' where d: "?d = (r, w')" by fastforce
  show ?thesis
  proof (cases r)
    case (Val report)
    then have "\<exists>a b c' d' f.
        hr_checks report = [(''server_reachable'', a), (''device_present'', b), (''device_state'', c'),
          (''target_resolved'', True), (''device_soc'', d'), (''remote_free_space'', f),
          (''sdk_compatible'', build = expected)] \<and> hr_ok report = list_all snd (hr_checks report)"
      using d by (auto simp: device_doctor_def eff_bind_Val eff_return_iff Let_def)
    with d Val show ?thesis by (auto simp: require_healthy_def)
  qed (use ne d in auto)
qed

end
