(* ===== verification/NativeKv.thy ===== *)
theory NativeKv
  imports PyValues Paths "HOL-Library.List_Lexorder" "HOL-Library.Char_ord"
begin

text \<open>
  \<open>src/qairt_agent/qairt_adapter/native_kv.py\<close> and the native-KV records of
  \<open>qairt_adapter/types.py\<close>: the cache tensors the SDK selected are renamed to the graph names of
  the build and filtered by role, and the configuration the compiler receives is audited. An
  issue of the audit is a constructor with the names its text mentions.
\<close>

section \<open>Expectations\<close>

record NativeKvGraphExpectation =
  ne_graph_name :: string
  ne_ar :: int
  ne_input_names :: "string list"
  ne_output_names :: "string list"
  ne_model_path :: "string option"

definition expectation_to_dict :: "NativeKvGraphExpectation \<Rightarrow> (string \<times> json) list" where
  "expectation_to_dict e =
     [(''graph_name'', JStr (ne_graph_name e)), (''ar'', JInt (ne_ar e)),
      (''input_names'', JList (map JStr (ne_input_names e))),
      (''output_names'', JList (map JStr (ne_output_names e))),
      (''model_path'', case ne_model_path e of None \<Rightarrow> JNull | Some p \<Rightarrow> JStr p)]"

definition expectation_from_dict ::
  "(json \<Rightarrow> string) \<Rightarrow> (string \<times> json) list \<Rightarrow> exn + NativeKvGraphExpectation" where
  "expectation_from_dict repr d =
     bind_res (json_item d ''graph_name'') (\<lambda>name.
     bind_res (json_item d ''ar'') (\<lambda>raw_ar. bind_res (py_int raw_ar) (\<lambda>ar.
     bind_res (json_item d ''input_names'') (\<lambda>ins. bind_res (py_strs repr ins) (\<lambda>inputs.
     bind_res (json_item d ''output_names'') (\<lambda>outs. bind_res (py_strs repr outs) (\<lambda>outputs.
     Inr \<lparr>ne_graph_name = py_str repr name, ne_ar = ar, ne_input_names = inputs, ne_output_names = outputs,
       ne_model_path = (if json_get d ''model_path'' = JNull then None
         else Some (py_str repr (json_get d ''model_path'')))\<rparr>)))))))"

section \<open>The selection\<close>

definition NATIVE_KV_DATA_FORMAT :: string where
  "NATIVE_KV_DATA_FORMAT = ''QNN_TENSOR_DATA_FORMAT_HMX_WEIGHT_LAYOUT''"

definition NON_CACHE_ROLE_TOKENS :: "string list" where
  "NON_CACHE_ROLE_TOKENS = [''recurrent_state'', ''conv_state'', ''mask'', ''padding'', ''position'',
     ''index'', ''length'', ''scale'', ''offset'']"

definition is_non_cache_role :: "string \<Rightarrow> bool" where
  "is_non_cache_role name \<longleftrightarrow> list_ex (py_contains (py_lower name)) NON_CACHE_ROLE_TOKENS"

definition native_kv_error :: exn where
  "native_kv_error = PyExn ''NativeKvConfigError'' []"

text \<open>A configuration given as a mapping or as the path of a file.\<close>

datatype kv_config = KvMapping "(string \<times> json) list" | KvPath string

text \<open>\<open>load\<close> reads and parses a file; an undecodable file raises past the handler.\<close>

definition load_config :: "(string \<Rightarrow> exn + json) \<Rightarrow> kv_config \<Rightarrow> exn + (string \<times> json) list" where
  "load_config load config = (case config of
     KvMapping d \<Rightarrow> Inr d
   | KvPath path \<Rightarrow> (case load path of
       Inl (PyExn cls msg) \<Rightarrow>
         if cls \<in> {''OSError'', ''JSONDecodeError''} then Inl native_kv_error else Inl (PyExn cls msg)
     | Inl e \<Rightarrow> Inl e
     | Inr document \<Rightarrow> (case as_obj document of None \<Rightarrow> Inl native_kv_error | Some d \<Rightarrow> Inr d)))"

definition by_stem :: "NativeKvGraphExpectation list \<Rightarrow> (string \<times> NativeKvGraphExpectation) list" where
  "by_stem es = dict_of (List.map_filter (\<lambda>e. map_option (\<lambda>p. (path_stem p, e)) (ne_model_path e)) es)"

text \<open>The tensors of one graph: those kept, and the names the role filter removed.\<close>

fun normalize_tensors :: "(json \<Rightarrow> string) \<Rightarrow> string \<Rightarrow> json list \<Rightarrow> exn + json list \<times> (string \<times> string) list" where
  "normalize_tensors repr stem [] = Inr ([], [])"
| "normalize_tensors repr stem (raw # rest) = (case as_obj raw of
     None \<Rightarrow> Inl attribute_error
   | Some t \<Rightarrow>
       let name = py_str repr (json_get_or t ''tensor_name'' (JStr []));
           format = py_str repr (json_get_or t ''dataFormat'' (JStr NATIVE_KV_DATA_FORMAT))
       in bind_res (normalize_tensors repr stem rest) (\<lambda>(tensors, removed).
          if is_non_cache_role name then Inr (tensors, (stem, name) # removed)
          else Inr (JObj [(''tensor_name'', JStr name), (''dataFormat'', JStr format)] # tensors, removed)))"

fun normalize_graphs ::
  "(json \<Rightarrow> string) \<Rightarrow> (string \<times> NativeKvGraphExpectation) list \<Rightarrow> json list \<Rightarrow>
   exn + json list \<times> (string \<times> string) list" where
  "normalize_graphs repr stems [] = Inr ([], [])"
| "normalize_graphs repr stems (raw # rest) = (case as_obj raw of
     None \<Rightarrow> Inl native_kv_error
   | Some g \<Rightarrow>
       let stem = py_str repr (json_get_or g ''graph_name'' (JStr []));
           name = (case map_of stems stem of None \<Rightarrow> stem | Some e \<Rightarrow> ne_graph_name e)
       in bind_res (py_iter (json_get_or g ''tensors'' (JList []))) (\<lambda>raws.
          bind_res (normalize_tensors repr stem raws) (\<lambda>(tensors, removed).
          bind_res (normalize_graphs repr stems rest) (\<lambda>(graphs, removed').
          Inr (if tensors \<noteq> [] then JObj [(''graph_name'', JStr name), (''tensors'', JList tensors)] # graphs
               else graphs, removed @ removed')))))"

definition normalize_sdk_kv_config ::
  "(json \<Rightarrow> string) \<Rightarrow> (string \<times> json) list \<Rightarrow> NativeKvGraphExpectation list \<Rightarrow>
   exn + (string \<times> json) list \<times> (string \<times> string) list" where
  "normalize_sdk_kv_config repr sdk_config expectations =
     bind_res (py_iter (json_get_or sdk_config ''graphs'' (JList []))) (\<lambda>raws.
     bind_res (normalize_graphs repr (by_stem expectations) raws) (\<lambda>(graphs, removed).
     Inr ([(''graphs'', JList graphs)], removed)))"

definition tensor_names :: "(json \<Rightarrow> string) \<Rightarrow> json list \<Rightarrow> string list" where
  "tensor_names repr ts = List.map_filter
     (\<lambda>t. map_option (\<lambda>d. py_str repr (json_get_or d ''tensor_name'' (JStr []))) (as_obj t)) ts"

definition expected_tensors ::
  "(json \<Rightarrow> string) \<Rightarrow> (string \<times> json) list \<Rightarrow> exn + (string \<times> string list) list" where
  "expected_tensors repr config =
     bind_res (py_iter (json_get_or config ''graphs'' (JList []))) (\<lambda>raws.
     bind_res (map_res (\<lambda>g. bind_res (py_iter (json_get_or g ''tensors'' (JList []))) (\<lambda>ts.
         Inr (py_str repr (json_get_or g ''graph_name'' (JStr [])), tensor_names repr ts)))
       (List.map_filter as_obj raws)) (\<lambda>entries.
     Inr (dict_of entries)))"

section \<open>The audit\<close>

datatype kv_issue =
    GraphsNotAList
  | GraphNotAnObject nat
  | InvalidGraphName nat
  | DuplicateGraph string
  | NoTensorsList string
  | TensorNotAnObject string nat
  | InvalidTensorName string nat
  | RepeatedTensor string string
  | NotACacheTensor string string
  | WrongDataFormat string string
  | MissingGraph string
  | UnexpectedGraph string
  | MissingTensors string "string list"
  | UnexpectedTensors string "string list"
  | NothingToEnable string
  | NoTensorsAtAll

record NativeKvAuditReport =
  nr_issues :: "kv_issue list"
  nr_graph_names :: "string list"
  nr_tensor_count :: nat

definition report_ok :: "NativeKvAuditReport \<Rightarrow> bool" where
  "report_ok r \<longleftrightarrow> nr_issues r = []"

text \<open>A field that is a non-empty text.\<close>

definition text_field :: "(string \<times> json) list \<Rightarrow> string \<Rightarrow> string option" where
  "text_field d k = (case json_get d k of JStr s \<Rightarrow> if s = [] then None else Some s | _ \<Rightarrow> None)"

definition tensor_issues :: "string \<Rightarrow> string list \<Rightarrow> string \<Rightarrow> json \<Rightarrow> kv_issue list" where
  "tensor_issues graph names name format =
     (if name \<in> set names then [RepeatedTensor graph name] else []) @
     (if is_non_cache_role name then [NotACacheTensor graph name] else []) @
     (if format \<noteq> JStr NATIVE_KV_DATA_FORMAT then [WrongDataFormat graph name] else [])"

text \<open>The issues of the tensors of a graph and the names seen.\<close>

fun audit_tensors :: "string \<Rightarrow> nat \<Rightarrow> string list \<Rightarrow> json list \<Rightarrow> kv_issue list \<times> string list" where
  "audit_tensors graph i names [] = ([], names)"
| "audit_tensors graph i names (raw # rest) =
    (case as_obj raw of
       None \<Rightarrow> (let (issues, names') = audit_tensors graph (Suc i) names rest
               in (TensorNotAnObject graph i # issues, names'))
     | Some t \<Rightarrow> (case text_field t ''tensor_name'' of
         None \<Rightarrow> (let (issues, names') = audit_tensors graph (Suc i) names rest
                 in (InvalidTensorName graph i # issues, names'))
       | Some name \<Rightarrow> (let (issues, names') = audit_tensors graph (Suc i) (names @ [name]) rest
                      in (tensor_issues graph names name (json_get t ''dataFormat'') @ issues, names'))))"

text \<open>One graph: its issues, and its entry unless it is skipped.\<close>

definition audit_graph ::
  "(string \<times> string list) list \<Rightarrow> nat \<Rightarrow> json \<Rightarrow> kv_issue list \<times> (string \<times> string list) option" where
  "audit_graph table i raw = (case as_obj raw of
     None \<Rightarrow> ([GraphNotAnObject i], None)
   | Some g \<Rightarrow> (case text_field g ''graph_name'' of
       None \<Rightarrow> ([InvalidGraphName i], None)
     | Some name \<Rightarrow>
         if map_of table name \<noteq> None then ([DuplicateGraph name], None)
         else (case json_get g ''tensors'' of
           JList (t # ts) \<Rightarrow> (let (issues, names) = audit_tensors name 0 [] (t # ts) in (issues, Some (name, names)))
         | _ \<Rightarrow> ([NoTensorsList name], Some (name, [])))))"

fun audit_graphs ::
  "(string \<times> string list) list \<Rightarrow> nat \<Rightarrow> nat \<Rightarrow> json list \<Rightarrow> kv_issue list \<times> (string \<times> string list) list \<times> nat" where
  "audit_graphs table count i [] = ([], table, count)"
| "audit_graphs table count i (raw # rest) =
    (let (issues, entry) = audit_graph table i raw;
         (issues', table', count') = (case entry of
            None \<Rightarrow> audit_graphs table count (Suc i) rest
          | Some (name, names) \<Rightarrow> audit_graphs (dict_set name names table) (count + length names) (Suc i) rest)
     in (issues @ issues', table', count'))"

definition sorted_difference :: "string list \<Rightarrow> string list \<Rightarrow> string list" where
  "sorted_difference xs ys = sort (dedup (filter (\<lambda>x. x \<notin> set ys) xs))"

definition expectation_issues :: "(string \<times> string list) list \<Rightarrow> string \<times> string list \<Rightarrow> kv_issue list" where
  "expectation_issues table = (\<lambda>(graph, tensors).
     let actual = (case map_of table graph of None \<Rightarrow> [] | Some names \<Rightarrow> names);
         missing = sorted_difference tensors actual;
         extra = sorted_difference actual tensors
     in (if missing \<noteq> [] then [MissingTensors graph missing] else []) @
        (if extra \<noteq> [] then [UnexpectedTensors graph extra] else []) @
        (if tensors = [] then [NothingToEnable graph] else []))"

definition audit_native_kv_config ::
  "(string \<Rightarrow> exn + json) \<Rightarrow> kv_config \<Rightarrow> (string \<times> string list) list option \<Rightarrow> string list \<Rightarrow> bool \<Rightarrow>
   exn + NativeKvAuditReport" where
  "audit_native_kv_config load config expected expected_graph_names require_nonempty =
     bind_res (load_config load config) (\<lambda>document.
     let raw_graphs = (case json_get document ''graphs'' of JList l \<Rightarrow> Some l | _ \<Rightarrow> None);
         (issues, table, count) = audit_graphs [] 0 0 (case raw_graphs of None \<Rightarrow> [] | Some l \<Rightarrow> l);
         wanted = (case expected of None \<Rightarrow> [] | Some e \<Rightarrow> e);
         expected_names = expected_graph_names @ map fst wanted;
         actual_names = map fst table
     in Inr \<lparr>nr_issues =
           (if raw_graphs = None then [GraphsNotAList] else []) @ issues @
           map MissingGraph (sorted_difference expected_names actual_names) @
           (if expected_names \<noteq> [] then map UnexpectedGraph (sorted_difference actual_names expected_names) else []) @
           concat (map (expectation_issues table) wanted) @
           (if require_nonempty \<and> count = 0 then [NoTensorsAtAll] else []),
         nr_graph_names = actual_names, nr_tensor_count = count\<rparr>)"

definition require_native_kv_audit :: "NativeKvAuditReport \<Rightarrow> exn + NativeKvAuditReport" where
  "require_native_kv_audit r = bind_res (ensure (report_ok r) native_kv_error) (\<lambda>_. Inr r)"

end
