(* ===== verification/NativeKvProps.thy ===== *)
theory NativeKvProps
  imports NativeKv
begin

text \<open>
  What the native-KV audit accepts, stated independently of its loop, and that the selection of
  the SDK, renamed and filtered by role, is accepted.
\<close>

section \<open>The configurations the compiler may receive\<close>

definition hmx_tensor :: "json \<Rightarrow> string \<Rightarrow> bool" where
  "hmx_tensor t n \<longleftrightarrow> (case as_obj t of None \<Rightarrow> False | Some d \<Rightarrow> text_field d ''tensor_name'' = Some n \<and>
     json_get d ''dataFormat'' = JStr NATIVE_KV_DATA_FORMAT \<and> \<not> is_non_cache_role n)"

definition hmx_graph :: "json \<Rightarrow> string \<times> string list \<Rightarrow> bool" where
  "hmx_graph g = (\<lambda>(name, names). case as_obj g of None \<Rightarrow> False | Some d \<Rightarrow>
     text_field d ''graph_name'' = Some name \<and>
     (case json_get d ''tensors'' of JList ts \<Rightarrow> ts \<noteq> [] \<and> list_all2 hmx_tensor ts names \<and> distinct names
      | _ \<Rightarrow> False))"

definition hmx_config :: "(string \<times> json) list \<Rightarrow> (string \<times> string list) list \<Rightarrow> bool" where
  "hmx_config document table \<longleftrightarrow> (case json_get document ''graphs'' of
     JList l \<Rightarrow> list_all2 hmx_graph l table \<and> distinct (map fst table) | _ \<Rightarrow> False)"

definition or_none :: "'a list option \<Rightarrow> 'a list" where
  "or_none v = (case v of None \<Rightarrow> [] | Some xs \<Rightarrow> xs)"

definition as_expected ::
  "(string \<times> string list) list \<Rightarrow> (string \<times> string list) list option \<Rightarrow> string list \<Rightarrow> bool" where
  "as_expected table expected names \<longleftrightarrow>
     (names @ map fst (or_none expected) \<noteq> [] \<longrightarrow> set (names @ map fst (or_none expected)) = fst ` set table) \<and>
     (\<forall>(g, ts) \<in> set (or_none expected). ts \<noteq> [] \<and> set ts = set (or_none (map_of table g)))"

section \<open>The loops of the audit\<close>

lemma tensor_issues_Nil:
  "tensor_issues g names n f = [] \<longleftrightarrow> n \<notin> set names \<and> \<not> is_non_cache_role n \<and> f = JStr NATIVE_KV_DATA_FORMAT"
  by (simp add: tensor_issues_def)

lemma audit_tensors_clean:
  "audit_tensors g i names ts = ([], names') \<longleftrightarrow>
   (\<exists>ns. list_all2 hmx_tensor ts ns \<and> names' = names @ ns \<and> distinct ns \<and> set ns \<inter> set names = {})"
proof (induction ts arbitrary: i names)
  case Nil
  then show ?case by auto
next
  case (Cons t ts)
  show ?case
  proof (cases "\<exists>d n. as_obj t = Some d \<and> text_field d ''tensor_name'' = Some n")
    case False
    then have "\<not> hmx_tensor t n" for n by (auto simp: hmx_tensor_def split: option.splits)
    moreover have "fst (audit_tensors g i names (t # ts)) \<noteq> []"
      using False by (auto split: option.splits prod.splits)
    ultimately show ?thesis by (auto simp: list_all2_Cons1)
  next
    case True
    then obtain d n where d: "as_obj t = Some d" "text_field d ''tensor_name'' = Some n" by blast
    have "audit_tensors g i names (t # ts) = ([], names') \<longleftrightarrow>
      tensor_issues g names n (json_get d ''dataFormat'') = [] \<and> audit_tensors g (Suc i) (names @ [n]) ts = ([], names')"
      using d by (auto split: prod.splits)
    moreover have "hmx_tensor t m \<longleftrightarrow> m = n \<and> json_get d ''dataFormat'' = JStr NATIVE_KV_DATA_FORMAT \<and>
      \<not> is_non_cache_role n" for m
      using d by (auto simp: hmx_tensor_def)
    ultimately show ?thesis by (auto simp: Cons.IH tensor_issues_Nil list_all2_Cons1)
  qed
qed

lemma audit_graph_clean:
  "audit_graph table i raw = ([], entry) \<longleftrightarrow>
   (\<exists>e. entry = Some e \<and> hmx_graph raw e \<and> map_of table (fst e) = None)"
proof (cases "\<exists>d n t ts. as_obj raw = Some d \<and> text_field d ''graph_name'' = Some n \<and> json_get d ''tensors'' = JList (t # ts)")
  case True
  then obtain d n t ts where d: "as_obj raw = Some d" "text_field d ''graph_name'' = Some n"
    "json_get d ''tensors'' = JList (t # ts)" by blast
  have "audit_graph table i raw = ([], entry) \<longleftrightarrow> map_of table n = None \<and>
    (\<exists>names. audit_tensors n 0 [] (t # ts) = ([], names) \<and> entry = Some (n, names))"
    using d by (auto simp: audit_graph_def simp del: audit_tensors.simps split: prod.splits)
  moreover have "hmx_graph raw e \<longleftrightarrow> fst e = n \<and> list_all2 hmx_tensor (t # ts) (snd e) \<and> distinct (snd e)" for e
    using d by (auto simp: hmx_graph_def split: prod.splits)
  ultimately show ?thesis by (auto simp: audit_tensors_clean simp del: audit_tensors.simps)
next
  case False
  then have "fst (audit_graph table i raw) \<noteq> []"
    by (auto simp: audit_graph_def split: option.splits json.splits list.splits)
  moreover have "\<not> hmx_graph raw e" for e
    using False by (cases e; cases "as_obj raw") (auto simp: hmx_graph_def neq_Nil_conv split: json.splits)
  ultimately show ?thesis by auto
qed

lemma audit_graphs_clean:
  "audit_graphs table count i l = ([], table', count') \<longleftrightarrow>
   (\<exists>entries. list_all2 hmx_graph l entries \<and> table' = table @ entries \<and> distinct (map fst entries) \<and>
      fst ` set entries \<inter> fst ` set table = {} \<and> count' = count + length (concat (map snd entries)))"
proof (induction l arbitrary: table count i)
  case Nil
  then show ?case by auto
next
  case (Cons raw l)
  show ?case
  proof (cases "\<exists>e. audit_graph table i raw = ([], Some e)")
    case True
    then obtain n names where e: "audit_graph table i raw = ([], Some (n, names))" by auto
    then have h: "hmx_graph raw (n, names)" "map_of table n = None" by (auto simp: audit_graph_clean)
    have only: "hmx_graph raw e \<Longrightarrow> e = (n, names)" for e
    proof -
      assume "hmx_graph raw e"
      then have "audit_graph [] i raw = ([], Some e)" "audit_graph [] i raw = ([], Some (n, names))"
        using h(1) unfolding audit_graph_clean by auto
      then show "e = (n, names)" by simp
    qed
    have fresh: "dict_set n names table = table @ [(n, names)]"
      using h(2) by (intro dict_set_fresh) (simp add: map_of_eq_None_iff)
    have "audit_graphs table count i (raw # l) = audit_graphs (table @ [(n, names)]) (count + length names) (Suc i) l"
      using e fresh by (simp split: prod.splits)
    moreover have "n \<notin> fst ` set table" using h(2) by (simp add: map_of_eq_None_iff)
    moreover have "list_all2 hmx_graph (raw # l) entries \<longleftrightarrow> (\<exists>es. entries = (n, names) # es \<and> list_all2 hmx_graph l es)"
      for entries unfolding list_all2_Cons1 using h(1) only by blast
    ultimately have step: "audit_graphs table count i (raw # l) = ([], table', count') \<longleftrightarrow>
        (\<exists>es. list_all2 hmx_graph l es \<and> table' = (table @ [(n, names)]) @ es \<and> distinct (map fst es) \<and>
          fst ` set es \<inter> fst ` set (table @ [(n, names)]) = {} \<and>
          count' = (count + length names) + length (concat (map snd es)))"
      and entries: "\<And>entries. list_all2 hmx_graph (raw # l) entries \<longleftrightarrow>
        (\<exists>es. entries = (n, names) # es \<and> list_all2 hmx_graph l es)"
      and n: "n \<notin> fst ` set table"
      by (simp_all only: Cons.IH not_False_eq_True)
    show ?thesis
    proof
      assume "audit_graphs table count i (raw # l) = ([], table', count')"
      then obtain es where "list_all2 hmx_graph l es" "table' = (table @ [(n, names)]) @ es" "distinct (map fst es)"
        "fst ` set es \<inter> fst ` set (table @ [(n, names)]) = {}" "count' = (count + length names) + length (concat (map snd es))"
        unfolding step by blast
      with n h(1) show "\<exists>entries. list_all2 hmx_graph (raw # l) entries \<and> table' = table @ entries \<and> distinct (map fst entries) \<and>
          fst ` set entries \<inter> fst ` set table = {} \<and> count' = count + length (concat (map snd entries))"
        by (intro exI [of _ "(n, names) # es"]) (auto simp: entries)
    next
      assume "\<exists>entries. list_all2 hmx_graph (raw # l) entries \<and> table' = table @ entries \<and> distinct (map fst entries) \<and>
          fst ` set entries \<inter> fst ` set table = {} \<and> count' = count + length (concat (map snd entries))"
      then obtain es where "list_all2 hmx_graph l es" "table' = table @ (n, names) # es" "distinct (map fst ((n, names) # es))"
        "fst ` set ((n, names) # es) \<inter> fst ` set table = {}" "count' = count + length (concat (map snd ((n, names) # es)))"
        unfolding entries by blast
      with n show "audit_graphs table count i (raw # l) = ([], table', count')"
        unfolding step by (intro exI [of _ es]) auto
    qed
  next
    case False
    have "fst (audit_graph table i raw) \<noteq> [] \<or> (\<exists>e. audit_graph table i raw = ([], Some e))"
      by (cases "audit_graph table i raw") (auto simp: audit_graph_clean)
    with False have "fst (audit_graph table i raw) \<noteq> []" by blast
    then have "fst (audit_graphs table count i (raw # l)) \<noteq> []" by (auto split: prod.splits option.splits)
    moreover have "\<not> (hmx_graph raw e \<and> fst e \<notin> fst ` set table)" for e
      using False audit_graph_clean [of table i raw "Some e"] by (cases e) (auto simp: map_of_eq_None_iff)
    ultimately show ?thesis
      unfolding list_all2_Cons1 by (metis (no_types, lifting) disjoint_iff fst_conv image_insert insertI1 list.set(2))
  qed
qed

section \<open>The verdict\<close>

lemma sorted_difference_Nil: "sorted_difference xs ys = [] \<longleftrightarrow> set xs \<subseteq> set ys"
proof -
  have "set (sorted_difference xs ys) = set xs - set ys" by (auto simp: sorted_difference_def)
  then show ?thesis by (metis Diff_eq_empty_iff set_empty)
qed

lemma expectation_issues_Nil:
  "expectation_issues table (g, ts) = [] \<longleftrightarrow> ts \<noteq> [] \<and> set ts = set (or_none (map_of table g))"
  by (auto simp: expectation_issues_def Let_def sorted_difference_Nil or_none_def split: option.splits)

definition graph_list :: "(string \<times> json) list \<Rightarrow> json list option" where
  "graph_list document = (case json_get document ''graphs'' of JList l \<Rightarrow> Some l | _ \<Rightarrow> None)"

lemma hmx_config_graph_list:
  "hmx_config document table \<longleftrightarrow> (\<exists>l. graph_list document = Some l \<and> list_all2 hmx_graph l table \<and> distinct (map fst table))"
  by (cases "json_get document ''graphs''") (auto simp: hmx_config_def graph_list_def)

lemma audit_outcome:
  assumes "load_config load config = Inr document"
  obtains issues table count r where "audit_native_kv_config load config expected names require_nonempty = Inr r"
    "audit_graphs [] 0 0 (or_none (graph_list document)) = (issues, table, count)"
    "nr_graph_names r = map fst table" "nr_tensor_count r = count"
    "report_ok r \<longleftrightarrow> graph_list document \<noteq> None \<and> issues = [] \<and>
       (let wanted = names @ map fst (or_none expected) in set wanted \<subseteq> fst ` set table \<and>
         (wanted \<noteq> [] \<longrightarrow> fst ` set table \<subseteq> set wanted)) \<and>
       (\<forall>e \<in> set (or_none expected). expectation_issues table e = []) \<and> (require_nonempty \<longrightarrow> count \<noteq> 0)"
proof -
  obtain issues table count where g: "audit_graphs [] 0 0 (or_none (graph_list document)) = (issues, table, count)"
    by (metis prod_cases3)
  let ?wanted = "or_none expected"
  let ?r = "\<lparr>nr_issues = (if graph_list document = None then [GraphsNotAList] else []) @ issues @
      map MissingGraph (sorted_difference (names @ map fst ?wanted) (map fst table)) @
      (if names @ map fst ?wanted \<noteq> [] then map UnexpectedGraph (sorted_difference (map fst table) (names @ map fst ?wanted)) else []) @
      concat (map (expectation_issues table) ?wanted) @ (if require_nonempty \<and> count = 0 then [NoTensorsAtAll] else []),
      nr_graph_names = map fst table, nr_tensor_count = count\<rparr>"
  have r: "audit_native_kv_config load config expected names require_nonempty = Inr ?r"
    using assms g by (simp only: audit_native_kv_config_def res_simps bind_res.simps Let_def prod.case
        graph_list_def [symmetric] or_none_def [symmetric])
  have ok: "report_ok ?r \<longleftrightarrow> graph_list document \<noteq> None \<and> issues = [] \<and>
       (let wanted = names @ map fst ?wanted in set wanted \<subseteq> fst ` set table \<and>
         (wanted \<noteq> [] \<longrightarrow> fst ` set table \<subseteq> set wanted)) \<and>
       (\<forall>e \<in> set ?wanted. expectation_issues table e = []) \<and> (require_nonempty \<longrightarrow> count \<noteq> 0)"
    unfolding report_ok_def Let_def by (auto simp: sorted_difference_Nil)
  show thesis by (rule that [OF r g _ _ ok]) simp_all
qed

lemma as_expected_iff:
  "as_expected table expected names \<longleftrightarrow>
    (let wanted = names @ map fst (or_none expected) in set wanted \<subseteq> fst ` set table \<and>
      (wanted \<noteq> [] \<longrightarrow> fst ` set table \<subseteq> set wanted)) \<and>
    (\<forall>e \<in> set (or_none expected). expectation_issues table e = [])"
proof -
  have issues: "(\<forall>e \<in> set (or_none expected). expectation_issues table e = []) \<longleftrightarrow>
      (\<forall>(g, ts) \<in> set (or_none expected). ts \<noteq> [] \<and> set ts = set (or_none (map_of table g)))"
    by (rule ball_cong) (auto simp: expectation_issues_Nil)
  have "set w \<subseteq> T \<and> (w \<noteq> [] \<longrightarrow> T \<subseteq> set w) \<longleftrightarrow> (w \<noteq> [] \<longrightarrow> set w = T)" for w :: "string list" and T
    by (cases w) auto
  from this [of "names @ map fst (or_none expected)" "fst ` set table"]
  show ?thesis by (simp only: as_expected_def Let_def issues)
qed

lemma hmx_table_unique: "list_all2 hmx_graph l t1 \<Longrightarrow> list_all2 hmx_graph l t2 \<Longrightarrow> t1 = t2"
proof (induction l arbitrary: t1 t2)
  case (Cons g l)
  have "hmx_graph g e1 \<Longrightarrow> hmx_graph g e2 \<Longrightarrow> e1 = e2" for e1 e2
    using audit_graph_clean [of "[]" 0 g "Some e1"] audit_graph_clean [of "[]" 0 g "Some e2"] by auto
  with Cons show ?case by (auto simp: list_all2_Cons1)
qed simp

lemma hmx_config_unique: "hmx_config document t1 \<Longrightarrow> hmx_config document t2 \<Longrightarrow> t1 = t2"
  using hmx_table_unique by (auto simp: hmx_config_graph_list)

lemma hmx_graph_names: "hmx_graph g (n, names) \<Longrightarrow> names \<noteq> []"
  by (auto simp: hmx_graph_def split: option.splits json.splits)

lemma hmx_count: "list_all2 hmx_graph l table \<Longrightarrow> length (concat (map snd table)) = 0 \<longleftrightarrow> table = []"
  by (cases table) (auto simp: list_all2_Cons2 dest: hmx_graph_names)

lemma audit_accepts:
  assumes "load_config load config = Inr document"
  shows "\<exists>r. audit_native_kv_config load config expected names require_nonempty = Inr r \<and>
    (require_native_kv_audit r = Inr r \<longleftrightarrow>
      (\<exists>table. hmx_config document table \<and> as_expected table expected names \<and> (require_nonempty \<longrightarrow> table \<noteq> []) \<and>
         nr_graph_names r = map fst table))"
proof -
  obtain issues table count r where r: "audit_native_kv_config load config expected names require_nonempty = Inr r"
    and g: "audit_graphs [] 0 0 (or_none (graph_list document)) = (issues, table, count)"
    and names: "nr_graph_names r = map fst table"
    and ok: "report_ok r \<longleftrightarrow> graph_list document \<noteq> None \<and> issues = [] \<and>
       (let wanted = names @ map fst (or_none expected) in set wanted \<subseteq> fst ` set table \<and>
         (wanted \<noteq> [] \<longrightarrow> fst ` set table \<subseteq> set wanted)) \<and>
       (\<forall>e \<in> set (or_none expected). expectation_issues table e = []) \<and> (require_nonempty \<longrightarrow> count \<noteq> 0)"
    by (rule audit_outcome [OF assms])
  have iff: "(issues, table, count) = ([], t, c) \<longleftrightarrow> list_all2 hmx_graph (or_none (graph_list document)) t \<and>
      distinct (map fst t) \<and> c = length (concat (map snd t))" for t c
    unfolding g [symmetric] audit_graphs_clean by simp
  have clean': "issues = [] \<Longrightarrow> list_all2 hmx_graph (or_none (graph_list document)) table \<and> distinct (map fst table) \<and>
      count = length (concat (map snd table))"
    using iff [of table count] by simp
  have clean: "issues = [] \<longleftrightarrow> (\<exists>t. list_all2 hmx_graph (or_none (graph_list document)) t \<and> distinct (map fst t))"
    (is "_ \<longleftrightarrow> ?ex")
  proof
    assume ?ex
    then obtain t where "list_all2 hmx_graph (or_none (graph_list document)) t" "distinct (map fst t)" by blast
    with iff [of t "length (concat (map snd t))"] show "issues = []" by simp
  qed (use clean' in blast)
  have verdict: "report_ok r \<longleftrightarrow> hmx_config document table \<and> as_expected table expected names \<and> (require_nonempty \<longrightarrow> table \<noteq> [])"
  proof (cases "graph_list document \<noteq> None \<and> issues = []")
    case True
    then have "hmx_config document table" "count = 0 \<longleftrightarrow> table = []"
      using clean' hmx_count by (auto simp: hmx_config_graph_list or_none_def)
    with True ok show ?thesis by (simp only: as_expected_iff) blast
  next
    case False
    have "\<not> hmx_config document table"
      using False clean by (fastforce simp: hmx_config_graph_list or_none_def)
    with False ok show ?thesis by blast
  qed
  have "hmx_config document t \<Longrightarrow> table = t" for t
  proof -
    assume h: "hmx_config document t"
    then have t: "list_all2 hmx_graph (or_none (graph_list document)) t" "distinct (map fst t)"
      by (auto simp: hmx_config_graph_list or_none_def)
    with clean have "issues = []" by blast
    with clean' hmx_table_unique t(1) show "table = t" by blast
  qed
  with verdict r names show ?thesis
    by (auto simp: require_native_kv_audit_def res_simps)
qed

lemma audit_names:
  assumes "audit_native_kv_config load config expected names require_nonempty = Inr r"
    "load_config load config = Inr document" "hmx_config document table"
  shows "nr_graph_names r = map fst table"
proof -
  obtain issues table' count r' where r': "audit_native_kv_config load config expected names require_nonempty = Inr r'"
    and g: "audit_graphs [] 0 0 (or_none (graph_list document)) = (issues, table', count)"
    and names: "nr_graph_names r' = map fst table'"
    by (rule audit_outcome [OF assms(2)])
  from assms(3) have "audit_graphs [] 0 0 (or_none (graph_list document)) = ([], table, length (concat (map snd table)))"
    unfolding audit_graphs_clean by (auto simp: hmx_config_graph_list or_none_def)
  with g r' names assms(1) show ?thesis by simp
qed

text \<open>
  C17. The audit accepts exactly the configurations the compiler may receive: the graphs are a list
  of uniquely named graphs, each a non-empty list of distinct cache tensors in the HMX weight
  layout; the graphs are the expected ones, with exactly the expected tensors, none of them
  empty; and something is enabled where that is required. The report names the graphs.
\<close>

theorem audit_accepts_exactly:
  assumes "load_config load config = Inr document"
  shows "\<exists>r. audit_native_kv_config load config expected names require_nonempty = Inr r \<and>
    (require_native_kv_audit r = Inr r \<longleftrightarrow>
      (\<exists>table. hmx_config document table \<and> as_expected table expected names \<and> (require_nonempty \<longrightarrow> table \<noteq> []) \<and>
         nr_graph_names r = map fst table))"
  using assms by (rule audit_accepts)

theorem audit_accepts_exactly_witness:
  "\<exists>r. audit_native_kv_config (\<lambda>_. Inl value_error)
      (KvMapping [(''graphs'', JList [JObj [(''graph_name'', JStr ''g''), (''tensors'', JList [])]])]) None [''g''] True = Inr r \<and>
    require_native_kv_audit r \<noteq> Inr r"
proof -
  let ?d = "[(''graphs'', JList [JObj [(''graph_name'', JStr ''g''), (''tensors'', JList [])]])]"
  have l: "load_config (\<lambda>_. Inl value_error) (KvMapping ?d) = Inr ?d" by (simp add: load_config_def)
  have "\<not> hmx_config ?d table" for table
    by (auto simp: hmx_config_def json_get_def hmx_graph_def list_all2_Cons1)
  with audit_accepts_exactly [OF l, of None "[''g'']" True] show ?thesis by blast
qed

section \<open>The selection of the SDK is accepted\<close>

text \<open>
  A selection as the SDK returns it: per graph, named by the stem of its ONNX file, the names of
  the selected tensors.
\<close>

definition sdk_tensor :: "string \<Rightarrow> json" where
  "sdk_tensor n = JObj [(''tensor_name'', JStr n), (''dataFormat'', JStr NATIVE_KV_DATA_FORMAT)]"

definition sdk_graph :: "string \<times> string list \<Rightarrow> json" where
  "sdk_graph = (\<lambda>(stem, ns). JObj [(''graph_name'', JStr stem), (''tensors'', JList (map sdk_tensor ns))])"

definition sdk_selection :: "(string \<times> string list) list \<Rightarrow> (string \<times> json) list" where
  "sdk_selection sel = [(''graphs'', JList (map sdk_graph sel))]"

definition renamed :: "NativeKvGraphExpectation list \<Rightarrow> string \<Rightarrow> string" where
  "renamed es stem = (case map_of (by_stem es) stem of None \<Rightarrow> stem | Some e \<Rightarrow> ne_graph_name e)"

definition cache_tensors ::
  "NativeKvGraphExpectation list \<Rightarrow> (string \<times> string list) list \<Rightarrow> (string \<times> string list) list" where
  "cache_tensors es sel = filter (\<lambda>(_, ns). ns \<noteq> [])
     (map (\<lambda>(stem, ns). (renamed es stem, filter (\<lambda>n. \<not> is_non_cache_role n) ns)) sel)"

definition role_filtered :: "(string \<times> string list) list \<Rightarrow> (string \<times> string) list" where
  "role_filtered sel = concat (map (\<lambda>(stem, ns). map (Pair stem) (filter is_non_cache_role ns)) sel)"

lemma normalize_tensors_sdk:
  "normalize_tensors repr stem (map sdk_tensor ns) =
    Inr (map sdk_tensor (filter (\<lambda>n. \<not> is_non_cache_role n) ns), map (Pair stem) (filter is_non_cache_role ns))"
  by (induction ns) (auto simp: sdk_tensor_def json_get_or_def)

lemma normalize_graphs_sdk:
  "normalize_graphs repr (by_stem es) (map sdk_graph sel) = Inr (map sdk_graph (cache_tensors es sel), role_filtered sel)"
  by (induction sel)
    (auto simp: sdk_graph_def json_get_or_def normalize_tensors_sdk cache_tensors_def role_filtered_def renamed_def Let_def)

lemma normalized_selection:
  "normalize_sdk_kv_config repr (sdk_selection sel) es = Inr (sdk_selection (cache_tensors es sel), role_filtered sel)"
  by (simp add: normalize_sdk_kv_config_def sdk_selection_def json_get_or_def normalize_graphs_sdk)

lemma tensor_names_sdk: "tensor_names repr (map sdk_tensor ns) = ns"
  by (induction ns) (auto simp: tensor_names_def sdk_tensor_def json_get_or_def)

lemma expected_selection:
  assumes "distinct (map fst sel)"
  shows "expected_tensors repr (sdk_selection sel) = Inr sel"
proof -
  have raws: "List.map_filter as_obj (map sdk_graph sel) =
      map (\<lambda>(stem, ns). [(''graph_name'', JStr stem), (''tensors'', JList (map sdk_tensor ns))]) sel"
    by (induction sel) (auto simp: sdk_graph_def)
  have "map_res (\<lambda>g. bind_res (py_iter (json_get_or g ''tensors'' (JList []))) (\<lambda>ts.
         Inr (py_str repr (json_get_or g ''graph_name'' (JStr [])), tensor_names repr ts)))
       (map (\<lambda>(stem, ns). [(''graph_name'', JStr stem), (''tensors'', JList (map sdk_tensor ns))]) s) = Inr s" for s
    by (induction s) (auto simp: json_get_or_def tensor_names_sdk)
  with raws show ?thesis
    by (simp add: expected_tensors_def sdk_selection_def json_get_or_def dict_of_distinct [OF assms])
qed

lemma hmx_selection:
  assumes "distinct (map fst sel)" "\<forall>(g, ns) \<in> set sel. g \<noteq> [] \<and> ns \<noteq> [] \<and> distinct ns \<and> [] \<notin> set ns \<and>
    list_all (\<lambda>n. \<not> is_non_cache_role n) ns"
  shows "hmx_config (sdk_selection sel) sel"
proof -
  have t: "hmx_tensor (sdk_tensor n) n" if "n \<noteq> []" "\<not> is_non_cache_role n" for n
    using that by (simp add: hmx_tensor_def sdk_tensor_def text_field_def json_get_def)
  have "list_all2 hmx_tensor (map sdk_tensor ns) ns" if "[] \<notin> set ns" "list_all (\<lambda>n. \<not> is_non_cache_role n) ns" for ns
    using that by (induction ns) (auto intro: t)
  then have "hmx_graph (sdk_graph (g, ns)) (g, ns)" if "(g, ns) \<in> set sel" for g ns
    using assms(2) that by (fastforce simp: hmx_graph_def sdk_graph_def text_field_def json_get_def)
  then have "list_all2 hmx_graph (map sdk_graph s) s" if "set s \<subseteq> set sel" for s
    using that by (induction s) auto
  with assms(1) show ?thesis by (simp add: hmx_config_def sdk_selection_def json_get_def)
qed

text \<open>
  C32. Whatever cache tensors the SDK selected, the configuration made from them passes its own
  audit as soon as a tensor is left: the graphs carry the names of the build, exactly the
  tensors whose name shows another role are dropped, and every one of those is reported. When
  nothing is left, the audit refuses to enable native KV silently.
\<close>

theorem normalized_selection_audited:
  assumes "distinct (map fst (cache_tensors es sel))" "\<forall>(stem, ns) \<in> set sel. renamed es stem \<noteq> [] \<and> distinct ns \<and> [] \<notin> set ns"
  shows "\<exists>config r. normalize_sdk_kv_config repr (sdk_selection sel) es = Inr (config, role_filtered sel) \<and>
    expected_tensors repr config = Inr (cache_tensors es sel) \<and>
    audit_native_kv_config load (KvMapping config) (Some (cache_tensors es sel)) [] True = Inr r \<and>
    (require_native_kv_audit r = Inr r \<longleftrightarrow> cache_tensors es sel \<noteq> [])"
proof -
  let ?kept = "cache_tensors es sel" and ?config = "sdk_selection (cache_tensors es sel)"
  have l: "load_config load (KvMapping ?config) = Inr ?config" by (simp add: load_config_def)
  obtain r where r: "audit_native_kv_config load (KvMapping ?config) (Some ?kept) [] True = Inr r"
    and verdict: "require_native_kv_audit r = Inr r \<longleftrightarrow> (\<exists>table. hmx_config ?config table \<and>
      as_expected table (Some ?kept) [] \<and> (True \<longrightarrow> table \<noteq> []) \<and> nr_graph_names r = map fst table)"
    using audit_accepts [OF l] by blast
  have kept: "\<forall>(g, ns) \<in> set ?kept. g \<noteq> [] \<and> ns \<noteq> [] \<and> distinct ns \<and> [] \<notin> set ns \<and> list_all (\<lambda>n. \<not> is_non_cache_role n) ns"
    using assms(2) by (fastforce simp: cache_tensors_def list_all_iff)
  from hmx_selection [OF assms(1) this] have table: "hmx_config ?config ?kept" .
  moreover have "as_expected ?kept (Some ?kept) []"
    using kept map_of_is_SomeI [OF assms(1)] by (fastforce simp: as_expected_def or_none_def)
  moreover have "hmx_config ?config t \<Longrightarrow> t = ?kept" for t
    using table hmx_config_unique by blast
  ultimately have "require_native_kv_audit r = Inr r \<longleftrightarrow> ?kept \<noteq> []"
    using verdict audit_names [OF r l table] by metis
  with r normalized_selection expected_selection [OF assms(1)] show ?thesis by blast
qed

theorem normalized_selection_audited_witness:
  "\<exists>config r. normalize_sdk_kv_config (\<lambda>_. []) (sdk_selection [(''m_ar1'', [''past_key_0'', ''key_padding_mask''])])
      [\<lparr>ne_graph_name = ''ar1'', ne_ar = 1, ne_input_names = [], ne_output_names = [], ne_model_path = Some ''/b/m_ar1.onnx''\<rparr>] =
      Inr (config, [(''m_ar1'', ''key_padding_mask'')]) \<and>
    expected_tensors (\<lambda>_. []) config = Inr [(''ar1'', [''past_key_0''])] \<and>
    audit_native_kv_config (\<lambda>_. Inl value_error) (KvMapping config) (Some [(''ar1'', [''past_key_0''])]) [] True = Inr r \<and>
    require_native_kv_audit r = Inr r"
proof -
  let ?es = "[\<lparr>ne_graph_name = ''ar1'', ne_ar = 1, ne_input_names = [], ne_output_names = [], ne_model_path = Some ''/b/m_ar1.onnx''\<rparr>]"
  let ?sel = "[(''m_ar1'', [''past_key_0'', ''key_padding_mask''])]"
  have kept: "cache_tensors ?es ?sel = [(''ar1'', [''past_key_0''])]" and removed: "role_filtered ?sel = [(''m_ar1'', ''key_padding_mask'')]"
    and ren: "renamed ?es ''m_ar1'' = ''ar1''"
    by code_simp+
  have "distinct (map fst (cache_tensors ?es ?sel))" "\<forall>(stem, ns) \<in> set ?sel. renamed ?es stem \<noteq> [] \<and> distinct ns \<and> [] \<notin> set ns"
    by (simp_all add: kept ren)
  from normalized_selection_audited [OF this, of "\<lambda>_. []" "\<lambda>_. Inl value_error"] show ?thesis
    unfolding kept removed by simp
qed

text \<open>An expectation survives being written and read back, its path included.\<close>

lemma expectation_roundtrip: "expectation_from_dict repr (expectation_to_dict e) = Inr e"
proof -
  have strs: "py_strs repr (JList (map JStr ss)) = Inr ss" for ss
    by (simp add: py_strs_def comp_def)
  show ?thesis
    by (cases "ne_model_path e") (simp_all add: expectation_from_dict_def expectation_to_dict_def json_item_def json_get_def strs)
qed

end
