(* ===== verification/Artifacts.thy ===== *)
theory Artifacts
  imports Contracts Effects
begin

text \<open>
  \<open>src/qairt_agent/artifacts.py\<close>, the first half: digests of files, the per-process
  verification cache and the idempotent publication of one JSON file. The state of a process
  is the regular files it sees, by canonical path, and its verification cache with the
  counters. A file has its bytes and its modification time in nanoseconds. The digest
  function, the serializer and the parser of manifests (SHA-256, JSON and the pydantic field
  validation) are the parameter \<open>fm\<close>: the digest is any function, the serializer may raise
  and the parser may reject. A modification time is an argument of the operation that writes.
\<close>

record disk_file =
  fl_data :: string
  fl_mtime :: int

type_synonym files = "(string \<times> disk_file) list"

text \<open>The key of a cached verification: path, modification time, size and expected digest.\<close>

type_synonym verified_key = "string \<times> int \<times> nat \<times> string"

record vstate =
  vs_files :: files
  vs_verified :: "verified_key list"
  vs_full :: nat
  vs_cached :: nat

record formats =
  fm_sha256 :: "string \<Rightarrow> string"
  fm_encode :: "RunManifest \<Rightarrow> exn + string"
  fm_decode :: "string \<Rightarrow> RunManifest option"
  fm_encode_spec :: "BuildSpec \<Rightarrow> exn + string"

definition art_error :: "err_class \<Rightarrow> exn" where
  "art_error cls = agent_exn cls None False"

definition file_at :: "vstate \<Rightarrow> string \<Rightarrow> disk_file option" where
  "file_at st path = map_of (vs_files st) path"

text \<open>\<open>sha256_file\<close>: the chunks are read and digested in order, which is the digest of the whole.\<close>

definition sha256_file :: "formats \<Rightarrow> string \<Rightarrow> (vstate, string \<times> nat) eff" where
  "sha256_file fm path = (\<lambda>st. case file_at st path of
     None \<Rightarrow> (Exc (art_error ArtifactNotFoundError), st)
   | Some f \<Rightarrow> (Val (fm_sha256 fm (fl_data f), length (fl_data f)), st))"

definition reset_verification_cache :: "vstate \<Rightarrow> vstate" where
  "reset_verification_cache st = st\<lparr>vs_verified := [], vs_full := 0, vs_cached := 0\<rparr>"

definition verification_statistics :: "vstate \<Rightarrow> (string \<times> nat) list" where
  "verification_statistics st = [(''full'', vs_full st), (''cached'', vs_cached st)]"

definition stat_key :: "string \<Rightarrow> string \<Rightarrow> disk_file \<Rightarrow> verified_key" where
  "stat_key path digest f = (path, fl_mtime f, length (fl_data f), digest)"

definition verify_artifact :: "formats \<Rightarrow> ArtifactRef \<Rightarrow> (vstate, unit) eff" where
  "verify_artifact fm ref = (\<lambda>st.
     let key = map_option (stat_key (ar_path ref) (ar_sha256 ref)) (file_at st (ar_path ref))
     in if (case key of None \<Rightarrow> False | Some k \<Rightarrow> k \<in> set (vs_verified st))
        then (Val (), st\<lparr>vs_cached := vs_cached st + 1\<rparr>)
        else
          eff_bind (sha256_file fm (ar_path ref)) (\<lambda>(actual_sha256, actual_size). \<lambda>st.
            let st' = st\<lparr>vs_full := vs_full st + 1\<rparr>
            in if actual_sha256 \<noteq> ar_sha256 ref \<or> int actual_size \<noteq> ar_size_bytes ref
               then (Exc (art_error ArtifactIntegrityError), st')
               else (Val (), case key of
                       None \<Rightarrow> st' | Some k \<Rightarrow> st'\<lparr>vs_verified := k # vs_verified st'\<rparr>)) st)"

text \<open>What a write draws from its surroundings: the new modification time, or an \<open>OSError\<close>.\<close>

record write_env =
  we_mtime :: int
  we_os_error :: bool

definition put_file :: "string \<Rightarrow> disk_file \<Rightarrow> vstate \<Rightarrow> vstate" where
  "put_file path f st = st\<lparr>vs_files := dict_set path f (vs_files st)\<rparr>"

definition json_ref ::
  "string \<Rightarrow> string \<Rightarrow> nat \<Rightarrow> ArtifactKind \<Rightarrow> string option \<Rightarrow> (vstate, ArtifactRef) eff"
where
  "json_ref path digest size_bytes kind logical_name =
     eff_lift (ArtifactRef_new \<lparr>ar_path = path, ar_sha256 = digest, ar_size_bytes = int size_bytes,
       ar_kind = kind, ar_media_type = ''application/json'', ar_logical_name = logical_name\<rparr>)"

text \<open>
  \<open>atomic_publish_json\<close> of the serialized payload \<open>data\<close>: the temporary file is written and
  renamed over the destination in one step, or an \<open>OSError\<close> leaves everything as it was.
\<close>

definition atomic_publish_json ::
  "formats \<Rightarrow> write_env \<Rightarrow> string \<Rightarrow> exn + string \<Rightarrow> ArtifactKind \<Rightarrow> string option \<Rightarrow> bool
   \<Rightarrow> (vstate, ArtifactRef) eff"
where
  "atomic_publish_json fm env destination payload kind logical_name overwrite =
     eff_bind (eff_lift payload) (\<lambda>data. \<lambda>st.
       let expected_sha256 = fm_sha256 fm data;
           write = (\<lambda>st. if we_os_error env then (Exc (art_error ArtifactPublishError), st)
             else json_ref destination expected_sha256 (length data) kind logical_name
               (put_file destination \<lparr>fl_data = data, fl_mtime = we_mtime env\<rparr> st))
       in if file_at st destination \<noteq> None then
            eff_bind (sha256_file fm destination) (\<lambda>(existing_sha256, existing_size).
              if existing_sha256 = expected_sha256 \<and> existing_size = length data
              then json_ref destination existing_sha256 existing_size kind logical_name
              else if \<not> overwrite then eff_raise (art_error ArtifactPublishError)
              else write) st
          else write st)"

section \<open>The cache never accepts a changed file\<close>

text \<open>
  What the cache rests on: a file whose content changes gets a modification time and size under
  which the process has not verified it yet.
\<close>

definition fresh_stat :: "vstate \<Rightarrow> string \<Rightarrow> disk_file \<Rightarrow> bool" where
  "fresh_stat st path f \<longleftrightarrow> (\<forall>d. stat_key path d f \<notin> set (vs_verified st))"

definition unlink_file :: "string \<Rightarrow> vstate \<Rightarrow> vstate" where
  "unlink_file path st = st\<lparr>vs_files := dict_remove path (vs_files st)\<rparr>"

text \<open>
  The process verifies, publishes and resets; between its operations other processes write and
  remove files.
\<close>

inductive cache_step :: "formats \<Rightarrow> vstate \<Rightarrow> vstate \<Rightarrow> bool" for fm where
  verify: "verify_artifact fm ref st = (r, st') \<Longrightarrow> cache_step fm st st'"
| publish: "atomic_publish_json fm env path (Inr data) kind name overwrite st = (r, st') \<Longrightarrow>
    fresh_stat st path \<lparr>fl_data = data, fl_mtime = we_mtime env\<rparr> \<Longrightarrow> cache_step fm st st'"
| reset: "cache_step fm st (reset_verification_cache st)"
| other_write: "fresh_stat st path f \<Longrightarrow> cache_step fm st (put_file path f st)"
| other_unlink: "cache_step fm st (unlink_file path st)"

definition cache_ok :: "formats \<Rightarrow> vstate \<Rightarrow> bool" where
  "cache_ok fm st \<longleftrightarrow> (\<forall>path d f. stat_key path d f \<in> set (vs_verified st) \<longrightarrow>
     file_at st path = Some f \<longrightarrow> fm_sha256 fm (fl_data f) = d)"

lemma file_at_put [simp]: "file_at (put_file p f st) q = (if q = p then Some f else file_at st q)"
  by (simp add: file_at_def put_file_def)

lemma file_at_unlink [simp]: "file_at (unlink_file p st) q = (if q = p then None else file_at st q)"
  by (simp add: file_at_def unlink_file_def)

lemma file_at_more [simp]:
  "file_at (st\<lparr>vs_verified := v\<rparr>) p = file_at st p" "file_at (st\<lparr>vs_full := n\<rparr>) p = file_at st p"
  "file_at (st\<lparr>vs_cached := n\<rparr>) p = file_at st p"
  by (simp_all add: file_at_def)

lemma put_file_fields [simp]:
  "vs_verified (put_file p f st) = vs_verified st" "vs_verified (unlink_file p st) = vs_verified st"
  by (simp_all add: put_file_def unlink_file_def)

lemma sha256_file_iff [eff_simps]:
  "sha256_file fm p st = (r, st') \<longleftrightarrow> st' = st \<and>
     r = (case file_at st p of None \<Rightarrow> Exc (art_error ArtifactNotFoundError)
          | Some f \<Rightarrow> Val (fm_sha256 fm (fl_data f), length (fl_data f)))"
  by (auto simp: sha256_file_def split: option.split)

lemma verify_artifact_missing:
  "file_at st (ar_path ref) = None \<Longrightarrow>
   verify_artifact fm ref st = (Exc (art_error ArtifactNotFoundError), st)"
  by (simp add: verify_artifact_def eff_bind_def sha256_file_def)

lemma verify_artifact_present:
  assumes "file_at st (ar_path ref) = Some f"
  shows "verify_artifact fm ref st =
    (let key = stat_key (ar_path ref) (ar_sha256 ref) f; st' = st\<lparr>vs_full := vs_full st + 1\<rparr>
     in if key \<in> set (vs_verified st) then (Val (), st\<lparr>vs_cached := vs_cached st + 1\<rparr>)
        else if fm_sha256 fm (fl_data f) \<noteq> ar_sha256 ref \<or> int (length (fl_data f)) \<noteq> ar_size_bytes ref
        then (Exc (art_error ArtifactIntegrityError), st')
        else (Val (), st'\<lparr>vs_verified := key # vs_verified st\<rparr>))"
  using assms by (simp add: verify_artifact_def eff_bind_def sha256_file_def Let_def)

lemma verify_artifact_cases:
  assumes "verify_artifact fm ref st = (r, st')"
  obtains (missing) "file_at st (ar_path ref) = None" "r = Exc (art_error ArtifactNotFoundError)" "st' = st"
  | (cached) f where "file_at st (ar_path ref) = Some f" "stat_key (ar_path ref) (ar_sha256 ref) f \<in> set (vs_verified st)"
      "r = Val ()" "st' = st\<lparr>vs_cached := vs_cached st + 1\<rparr>"
  | (bad) f where "file_at st (ar_path ref) = Some f"
      "fm_sha256 fm (fl_data f) \<noteq> ar_sha256 ref \<or> int (length (fl_data f)) \<noteq> ar_size_bytes ref"
      "stat_key (ar_path ref) (ar_sha256 ref) f \<notin> set (vs_verified st)"
      "r = Exc (art_error ArtifactIntegrityError)" "st' = st\<lparr>vs_full := vs_full st + 1\<rparr>"
  | (full) f where "file_at st (ar_path ref) = Some f" "fm_sha256 fm (fl_data f) = ar_sha256 ref"
      "int (length (fl_data f)) = ar_size_bytes ref" "r = Val ()"
      "st' = st\<lparr>vs_full := vs_full st + 1, vs_verified := stat_key (ar_path ref) (ar_sha256 ref) f # vs_verified st\<rparr>"
proof (cases "file_at st (ar_path ref)")
  case None
  show thesis
    by (rule missing [OF None]) (use assms in \<open>simp_all add: verify_artifact_missing [OF None]\<close>)
next
  case (Some f)
  note v = assms [unfolded verify_artifact_present [OF Some] Let_def]
  consider (c) "stat_key (ar_path ref) (ar_sha256 ref) f \<in> set (vs_verified st)"
    | (b) "stat_key (ar_path ref) (ar_sha256 ref) f \<notin> set (vs_verified st)"
        "fm_sha256 fm (fl_data f) \<noteq> ar_sha256 ref \<or> int (length (fl_data f)) \<noteq> ar_size_bytes ref"
    | (f) "stat_key (ar_path ref) (ar_sha256 ref) f \<notin> set (vs_verified st)"
        "fm_sha256 fm (fl_data f) = ar_sha256 ref" "int (length (fl_data f)) = ar_size_bytes ref"
    by argo
  then show thesis
  proof cases
    case c
    with v show thesis by (intro cached [OF Some c]) simp_all
  next
    case b
    with v show thesis by (intro bad [OF Some b(2,1)]) (simp_all only: if_False if_True prod.inject)
  next
    case f
    with v show thesis by (intro full [OF Some f(2,3)]) simp_all
  qed
qed

lemma verify_artifact_files [simp]: "vs_files (snd (verify_artifact fm ref st)) = vs_files st"
proof -
  obtain r st' where v: "verify_artifact fm ref st = (r, st')" by fastforce
  then show ?thesis by (cases rule: verify_artifact_cases) (simp_all add: v)
qed

lemma stat_key_inject [simp]:
  "stat_key p d f = stat_key q e g \<longleftrightarrow> p = q \<and> d = e \<and> fl_mtime f = fl_mtime g \<and>
     length (fl_data f) = length (fl_data g)"
  by (auto simp: stat_key_def)

lemma verify_cache_ok:
  assumes "cache_ok fm st" "verify_artifact fm ref st = (r, st')"
  shows "cache_ok fm st'"
  using assms(2)
proof (cases rule: verify_artifact_cases)
  case (full f)
  with assms(1) show ?thesis by (auto simp: cache_ok_def)
qed (use assms(1) in \<open>simp_all add: cache_ok_def\<close>)

lemma put_cache_ok: "cache_ok fm st \<Longrightarrow> fresh_stat st p f \<Longrightarrow> cache_ok fm (put_file p f st)"
  by (auto simp: cache_ok_def fresh_stat_def)

lemma json_ref_iff [eff_simps]:
  "json_ref p d n k l st = (r, st') \<longleftrightarrow> st' = st \<and>
     r = (case ArtifactRef_new \<lparr>ar_path = p, ar_sha256 = d, ar_size_bytes = int n, ar_kind = k,
       ar_media_type = ''application/json'', ar_logical_name = l\<rparr> of Inl e \<Rightarrow> Exc e | Inr x \<Rightarrow> Val x)"
  by (simp add: json_ref_def eff_lift_iff)

text \<open>A publication leaves the state, or replaces exactly its destination by the payload.\<close>

lemma atomic_publish_effect:
  assumes "atomic_publish_json fm env path (Inr data) kind name overwrite st = (r, st')"
  obtains (same) "st' = st" | (written) "st' = put_file path \<lparr>fl_data = data, fl_mtime = we_mtime env\<rparr> st"
    "overwrite \<or> file_at st path = None"
  using assms unfolding atomic_publish_json_def eff_bind_lift_Inr Let_def
  by (auto simp: json_ref_iff eff_raise_iff sha256_file_def eff_bind_def split: if_splits option.splits)

lemma cache_step_ok: "cache_step fm st st' \<Longrightarrow> cache_ok fm st \<Longrightarrow> cache_ok fm st'"
proof (induction rule: cache_step.induct)
  case (publish env path data kind name overwrite st r st')
  from publish(1) show ?case
    by (cases rule: atomic_publish_effect) (use publish(2,3) in \<open>auto intro: put_cache_ok\<close>)
next
  case (verify ref st r st')
  from verify(2,1) show ?case by (rule verify_cache_ok)
next
  case (other_write st path f)
  from other_write(2,1) show ?case by (rule put_cache_ok)
qed (simp_all add: cache_ok_def reset_verification_cache_def)

lemma verify_iff:
  assumes "cache_ok fm st"
  shows "fst (verify_artifact fm ref st) = Val () \<longleftrightarrow>
    (\<exists>f. file_at st (ar_path ref) = Some f \<and> fm_sha256 fm (fl_data f) = ar_sha256 ref \<and>
      (int (length (fl_data f)) = ar_size_bytes ref \<or>
       stat_key (ar_path ref) (ar_sha256 ref) f \<in> set (vs_verified st)))"
proof (cases "file_at st (ar_path ref)")
  case (Some f)
  with assms show ?thesis by (auto simp: verify_artifact_present Let_def cache_ok_def)
qed (simp add: verify_artifact_missing)


text \<open>A digest that tells some texts apart, for the examples.\<close>

definition toy_sha256 :: "string \<Rightarrow> string" where
  "toy_sha256 d = replicate 63 (CHR ''0'') @ [digit_char (length d mod 10)]"

definition toy_formats :: formats where
  "toy_formats = \<lparr>fm_sha256 = toy_sha256, fm_encode = (\<lambda>_. Inl validation_error), fm_decode = (\<lambda>_. None),
     fm_encode_spec = (\<lambda>_. Inl validation_error)\<rparr>"

definition toy_ref :: ArtifactRef where
  "toy_ref = \<lparr>ar_path = ''/a.json'', ar_sha256 = toy_sha256 ''abc'', ar_size_bytes = 3, ar_kind = AK_REPORT,
     ar_media_type = ''application/json'', ar_logical_name = None\<rparr>"

definition toy_state :: vstate where
  "toy_state = \<lparr>vs_files = [(''/a.json'', \<lparr>fl_data = ''abc'', fl_mtime = 5\<rparr>)], vs_verified = [],
     vs_full = 0, vs_cached = 0\<rparr>"


text \<open>
  The key of the cache leaves out the size the reference declares: once a file has been
  verified, a reference to it with any other declared size is accepted too, while a process
  that has not verified it yet rejects that reference.
\<close>

theorem cached_verification_ignores_size:
  assumes "verify_artifact fm ref st = (Val (), st')" "n \<noteq> ar_size_bytes ref" "vs_verified st = []"
  shows "fst (verify_artifact fm (ref\<lparr>ar_size_bytes := n\<rparr>) st') = Val () \<and>
    fst (verify_artifact fm (ref\<lparr>ar_size_bytes := n\<rparr>) st) = Exc (art_error ArtifactIntegrityError)"
  using assms(1)
proof (cases rule: verify_artifact_cases)
  case (full f)
  with assms(2,3) show ?thesis
    by (simp add: verify_artifact_present [where ref = "ref\<lparr>ar_size_bytes := n\<rparr>"] Let_def)
qed (use assms(3) in simp_all)

theorem cached_verification_ignores_size_witness:
  "fst (verify_artifact toy_formats (toy_ref\<lparr>ar_size_bytes := 99\<rparr>)
      (snd (verify_artifact toy_formats toy_ref toy_state))) = Val ()"
proof -
  have f: "file_at toy_state (ar_path toy_ref) = Some \<lparr>fl_data = ''abc'', fl_mtime = 5\<rparr>"
    by (simp add: file_at_def toy_state_def toy_ref_def)
  have v: "verify_artifact toy_formats toy_ref toy_state =
      (Val (), snd (verify_artifact toy_formats toy_ref toy_state))"
    unfolding verify_artifact_present [OF f]
    by (simp add: Let_def toy_ref_def toy_formats_def toy_state_def stat_key_def)
  from cached_verification_ignores_size [OF v, of 99] show ?thesis
    by (simp add: toy_ref_def toy_state_def)
qed

end
