(* ===== verification/ManifestStore.thy ===== *)
theory ManifestStore
  imports Artifacts Paths
begin

text \<open>
  \<open>src/qairt_agent/artifacts.py\<close>, the second half: the store that keeps one immutable JSON
  file per manifest revision, the walk over everything a manifest refers to, and forks. A run
  identifier is the text of its UUID. Creating, revising and forking take the fresh run
  identifier, the current times and the write's outcome as arguments. One publication is one
  step: the code serializes the publications of a run and revision by a lock and renames the
  finished file into place.
\<close>

section \<open>Loading\<close>

datatype manifest_arg = RefArg ArtifactRef | PathArg string

definition RunManifest_new :: "RunManifest \<Rightarrow> exn + RunManifest" where
  "RunManifest_new m = bind_res (validate_revision_chain m) (\<lambda>_. Inr m)"

definition coerce_manifest_ref :: "manifest_arg \<Rightarrow> string option \<Rightarrow> (vstate, ArtifactRef) eff" where
  "coerce_manifest_ref ref_or_path expected_sha256 = (case ref_or_path of
     RefArg ref \<Rightarrow>
       if (case expected_sha256 of None \<Rightarrow> False | Some e \<Rightarrow> py_lower e \<noteq> ar_sha256 ref)
       then eff_raise (art_error ArtifactIntegrityError) else eff_return ref
   | PathArg path \<Rightarrow> (case expected_sha256 of
       None \<Rightarrow> eff_raise (art_error ArtifactIntegrityError)
     | Some e \<Rightarrow> (\<lambda>st. case file_at st path of
           None \<Rightarrow> (Exc (art_error ArtifactNotFoundError), st)
         | Some f \<Rightarrow> eff_lift (ArtifactRef_new \<lparr>ar_path = path, ar_sha256 = e,
             ar_size_bytes = int (length (fl_data f)), ar_kind = AK_MANIFEST,
             ar_media_type = ''application/json'', ar_logical_name = None\<rparr>) st)))"

text \<open>\<open>RunManifest.model_validate_json(path.read_bytes())\<close>, its failures as \<open>ManifestInvalidError\<close>.\<close>

definition parse_manifest :: "formats \<Rightarrow> string \<Rightarrow> RunManifest option" where
  "parse_manifest fm data = (case fm_decode fm data of
     None \<Rightarrow> None | Some m \<Rightarrow> if is_ok (validate_revision_chain m) then Some m else None)"

definition read_manifest :: "formats \<Rightarrow> string \<Rightarrow> (vstate, RunManifest) eff" where
  "read_manifest fm path = (\<lambda>st. case file_at st path of
     None \<Rightarrow> (Exc (art_error ManifestInvalidError), st)
   | Some f \<Rightarrow> (case parse_manifest fm (fl_data f) of
       None \<Rightarrow> (Exc (art_error ManifestInvalidError), st) | Some m \<Rightarrow> (Val m, st)))"

definition load_manifest ::
  "formats \<Rightarrow> manifest_arg \<Rightarrow> string option \<Rightarrow> (vstate, RunManifest) eff"
where
  "load_manifest fm ref_or_path expected_sha256 =
     eff_bind (coerce_manifest_ref ref_or_path expected_sha256) (\<lambda>ref.
     if ar_kind ref \<noteq> AK_MANIFEST then eff_raise (art_error ManifestInvalidError)
     else eff_bind (verify_artifact fm ref) (\<lambda>_. read_manifest fm (ar_path ref)))"

definition verify_manifest ::
  "formats \<Rightarrow> manifest_arg \<Rightarrow> string option \<Rightarrow> (vstate, ArtifactRef) eff"
where
  "verify_manifest fm ref_or_path expected_sha256 =
     eff_bind (coerce_manifest_ref ref_or_path expected_sha256) (\<lambda>ref.
     eff_bind (load_manifest fm (RefArg ref) None) (\<lambda>_. eff_return ref))"

section \<open>Publishing\<close>

definition run_directory :: "string \<Rightarrow> string \<Rightarrow> string" where
  "run_directory store_root run_id = store_root @ ''/'' @ run_id"

text \<open>\<open>f"manifest-r{revision:06d}-"\<close> in the rn's directory, and the files its glob selects.\<close>

definition revision_prefix :: "string \<Rightarrow> string \<Rightarrow> int \<Rightarrow> string" where
  "revision_prefix store_root run_id revision =
     run_directory store_root run_id @ ''/manifest-r'' @ zpad 6 (nat revision) @ ''-''"

definition revision_glob :: "string \<Rightarrow> string \<Rightarrow> int \<Rightarrow> string \<Rightarrow> bool" where
  "revision_glob store_root run_id revision path =
     (let prefix = revision_prefix store_root run_id revision; rest = drop (length prefix) path
      in py_startswith path prefix \<and> py_endswith rest ''.json'' \<and> CHR ''/'' \<notin> set rest)"

definition manifest_path :: "string \<Rightarrow> string \<Rightarrow> int \<Rightarrow> string \<Rightarrow> string" where
  "manifest_path store_root run_id revision digest =
     revision_prefix store_root run_id revision @ digest @ ''.json''"

definition publish :: "formats \<Rightarrow> string \<Rightarrow> write_env \<Rightarrow> RunManifest \<Rightarrow> (vstate, ArtifactRef) eff" where
  "publish fm store_root env manifest =
     eff_bind (eff_lift (fm_encode fm manifest)) (\<lambda>data.
     let digest = fm_sha256 fm data;
         destination = manifest_path store_root (rm_run_id manifest) (rm_revision manifest) digest
     in eff_bind (case rm_parent_manifest manifest of
            None \<Rightarrow> eff_return ()
          | Some parent_ref \<Rightarrow> eff_bind (load_manifest fm (RefArg parent_ref) None) (\<lambda>parent.
              if rm_run_id parent \<noteq> rm_run_id manifest \<or> rm_revision parent \<noteq> rm_revision manifest - 1
              then eff_raise (art_error ManifestConflictError) else eff_return ())) (\<lambda>_. \<lambda>st.
        let existing_revisions = filter (revision_glob store_root (rm_run_id manifest) (rm_revision manifest))
              (map fst (vs_files st));
            conflicting = filter (\<lambda>path. path \<noteq> destination) existing_revisions
        in if conflicting \<noteq> [] then (Exc (art_error ManifestConflictError), st)
           else atomic_publish_json fm env destination (Inr data) AK_MANIFEST
             (Some (''run-manifest-r'' @ dec (nat (rm_revision manifest)))) False st))"

record run_env =
  re_run_id :: string
  re_created_at :: int
  re_revision_created_at :: int
  re_write :: write_env

definition create_manifest ::
  "formats \<Rightarrow> string \<Rightarrow> run_env \<Rightarrow> BuildSpec \<Rightarrow> string option \<Rightarrow> raw_map option
   \<Rightarrow> (vstate, RunManifest \<times> ArtifactRef) eff"
where
  "create_manifest fm store_root env build_spec run_id metadata =
     eff_bind (eff_lift (RunManifest_new
       \<lparr>rm_run_id = (case run_id of None \<Rightarrow> re_run_id env | Some r \<Rightarrow> r), rm_revision = 0,
        rm_created_at = re_created_at env, rm_revision_created_at = re_revision_created_at env,
        rm_parent_manifest = None, rm_build_spec = build_spec, rm_stages = [], rm_artifacts = [],
        rm_metadata = (case metadata of None \<Rightarrow> [] | Some d \<Rightarrow> d)\<rparr>)) (\<lambda>manifest.
     eff_bind (publish fm store_root (re_write env) manifest) (\<lambda>ref. eff_return (manifest, ref)))"

text \<open>An addition replaces the first artifact with its logical name or path, or is appended.\<close>

definition same_artifact :: "ArtifactRef \<Rightarrow> ArtifactRef \<Rightarrow> bool" where
  "same_artifact addition existing \<longleftrightarrow>
     (ar_logical_name addition \<noteq> None \<and> ar_logical_name addition = ar_logical_name existing) \<or>
     ar_path addition = ar_path existing"

fun merge_one :: "ArtifactRef \<Rightarrow> ArtifactRef list \<Rightarrow> ArtifactRef list" where
  "merge_one addition [] = [addition]"
| "merge_one addition (existing # rest) =
     (if same_artifact addition existing then addition # rest else existing # merge_one addition rest)"

definition merge_artifacts :: "ArtifactRef list \<Rightarrow> ArtifactRef list \<Rightarrow> ArtifactRef list" where
  "merge_artifacts current additions = foldl (\<lambda>merged addition. merge_one addition merged) current additions"

definition revise ::
  "formats \<Rightarrow> string \<Rightarrow> run_env \<Rightarrow> manifest_arg \<Rightarrow> string option \<Rightarrow> StageRecord option \<Rightarrow> ArtifactRef list
   \<Rightarrow> raw_map option \<Rightarrow> (vstate, RunManifest \<times> ArtifactRef) eff"
where
  "revise fm store_root env previous expected_sha256 stage artifacts metadata_update =
     eff_bind (coerce_manifest_ref previous expected_sha256) (\<lambda>previous_ref.
     eff_bind (load_manifest fm (RefArg previous_ref) None) (\<lambda>current.
     eff_bind (eff_lift (RunManifest_new
       \<lparr>rm_run_id = rm_run_id current, rm_revision = rm_revision current + 1,
        rm_created_at = rm_created_at current, rm_revision_created_at = re_revision_created_at env,
        rm_parent_manifest = Some previous_ref, rm_build_spec = rm_build_spec current,
        rm_stages = rm_stages current @ (case stage of None \<Rightarrow> [] | Some s \<Rightarrow> [s]),
        rm_artifacts = merge_artifacts (rm_artifacts current) artifacts,
        rm_metadata = dict_update (rm_metadata current)
          (case metadata_update of None \<Rightarrow> [] | Some d \<Rightarrow> d)\<rparr>)) (\<lambda>revised.
     eff_bind (publish fm store_root (re_write env) revised) (\<lambda>ref. eff_return (revised, ref)))))"

section \<open>The graph of a manifest\<close>

text \<open>Everything a manifest refers to, in the order the walk visits it.\<close>

definition manifest_refs :: "RunManifest \<Rightarrow> ArtifactRef list" where
  "manifest_refs m = (case rm_parent_manifest m of None \<Rightarrow> [] | Some p \<Rightarrow> [p]) @ rm_artifacts m @
     concat (map (\<lambda>s. sr_inputs s @ sr_outputs s) (rm_stages m))"

type_synonym ref_key = "string \<times> string"

definition ref_key :: "ArtifactRef \<Rightarrow> ref_key" where
  "ref_key a = (ar_path a, ar_sha256 a)"

record visited =
  vi_discovered :: "ArtifactRef list"
  vi_seen :: "ref_key list"

definition recursion_error :: exn where
  "recursion_error = PyExn ''RecursionError'' ''depth''"

fun eff_fold :: "('b \<Rightarrow> 'a \<Rightarrow> ('w, 'a) eff) \<Rightarrow> 'b list \<Rightarrow> 'a \<Rightarrow> ('w, 'a) eff" where
  "eff_fold f [] acc = eff_return acc"
| "eff_fold f (x # xs) acc = eff_bind (f x acc) (eff_fold f xs)"

text \<open>
  The nested function \<open>visit_artifact\<close>; the first argument is the recursion depth the
  interpreter has left, below which Python raises \<open>RecursionError\<close>.
\<close>

fun visit_artifact :: "nat \<Rightarrow> formats \<Rightarrow> ArtifactRef \<Rightarrow> visited \<Rightarrow> (vstate, visited) eff" where
  "visit_artifact 0 fm artifact v = eff_raise recursion_error"
| "visit_artifact (Suc depth) fm artifact v =
     (let key = ref_key artifact
      in if key \<in> set (vi_seen v) then eff_return v
         else eff_bind (verify_artifact fm artifact) (\<lambda>_.
           let v' = \<lparr>vi_discovered = vi_discovered v @ [artifact], vi_seen = key # vi_seen v\<rparr>
           in if ar_kind artifact \<noteq> AK_MANIFEST then eff_return v'
              else eff_bind (read_manifest fm (ar_path artifact)) (\<lambda>manifest.
                eff_fold (visit_artifact depth fm) (manifest_refs manifest) v')))"

definition verify_manifest_graph :: "nat \<Rightarrow> formats \<Rightarrow> ArtifactRef \<Rightarrow> (vstate, ArtifactRef list) eff" where
  "verify_manifest_graph depth fm ref =
     eff_bind (visit_artifact depth fm ref \<lparr>vi_discovered = [], vi_seen = []\<rparr>) (\<lambda>v.
     eff_return (filter (\<lambda>item. item \<noteq> ref) (vi_discovered v)))"

section \<open>Forking\<close>

fun artifact_kind_value :: "ArtifactKind \<Rightarrow> string" where
  "artifact_kind_value AK_ONNX = ''onnx''"
| "artifact_kind_value AK_AIMET_ENCODINGS = ''aimet_encodings''"
| "artifact_kind_value AK_TEST_VECTORS = ''test_vectors''"
| "artifact_kind_value AK_GOLDEN_VECTORS = ''golden_vectors''"
| "artifact_kind_value AK_DLC = ''dlc''"
| "artifact_kind_value AK_CONTEXT_BINARY = ''context_binary''"
| "artifact_kind_value AK_MANIFEST = ''manifest''"
| "artifact_kind_value AK_REPORT = ''report''"
| "artifact_kind_value AK_CONFIG = ''config''"
| "artifact_kind_value AK_LOG = ''log''"
| "artifact_kind_value AK_OTHER = ''other''"

definition artifact_json :: "ArtifactRef \<Rightarrow> json" where
  "artifact_json r = JObj [(''path'', JStr (ar_path r)), (''sha256'', JStr (ar_sha256 r)),
     (''size_bytes'', JInt (ar_size_bytes r)), (''kind'', JStr (artifact_kind_value (ar_kind r))),
     (''media_type'', JStr (ar_media_type r)),
     (''logical_name'', case ar_logical_name r of None \<Rightarrow> JNull | Some n \<Rightarrow> JStr n)]"

definition fork_snapshot ::
  "nat \<Rightarrow> formats \<Rightarrow> string \<Rightarrow> run_env \<Rightarrow> manifest_arg \<Rightarrow> string option \<Rightarrow> string option \<Rightarrow> BuildSpec option
   \<Rightarrow> raw_map option \<Rightarrow> (vstate, RunManifest \<times> ArtifactRef) eff"
where
  "fork_snapshot depth fm store_root env previous expected_sha256 run_id replacement_build_spec metadata_update =
     eff_bind (coerce_manifest_ref previous expected_sha256) (\<lambda>previous_ref.
     eff_bind (load_manifest fm (RefArg previous_ref) None) (\<lambda>source.
     if path_parent (ar_path previous_ref) \<noteq> run_directory store_root (rm_run_id source)
     then eff_raise (art_error ManifestConflictError)
     else eff_bind (verify_manifest_graph depth fm previous_ref) (\<lambda>_.
     let new_run_id = (case run_id of None \<Rightarrow> re_run_id env | Some r \<Rightarrow> r)
     in if new_run_id = rm_run_id source then eff_raise (art_error ManifestConflictError)
     else
       let effective = (case replacement_build_spec of None \<Rightarrow> rm_build_spec source | Some b \<Rightarrow> b)
       in eff_bind (eff_lift (fm_encode_spec fm (rm_build_spec source))) (\<lambda>source_spec.
          eff_bind (eff_lift (fm_encode_spec fm effective)) (\<lambda>effective_spec.
          eff_bind (eff_lift (RunManifest_new
            \<lparr>rm_run_id = new_run_id, rm_revision = 0, rm_created_at = re_created_at env,
             rm_revision_created_at = re_revision_created_at env, rm_parent_manifest = None,
             rm_build_spec = effective, rm_stages = rm_stages source, rm_artifacts = rm_artifacts source,
             rm_metadata = dict_update (dict_update (rm_metadata source)
                 (case metadata_update of None \<Rightarrow> [] | Some d \<Rightarrow> d))
               [(''forked_from_manifest'', artifact_json previous_ref),
                (''forked_from_run_id'', JStr (rm_run_id source)),
                (''forked_from_revision'', JInt (rm_revision source)),
                (''forked_from_build_spec_sha256'', JStr (fm_sha256 fm source_spec)),
                (''effective_build_spec_sha256'', JStr (fm_sha256 fm effective_spec)),
                (''build_spec_rebased'', JBool (effective \<noteq> rm_build_spec source))]\<rparr>)) (\<lambda>snapshot.
          eff_bind (publish fm store_root (re_write env) snapshot) (\<lambda>ref.
          eff_return (snapshot, ref))))))))"

section \<open>Files are immutable\<close>

definition grows :: "vstate \<Rightarrow> vstate \<Rightarrow> bool" where
  "grows st st' \<longleftrightarrow> (\<forall>p f. file_at st p = Some f \<longrightarrow> file_at st' p = Some f)"

lemma grows_refl [simp]: "grows st st"
  by (simp add: grows_def)

lemma verify_artifact_file_at [simp]: "file_at (snd (verify_artifact fm ref st)) p = file_at st p"
  by (simp add: file_at_def)

lemma coerce_state [simp]: "snd (coerce_manifest_ref a e st) = st"
  by (simp add: coerce_manifest_ref_def eff_raise_def eff_return_def eff_lift_def
      split: manifest_arg.split option.split)

lemma read_state [simp]: "snd (read_manifest fm p st) = st"
  by (simp add: read_manifest_def split: option.split)

lemma keeps_coerce [intro]: "keeps I (coerce_manifest_ref a e)"
  by (simp add: keeps_def)

lemma keeps_read [intro]: "keeps I (read_manifest fm p)"
  by (simp add: keeps_def)

lemma keeps_verify_grows [intro]: "keeps (grows st0) (verify_artifact fm ref)"
  by (simp add: keeps_def grows_def)

lemma keeps_load [intro]:
  "(\<And>ref. keeps I (verify_artifact fm ref)) \<Longrightarrow> keeps I (load_manifest fm a e)"
  unfolding load_manifest_def by (auto intro!: keeps_bind)

lemma keeps_fold: "(\<And>x acc. keeps I (f x acc)) \<Longrightarrow> keeps I (eff_fold f xs acc)"
  by (induction xs arbitrary: acc) (auto intro: keeps_bind)

lemma keeps_visit:
  assumes v: "\<And>ref. keeps I (verify_artifact fm ref)"
  shows "keeps I (visit_artifact depth fm a vis)"
proof (induction depth arbitrary: a vis)
  case (Suc n)
  then show ?case
    by (auto simp: Let_def intro!: keeps_bind v keeps_fold)
qed simp

lemma keeps_graph [intro]:
  "(\<And>ref. keeps I (verify_artifact fm ref)) \<Longrightarrow> keeps I (verify_manifest_graph depth fm ref)"
  unfolding verify_manifest_graph_def by (intro keeps_bind keeps_visit) auto

lemma publish_json_grows: "keeps (grows st0) (atomic_publish_json fm env p (Inr d) k n False)"
  unfolding keeps_def
proof (intro allI impI)
  fix st assume g: "grows st0 st"
  obtain r st' where a: "atomic_publish_json fm env p (Inr d) k n False st = (r, st')" by fastforce
  from a show "grows st0 (snd (atomic_publish_json fm env p (Inr d) k n False st))"
    by (cases rule: atomic_publish_effect) (use g a in \<open>auto simp: grows_def\<close>)
qed

lemma publish_grows: "keeps (grows st0) (publish fm sroot env m)"
  unfolding publish_def Let_def
proof (intro keeps_bind keeps_lift)
  fix data
  show "keeps (grows st0) (case rm_parent_manifest m of None \<Rightarrow> eff_return ()
          | Some p \<Rightarrow> eff_bind (load_manifest fm (RefArg p) None) (\<lambda>parent.
              if rm_run_id parent \<noteq> rm_run_id m \<or> rm_revision parent \<noteq> rm_revision m - 1
              then eff_raise (art_error ManifestConflictError) else eff_return ()))"
    by (auto split: option.split intro!: keeps_bind)
next
  fix data u
  show "keeps (grows st0) (\<lambda>st. if filter (\<lambda>path. path \<noteq> manifest_path sroot (rm_run_id m) (rm_revision m)
        (fm_sha256 fm data)) (filter (revision_glob sroot (rm_run_id m) (rm_revision m)) (map fst (vs_files st))) \<noteq> []
      then (Exc (art_error ManifestConflictError), st)
      else atomic_publish_json fm env (manifest_path sroot (rm_run_id m) (rm_revision m) (fm_sha256 fm data))
        (Inr data) AK_MANIFEST (Some (''run-manifest-r'' @ dec (nat (rm_revision m)))) False st)"
    using publish_json_grows [unfolded keeps_def] by (auto simp: keeps_def)
qed

text \<open>
  Nothing published is ever changed: whatever a store operation does, and whether it
  returns, raises or fails to write, every file that was there is there afterwards with the
  same content.
\<close>

theorem store_never_overwrites:
  assumes "file_at st p = Some f"
  shows "file_at (snd (publish fm sroot wenv m st)) p = Some f \<and>
    file_at (snd (create_manifest fm sroot env spec rid meta st)) p = Some f \<and>
    file_at (snd (revise fm sroot env prev sha stage arts meta st)) p = Some f \<and>
    file_at (snd (fork_snapshot depth fm sroot env prev sha rid repl meta st)) p = Some f"
proof -
  have "keeps (grows st) (create_manifest fm sroot env spec rid meta)"
    unfolding create_manifest_def by (intro keeps_bind publish_grows keeps_lift keeps_return)
  moreover have "keeps (grows st) (revise fm sroot env prev sha stage arts meta)"
    unfolding revise_def by (intro keeps_bind publish_grows keeps_lift keeps_return keeps_coerce keeps_load keeps_verify_grows)
  moreover have "keeps (grows st) (fork_snapshot depth fm sroot env prev sha rid repl meta)"
    unfolding fork_snapshot_def Let_def
    by (auto intro!: keeps_bind publish_grows keeps_graph keeps_verify_grows)
  moreover have "keeps (grows st) (publish fm sroot wenv m)" by (rule publish_grows)
  ultimately have "grows st (snd (publish fm sroot wenv m st))"
    "grows st (snd (create_manifest fm sroot env spec rid meta st))"
    "grows st (snd (revise fm sroot env prev sha stage arts meta st))"
    "grows st (snd (fork_snapshot depth fm sroot env prev sha rid repl meta st))"
    by (simp_all add: keepsD)
  with assms show ?thesis by (simp add: grows_def)
qed

section \<open>One linear history per run\<close>

text \<open>
  What is assumed of the serialization: digests are 64 lower-case hexadecimal digits, and a
  serialized manifest parses back to itself.
\<close>

definition faithful_formats :: "formats \<Rightarrow> bool" where
  "faithful_formats fm \<longleftrightarrow> (\<forall>d. is_sha256 (fm_sha256 fm d)) \<and>
     (\<forall>m d. fm_encode fm m = Inr d \<longrightarrow> fm_decode fm d = Some m)"

definition manifest_at :: "formats \<Rightarrow> vstate \<Rightarrow> ArtifactRef \<Rightarrow> RunManifest \<Rightarrow> bool" where
  "manifest_at fm st ref m \<longleftrightarrow> (\<exists>f. file_at st (ar_path ref) = Some f \<and>
     fm_sha256 fm (fl_data f) = ar_sha256 ref \<and> parse_manifest fm (fl_data f) = Some m)"

text \<open>A manifest is revision zero without a parent, or its parent is the revision before it.\<close>

definition linked :: "formats \<Rightarrow> vstate \<Rightarrow> RunManifest \<Rightarrow> bool" where
  "linked fm st m \<longleftrightarrow> (case rm_parent_manifest m of
     None \<Rightarrow> rm_revision m = 0
   | Some p \<Rightarrow> \<exists>m'. manifest_at fm st p m' \<and> rm_run_id m' = rm_run_id m \<and> rm_revision m' = rm_revision m - 1)"

text \<open>The file at \<open>path\<close> is the content-addressed revision \<open>rv\<close> of run \<open>rn\<close>.\<close>

definition revision_file :: "formats \<Rightarrow> vstate \<Rightarrow> string \<Rightarrow> string \<Rightarrow> int \<Rightarrow> string \<Rightarrow> disk_file \<Rightarrow> bool" where
  "revision_file fm st sroot rn rv path f \<longleftrightarrow> (\<exists>m. parse_manifest fm (fl_data f) = Some m \<and>
     rm_run_id m = rn \<and> rm_revision m = rv \<and>
     path = manifest_path sroot rn rv (fm_sha256 fm (fl_data f)) \<and> linked fm st m)"

definition store_ok :: "formats \<Rightarrow> string \<Rightarrow> vstate \<Rightarrow> bool" where
  "store_ok fm sroot st \<longleftrightarrow> cache_ok fm st \<and>
     (\<forall>p d f. stat_key p d f \<in> set (vs_verified st) \<longrightarrow> file_at st p \<noteq> None) \<and>
     (\<forall>rn rv p f. 0 \<le> rv \<longrightarrow> revision_glob sroot rn rv p \<longrightarrow> file_at st p = Some f \<longrightarrow>
        revision_file fm st sroot rn rv p f) \<and>
     (\<forall>rn rv p q. 0 \<le> rv \<longrightarrow> revision_glob sroot rn rv p \<longrightarrow> revision_glob sroot rn rv q \<longrightarrow>
        file_at st p \<noteq> None \<longrightarrow> file_at st q \<noteq> None \<longrightarrow> p = q)"

lemma linked_grows: "linked fm st m \<Longrightarrow> grows st st' \<Longrightarrow> linked fm st' m"
  by (fastforce simp: linked_def manifest_at_def grows_def split: option.splits)

lemma revision_file_grows:
  "revision_file fm st sroot rn rv p f \<Longrightarrow> grows st st' \<Longrightarrow> revision_file fm st' sroot rn rv p f"
  by (auto simp: revision_file_def intro: linked_grows)

text \<open>The name of a manifest file determines its run and revision.\<close>

lemma last_slash:
  "CHR ''/'' \<notin> set x \<Longrightarrow> CHR ''/'' \<notin> set y \<Longrightarrow> a @ CHR ''/'' # x = b @ CHR ''/'' # y \<Longrightarrow> a = b \<and> x = y"
  by (metis option.inject prod.inject py_rpartition_append)

lemma first_dash:
  "CHR ''-'' \<notin> set x \<Longrightarrow> CHR ''-'' \<notin> set y \<Longrightarrow> x @ CHR ''-'' # a = y @ CHR ''-'' # b \<Longrightarrow> x = y"
  by (metis list.inject py_split_append)

lemma zpad_no_sep: "CHR ''-'' \<notin> set (zpad w n)" "CHR ''/'' \<notin> set (zpad w n)"
  using set_zpad_isdigit [of _ w n] by (fastforce simp: py_isdigit_char_def)+

lemma revision_glob_path:
  "revision_glob sroot rn rv p \<longleftrightarrow> (\<exists>d. p = manifest_path sroot rn rv d \<and> CHR ''/'' \<notin> set d)"
  by (auto simp: revision_glob_def manifest_path_def py_startswith_iff py_endswith_iff Let_def)

lemma manifest_path_split:
  "manifest_path sroot rn rv d =
    (sroot @ ''/'' @ rn) @ CHR ''/'' # (''manifest-r'' @ zpad 6 (nat rv) @ CHR ''-'' # (d @ ''.json''))"
  by (simp add: manifest_path_def revision_prefix_def run_directory_def)

lemma manifest_path_inject:
  assumes "manifest_path sroot rn rv d = manifest_path sroot rn' rv' d'"
    and "CHR ''/'' \<notin> set d" "CHR ''/'' \<notin> set d'" "0 \<le> rv" "0 \<le> rv'"
  shows "rn = rn' \<and> rv = rv' \<and> d = d'"
proof -
  let ?n = "\<lambda>rv d. ''manifest-r'' @ zpad 6 (nat rv) @ CHR ''-'' # (d @ ''.json'')"
  have "CHR ''/'' \<notin> set (?n rv d)" "CHR ''/'' \<notin> set (?n rv' d')"
    using assms(2,3) zpad_no_sep(2) [of 6 "nat rv"] zpad_no_sep(2) [of 6 "nat rv'"] by simp_all
  from last_slash [OF this assms(1) [unfolded manifest_path_split]]
  have eq: "sroot @ ''/'' @ rn = sroot @ ''/'' @ rn'" "?n rv d = ?n rv' d'" by blast+
  from eq(2) have "zpad 6 (nat rv) @ CHR ''-'' # (d @ ''.json'') = zpad 6 (nat rv') @ CHR ''-'' # (d' @ ''.json'')"
    by (simp only: append_same_eq same_append_eq)
  with first_dash [OF zpad_no_sep(1) zpad_no_sep(1) this] eq(1) assms(4,5) show ?thesis by simp
qed

lemma hex_no_slash: "is_sha256 d \<Longrightarrow> CHR ''/'' \<notin> set d"
  by (auto simp: is_sha256_def list_all_iff lower_hex_char_def py_isdigit_char_def dest!: bspec)

lemma manifest_path_glob:
  assumes "is_sha256 d" "0 \<le> rv" "0 \<le> rv'"
  shows "revision_glob sroot rn' rv' (manifest_path sroot rn rv d) \<longleftrightarrow> rn' = rn \<and> rv' = rv"
  using manifest_path_inject [of sroot rn rv d rn' rv'] hex_no_slash [OF assms(1)] assms(2,3)
  by (auto simp: revision_glob_path)

lemma store_ok_cache: "store_ok fm sroot st \<Longrightarrow> cache_ok fm st"
  by (simp add: store_ok_def)

lemma store_okI:
  assumes "cache_ok fm st" "\<And>p d f. stat_key p d f \<in> set (vs_verified st) \<Longrightarrow> file_at st p \<noteq> None"
    and "\<And>rn rv p f. 0 \<le> rv \<Longrightarrow> revision_glob sroot rn rv p \<Longrightarrow> file_at st p = Some f \<Longrightarrow>
      revision_file fm st sroot rn rv p f"
    and "\<And>rn rv p q. 0 \<le> rv \<Longrightarrow> revision_glob sroot rn rv p \<Longrightarrow> revision_glob sroot rn rv q \<Longrightarrow>
      file_at st p \<noteq> None \<Longrightarrow> file_at st q \<noteq> None \<Longrightarrow> p = q"
  shows "store_ok fm sroot st"
  unfolding store_ok_def using assms by blast

lemma store_okD:
  assumes "store_ok fm sroot st" "0 \<le> rv" "revision_glob sroot rn rv p" "file_at st p = Some f"
  shows "revision_file fm st sroot rn rv p f"
    "revision_glob sroot rn rv q \<Longrightarrow> file_at st q \<noteq> None \<Longrightarrow> q = p"
  using assms unfolding store_ok_def by (metis option.discI)+

text \<open>Steps that leave the files and record only present files keep the store.\<close>

lemma store_ok_same_files:
  assumes "store_ok fm sroot st" "vs_files st' = vs_files st" "cache_ok fm st'"
    and "\<And>p d f. stat_key p d f \<in> set (vs_verified st') \<Longrightarrow> file_at st p \<noteq> None"
  shows "store_ok fm sroot st'"
proof -
  have f: "file_at st' p = file_at st p" for p using assms(2) by (simp add: file_at_def)
  then have "manifest_at fm st' = manifest_at fm st" by (simp add: manifest_at_def fun_eq_iff)
  then have "linked fm st' m = linked fm st m" for m
    by (simp add: linked_def cong: option.case_cong)
  then have "revision_file fm st' = revision_file fm st" by (simp add: revision_file_def fun_eq_iff)
  with assms f show ?thesis by (simp add: store_ok_def)
qed

lemma verify_triple:
  "triple (store_ok fm sroot) (verify_artifact fm ref)
     (\<lambda>_ st. store_ok fm sroot st \<and> (\<exists>f. file_at st (ar_path ref) = Some f \<and> fm_sha256 fm (fl_data f) = ar_sha256 ref))
     (store_ok fm sroot)"
proof (rule tripleI)
  fix st r st' assume s: "store_ok fm sroot st" and v: "verify_artifact fm ref st = (r, st')"
  have c: "cache_ok fm st'" using store_ok_cache [OF s] v by (rule verify_cache_ok)
  have files: "vs_files st' = vs_files st" using verify_artifact_files [of fm ref st] v by simp
  have present: "file_at st p \<noteq> None" if "stat_key p d f \<in> set (vs_verified st')" for p d f
    using v
  proof (cases rule: verify_artifact_cases)
    case (full g)
    with that s show ?thesis by (auto simp: store_ok_def)
  qed (use that s in \<open>auto simp: store_ok_def\<close>)
  have s': "store_ok fm sroot st'"
    by (rule store_ok_same_files [OF s files c]) (use present files in \<open>simp add: file_at_def\<close>)
  have "\<exists>f. file_at st' (ar_path ref) = Some f \<and> fm_sha256 fm (fl_data f) = ar_sha256 ref" if "r = Val ()"
    using verify_iff [OF store_ok_cache [OF s], of ref] v that files by (auto simp: file_at_def)
  with s' show "case r of Val x \<Rightarrow> store_ok fm sroot st' \<and> (\<exists>f. file_at st' (ar_path ref) = Some f \<and>
        fm_sha256 fm (fl_data f) = ar_sha256 ref) | Exc e \<Rightarrow> store_ok fm sroot st' | Dead \<Rightarrow> store_ok fm sroot st'"
    by (auto split: outcome.split)
qed

lemma load_triple:
  "triple (store_ok fm sroot) (load_manifest fm (RefArg ref) None)
     (\<lambda>m st. store_ok fm sroot st \<and> manifest_at fm st ref m) (store_ok fm sroot)"
proof -
  have "triple (\<lambda>st. store_ok fm sroot st \<and> (\<exists>f. file_at st (ar_path ref) = Some f \<and>
        fm_sha256 fm (fl_data f) = ar_sha256 ref)) (read_manifest fm (ar_path ref))
      (\<lambda>m st. store_ok fm sroot st \<and> manifest_at fm st ref m) (store_ok fm sroot)"
    by (auto simp: triple_def read_manifest_def manifest_at_def split: option.split)
  then have "triple (store_ok fm sroot) (eff_bind (verify_artifact fm ref) (\<lambda>_. read_manifest fm (ar_path ref)))
      (\<lambda>m st. store_ok fm sroot st \<and> manifest_at fm st ref m) (store_ok fm sroot)"
    by (intro triple_bind [OF verify_triple])
  moreover have "coerce_manifest_ref (RefArg ref) None = eff_return ref"
    by (simp add: coerce_manifest_ref_def)
  ultimately show ?thesis
    by (simp add: load_manifest_def eff_bind_def eff_return_def eff_raise_def triple_def)
qed

lemma destination_ok:
  assumes "faithful_formats fm" "fm_encode fm m = Inr data" "is_ok (validate_revision_chain m)"
    and s: "store_ok fm sroot st" and l: "linked fm st m"
    and dest: "dest = manifest_path sroot (rm_run_id m) (rm_revision m) (fm_sha256 fm data)"
    and new: "file_at st dest = None"
    and alone: "\<And>p. revision_glob sroot (rm_run_id m) (rm_revision m) p \<Longrightarrow> file_at st p \<noteq> None \<Longrightarrow> p = dest"
  shows "store_ok fm sroot (put_file dest \<lparr>fl_data = data, fl_mtime = t\<rparr> st)"
proof -
  let ?f = "\<lparr>fl_data = data, fl_mtime = t\<rparr>"
  let ?st = "put_file dest ?f st"
  have r0: "0 \<le> rm_revision m"
    using assms(3) by (auto simp: validate_revision_chain_def is_ok_iff checks_Inr)
  have hex: "is_sha256 (fm_sha256 fm data)" using assms(1) by (simp add: faithful_formats_def)
  have g: "grows st ?st" using new by (simp add: grows_def)
  have p: "parse_manifest fm data = Some m"
    using assms(1-3) by (simp add: faithful_formats_def parse_manifest_def)
  have mine: "revision_glob sroot rn rv dest \<longleftrightarrow> rn = rm_run_id m \<and> rv = rm_revision m" if "0 \<le> rv" for rn rv
    unfolding dest by (rule manifest_path_glob [OF hex r0 that])
  have rf: "revision_file fm ?st sroot (rm_run_id m) (rm_revision m) dest ?f"
    using p dest linked_grows [OF l g] by (auto simp: revision_file_def)
  have present: "file_at st p \<noteq> None" if "stat_key p d f \<in> set (vs_verified st)" for p d f
    using s that unfolding store_ok_def by blast
  then have "fresh_stat st dest ?f" using new unfolding fresh_stat_def by blast
  with store_ok_cache [OF s] have c: "cache_ok fm ?st" by (rule put_cache_ok)
  have old: "revision_file fm ?st sroot rn rv p f"
    if "0 \<le> rv" "revision_glob sroot rn rv p" "file_at st p = Some f" for rn rv p f
    using revision_file_grows [OF store_okD(1) [OF s that] g] .
  have unique: "p = q" if "0 \<le> rv" "revision_glob sroot rn rv p" "revision_glob sroot rn rv q"
      "file_at st p \<noteq> None" "file_at st q \<noteq> None" for rn rv p q
    using s that unfolding store_ok_def by blast
  show ?thesis
  proof (rule store_okI [OF c])
    fix p d f assume "stat_key p d f \<in> set (vs_verified ?st)"
    with present show "file_at ?st p \<noteq> None" by simp
  next
    fix rn rv p f assume a: "0 \<le> rv" "revision_glob sroot rn rv p" "file_at ?st p = Some f"
    with old rf mine show "revision_file fm ?st sroot rn rv p f" by (cases "p = dest") auto
  next
    fix rn rv p q
    assume a: "0 \<le> rv" "revision_glob sroot rn rv p" "revision_glob sroot rn rv q"
      "file_at ?st p \<noteq> None" "file_at ?st q \<noteq> None"
    consider "p = dest" | "q = dest" | "p \<noteq> dest" "q \<noteq> dest" by blast
    then show "p = q"
    proof cases
      case 1
      with a(2) have "revision_glob sroot rn rv dest" by (simp only:)
      with mine [OF a(1)] have e: "rn = rm_run_id m" "rv = rm_revision m" by blast+
      have "q = dest" if "q \<noteq> dest"
        using alone [OF a(3) [unfolded e]] a(5) that by simp
      with 1 show ?thesis by blast
    next
      case 2
      with a(3) have "revision_glob sroot rn rv dest" by (simp only:)
      with mine [OF a(1)] have e: "rn = rm_run_id m" "rv = rm_revision m" by blast+
      have "p = dest" if "p \<noteq> dest"
        using alone [OF a(2) [unfolded e]] a(4) that by simp
      with 2 show ?thesis by blast
    next
      case 3
      with a(4,5) have "file_at st p \<noteq> None" "file_at st q \<noteq> None" by simp_all
      with a(1-3) show ?thesis by (rule unique)
    qed
  qed
qed

lemma publish_triple:
  assumes "faithful_formats fm" "is_ok (validate_revision_chain m)"
  shows "triple (store_ok fm sroot) (publish fm sroot env m) (\<lambda>_. store_ok fm sroot) (store_ok fm sroot)"
  unfolding publish_def Let_def
proof (intro triple_lift_bind triple_bind)
  fix data assume d: "fm_encode fm m = Inr data"
  let ?R = "\<lambda>_ st. store_ok fm sroot st \<and> linked fm st m"
  show "triple (store_ok fm sroot) (case rm_parent_manifest m of None \<Rightarrow> eff_return ()
      | Some p \<Rightarrow> eff_bind (load_manifest fm (RefArg p) None) (\<lambda>parent.
          if rm_run_id parent \<noteq> rm_run_id m \<or> rm_revision parent \<noteq> rm_revision m - 1
          then eff_raise (art_error ManifestConflictError) else eff_return ())) ?R (store_ok fm sroot)"
  proof (cases "rm_parent_manifest m")
    case None
    with assms(2) have "rm_revision m = 0"
      by (auto simp: validate_revision_chain_def is_ok_iff checks_Inr)
    with None show ?thesis by (auto simp: linked_def intro: triple_return)
  next
    case (Some p)
    then show ?thesis
      by (auto intro!: triple_bind [OF load_triple] triple_raise triple_return simp: linked_def)
  qed
  fix u
  let ?dest = "manifest_path sroot (rm_run_id m) (rm_revision m) (fm_sha256 fm data)"
  show "triple (?R u) (\<lambda>st. if filter (\<lambda>path. path \<noteq> ?dest)
        (filter (revision_glob sroot (rm_run_id m) (rm_revision m)) (map fst (vs_files st))) \<noteq> []
      then (Exc (art_error ManifestConflictError), st)
      else atomic_publish_json fm env ?dest (Inr data) AK_MANIFEST
        (Some (''run-manifest-r'' @ dec (nat (rm_revision m)))) False st)
      (\<lambda>_. store_ok fm sroot) (store_ok fm sroot)" (is "triple _ ?m _ _")
  proof (rule tripleI)
    fix st r st' assume R: "?R u st" and m: "?m st = (r, st')"
    have "store_ok fm sroot st'"
    proof (cases "filter (\<lambda>path. path \<noteq> ?dest)
        (filter (revision_glob sroot (rm_run_id m) (rm_revision m)) (map fst (vs_files st))) = []")
      case True
      then have alone: "p = ?dest" if "revision_glob sroot (rm_run_id m) (rm_revision m) p" "file_at st p \<noteq> None" for p
        using that by (auto simp: filter_empty_conv file_at_def map_of_eq_None_iff)
      from m True have "atomic_publish_json fm env ?dest (Inr data) AK_MANIFEST
        (Some (''run-manifest-r'' @ dec (nat (rm_revision m)))) False st = (r, st')" by simp
      then show ?thesis
      proof (cases rule: atomic_publish_effect)
        case written
        with R show ?thesis using destination_ok [OF assms(1) d assms(2) _ _ refl _ alone] by auto
      qed (use R in simp)
    qed (use m R in simp)
    then show "case r of Val x \<Rightarrow> store_ok fm sroot st' | Exc e \<Rightarrow> store_ok fm sroot st' | Dead \<Rightarrow> store_ok fm sroot st'"
      by (simp split: outcome.split)
  qed
qed

lemma RunManifest_new_Inr [res_simps]:
  "RunManifest_new m = Inr m' \<longleftrightarrow> is_ok (validate_revision_chain m) \<and> m' = m"
  by (auto simp: RunManifest_new_def res_simps)

lemma keeps_verify_store [intro]: "keeps (store_ok fm sroot) (verify_artifact fm ref)"
  unfolding keeps_triple by (rule triple_weaken [OF verify_triple]) auto

lemma publish_new_keeps:
  "faithful_formats fm \<Longrightarrow> keeps (store_ok fm sroot)
     (eff_bind (eff_lift (RunManifest_new m)) (\<lambda>m'. eff_bind (publish fm sroot env m') (\<lambda>ref. eff_return (m', ref))))"
  by (intro keeps_lift_bind keeps_bind)
    (auto simp: res_simps keeps_triple intro!: publish_triple triple_return)

lemma create_keeps:
  "faithful_formats fm \<Longrightarrow> keeps (store_ok fm sroot) (create_manifest fm sroot env spec rid meta)"
  unfolding create_manifest_def by (rule publish_new_keeps)

lemma revise_keeps:
  "faithful_formats fm \<Longrightarrow> keeps (store_ok fm sroot) (revise fm sroot env prev sha stage arts meta)"
  unfolding revise_def
  by (intro keeps_bind publish_new_keeps keeps_coerce keeps_load keeps_verify_store)

lemma fork_keeps:
  "faithful_formats fm \<Longrightarrow> keeps (store_ok fm sroot) (fork_snapshot depth fm sroot env prev sha rid repl meta)"
  unfolding fork_snapshot_def Let_def
  by (auto intro!: keeps_bind publish_new_keeps keeps_graph)

text \<open>
  The store as its clients use it: any number of processes create, revise, fork, load and
  verify, in any order and with any outcome, and files are created outside the store.
\<close>

inductive store_step :: "formats \<Rightarrow> string \<Rightarrow> vstate \<Rightarrow> vstate \<Rightarrow> bool" for fm sroot where
  create: "create_manifest fm sroot env spec rid meta st = (r, st') \<Longrightarrow> store_step fm sroot st st'"
| revise: "revise fm sroot env prev sha stage arts meta st = (r, st') \<Longrightarrow> store_step fm sroot st st'"
| fork: "fork_snapshot depth fm sroot env prev sha rid repl meta st = (r, st') \<Longrightarrow> store_step fm sroot st st'"
| load: "load_manifest fm arg sha st = (r, st') \<Longrightarrow> store_step fm sroot st st'"
| verify: "verify_artifact fm ref st = (r, st') \<Longrightarrow> store_step fm sroot st st'"
| new_file: "file_at st p = None \<Longrightarrow> (\<And>rn rv. \<not> revision_glob sroot rn rv p) \<Longrightarrow>
    store_step fm sroot st (put_file p f st)"

lemma new_file_store_ok:
  assumes "store_ok fm sroot st" "file_at st p = None" "\<And>rn rv. \<not> revision_glob sroot rn rv p"
  shows "store_ok fm sroot (put_file p f st)"
proof (rule store_okI)
  have g: "grows st (put_file p f st)" using assms(2) by (simp add: grows_def)
  have present: "file_at st q \<noteq> None" if "stat_key q d h \<in> set (vs_verified st)" for q d h
    using assms(1) that unfolding store_ok_def by blast
  then have "fresh_stat st p f" using assms(2) unfolding fresh_stat_def by blast
  with store_ok_cache [OF assms(1)] show "cache_ok fm (put_file p f st)" by (rule put_cache_ok)
  show "file_at (put_file p f st) q \<noteq> None" if "stat_key q d h \<in> set (vs_verified (put_file p f st))" for q d h
    using that present by simp
  fix rn rv q assume q: "0 \<le> rv" "revision_glob sroot rn rv q"
  then have n: "q \<noteq> p" using assms(3) by blast
  show "revision_file fm (put_file p f st) sroot rn rv q h" if "file_at (put_file p f st) q = Some h" for h
    using revision_file_grows [OF store_okD(1) [OF assms(1) q] g] that n by simp
  show "q = q'" if "revision_glob sroot rn rv q'" "file_at (put_file p f st) q \<noteq> None"
      "file_at (put_file p f st) q' \<noteq> None" for q'
  proof -
    have "q' \<noteq> p" using that(1) assms(3) by blast
    with that n have "file_at st q \<noteq> None" "file_at st q' \<noteq> None" by simp_all
    with assms(1) q that(1) show ?thesis unfolding store_ok_def by blast
  qed
qed

lemma store_step_ok:
  assumes "store_step fm sroot st st'" "faithful_formats fm" "store_ok fm sroot st"
  shows "store_ok fm sroot st'"
  using assms(1)
proof cases
  case (create env spec rid meta r)
  from keepsD [OF create_keeps [OF assms(2)] assms(3)] create show ?thesis by (metis snd_conv)
next
  case (revise env prev sha stage arts meta r)
  from keepsD [OF revise_keeps [OF assms(2)] assms(3)] revise show ?thesis by (metis snd_conv)
next
  case (fork depth env prev sha rid repl meta r)
  from keepsD [OF fork_keeps [OF assms(2)] assms(3)] fork show ?thesis by (metis snd_conv)
next
  case (load arg sha r)
  have "keeps (store_ok fm sroot) (load_manifest fm arg sha)" by blast
  from keepsD [OF this assms(3)] load show ?thesis by simp
next
  case (verify ref r)
  with keepsD [OF keeps_verify_store assms(3)] show ?thesis by (metis snd_conv)
next
  case (new_file p f)
  with assms(3) show ?thesis by (simp add: new_file_store_ok)
qed

text \<open>
  C4. Every run has one linear history: in every state that clients of a store can reach from
  one without manifests, a manifest file is the only one of its run and revision, its name is
  its digest, it parses to a manifest of that run and revision, and it is either revision zero
  without a parent or its parent is there, has the recorded digest and is the preceding
  revision of the same run.
\<close>

theorem store_history_linear:
  assumes "(store_step fm sroot)\<^sup>*\<^sup>* st0 st" "faithful_formats fm" "vs_verified st0 = []"
    and "\<And>rn rv p. revision_glob sroot rn rv p \<Longrightarrow> file_at st0 p = None"
    and "revision_glob sroot rn rv path" "0 \<le> rv" "file_at st path = Some f"
  shows "revision_file fm st sroot rn rv path f \<and>
    {p. revision_glob sroot rn rv p \<and> file_at st p \<noteq> None} = {path}"
proof -
  have "store_ok fm sroot st0"
    by (rule store_okI) (use assms(3,4) in \<open>simp_all add: cache_ok_def\<close>)
  with assms(1) have ok: "store_ok fm sroot st" by induction (auto intro: store_step_ok assms(2))
  from store_okD(1) [OF ok assms(6,5,7)] store_okD(2) [OF ok assms(6,5,7)] assms(5,7)
  show ?thesis by blast
qed

end
