(* ===== verification/Keys.thy ===== *)
theory Keys
  imports Artifacts Paths "HOL-Library.Multiset"
begin

text \<open>
  \<open>src/qairt_agent/jobs/keys.py\<close>: the identity of a specification's content and the stage
  key derived from it. A value of the specification is a \<open>keyval\<close>. The walk reads the disk
  (the files of a \<open>vstate\<close>; a directory is there when a file lies below it) and changes
  nothing, so it is a function. Canonical JSON, the JSON parser, the ONNX loader and the
  environment are the parameter \<open>ke\<close>. Symbolic links and unreadable files are not modelled.
  The first argument of the recursive functions is the recursion depth the interpreter has
  left.
\<close>

datatype keyval =
    KNone | KBool bool | KInt int | KFloat pyfloat | KEnum json | KModel "(string \<times> keyval) list"
  | KPath string | KStr string | KMap "(string \<times> keyval) list" | KSeq "keyval list"
  | KSet "keyval list" | KOther string

fun keyval_of_json :: "json \<Rightarrow> keyval" where
  "keyval_of_json JNull = KNone"
| "keyval_of_json (JBool b) = KBool b"
| "keyval_of_json (JInt i) = KInt i"
| "keyval_of_json (JFloat f) = KFloat f"
| "keyval_of_json (JStr s) = KStr s"
| "keyval_of_json (JList xs) = KSeq (map keyval_of_json xs)"
| "keyval_of_json (JObj kvs) = KMap (map (\<lambda>(k, v). (k, keyval_of_json v)) kvs)"

record key_env =
  ke_sha256 :: "string \<Rightarrow> string"
  ke_json :: "json \<Rightarrow> string option"
  ke_loads :: "string \<Rightarrow> json option"
  ke_onnx :: "string \<Rightarrow> (string \<times> string) list list option"
  ke_cwd :: string
  ke_home :: string

type_synonym key_path = "string list"

definition OUTPUT_ONLY_FIELDS :: "string list" where
  "OUTPUT_ONLY_FIELDS = [''artifact_root'', ''cache_dir'', ''destination'', ''jobs_root'', ''output_dir'',
     ''output_dlc'', ''output_file'', ''output_path'', ''output_root'', ''report_path'', ''work_dir'', ''workdir'']"

definition SDK_FIELDS :: "string list" where
  "SDK_FIELDS = [''qairt_root'', ''qairt_sdk_root'', ''qnn_root'', ''qnn_sdk_root'', ''sdk_dir'', ''sdk_path'',
     ''sdk_root'']"

definition PATH_FIELDS :: "string list" where
  "PATH_FIELDS = [''actual_manifest'', ''actual_trace'', ''aimet_config_path'', ''baseline_trace'',
     ''calibration_manifest'', ''config_path'', ''context_path'', ''encodings_path'', ''model_path'', ''onnx_path'',
     ''path'', ''reference_manifest'', ''reference_trace'', ''tokenizer_path'', ''validation_manifest'',
     ''vector_manifest'']"

definition IGNORED_DIRECTORY_NAMES :: "string list" where
  "IGNORED_DIRECTORY_NAMES = [''.git'', ''.mypy_cache'', ''.pytest_cache'', ''__pycache__'']"

definition CONFIG_DIRECTORY_SUFFIXES :: "string list" where
  "CONFIG_DIRECTORY_SUFFIXES = [''.json'', ''.model'', ''.textproto'', ''.tiktoken'', ''.toml'', ''.txt'', ''.yaml'', ''.yml'']"

section \<open>Canonical digests\<close>

definition canonical_json_bytes :: "key_env \<Rightarrow> json \<Rightarrow> exn + string" where
  "canonical_json_bytes ke j = (case ke_json ke j of
     None \<Rightarrow> Inl (art_error ArtifactPublishError) | Some b \<Rightarrow> Inr b)"

definition json_sha256 :: "key_env \<Rightarrow> json \<Rightarrow> exn + string" where
  "json_sha256 ke j = bind_res (canonical_json_bytes ke j) (\<lambda>b. Inr (ke_sha256 ke b))"

datatype input_ref = RefInput ArtifactRef | TextInput string

definition hash_inputs :: "key_env \<Rightarrow> input_ref list \<Rightarrow> exn + string" where
  "hash_inputs ke refs =
     (let shas = map (\<lambda>r. case r of RefInput a \<Rightarrow> ar_sha256 a | TextInput s \<Rightarrow> s) refs
      in json_sha256 ke (JObj [(''inputs_sha256'', JList (map JStr (sort shas)))]))"

definition opt_json :: "string option \<Rightarrow> json" where
  "opt_json v = (case v of None \<Rightarrow> JNull | Some s \<Rightarrow> JStr s)"

definition stage_key_payload ::
  "string \<Rightarrow> string \<Rightarrow> string \<Rightarrow> string \<Rightarrow> string \<Rightarrow> string \<Rightarrow> string option \<Rightarrow> string option \<Rightarrow> json"
where
  "stage_key_payload stage_name inputs_sha256 resolved_preset_sha256 sdk_build adapter_capability platform_abi
      image_digest device_fingerprint =
     JObj [(''stage'', JStr stage_name), (''inputs_sha256'', JStr inputs_sha256),
       (''resolved_preset_sha256'', JStr resolved_preset_sha256), (''sdk_build'', JStr sdk_build),
       (''adapter_capability'', JStr adapter_capability), (''image_digest'', opt_json image_digest),
       (''platform_abi'', JStr platform_abi), (''device_fingerprint'', opt_json device_fingerprint)]"

definition compute_stage_key ::
  "key_env \<Rightarrow> string \<Rightarrow> string \<Rightarrow> string \<Rightarrow> string \<Rightarrow> string \<Rightarrow> string \<Rightarrow> string option \<Rightarrow> string option
   \<Rightarrow> exn + string"
where
  "compute_stage_key ke stage_name inputs_sha256 resolved_preset_sha256 sdk_build adapter_capability platform_abi
      image_digest device_fingerprint =
     json_sha256 ke (stage_key_payload stage_name inputs_sha256 resolved_preset_sha256 sdk_build
       adapter_capability platform_abi image_digest device_fingerprint)"

section \<open>Fields and paths\<close>

definition field_name :: "key_path \<Rightarrow> string" where
  "field_name key_path = (if key_path \<noteq> [] then py_lower (last key_path) else '''')"

definition is_output_field :: "key_path \<Rightarrow> bool" where
  "is_output_field key_path \<longleftrightarrow> field_name key_path \<in> set OUTPUT_ONLY_FIELDS"

definition is_sdk_field :: "key_path \<Rightarrow> bool" where
  "is_sdk_field key_path \<longleftrightarrow> field_name key_path \<in> set SDK_FIELDS \<or> py_endswith (field_name key_path) ''_sdk_root''"

definition is_path_field :: "key_path \<Rightarrow> bool" where
  "is_path_field key_path \<longleftrightarrow> field_name key_path \<in> set PATH_FIELDS \<or>
     list_ex (py_endswith (field_name key_path)) [''_file'', ''_manifest'', ''_path'', ''_trace'']"

definition below :: "string \<Rightarrow> string \<Rightarrow> bool" where
  "below dir p \<longleftrightarrow> py_startswith p (if dir = ''/'' then ''/'' else dir @ ''/'')"

definition is_file :: "vstate \<Rightarrow> string \<Rightarrow> bool" where
  "is_file st p \<longleftrightarrow> file_at st p \<noteq> None"

definition is_dir :: "vstate \<Rightarrow> string \<Rightarrow> bool" where
  "is_dir st p \<longleftrightarrow> list_ex (below p) (map fst (vs_files st))"

definition path_exists :: "vstate \<Rightarrow> string \<Rightarrow> bool" where
  "path_exists st p \<longleftrightarrow> is_file st p \<or> is_dir st p"

definition relative_components :: "string \<Rightarrow> string \<Rightarrow> string list" where
  "relative_components dir p = drop (length (path_components dir)) (path_components p)"

definition looks_like_sdk_directory :: "vstate \<Rightarrow> string \<Rightarrow> bool" where
  "looks_like_sdk_directory st path \<longleftrightarrow> is_file st (path @ ''/sdk.yaml'') \<or>
     list_ex (\<lambda>p. below path p \<and> (case relative_components path p of
         [q, _, y] \<Rightarrow> q = ''qairt'' \<and> y = ''sdk.yaml'' | _ \<Rightarrow> False)) (map fst (vs_files st))"

definition resolve_value :: "key_env \<Rightarrow> string option \<Rightarrow> string \<Rightarrow> string" where
  "resolve_value ke base_dir v =
     (let path = expanduser (ke_home ke) v
      in resolve_path (ke_cwd ke) (if \<not> is_absolute path \<and> base_dir \<noteq> None then path_join (the base_dir) path else path))"

definition verify_expected_sha :: "string \<Rightarrow> string option \<Rightarrow> exn + unit" where
  "verify_expected_sha actual_sha256 expected_sha256 = (case expected_sha256 of
     None \<Rightarrow> Inr ()
   | Some e \<Rightarrow> ensure (actual_sha256 = py_lower e) (art_error ArtifactIntegrityError))"

section \<open>Directories\<close>

text \<open>
  \<open>os.walk\<close> lists the files of a directory before it descends, both in the order of their
  names: the order of the relative components when a file name counts below a directory name.
\<close>

fun walk_key :: "string list \<Rightarrow> (bool \<times> string) list" where
  "walk_key [] = []"
| "walk_key [f] = [(False, f)]"
| "walk_key (d # ds) = (True, d) # walk_key ds"

definition walk_files :: "vstate \<Rightarrow> string \<Rightarrow> (string list \<times> disk_file) list" where
  "walk_files st path = sort_key (\<lambda>(cs, _). walk_key cs)
     (filter (\<lambda>(cs, _). cs \<noteq> [] \<and> list_all (\<lambda>d. d \<notin> set IGNORED_DIRECTORY_NAMES) (butlast cs))
       (map (\<lambda>(p, f). (relative_components path p, f)) (filter (\<lambda>(p, _). below path p) (vs_files st))))"

definition config_only :: "key_path \<Rightarrow> bool" where
  "config_only key_path \<longleftrightarrow> field_name key_path \<in> {''config_path'', ''tokenizer_path'', ''aimet_config_path''}"

definition listed :: "key_path \<Rightarrow> string list \<Rightarrow> bool" where
  "listed key_path cs \<longleftrightarrow> \<not> (config_only key_path \<and>
     py_lower (path_suffix (last cs)) \<notin> set CONFIG_DIRECTORY_SUFFIXES)"

definition directory_entry :: "key_env \<Rightarrow> string list \<times> disk_file \<Rightarrow> json" where
  "directory_entry ke e = (case e of (cs, f) \<Rightarrow>
     JObj [(''relative_path'', JStr (tl (render_path cs))), (''sha256'', JStr (ke_sha256 ke (fl_data f))),
       (''size_bytes'', JInt (int (length (fl_data f))))])"

text \<open>The identity, with its \<open>sha256\<close> where it has one.\<close>

definition directory_identity ::
  "key_env \<Rightarrow> vstate \<Rightarrow> string \<Rightarrow> key_path \<Rightarrow> exn + json \<times> string option"
where
  "directory_identity ke st path key_path =
     (if is_sdk_field key_path \<or> looks_like_sdk_directory st path
      then Inr (JObj [(''path'', JStr path), (''type'', JStr ''sdk_directory''),
             (''content_identity'', JStr ''sdk_build_provenance'')], None)
      else
        let entries = filter (\<lambda>(cs, _). listed key_path cs) (walk_files st path)
        in bind_res (json_sha256 ke (JObj [(''entries'', JList (map (directory_entry ke) entries))])) (\<lambda>sha.
           Inr (JObj [(''path'', JStr path), (''type'', JStr ''directory''), (''sha256'', JStr sha),
             (''file_count'', JInt (int (length entries))),
             (''size_bytes'', JInt (sum_list (map (\<lambda>(_, f). int (length (fl_data f))) entries)))], Some sha)))"

section \<open>Files and values\<close>

definition is_manifest_path :: "string \<Rightarrow> key_path \<Rightarrow> bool" where
  "is_manifest_path path key_path \<longleftrightarrow> py_contains (field_name key_path) ''manifest'' \<or>
     py_contains (py_lower (path_name path)) ''.manifest.''"

definition hex_char :: "char \<Rightarrow> bool" where
  "hex_char c \<longleftrightarrow> py_isdigit_char c \<or> py_lower_char c \<in> set ''abcdef''"

text \<open>\<open>int(s, 16)\<close> succeeds: white space around, a sign, a prefix, single underscores between digits.\<close>

definition int16_ok :: "string \<Rightarrow> bool" where
  "int16_ok s =
     (let t = py_strip s;
          u = (if t \<noteq> [] \<and> (hd t = CHR ''+'' \<or> hd t = CHR ''-'') then tl t else t);
          prefixed = py_startswith (py_lower u) ''0x'';
          d = (if prefixed then (if py_startswith (drop 2 u) ''_'' then drop 3 u else drop 2 u) else u)
      in list_all (\<lambda>p. p \<noteq> [] \<and> list_all hex_char p) (py_split (CHR ''_'') d))"

definition expected_sha_for :: "(string \<times> keyval) list \<Rightarrow> string \<Rightarrow> string option" where
  "expected_sha_for mapping key =
     (let value = (if key = ''path'' then map_of mapping ''sha256''
          else case map_of mapping (key @ ''_sha256'') of
            None \<Rightarrow> if py_endswith key ''_path''
              then map_of mapping (take (length key - 5) key @ ''_sha256'') else None
          | Some KNone \<Rightarrow> if py_endswith key ''_path''
              then map_of mapping (take (length key - 5) key @ ''_sha256'') else Some KNone
          | Some v \<Rightarrow> Some v)
      in case value of
           Some (KStr s) \<Rightarrow> if length s \<noteq> 64 then None else if int16_ok s then Some (py_lower s) else None
         | _ \<Rightarrow> None)"

text \<open>\<open>OnnxInspector.external_data_paths\<close>: a sorted set of the locations of the initializers.\<close>

definition external_data_paths :: "key_env \<Rightarrow> string \<Rightarrow> (string \<times> string) list list \<Rightarrow> string list" where
  "external_data_paths ke path initializers =
     sort (remdups (map (\<lambda>l. resolve_path (ke_cwd ke) (path_join (path_parent path) l))
       (filter (\<lambda>l. l \<noteq> []) (List.map_filter (\<lambda>metadata. map_of (rev metadata) ''location'') initializers))))"

definition caught :: "exn \<Rightarrow> bool" where
  "caught e = (case e of PyExn c _ \<Rightarrow> c \<in> {''OSError'', ''ValueError'', ''ValidationError''} | _ \<Rightarrow> False)"

text \<open>\<open>try: return m except (OSError, ValueError): pass; return d\<close>\<close>

definition or_value :: "exn + json \<Rightarrow> json \<Rightarrow> exn + json" where
  "or_value m d = (case m of Inr j \<Rightarrow> Inr j | Inl e \<Rightarrow> if caught e then Inr d else Inl e)"

definition key_recursion_error :: exn where
  "key_recursion_error = PyExn ''RecursionError'' ''depth''"

fun content_id ::
    "nat \<Rightarrow> key_env \<Rightarrow> vstate \<Rightarrow> keyval \<Rightarrow> key_path \<Rightarrow> string option \<Rightarrow> string option \<Rightarrow> string list \<Rightarrow> exn + json"
  and path_id :: "nat \<Rightarrow> key_env \<Rightarrow> vstate \<Rightarrow> string \<Rightarrow> key_path \<Rightarrow> string option \<Rightarrow> string list \<Rightarrow> exn + json"
where
  "content_id 0 ke st v key_path base_dir expected active = Inl key_recursion_error"
| "content_id (Suc n) ke st v key_path base_dir expected active = (case v of
     KNone \<Rightarrow> Inr JNull
   | KBool b \<Rightarrow> Inr (JBool b)
   | KInt i \<Rightarrow> Inr (JInt i)
   | KFloat f \<Rightarrow> Inr (JFloat f)
   | KEnum j \<Rightarrow> Inr j
   | KModel kvs \<Rightarrow> content_id n ke st (KMap kvs) key_path base_dir expected active
   | KPath p \<Rightarrow> path_id n ke st (resolve_value ke base_dir p) key_path expected active
   | KStr s \<Rightarrow>
       let path = resolve_value ke base_dir s
       in if is_output_field key_path \<or> is_sdk_field key_path
          then if is_sdk_field key_path \<and> is_dir st path
               then or_value (path_id n ke st path key_path expected active) (JStr s) else Inr (JStr s)
          else if path_exists st path \<or> is_path_field key_path
               then or_value (path_id n ke st path key_path expected active) (JStr s) else Inr (JStr s)
   | KMap kvs \<Rightarrow> bind_res (map_res (\<lambda>(key, item).
         bind_res (content_id n ke st item (key_path @ [key]) base_dir (expected_sha_for kvs key) active)
           (\<lambda>j. Inr (key, j))) (sort_key fst kvs)) (\<lambda>normalized. Inr (JObj normalized))
   | KSeq vs \<Rightarrow> bind_res (map_res (\<lambda>(i, item).
         content_id n ke st item (key_path @ [dec i]) base_dir None active) (enumerate 0 vs)) (\<lambda>js. Inr (JList js))
   | KSet vs \<Rightarrow> bind_res (map_res (\<lambda>item.
         content_id n ke st item (key_path @ [''set_item'']) base_dir None active) vs) (\<lambda>js.
       bind_res (map_res (\<lambda>j. bind_res (canonical_json_bytes ke j) (\<lambda>b. Inr (b, j))) js) (\<lambda>keyed.
       Inr (JList (map snd (sort_key fst keyed)))))
   | KOther s \<Rightarrow> Inr (JStr s))"
| "path_id 0 ke st path key_path expected active = Inl key_recursion_error"
| "path_id (Suc n) ke st path key_path expected active =
     (if is_output_field key_path
      then Inr (JObj [(''path'', JStr path), (''content_identity'', JStr ''output_only'')])
      else if \<not> path_exists st path
      then (if expected \<noteq> None then Inl (art_error ArtifactNotFoundError)
            else Inr (JObj [(''path'', JStr path), (''exists'', JBool False)]))
      else case file_at st path of
        None \<Rightarrow> bind_res (directory_identity ke st path key_path) (\<lambda>(identity, sha).
          case sha of None \<Rightarrow> Inr identity
          | Some s \<Rightarrow> bind_res (verify_expected_sha s expected) (\<lambda>_. Inr identity))
      | Some f \<Rightarrow>
          if path \<in> set active then Inr (JObj [(''path'', JStr path), (''cycle'', JBool True)])
          else
            let sha256 = ke_sha256 ke (fl_data f)
            in bind_res (verify_expected_sha sha256 expected) (\<lambda>_.
               bind_res (if py_lower (path_suffix path) = ''.onnx''
                 then (case ke_onnx ke (fl_data f) of
                     None \<Rightarrow> Inl (art_error ArtifactIntegrityError)
                   | Some initializers \<Rightarrow>
                       bind_res (map_res (\<lambda>(index, external).
                         if is_file st external
                         then path_id n ke st external (key_path @ [''external_data_'' @ zpad 3 index]) None (path # active)
                         else Inl (art_error ArtifactNotFoundError))
                         (enumerate 0 (external_data_paths ke path initializers))) (\<lambda>js.
                       Inr [(''external_data'', JList js)]))
                 else Inr []) (\<lambda>external_data.
               bind_res (if is_manifest_path path key_path
                 then (case ke_loads ke (fl_data f) of
                     None \<Rightarrow> Inl (art_error ArtifactIntegrityError)
                   | Some payload \<Rightarrow>
                       bind_res (content_id n ke st (keyval_of_json payload) (key_path @ [''manifest_content''])
                         (Some (path_parent path)) None (path # active)) (\<lambda>j. Inr [(''referenced_content'', j)]))
                 else Inr []) (\<lambda>referenced.
               Inr (JObj ([(''path'', JStr path), (''sha256'', JStr sha256), (''size_bytes'', JInt (int (length (fl_data f))))] @
                 external_data @ referenced))))))"

definition content_identity :: "nat \<Rightarrow> key_env \<Rightarrow> vstate \<Rightarrow> keyval \<Rightarrow> exn + json" where
  "content_identity depth ke st value = content_id depth ke st value [] None None []"

section \<open>The walk ends\<close>

text \<open>From some depth on, the result is the same and is not a \<open>RecursionError\<close>.\<close>

definition ends :: "(nat \<Rightarrow> exn + 'a) \<Rightarrow> bool" where
  "ends m \<longleftrightarrow> (\<exists>N r. r \<noteq> Inl key_recursion_error \<and> (\<forall>n \<ge> N. m n = r))"

lemma ends_const: "r \<noteq> Inl key_recursion_error \<Longrightarrow> ends (\<lambda>_. r)"
  by (auto simp: ends_def)

lemma ends_Suc: "ends (\<lambda>n. m (Suc n)) \<Longrightarrow> ends m"
proof -
  assume "ends (\<lambda>n. m (Suc n))"
  then obtain N r where r: "r \<noteq> Inl key_recursion_error" "\<forall>n \<ge> N. m (Suc n) = r" by (auto simp: ends_def)
  have "m n = r" if "n \<ge> Suc N" for n using r(2) that by (cases n) auto
  with r(1) show "ends m" unfolding ends_def by blast
qed

lemma ends_bind:
  assumes "ends m" "\<And>x. ends (\<lambda>n. f n x)"
  shows "ends (\<lambda>n. bind_res (m n) (f n))"
proof -
  from assms(1) obtain N r where r: "r \<noteq> Inl key_recursion_error" "\<And>n. n \<ge> N \<Longrightarrow> m n = r"
    by (auto simp: ends_def)
  show ?thesis
  proof (cases r)
    case (Inl e)
    then have "bind_res (m n) (f n) = Inl e" if "n \<ge> N" for n using r(2) [OF that] by simp
    with r(1) Inl show ?thesis unfolding ends_def by blast
  next
    case (Inr x)
    from assms(2) [of x] obtain M q where q: "q \<noteq> Inl key_recursion_error" "\<And>n. n \<ge> M \<Longrightarrow> f n x = q"
      by (auto simp: ends_def)
    have "bind_res (m n) (f n) = q" if "n \<ge> max N M" for n
      using r(2) [of n] q(2) [of n] that Inr by simp
    with q(1) show ?thesis unfolding ends_def by blast
  qed
qed

lemma ends_map:
  "(\<And>x. x \<in> set xs \<Longrightarrow> ends (\<lambda>n. f n x)) \<Longrightarrow> ends (\<lambda>n. map_res (f n) xs)"
proof (induction xs)
  case Nil
  show ?case by (simp add: ends_const)
next
  case (Cons x xs)
  have "ends (\<lambda>n. bind_res (map_res (f n) xs) (\<lambda>ys. Inr (y # ys)))" for y
    using Cons by (intro ends_bind ends_const) simp_all
  with Cons.prems show ?case by (simp add: ends_bind)
qed

lemma ends_or_value: "ends m \<Longrightarrow> ends (\<lambda>n. or_value (m n) d)"
proof -
  assume "ends m"
  then obtain N r where r: "r \<noteq> Inl key_recursion_error" "\<And>n. n \<ge> N \<Longrightarrow> m n = r" by (auto simp: ends_def)
  then have "or_value r d \<noteq> Inl key_recursion_error" by (auto simp: or_value_def split: sum.splits)
  with r(2) show ?thesis unfolding ends_def by metis
qed

lemma ends_if: "(b \<Longrightarrow> ends m) \<Longrightarrow> (\<not> b \<Longrightarrow> ends m') \<Longrightarrow> ends (\<lambda>n. if b then m n else m' n)"
  by (cases b) simp_all

lemma ends_option:
  "ends a \<Longrightarrow> (\<And>y. ends (b y)) \<Longrightarrow> ends (\<lambda>n. case x of None \<Rightarrow> a n | Some y \<Rightarrow> b y n)"
  by (cases x) simp_all

lemma in_enumerate: "(i, x) \<in> set (enumerate n xs) \<Longrightarrow> x \<in> set xs"
  by (force simp: in_set_enumerate_eq)

lemma not_recursion [simp]:
  "art_error c \<noteq> key_recursion_error" "key_recursion_error \<noteq> art_error c"
  by (simp_all add: art_error_def agent_exn_def key_recursion_error_def)

lemma canonical_ends: "canonical_json_bytes ke j \<noteq> Inl key_recursion_error"
  by (simp add: canonical_json_bytes_def split: option.split)

lemma json_sha256_ends: "json_sha256 ke j \<noteq> Inl key_recursion_error"
  using canonical_ends by (auto simp: json_sha256_def res_simps)

lemma directory_ends: "directory_identity ke st p kp \<noteq> Inl key_recursion_error"
  using json_sha256_ends by (auto simp: directory_identity_def Let_def res_simps)

lemma expected_ends: "verify_expected_sha s e \<noteq> Inl key_recursion_error"
  by (simp add: verify_expected_sha_def ensure_def split: option.split)

definition content_ends :: "key_env \<Rightarrow> vstate \<Rightarrow> string list \<Rightarrow> bool" where
  "content_ends ke st active \<longleftrightarrow> (\<forall>v kp base e. ends (\<lambda>n. content_id n ke st v kp base e active))"

definition path_ends :: "key_env \<Rightarrow> vstate \<Rightarrow> string list \<Rightarrow> bool" where
  "path_ends ke st active \<longleftrightarrow> (\<forall>p kp e. ends (\<lambda>n. path_id n ke st p kp e active))"

lemma map_ends:
  assumes "\<And>k v kp base e. (k, v) \<in> set kvs \<Longrightarrow> ends (\<lambda>n. content_id n ke st v kp base e active)"
  shows "ends (\<lambda>n. content_id n ke st (KMap kvs) kp base e active)"
proof (rule ends_Suc)
  show "ends (\<lambda>n. content_id (Suc n) ke st (KMap kvs) kp base e active)"
    using assms by (auto intro!: ends_bind ends_map ends_const)
qed

lemma content_from_path: "path_ends ke st active \<Longrightarrow> content_ends ke st active"
proof -
  assume p: "path_ends ke st active"
  have "ends (\<lambda>n. content_id n ke st v kp base e active)" for v kp base e
  proof (induction v arbitrary: kp base e)
    case (KMap kvs)
    then show ?case by (intro map_ends) fastforce
  next
    case (KModel kvs)
    then have "ends (\<lambda>n. content_id n ke st (KMap kvs) kp base e active)" by (intro map_ends) fastforce
    then show ?case by (intro ends_Suc [of "\<lambda>n. content_id n ke st (KModel kvs) kp base e active"]) simp
  next
    case (KPath q)
    with p show ?case
      by (intro ends_Suc [of "\<lambda>n. content_id n ke st (KPath q) kp base e active"]) (simp add: path_ends_def)
  next
    case (KStr s)
    with p show ?case
      by (intro ends_Suc [of "\<lambda>n. content_id n ke st (KStr s) kp base e active"])
        (auto simp: path_ends_def Let_def intro!: ends_if ends_const ends_or_value)
  next
    case (KSeq vs)
    then show ?case
      by (intro ends_Suc [of "\<lambda>n. content_id n ke st (KSeq vs) kp base e active"])
        (auto intro!: ends_bind ends_map ends_const dest: in_enumerate)
  next
    case (KSet vs)
    have k: "map_res (\<lambda>j. bind_res (canonical_json_bytes ke j) (\<lambda>b. Inr (b, j))) js \<noteq> Inl key_recursion_error" for js
      using canonical_ends by (induction js) (auto simp: res_simps)
    from KSet show ?case
      by (intro ends_Suc [of "\<lambda>n. content_id n ke st (KSet vs) kp base e active"])
        (auto intro!: ends_bind ends_map ends_const simp: bind_res_Inl k)
  qed (rule ends_Suc, simp add: ends_const)+
  then show ?thesis by (simp add: content_ends_def)
qed

text \<open>The files of the disk that are not being read.\<close>

definition inactive :: "vstate \<Rightarrow> string list \<Rightarrow> nat" where
  "inactive st active = card (fst ` set (vs_files st) - set active)"

lemma inactive_less: "file_at st p = Some f \<Longrightarrow> p \<notin> set active \<Longrightarrow> inactive st (p # active) < inactive st active"
proof -
  assume f: "file_at st p = Some f" and p: "p \<notin> set active"
  from f have "p \<in> fst ` set (vs_files st)" by (force simp: file_at_def dest: map_of_SomeD)
  with p have "fst ` set (vs_files st) - set (p # active) \<subset> fst ` set (vs_files st) - set active" by auto
  then show ?thesis unfolding inactive_def by (intro psubset_card_mono) simp_all
qed

lemma path_step:
  assumes "\<And>p f. file_at st p = Some f \<Longrightarrow> p \<notin> set active \<Longrightarrow>
      path_ends ke st (p # active) \<and> content_ends ke st (p # active)"
  shows "path_ends ke st active"
  unfolding path_ends_def
proof (intro allI)
  fix p kp e
  show "ends (\<lambda>n. path_id n ke st p kp e active)"
  proof (cases "file_at st p")
    case None
    have "ends (\<lambda>n. path_id (Suc n) ke st p kp e active)"
      unfolding path_id.simps None option.case
      by (intro ends_if ends_const ends_bind) (simp_all add: directory_ends expected_ends res_simps split: option.split)
    then show ?thesis by (rule ends_Suc)
  next
    case (Some f)
    show ?thesis
    proof (cases "p \<in> set active")
      case True
      have "ends (\<lambda>n. path_id (Suc n) ke st p kp e active)"
        unfolding path_id.simps Some option.case using True by (auto intro!: ends_if ends_const)
      then show ?thesis by (rule ends_Suc)
    next
      case False
      with assms [OF Some] have IH: "\<And>q kp e. ends (\<lambda>n. path_id n ke st q kp e (p # active))"
        "\<And>v kp base e. ends (\<lambda>n. content_id n ke st v kp base e (p # active))"
        by (simp_all add: path_ends_def content_ends_def)
      have "ends (\<lambda>n. path_id (Suc n) ke st p kp e active)"
        unfolding path_id.simps Some option.case Let_def using False
        by (auto intro!: ends_if ends_const ends_bind ends_map ends_option IH simp: expected_ends split del: option.split)
      then show ?thesis by (rule ends_Suc)
    qed
  qed
qed

lemma all_ends: "path_ends ke st active"
proof (induction "inactive st active" arbitrary: active rule: less_induct)
  case less
  have "path_ends ke st (p # active)" if "file_at st p = Some f" "p \<notin> set active" for p f
    using inactive_less [OF that] by (rule less)
  then show ?case using content_from_path by (intro path_step) blast
qed

text \<open>
  C33. Computing a content identity ends for every value on every disk, manifests that refer to
  each other included: from some depth on the result is the same and is not a
  \<open>RecursionError\<close>, because a file that is being read is not read again.
\<close>

theorem content_identity_terminates:
  "\<exists>N. content_identity N ke st v \<noteq> Inl key_recursion_error \<and>
    (\<forall>n. content_identity (N + n) ke st v = content_identity N ke st v)"
proof -
  from content_from_path [OF all_ends [of ke st "[]"]] obtain N r
    where r: "r \<noteq> Inl key_recursion_error" "\<forall>n \<ge> N. content_id n ke st v [] None None [] = r"
    unfolding content_ends_def ends_def by blast
  then show ?thesis unfolding content_identity_def by (intro exI [of _ N]) auto
qed

section \<open>What the identity depends on\<close>

lemma sort_key_mset:
  assumes "distinct (map fst kvs)" "mset kvs = mset kvs'"
  shows "sort_key fst kvs = sort_key fst (kvs' :: ('a :: linorder \<times> 'b) list)"
proof (rule sort_key_inj_key_eq)
  show "mset kvs = mset (sort_key fst kvs')" using assms(2) by simp
  show "inj_on fst (set kvs)" using assms(1) by (simp add: distinct_map)
qed simp

text \<open>
  The identity ignores the order of a mapping's entries: any permutation of a mapping with
  distinct keys has the same identity, at any place of the specification.
\<close>

theorem content_identity_order_free:
  assumes "distinct (map fst kvs)" "mset kvs = mset kvs'"
  shows "content_id n ke st (KMap kvs) kp base e active = content_id n ke st (KMap kvs') kp base e active"
proof -
  have "map_of kvs = map_of kvs'"
  proof (subst map_of_inject_set)
    show "distinct (map fst kvs')" using assms by (metis mset_eq_imp_distinct_iff mset_map)
    show "set kvs = set kvs'" using assms(2) by (rule mset_eq_setD)
  qed (rule assms(1))
  then have "expected_sha_for kvs = expected_sha_for kvs'"
    by (intro ext) (simp only: expected_sha_for_def)
  with sort_key_mset [OF assms] show ?thesis by (cases n) simp_all
qed

theorem content_identity_order_free_witness:
  "content_id 5 ke st (KMap [(''a'', KInt 1), (''b'', KStr ''x'')]) [] None None [] =
   content_id 5 ke st (KMap [(''b'', KStr ''x''), (''a'', KInt 1)]) [] None None []"
  by (rule content_identity_order_free) simp_all

lemma path_file_identity:
  assumes "path_id n ke st p kp e active = Inr j" "\<not> is_output_field kp" "file_at st p = Some f" "p \<notin> set active"
  shows "\<exists>rest. j = JObj ((''path'', JStr p) # (''sha256'', JStr (ke_sha256 ke (fl_data f))) # rest) \<and>
    verify_expected_sha (ke_sha256 ke (fl_data f)) e = Inr ()"
proof (cases n)
  case (Suc m)
  have "path_exists st p" using assms(3) by (simp add: path_exists_def is_file_def)
  with assms Suc show ?thesis
    by (auto simp: Let_def bind_res_Inr)
qed (use assms(1) in simp)

text \<open>
  The identity covers the bytes of an input: two disks on which a referenced file has
  different digests give the reference different identities.
\<close>

theorem input_bytes_matter:
  assumes "content_id n ke st (KPath p) kp base e [] = Inr j" "content_id n ke st' (KPath p) kp base e [] = Inr j'"
    and "\<not> is_output_field kp"
    and "file_at st (resolve_value ke base p) = Some f" "file_at st' (resolve_value ke base p) = Some f'"
    and "ke_sha256 ke (fl_data f) \<noteq> ke_sha256 ke (fl_data f')"
  shows "j \<noteq> j'"
proof (cases n)
  case (Suc m)
  with assms(1,2) have "path_id m ke st (resolve_value ke base p) kp e [] = Inr j"
    "path_id m ke st' (resolve_value ke base p) kp e [] = Inr j'" by simp_all
  from path_file_identity [OF this(1) assms(3,4)] path_file_identity [OF this(2) assms(3,5)] assms(6)
  show ?thesis by auto
qed (use assms(1) in simp)

lemma map_res_fails: "x \<in> set xs \<Longrightarrow> \<not> is_ok (f x) \<Longrightarrow> \<not> is_ok (map_res f xs)"
proof (induction xs)
  case (Cons y ys)
  then show ?case by (cases "f y"; cases "map_res f ys") auto
qed simp

text \<open>
  A recorded digest is enforced: when a mapping of the specification names an input file
  and records its digest beside it, and the file has another digest, no identity is computed,
  at any depth and whatever else the mapping holds.
\<close>

theorem recorded_digest_enforced:
  assumes "(key, KPath p) \<in> set kvs" "expected_sha_for kvs key = Some d" "\<not> is_output_field (kp @ [key])"
    and "file_at st (resolve_value ke base p) = Some f" "ke_sha256 ke (fl_data f) \<noteq> d"
    and "resolve_value ke base p \<notin> set active"
  shows "\<not> is_ok (content_id n ke st (KMap kvs) kp base e active)"
proof (cases n)
  case (Suc m)
  let ?f = "\<lambda>(key, item). bind_res (content_id m ke st item (kp @ [key]) base (expected_sha_for kvs key) active)
           (\<lambda>j. Inr (key, j))"
  have low: "py_lower d = d" using assms(2) by (auto simp: expected_sha_for_def Let_def split: option.splits keyval.splits if_splits)
  have "\<not> is_ok (content_id m ke st (KPath p) (kp @ [key]) base (Some d) active)"
  proof
    assume "is_ok (content_id m ke st (KPath p) (kp @ [key]) base (Some d) active)"
    then obtain j where j: "content_id m ke st (KPath p) (kp @ [key]) base (Some d) active = Inr j"
      by (auto simp: is_ok_iff)
    then obtain l where "path_id l ke st (resolve_value ke base p) (kp @ [key]) (Some d) active = Inr j"
      by (cases m) simp_all
    from path_file_identity [OF this assms(3,4,6)] assms(5) low show False
      by (auto simp: verify_expected_sha_def res_simps)
  qed
  then have "\<not> is_ok (?f (key, KPath p))"
    using assms(2) by (cases "content_id m ke st (KPath p) (kp @ [key]) base (Some d) active") simp_all
  then have "\<not> is_ok (map_res ?f (sort_key fst kvs))" using assms(1) by (intro map_res_fails [of "(key, KPath p)"]) simp_all
  with Suc show ?thesis by (cases "map_res ?f (sort_key fst kvs)") simp_all
qed simp

text \<open>
  Stage keys separate: when two stage keys agree and neither the serialization nor the
  digest confuses the two payloads, then the stage, its inputs, the preset, the SDK build, the
  adapter, the platform, the image and the device all agree.
\<close>

theorem stage_key_injective:
  assumes "compute_stage_key ke s i r b a p im d = Inr k" "compute_stage_key ke s' i' r' b' a' p' im' d' = Inr k"
    and "inj_on (ke_json ke) {stage_key_payload s i r b a p im d, stage_key_payload s' i' r' b' a' p' im' d'}"
    and "inj_on (ke_sha256 ke) {x. Some x \<in> ke_json ke ` {stage_key_payload s i r b a p im d, stage_key_payload s' i' r' b' a' p' im' d'}}"
  shows "(s, i, r, b, a, p, im, d) = (s', i', r', b', a', p', im', d')"
proof -
  let ?P = "stage_key_payload s i r b a p im d" and ?Q = "stage_key_payload s' i' r' b' a' p' im' d'"
  from assms(1,2) obtain x y where x: "ke_json ke ?P = Some x" "ke_json ke ?Q = Some y" "ke_sha256 ke x = ke_sha256 ke y"
    by (auto simp: compute_stage_key_def json_sha256_def canonical_json_bytes_def split: option.splits)
  have "x = y"
    by (rule inj_onD [OF assms(4) x(3)]) (simp_all add: x(1,2) [symmetric])
  with x(1,2) have "ke_json ke ?P = ke_json ke ?Q" by simp
  then have "?P = ?Q" by (rule inj_onD [OF assms(3)]) simp_all
  moreover have "opt_json u = opt_json v \<longleftrightarrow> u = v" for u v
    by (cases u; cases v) (simp_all add: opt_json_def)
  ultimately show ?thesis unfolding stage_key_payload_def by simp
qed

section \<open>Texts that name paths\<close>

text \<open>
  A text that is not a path of the specification is still hashed as one when it happens to
  name something on the disk; the empty text names the working directory. So outside output
  and SDK fields the identity of an empty text is the digest of every file below the working
  directory, and stage keys change with unrelated files there.
\<close>

theorem empty_text_hashes_working_directory:
  assumes "\<not> is_output_field kp" "\<not> is_sdk_field kp" "resolve_path (ke_cwd ke) '''' = ke_cwd ke"
    and "is_dir st (ke_cwd ke)" "file_at st (ke_cwd ke) = None" "\<not> looks_like_sdk_directory st (ke_cwd ke)"
    and "directory_identity ke st (ke_cwd ke) kp = Inr (j, sha)"
  shows "content_id (Suc (Suc n)) ke st (KStr '''') kp None None active = Inr j"
proof -
  have "resolve_value ke None '''' = ke_cwd ke"
    using assms(3) by (simp add: resolve_value_def expanduser_def)
  moreover have "path_exists st (ke_cwd ke)" using assms(4) by (simp add: path_exists_def)
  ultimately show ?thesis
    using assms(1,2,5,7) by (simp add: or_value_def verify_expected_sha_def split: option.split)
qed

definition demo_key_env :: key_env where
  "demo_key_env = \<lparr>ke_sha256 = toy_sha256, ke_json = (\<lambda>_. Some ''json''), ke_loads = (\<lambda>_. None), ke_onnx = (\<lambda>_. None),
     ke_cwd = ''/w'', ke_home = ''/home''\<rparr>"

definition demo_disk :: "string \<Rightarrow> vstate" where
  "demo_disk d = \<lparr>vs_files = [(''/w/in.bin'', \<lparr>fl_data = d, fl_mtime = 5\<rparr>)], vs_verified = [], vs_full = 0, vs_cached = 0\<rparr>"

theorem empty_text_hashes_working_directory_witness:
  "\<exists>j. content_id 2 demo_key_env (demo_disk ''abc'') (KStr '''') [''name''] None None [] =
      Inr (JObj ((''path'', JStr ''/w'') # (''type'', JStr ''directory'') # j))"
proof -
  have c: "resolve_path ''/w'' '''' = ''/w''" "is_dir (demo_disk ''abc'') ''/w''"
    "\<not> is_output_field [''name'']" "\<not> is_sdk_field [''name'']"
    "\<not> looks_like_sdk_directory (demo_disk ''abc'') ''/w''" "file_at (demo_disk ''abc'') ''/w'' = None"
    by code_simp+
  obtain j sha where d: "directory_identity demo_key_env (demo_disk ''abc'') ''/w'' [''name''] =
      Inr (JObj ((''path'', JStr ''/w'') # (''type'', JStr ''directory'') # j), sha)"
    using c(4,5) by (simp add: directory_identity_def json_sha256_def canonical_json_bytes_def demo_key_env_def Let_def)
  have w: "ke_cwd demo_key_env = ''/w''" by (simp add: demo_key_env_def)
  from empty_text_hashes_working_directory [OF c(3,4), of demo_key_env "demo_disk ''abc''", unfolded w, OF c(1,2,6,5) d]
  show ?thesis by (simp add: numeral_2_eq_2)
qed

theorem input_bytes_matter_witness:
  "content_id 2 demo_key_env (demo_disk ''abc'') (KPath ''/w/in.bin'') [''onnx_path''] None None [] \<noteq>
   content_id 2 demo_key_env (demo_disk ''abcd'') (KPath ''/w/in.bin'') [''onnx_path''] None None []"
proof -
  have c: "resolve_value demo_key_env None ''/w/in.bin'' = ''/w/in.bin''" "\<not> is_output_field [''onnx_path'']"
    "toy_sha256 ''abc'' \<noteq> toy_sha256 ''abcd''" "py_lower (path_suffix ''/w/in.bin'') \<noteq> ''.onnx''"
    "\<not> is_manifest_path ''/w/in.bin'' [''onnx_path'']"
    by code_simp+
  have f: "file_at (demo_disk d) ''/w/in.bin'' = Some \<lparr>fl_data = d, fl_mtime = 5\<rparr>" for d
    by (simp add: demo_disk_def file_at_def)
  have r: "\<exists>j. content_id 2 demo_key_env (demo_disk d) (KPath ''/w/in.bin'') [''onnx_path''] None None [] = Inr j" for d
    using c by (simp add: numeral_2_eq_2 f path_exists_def is_file_def verify_expected_sha_def Let_def)
  from r [of "''abc''"] r [of "''abcd''"] obtain j j'
    where j: "content_id 2 demo_key_env (demo_disk ''abc'') (KPath ''/w/in.bin'') [''onnx_path''] None None [] = Inr j"
      "content_id 2 demo_key_env (demo_disk ''abcd'') (KPath ''/w/in.bin'') [''onnx_path''] None None [] = Inr j'"
    by blast
  have "ke_sha256 demo_key_env ''abc'' \<noteq> ke_sha256 demo_key_env ''abcd''" using c(3) by (simp add: demo_key_env_def)
  moreover have g: "file_at (demo_disk d) (resolve_value demo_key_env None ''/w/in.bin'') = Some \<lparr>fl_data = d, fl_mtime = 5\<rparr>" for d
    by (simp add: c(1) f)
  ultimately have "j \<noteq> j'" using input_bytes_matter [OF j c(2) g g] by simp
  with j show ?thesis by simp
qed

theorem recorded_digest_enforced_witness:
  "\<not> is_ok (content_id 9 demo_key_env (demo_disk ''abc'')
     (KMap [(''path'', KPath ''/w/in.bin''), (''sha256'', KStr (toy_sha256 ''abcd''))]) [] None None [])"
proof -
  let ?m = "[(''path'', KPath ''/w/in.bin''), (''sha256'', KStr (toy_sha256 ''abcd''))]"
  have c: "resolve_value demo_key_env None ''/w/in.bin'' = ''/w/in.bin''" "\<not> is_output_field ([] @ [''path''])"
    "expected_sha_for ?m ''path'' = Some (toy_sha256 ''abcd'')"
    by code_simp+
  have f: "file_at (demo_disk ''abc'') (resolve_value demo_key_env None ''/w/in.bin'') = Some \<lparr>fl_data = ''abc'', fl_mtime = 5\<rparr>"
    by (simp add: demo_disk_def file_at_def c)
  have "toy_sha256 ''abc'' \<noteq> toy_sha256 ''abcd''" by code_simp
  then have d: "ke_sha256 demo_key_env (fl_data \<lparr>fl_data = ''abc'', fl_mtime = 5\<rparr>) \<noteq> toy_sha256 ''abcd''"
    by (simp add: demo_key_env_def)
  show ?thesis by (rule recorded_digest_enforced [OF _ c(3) c(2) f d]) simp_all
qed

theorem stage_key_injective_witness:
  "\<exists>k. compute_stage_key (demo_key_env\<lparr>ke_json := (\<lambda>j. if j = stage_key_payload ''build'' ''i'' ''r'' ''b'' ''a'' ''p'' None None
        then Some ''1'' else Some ''22'')\<rparr>) ''build'' ''i'' ''r'' ''b'' ''a'' ''p'' None None = Inr k \<and>
     compute_stage_key (demo_key_env\<lparr>ke_json := (\<lambda>j. if j = stage_key_payload ''build'' ''i'' ''r'' ''b'' ''a'' ''p'' None None
        then Some ''1'' else Some ''22'')\<rparr>) ''build'' ''i'' ''r'' ''b'' ''a'' ''p'' None (Some ''d'') \<noteq> Inr k"
proof -
  let ?P = "stage_key_payload ''build'' ''i'' ''r'' ''b'' ''a'' ''p'' None None"
  let ?Q = "stage_key_payload ''build'' ''i'' ''r'' ''b'' ''a'' ''p'' None (Some ''d'')"
  let ?ke = "demo_key_env\<lparr>ke_json := (\<lambda>j. if j = ?P then Some ''1'' else Some ''22'')\<rparr>"
  have pq: "?P \<noteq> ?Q" by (simp add: stage_key_payload_def opt_json_def)
  have "toy_sha256 ''1'' \<noteq> toy_sha256 ''22''" by code_simp
  then have inj: "inj_on (ke_json ?ke) {?P, ?Q}" "inj_on (ke_sha256 ?ke) {x. Some x \<in> ke_json ?ke ` {?P, ?Q}}"
    using pq by (auto simp: inj_on_def demo_key_env_def)
  obtain k where k: "compute_stage_key ?ke ''build'' ''i'' ''r'' ''b'' ''a'' ''p'' None None = Inr k"
    by (simp add: compute_stage_key_def json_sha256_def canonical_json_bytes_def)
  have "compute_stage_key ?ke ''build'' ''i'' ''r'' ''b'' ''a'' ''p'' None (Some ''d'') \<noteq> Inr k"
    using stage_key_injective [OF k _ inj] by blast
  with k show ?thesis by blast
qed

end
