(* ===== verification/Worker.thy ===== *)
theory Worker
  imports Journal ManifestStore Keys
begin

text \<open>
  \<open>src/qairt_agent/jobs/worker.py\<close>: the worker that drives the stages of a job. A computation
  of the worker acts on a \<open>wstate\<close>: its job directory, the disk with the verification cache, and
  a count of its accesses to the job directory. Before each access other processes (the
  heartbeat helper, \<open>job cancel\<close>, a watcher) may have changed the directory in any way
  (\<open>wv_others\<close>), and the worker may be killed (\<open>wv_killed\<close>). The stage runner is a parameter
  with any behaviour; the directories of other jobs do not change while the worker runs.
\<close>

section \<open>The state and the configuration\<close>

record wstate =
  ws_journal :: Journal
  ws_disk :: vstate
  ws_tick :: nat

type_synonym spec_map = "(string \<times> keyval) list"

record StageContext =
  cx_stage_name :: string
  cx_spec :: spec_map
  cx_resolved :: raw_map
  cx_current_manifest :: "ArtifactRef option"
  cx_output_dir :: string
  cx_attempt :: int

record StageOutcome =
  oc_artifacts :: "ArtifactRef list"
  oc_metrics :: raw_map
  oc_manifest :: "ArtifactRef option"
  oc_verified :: bool

type_synonym StageRunner = "StageContext \<Rightarrow> (wstate, StageOutcome) eff"

text \<open>
  The surroundings: the formats and digests, the recursion limit, the clock, other processes
  and kills by access, the directory of jobs, what a new run draws, \<open>model_dump\<close> of a
  specification, \<open>str\<close> of a JSON value that is not a text, and the media type of a file name.
\<close>

record work_env =
  wv_formats :: formats
  wv_keys :: key_env
  wv_depth :: nat
  wv_clock :: "nat \<Rightarrow> int"
  wv_others :: "nat \<Rightarrow> Journal \<Rightarrow> Journal"
  wv_killed :: "nat \<Rightarrow> bool"
  wv_jobs :: jobs_root
  wv_runs :: "nat \<Rightarrow> run_env"
  wv_dump :: "BuildSpec \<Rightarrow> spec_map"
  wv_str :: "json \<Rightarrow> string"
  wv_media :: "string \<Rightarrow> string option"

record WorkflowWorker =
  wk_job_id :: string
  wk_spec :: spec_map
  wk_resolved :: raw_map
  wk_provenance :: StageProvenance
  wk_stage_runner :: StageRunner
  wk_stages :: "string list"
  wk_reuse_from :: "Journal option"
  wk_output_dir :: string
  wk_initial_manifest :: "ArtifactRef option"
  wk_effective_build_spec :: "BuildSpec option"
  wk_heartbeat_stale_after :: int
  wk_env :: work_env

definition DEFAULT_WORKFLOW_STAGES :: "string list" where
  "DEFAULT_WORKFLOW_STAGES = [''build'', ''validate'', ''benchmark'']"

text \<open>The checks of the constructor; the work directory defaults to one in the job directory.\<close>

definition WorkflowWorker_new ::
  "int \<Rightarrow> string option \<Rightarrow> string \<Rightarrow> WorkflowWorker \<Rightarrow> exn + WorkflowWorker" where
  "WorkflowWorker_new heartbeat_interval output_dir journal_dir wk =
     bind_res (ensure (\<not> heartbeat_interval \<le> 0) value_error) (\<lambda>_.
     bind_res (ensure (\<not> wk_heartbeat_stale_after wk \<le> 0) value_error) (\<lambda>_.
     Inr (wk\<lparr>wk_output_dir := (case output_dir of None \<Rightarrow> path_join journal_dir ''work'' | Some d \<Rightarrow> d)\<rparr>)))"

section \<open>Access to the job directory and the disk\<close>

definition on_journal ::
  "WorkflowWorker \<Rightarrow> (int \<Rightarrow> Journal \<Rightarrow> Journal \<times> (exn + 'a)) \<Rightarrow> (wstate, 'a) eff" where
  "on_journal wk f = (\<lambda>w.
     let e = wk_env wk; n = ws_tick w; j = wv_others e n (ws_journal w);
         w1 = w\<lparr>ws_journal := j, ws_tick := Suc n\<rparr>
     in if wv_killed e n then (Dead, w1)
        else case f (wv_clock e n) j of (j', r) \<Rightarrow>
          (case r of Inl x \<Rightarrow> Exc x | Inr v \<Rightarrow> Val v, w1\<lparr>ws_journal := j'\<rparr>))"

definition read_journal :: "WorkflowWorker \<Rightarrow> (Journal \<Rightarrow> exn + 'a) \<Rightarrow> (wstate, 'a) eff" where
  "read_journal wk f = on_journal wk (\<lambda>_ j. (j, f j))"

definition utc_now :: "WorkflowWorker \<Rightarrow> (wstate, int) eff" where
  "utc_now wk = on_journal wk (\<lambda>t j. (j, Inr t))"

definition on_disk :: "(vstate, 'a) eff \<Rightarrow> (wstate, 'a) eff" where
  "on_disk m = (\<lambda>w. case m (ws_disk w) of (r, d) \<Rightarrow> (r, w\<lparr>ws_disk := d\<rparr>))"

definition read_disk :: "(vstate \<Rightarrow> exn + 'a) \<Rightarrow> (wstate, 'a) eff" where
  "read_disk f = on_disk (\<lambda>st. eff_lift (f st) st)"

text \<open>\<open>RunManifest.model_validate_json(path.read_bytes())\<close>, outside the store.\<close>

definition parse_file :: "formats \<Rightarrow> string \<Rightarrow> vstate \<Rightarrow> exn + RunManifest" where
  "parse_file fm path st = (case file_at st path of
     None \<Rightarrow> Inl (PyExn ''FileNotFoundError'' path)
   | Some f \<Rightarrow> (case parse_manifest fm (fl_data f) of
       None \<Rightarrow> Inl (PyExn ''ValidationError'' path) | Some m \<Rightarrow> Inr m))"

definition job_conflict :: "string \<Rightarrow> exn" where
  "job_conflict stage = agent_exn JobConflictError (Some stage) False"

text \<open>\<open>ArtifactRef.from_path\<close>\<close>

definition ArtifactRef_from_path ::
  "WorkflowWorker \<Rightarrow> string \<Rightarrow> ArtifactKind \<Rightarrow> string option \<Rightarrow> string option \<Rightarrow> vstate \<Rightarrow> exn + ArtifactRef" where
  "ArtifactRef_from_path wk path kind media_type logical_name st =
     (let e = wk_env wk; resolved = resolve_value (wv_keys e) None path
      in case file_at st resolved of
           None \<Rightarrow> Inl (PyExn ''FileNotFoundError'' path)
         | Some f \<Rightarrow> ArtifactRef_new
             \<lparr>ar_path = resolved, ar_sha256 = fm_sha256 (wv_formats e) (fl_data f),
              ar_size_bytes = int (length (fl_data f)), ar_kind = kind,
              ar_media_type = (let inferred_type = (case wv_media e (path_name resolved) of
                    Some m \<Rightarrow> m | None \<Rightarrow> ''application/octet-stream'')
                  in case media_type of None \<Rightarrow> inferred_type | Some m \<Rightarrow> if m = '''' then inferred_type else m),
              ar_logical_name = logical_name\<rparr>)"

section \<open>Receipts that verify\<close>

text \<open>
  \<open>JobJournal.verified_receipts\<close> with the verification cache: the outputs of each successful
  receipt are verified in order.
\<close>

fun outputs_verified :: "formats \<Rightarrow> ArtifactRef list \<Rightarrow> (vstate, bool) eff" where
  "outputs_verified fm [] = eff_return True"
| "outputs_verified fm (a # as) = (\<lambda>st. case verify_artifact fm a st of
     (Val _, st') \<Rightarrow> outputs_verified fm as st'
   | (Exc e, st') \<Rightarrow> if e = art_error ArtifactIntegrityError \<or> e = art_error ArtifactNotFoundError
       then (Val False, st') else (Exc e, st')
   | (Dead, st') \<Rightarrow> (Dead, st'))"

fun verified_list :: "formats \<Rightarrow> StageReceipt list \<Rightarrow> (vstate, StageReceipt list) eff" where
  "verified_list fm [] = eff_return []"
| "verified_list fm (r # rs) =
     (if \<not> verified r then verified_list fm rs
      else eff_bind (outputs_verified fm (rc_outputs r)) (\<lambda>ok.
           eff_bind (verified_list fm rs) (\<lambda>rest. eff_return (if ok then r # rest else rest))))"

definition own_verified_receipts :: "WorkflowWorker \<Rightarrow> (wstate, StageReceipt list) eff" where
  "own_verified_receipts wk = eff_bind (read_journal wk receipts) (\<lambda>rs.
     on_disk (verified_list (wv_formats (wk_env wk)) rs))"

definition other_verified_receipts :: "WorkflowWorker \<Rightarrow> Journal \<Rightarrow> (wstate, StageReceipt list) eff" where
  "other_verified_receipts wk j = eff_bind (eff_lift (receipts j)) (\<lambda>rs.
     on_disk (verified_list (wv_formats (wk_env wk)) rs))"

definition with_key :: "string \<Rightarrow> StageReceipt list \<Rightarrow> StageReceipt option" where
  "with_key stage_key rs = List.find (\<lambda>r. rc_stage_key r = stage_key) rs"

section \<open>Stage keys\<close>

definition BUILD_KEYS :: "string list" where
  "BUILD_KEYS = [''name'', ''preset'', ''sku'', ''sources'', ''output_root'', ''sequence'', ''split'', ''transforms'',
     ''quantization'', ''vectors'', ''compile'', ''quality'', ''target'', ''metadata'']"

definition QUALITY_KEYS :: "string list" where "QUALITY_KEYS = [''quality'', ''vectors'']"

definition BENCHMARK_KEYS :: "string list" where "BENCHMARK_KEYS = [''benchmark'']"

definition BUILD_SPEC_REUSE_FIELDS :: "string list" where
  "BUILD_SPEC_REUSE_FIELDS = [''name'', ''family'', ''sources'', ''output_root'', ''sequence'', ''split'',
     ''transforms'', ''quantization'', ''vectors'', ''compile'', ''quality'', ''target'', ''metadata'']"

definition project :: "spec_map \<Rightarrow> string list \<Rightarrow> spec_map" where
  "project spec keys = List.map_filter (\<lambda>key. map_option (Pair key) (map_of spec key)) keys"

definition stage_config :: "spec_map \<Rightarrow> string \<Rightarrow> spec_map" where
  "stage_config spec stage_name = (case map_of spec ''stage_configs'' of
     Some (KMap configs) \<Rightarrow>
       let selected = (if stage_name = ''validate''
             then (case map_of configs ''validation'' of Some v \<Rightarrow> Some v | None \<Rightarrow> map_of configs ''validate'')
             else map_of configs stage_name)
       in (case selected of Some (KMap kvs) \<Rightarrow> kvs | _ \<Rightarrow> [])
   | _ \<Rightarrow> [])"

definition is_run_manifest :: "ArtifactRef \<Rightarrow> bool" where
  "is_run_manifest ref \<longleftrightarrow>
     py_startswith (case ar_logical_name ref of None \<Rightarrow> '''' | Some n \<Rightarrow> n) ''run-manifest-r''"

definition ARTIFACT_KINDS :: "ArtifactKind list" where
  "ARTIFACT_KINDS = [AK_ONNX, AK_AIMET_ENCODINGS, AK_TEST_VECTORS, AK_GOLDEN_VECTORS, AK_DLC, AK_CONTEXT_BINARY,
     AK_MANIFEST, AK_REPORT, AK_CONFIG, AK_LOG, AK_OTHER]"

text \<open>\<open>ArtifactRef.model_validate\<close> of a dictionary; coercions between JSON types are not modelled.\<close>

definition artifact_of_json :: "raw_map \<Rightarrow> exn + ArtifactRef" where
  "artifact_of_json d =
     (if \<not> set (map fst d) \<subseteq> {''path'', ''sha256'', ''size_bytes'', ''kind'', ''media_type'', ''logical_name''}
      then Inl value_error
      else case (map_of d ''path'', map_of d ''sha256'', map_of d ''size_bytes'') of
        (Some (JStr path), Some (JStr digest), Some (JInt size_bytes)) \<Rightarrow>
          bind_res (case map_of d ''kind'' of None \<Rightarrow> Inr AK_OTHER
            | Some (JStr s) \<Rightarrow> (case List.find (\<lambda>k. artifact_kind_value k = s) ARTIFACT_KINDS of
                None \<Rightarrow> Inl value_error | Some k \<Rightarrow> Inr k)
            | _ \<Rightarrow> Inl value_error) (\<lambda>kind.
          bind_res (case map_of d ''media_type'' of None \<Rightarrow> Inr ''application/octet-stream''
            | Some (JStr s) \<Rightarrow> Inr s | _ \<Rightarrow> Inl value_error) (\<lambda>media_type.
          bind_res (case map_of d ''logical_name'' of None \<Rightarrow> Inr None | Some JNull \<Rightarrow> Inr None
            | Some (JStr s) \<Rightarrow> Inr (Some s) | _ \<Rightarrow> Inl value_error) (\<lambda>logical_name.
          ArtifactRef_new \<lparr>ar_path = path, ar_sha256 = digest, ar_size_bytes = size_bytes, ar_kind = kind,
            ar_media_type = media_type, ar_logical_name = logical_name\<rparr>)))
      | _ \<Rightarrow> Inl value_error)"

definition manifest_stage_key_identity :: "WorkflowWorker \<Rightarrow> ArtifactRef \<Rightarrow> (wstate, string) eff" where
  "manifest_stage_key_identity wk manifest =
     (let fm = wv_formats (wk_env wk) in
      if \<not> is_run_manifest manifest then eff_return (ar_sha256 manifest)
      else eff_bind (read_disk (parse_file fm (ar_path manifest))) (\<lambda>parsed.
        if rm_revision parsed \<noteq> 0 then eff_return (ar_sha256 manifest)
        else case map_of (rm_metadata parsed) ''forked_from_manifest'' of
            Some (JObj raw_source) \<Rightarrow>
              eff_bind (eff_lift (artifact_of_json raw_source)) (\<lambda>source.
              if ar_kind source \<noteq> AK_MANIFEST then eff_raise (job_conflict ''manifest_fork'')
              else eff_bind (on_disk (verify_artifact fm source)) (\<lambda>_. eff_return (ar_sha256 source)))
          | _ \<Rightarrow> eff_return (ar_sha256 manifest)))"

definition identity_sha256 :: "WorkflowWorker \<Rightarrow> keyval \<Rightarrow> vstate \<Rightarrow> exn + string" where
  "identity_sha256 wk v st =
     (let ke = wv_keys (wk_env wk)
      in bind_res (content_identity (wv_depth (wk_env wk)) ke st v) (json_sha256 ke))"

definition stage_projection :: "spec_map \<Rightarrow> string \<Rightarrow> spec_map" where
  "stage_projection spec stage_name =
     (if stage_name = ''benchmark'' then project spec BENCHMARK_KEYS
      else if stage_name = ''validate'' \<or> stage_name = ''diagnose'' then project spec QUALITY_KEYS
      else spec)"

definition input_basis :: "WorkflowWorker \<Rightarrow> string \<Rightarrow> ArtifactRef option \<Rightarrow> (wstate, string) eff" where
  "input_basis wk stage_name manifest =
     (if stage_name = ''build''
      then read_disk (identity_sha256 wk (KMap
        [(''spec'', KMap (project (wk_spec wk) BUILD_KEYS)), (''stage_config'', KMap (stage_config (wk_spec wk) ''build''))]))
      else
        eff_bind (case manifest of None \<Rightarrow> eff_return ''''
          | Some m \<Rightarrow>
              eff_bind (on_disk (verify_artifact (wv_formats (wk_env wk)) m)) (\<lambda>_.
              eff_bind (manifest_stage_key_identity wk m) (\<lambda>manifest_identity.
              eff_lift (hash_inputs (wv_keys (wk_env wk)) [TextInput manifest_identity])))) (\<lambda>manifest_sha.
        read_disk (identity_sha256 wk (KMap
          [(''manifest'', KStr manifest_sha), (''config'', KMap (stage_projection (wk_spec wk) stage_name)),
           (''stage_config'', KMap (stage_config (wk_spec wk) stage_name))]))))"

definition stage_key :: "WorkflowWorker \<Rightarrow> string \<Rightarrow> ArtifactRef option \<Rightarrow> (wstate, string) eff" where
  "stage_key wk stage_name manifest =
     eff_bind (input_basis wk stage_name manifest) (\<lambda>inputs_sha256.
     let p = wk_provenance wk
     in eff_lift (compute_stage_key (wv_keys (wk_env wk)) stage_name inputs_sha256
          (case pv_resolved_preset_sha256 p of None \<Rightarrow> '''' | Some s \<Rightarrow> s) (pv_sdk_build p)
          (pv_adapter_capability p) (pv_platform_abi p) (pv_image_digest p) (pv_device_fingerprint p)))"

section \<open>Attempts and reuse\<close>

definition field :: "raw_map \<Rightarrow> string \<Rightarrow> json" where
  "field d k = (case map_of d k of None \<Rightarrow> JNull | Some v \<Rightarrow> v)"

text \<open>The positive attempt a \<open>stage_started\<close> event reserves; a Python bool is an integer.\<close>

definition reserved_attempt :: "string \<Rightarrow> string \<Rightarrow> Event \<Rightarrow> int option" where
  "reserved_attempt stage_name key event =
     (if ev_type event \<noteq> ''stage_started'' \<or> field (ev_payload event) ''stage_name'' \<noteq> JStr stage_name \<or>
         field (ev_payload event) ''stage_key'' \<noteq> JStr key then None
      else case field (ev_payload event) ''attempt'' of
          JInt i \<Rightarrow> if i > 0 then Some i else None | JBool True \<Rightarrow> Some 1 | _ \<Rightarrow> None)"

definition next_attempt :: "WorkflowWorker \<Rightarrow> string \<Rightarrow> string \<Rightarrow> (wstate, int) eff" where
  "next_attempt wk stage_name key =
     eff_bind (read_journal wk receipts) (\<lambda>rs.
     eff_bind (read_journal wk (\<lambda>j. Inr (events 0 j))) (\<lambda>es.
     let attempts = map rc_attempt (filter (\<lambda>r. rc_stage_name r = stage_name \<and> rc_stage_key r = key) rs) @
           List.map_filter (reserved_attempt stage_name key) es
     in eff_return (if attempts \<noteq> [] then Max (set attempts) + 1 else 1)))"

definition record_stage_receipt :: "WorkflowWorker \<Rightarrow> StageReceipt \<Rightarrow> (wstate, JobStatus) eff" where
  "record_stage_receipt wk r = eff_bind (eff_lift (StageReceipt_new r)) (\<lambda>r. on_journal wk (record_receipt r))"

definition receipt_of_journal :: "WorkflowWorker \<Rightarrow> string \<Rightarrow> (wstate, StageReceipt option) eff" where
  "receipt_of_journal wk key =
     eff_bind (own_verified_receipts wk) (\<lambda>rs. eff_return (with_key key rs))"

text \<open>The parent's receipt is recorded in this journal as an attempt of its own.\<close>

definition reused_receipt :: "StageReceipt \<Rightarrow> int \<Rightarrow> int \<Rightarrow> int \<Rightarrow> StageReceipt" where
  "reused_receipt parent attempt started_at completed_at =
     \<lparr>rc_stage_key = rc_stage_key parent, rc_stage_name = rc_stage_name parent, rc_attempt = attempt,
      rc_status = SS_SUCCEEDED, rc_started_at = started_at, rc_completed_at = Some completed_at,
      rc_inputs = rc_inputs parent, rc_outputs = rc_outputs parent,
      rc_metrics = dict_set ''reused_from_parent'' (JBool True) (rc_metrics parent),
      rc_provenance = rc_provenance parent, rc_error = None\<rparr>"

definition reuse_parent ::
  "WorkflowWorker \<Rightarrow> string \<Rightarrow> string \<Rightarrow> StageReceipt \<Rightarrow> (wstate, StageReceipt option) eff" where
  "reuse_parent wk stage_name key parent =
     eff_bind (next_attempt wk stage_name key) (\<lambda>attempt.
     eff_bind (utc_now wk) (\<lambda>started_at.
     eff_bind (utc_now wk) (\<lambda>completed_at.
     let reused = reused_receipt parent attempt started_at completed_at
     in eff_bind (record_stage_receipt wk reused) (\<lambda>_. eff_return (Some reused)))))"

definition try_reuse :: "WorkflowWorker \<Rightarrow> string \<Rightarrow> string \<Rightarrow> (wstate, StageReceipt option) eff" where
  "try_reuse wk stage_name key =
     eff_bind (receipt_of_journal wk key) (\<lambda>existing. case existing of
       Some r \<Rightarrow> eff_return (Some r)
     | None \<Rightarrow> (case wk_reuse_from wk of
         None \<Rightarrow> eff_return None
       | Some parent_journal \<Rightarrow>
           eff_bind (other_verified_receipts wk parent_journal) (\<lambda>rs. case with_key key rs of
             None \<Rightarrow> eff_return None
           | Some parent \<Rightarrow> reuse_parent wk stage_name key parent)))"

section \<open>The ancestry of a job\<close>

definition build_spec_reuse_identity :: "WorkflowWorker \<Rightarrow> BuildSpec \<Rightarrow> vstate \<Rightarrow> exn + string" where
  "build_spec_reuse_identity wk build_spec st =
     (let payload = wv_dump (wk_env wk) build_spec; key_error = PyExn ''KeyError'' '''' in
      bind_res (map_res (\<lambda>key. case map_of payload key of
          None \<Rightarrow> Inl key_error | Some v \<Rightarrow> Inr (key, v)) BUILD_SPEC_REUSE_FIELDS) (\<lambda>projected.
      bind_res (case map_of payload ''stage_configs'' of
          Some (KMap configs) \<Rightarrow> (case map_of configs ''build'' of None \<Rightarrow> Inl key_error | Some v \<Rightarrow> Inr v)
        | _ \<Rightarrow> Inl key_error) (\<lambda>config.
      identity_sha256 wk (KMap (dict_set ''stage_config'' config projected)) st)))"

text \<open>A journal of the search: the worker's own, or one of another job, by its id.\<close>

datatype candidate = OwnJob | OtherJob string Journal

definition candidate_receipts :: "WorkflowWorker \<Rightarrow> candidate \<Rightarrow> (wstate, StageReceipt list) eff" where
  "candidate_receipts wk c = (case c of
     OwnJob \<Rightarrow> own_verified_receipts wk | OtherJob _ j \<Rightarrow> other_verified_receipts wk j)"

definition candidate_state :: "WorkflowWorker \<Rightarrow> candidate \<Rightarrow> (wstate, JobStatus) eff" where
  "candidate_state wk c = (case c of
     OwnJob \<Rightarrow> read_journal wk read_state | OtherJob _ j \<Rightarrow> eff_lift (read_state j))"

definition open_parent :: "jobs_root \<Rightarrow> string option \<Rightarrow> candidate list" where
  "open_parent jobs job_id = (case job_id of None \<Rightarrow> []
     | Some i \<Rightarrow> (case JobJournal_open i jobs of Inl _ \<Rightarrow> [] | Inr j \<Rightarrow> [OtherJob i j]))"

text \<open>
  The loop over the candidates. The first argument
  bounds the iterations; \<open>None\<close> is the result when it is used up.
\<close>

fun ancestor_search ::
  "nat \<Rightarrow> WorkflowWorker \<Rightarrow> string \<Rightarrow> candidate list \<Rightarrow> string list \<Rightarrow> (wstate, bool option) eff" where
  "ancestor_search 0 wk expected_key candidates visited = eff_return None"
| "ancestor_search (Suc n) wk expected_key [] visited = eff_return (Some False)"
| "ancestor_search (Suc n) wk expected_key (c # candidates) visited =
     (let i = (case c of OwnJob \<Rightarrow> wk_job_id wk | OtherJob i _ \<Rightarrow> i) in
      if i \<in> set visited then ancestor_search n wk expected_key candidates visited
      else
        eff_bind (candidate_receipts wk c) (\<lambda>rs.
        if list_ex (\<lambda>r. rc_stage_name r = ''build'' \<and> rc_stage_key r = expected_key) rs
        then eff_return (Some True)
        else eff_bind (candidate_state wk c) (\<lambda>status.
          let ancestor_id = js_parent_job_id status;
              more = (if ancestor_id \<noteq> None \<and> the ancestor_id \<notin> set (i # visited)
                then open_parent (wv_jobs (wk_env wk)) ancestor_id else [])
          in ancestor_search n wk expected_key (candidates @ more) (i # visited))))"

text \<open>Every iteration visits a new job or drops a candidate.\<close>

definition ancestor_bound :: "WorkflowWorker \<Rightarrow> nat" where
  "ancestor_bound wk = 2 * length (wv_jobs (wk_env wk)) + 8"

definition has_verified_ancestor_build_receipt :: "WorkflowWorker \<Rightarrow> (wstate, bool option) eff" where
  "has_verified_ancestor_build_receipt wk =
     eff_bind (stage_key wk ''build'' None) (\<lambda>expected_key.
     eff_bind (read_journal wk (\<lambda>j. bind_res (read_state j) (\<lambda>s. Inr (js_parent_job_id s)))) (\<lambda>parent_job_id.
     ancestor_search (ancestor_bound wk) wk expected_key
       (OwnJob # (case wk_reuse_from wk of None \<Rightarrow> [] | Some j \<Rightarrow> [OtherJob (jn_job_id j) j]) @
        open_parent (wv_jobs (wk_env wk)) parent_job_id) []))"

definition replacement_build_spec_for_fork ::
  "WorkflowWorker \<Rightarrow> RunManifest \<Rightarrow> (wstate, BuildSpec option) eff" where
  "replacement_build_spec_for_fork wk source = (case wk_effective_build_spec wk of
     None \<Rightarrow> eff_return None
   | Some effective \<Rightarrow>
       if effective = rm_build_spec source then eff_return None
       else
         eff_bind (read_disk (build_spec_reuse_identity wk (rm_build_spec source))) (\<lambda>source_identity.
         eff_bind (read_disk (build_spec_reuse_identity wk effective)) (\<lambda>effective_identity.
         if source_identity \<noteq> effective_identity then eff_raise (job_conflict ''manifest_fork'')
         else eff_bind (has_verified_ancestor_build_receipt wk) (\<lambda>found.
           if found = Some True then eff_return (Some effective)
           else eff_bind (stage_key wk ''build'' None) (\<lambda>_. eff_raise (job_conflict ''manifest_fork''))))))"

section \<open>Forking a reused manifest\<close>

definition verify_outputs :: "WorkflowWorker \<Rightarrow> StageOutcome \<Rightarrow> (wstate, unit) eff" where
  "verify_outputs wk outcome =
     (let fm = wv_formats (wk_env wk) in
      if oc_verified outcome then eff_return ()
      else eff_bind (eff_foreach (oc_artifacts outcome) (\<lambda>ref. on_disk (verify_artifact fm ref))) (\<lambda>_.
        case oc_manifest outcome of None \<Rightarrow> eff_return () | Some m \<Rightarrow> on_disk (verify_artifact fm m)))"

definition receipt_outputs :: "StageOutcome \<Rightarrow> ArtifactRef list" where
  "receipt_outputs outcome = oc_artifacts outcome @ (case oc_manifest outcome of
     None \<Rightarrow> []
   | Some m \<Rightarrow> if list_ex (\<lambda>item. ar_path item = ar_path m \<and> ar_sha256 item = ar_sha256 m) (oc_artifacts outcome)
       then [] else [m])"

definition text_of :: "WorkflowWorker \<Rightarrow> json \<Rightarrow> string" where
  "text_of wk j = (case j of JStr s \<Rightarrow> s | _ \<Rightarrow> wv_str (wk_env wk) j)"

definition is_fork_record :: "string \<Rightarrow> string option \<Rightarrow> string \<Rightarrow> Event \<Rightarrow> bool" where
  "is_fork_record source_sha256 next_stage fork_reason event \<longleftrightarrow>
     ev_type event = ''manifest_forked'' \<and>
     field (ev_payload event) ''source_sha256'' = JStr source_sha256 \<and>
     field (ev_payload event) ''next_stage'' = opt_str next_stage \<and>
     field (ev_payload event) ''fork_reason'' = JStr fork_reason"

text \<open>A recorded fork is used again only when it is there, intact and of the expected specification.\<close>

definition recorded_fork :: "WorkflowWorker \<Rightarrow> BuildSpec \<Rightarrow> Event \<Rightarrow> (wstate, ArtifactRef) eff" where
  "recorded_fork wk expected_build_spec event =
     (let fm = wv_formats (wk_env wk);
          text = (\<lambda>k. case map_of (ev_payload event) k of None \<Rightarrow> '''' | Some v \<Rightarrow> text_of wk v);
          fork_path = text ''fork_manifest''; expected_sha = text ''fork_sha256''
      in eff_bind (read_disk (\<lambda>st. ensure (is_file st fork_path) (job_conflict ''manifest_fork''))) (\<lambda>_.
         eff_bind (read_disk (ArtifactRef_from_path wk fork_path AK_MANIFEST None (Some ''run-manifest-r0''))) (\<lambda>fork_ref.
         if ar_sha256 fork_ref \<noteq> expected_sha then eff_raise (job_conflict ''manifest_fork'')
         else eff_bind (on_disk (load_manifest fm (RefArg fork_ref) None)) (\<lambda>forked.
           if rm_build_spec forked \<noteq> expected_build_spec then eff_raise (job_conflict ''manifest_fork'')
           else eff_return fork_ref))))"

definition fork_reused_manifest ::
  "WorkflowWorker \<Rightarrow> ArtifactRef \<Rightarrow> string option \<Rightarrow> string option \<Rightarrow> string option
   \<Rightarrow> (wstate, ArtifactRef \<times> bool) eff" where
  "fork_reused_manifest wk manifest next_stage reason source_job_id =
     (let e = wk_env wk; fm = wv_formats e in
      if \<not> is_run_manifest manifest then eff_return (manifest, False)
      else
        let fork_reason = (case reason of Some r \<Rightarrow> if r = '''' then (case next_stage of
                  Some s \<Rightarrow> ''before_stage:'' @ s | None \<Rightarrow> ''all_stages_reused'') else r
              | None \<Rightarrow> (case next_stage of Some s \<Rightarrow> ''before_stage:'' @ s | None \<Rightarrow> ''all_stages_reused''));
            path = resolve_value (wv_keys e) None (ar_path manifest)
        in if length (path_components path) < 2 then eff_raise (job_conflict ''manifest_fork'')
        else eff_bind (on_disk (load_manifest fm (RefArg manifest) None)) (\<lambda>source.
          eff_bind (replacement_build_spec_for_fork wk source) (\<lambda>replacement_build_spec.
          let expected_build_spec = (case replacement_build_spec of None \<Rightarrow> rm_build_spec source | Some b \<Rightarrow> b)
          in eff_bind (eff_lift (fm_encode_spec fm expected_build_spec)) (\<lambda>spec_bytes.
          eff_bind (read_journal wk (\<lambda>j. Inr (events 0 j))) (\<lambda>es.
          case List.find (is_fork_record (ar_sha256 manifest) next_stage fork_reason) (rev es) of
            Some event \<Rightarrow> eff_bind (recorded_fork wk expected_build_spec event) (\<lambda>fork_ref.
              eff_return (fork_ref, True))
          | None \<Rightarrow>
              eff_bind (if source_job_id \<noteq> None \<and> source_job_id \<noteq> Some '''' then eff_return source_job_id
                else case wk_reuse_from wk of
                    Some j \<Rightarrow> eff_return (Some (jn_job_id j))
                  | None \<Rightarrow> read_journal wk (\<lambda>j. bind_res (read_state j) (\<lambda>s. Inr (js_parent_job_id s)))) (\<lambda>forked_from.
              eff_bind (\<lambda>w. on_disk (fork_snapshot (wv_depth e) fm (path_parent (path_parent path))
                  (wv_runs e (ws_tick w)) (RefArg manifest) None None replacement_build_spec
                  (Some [(''forked_from_job_id'', opt_str forked_from), (''forked_for_job_id'', JStr (wk_job_id wk)),
                    (''fork_reason'', JStr fork_reason)])) w) (\<lambda>(_, fork_ref).
              eff_bind (on_journal wk (append_event ''manifest_forked''
                  [(''source_manifest'', JStr (ar_path manifest)), (''source_sha256'', JStr (ar_sha256 manifest)),
                   (''fork_manifest'', JStr (ar_path fork_ref)), (''fork_sha256'', JStr (ar_sha256 fork_ref)),
                   (''next_stage'', opt_str next_stage), (''fork_reason'', JStr fork_reason),
                   (''effective_build_spec_sha256'', JStr (fm_sha256 fm spec_bytes)),
                   (''build_spec_rebased'', JBool (replacement_build_spec \<noteq> None))])) (\<lambda>_.
              eff_return (fork_ref, True)))))))))"

definition manifest_attempt_floor :: "WorkflowWorker \<Rightarrow> ArtifactRef option \<Rightarrow> string \<Rightarrow> (wstate, int) eff" where
  "manifest_attempt_floor wk manifest stage_name = (case manifest of
     None \<Rightarrow> eff_return 1
   | Some m \<Rightarrow>
       if \<not> is_run_manifest m then eff_return 1
       else eff_bind (read_disk (parse_file (wv_formats (wk_env wk)) (ar_path m))) (\<lambda>parsed.
         let attempts = map sr_attempt (filter (\<lambda>s. sr_name s = stage_name) (rm_stages parsed))
         in eff_return (1 + (if attempts = [] then 0 else Max (set attempts)))))"

section \<open>Running\<close>

text \<open>\<open>ManifestPublisher.commit\<close>\<close>

definition publisher_commit :: "WorkflowWorker \<Rightarrow> ArtifactRef option \<Rightarrow> string \<Rightarrow> (wstate, unit) eff" where
  "publisher_commit wk manifest stage_name = (case manifest of
     None \<Rightarrow> eff_return ()
   | Some m \<Rightarrow>
       eff_bind (read_journal wk read_state) (\<lambda>current.
       eff_bind (on_journal wk (set_state (js_state current) (Some stage_name) None (Some m) None
         [(''manifest_sha256'', JStr (ar_sha256 m))])) (\<lambda>_. eff_return ())))"

definition to_state :: "WorkflowWorker \<Rightarrow> JobState \<Rightarrow> (wstate, JobStatus) eff" where
  "to_state wk st = on_journal wk (set_state st None None None None [])"

definition fail_with :: "WorkflowWorker \<Rightarrow> ToolErrorData \<Rightarrow> string option \<Rightarrow> (wstate, JobStatus) eff" where
  "fail_with wk err stage = on_journal wk (set_state FAILED stage (Some err) None None [])"

record loop_state =
  lp_manifest :: "ArtifactRef option"
  lp_initial_pending :: bool
  lp_reused_pending :: bool

datatype loop_step = Continue loop_state | Return JobStatus

definition is_cancelled_error :: "exn \<Rightarrow> bool" where
  "is_cancelled_error e = (case e of AgentExn a \<Rightarrow> ae_code a = class_code JobCancelledError | _ \<Rightarrow> False)"

definition error_of :: "exn \<Rightarrow> string \<Rightarrow> exn + ToolErrorData" where
  "error_of e stage = from_exception e INTERNAL_ERROR (Some stage) False []"

definition fork_initial :: "WorkflowWorker \<Rightarrow> string \<Rightarrow> loop_state \<Rightarrow> (wstate, loop_state) eff" where
  "fork_initial wk stage_name ls = (case (lp_initial_pending ls, lp_manifest ls) of
     (True, Some m) \<Rightarrow>
       eff_bind (read_journal wk read_state) (\<lambda>s.
       eff_bind (fork_reused_manifest wk m (Some stage_name) (Some (''initial_manifest_before_stage:'' @ stage_name))
         (js_parent_job_id s)) (\<lambda>(manifest, _).
       eff_bind (publisher_commit wk (Some manifest) (''fork_initial_before_'' @ stage_name)) (\<lambda>_.
       eff_return (ls\<lparr>lp_manifest := Some manifest, lp_initial_pending := False\<rparr>))))
   | _ \<Rightarrow> eff_return ls)"

definition outputs_manifest :: "StageReceipt \<Rightarrow> ArtifactRef option" where
  "outputs_manifest r = (if rc_outputs r = [] then None else Some (last (rc_outputs r)))"

text \<open>A reused receipt: its last output becomes the manifest.\<close>

definition reuse_stage ::
  "WorkflowWorker \<Rightarrow> string \<Rightarrow> string \<Rightarrow> raw_map \<Rightarrow> StageReceipt \<Rightarrow> bool \<Rightarrow> loop_state \<Rightarrow> (wstate, loop_step) eff" where
  "reuse_stage wk stage_name key extra r decide ls =
     eff_bind (on_journal wk (append_event ''stage_reused''
       ([(''stage_name'', JStr stage_name), (''stage_key'', JStr key)] @ extra))) (\<lambda>_.
     case outputs_manifest r of
       None \<Rightarrow> eff_return (Continue ls)
     | Some m \<Rightarrow>
         eff_bind (publisher_commit wk (Some m) stage_name) (\<lambda>_.
         eff_return (Continue (ls\<lparr>lp_manifest := Some m, lp_reused_pending :=
           (if decide then py_truthy (field (rc_metrics r) ''reused_from_parent'') \<and> ar_kind m = AK_MANIFEST
            else lp_reused_pending ls)\<rparr>))))"

definition output_directory :: "WorkflowWorker \<Rightarrow> string \<Rightarrow> string \<Rightarrow> int \<Rightarrow> string" where
  "output_directory wk stage_name key attempt = path_join (path_join (path_join (wk_output_dir wk) stage_name)
     (take 16 key)) (''attempt-'' @ zpad 3 (nat attempt))"

text \<open>Running the stage: reservation of the attempt, the runner, verification, the receipt.\<close>

definition run_stage ::
  "WorkflowWorker \<Rightarrow> string \<Rightarrow> string \<Rightarrow> int \<Rightarrow> loop_state \<Rightarrow> (wstate, loop_step) eff" where
  "run_stage wk stage_name key attempt ls =
     (let manifest = lp_manifest ls;
          receipt = (\<lambda>status started completed inputs outputs metrics err.
            \<lparr>rc_stage_key = key, rc_stage_name = stage_name, rc_attempt = attempt, rc_status = status,
             rc_started_at = started, rc_completed_at = Some completed, rc_inputs = inputs, rc_outputs = outputs,
             rc_metrics = metrics, rc_provenance = wk_provenance wk, rc_error = err\<rparr>)
      in eff_bind (on_journal wk (append_event ''stage_started''
           [(''stage_name'', JStr stage_name), (''stage_key'', JStr key), (''attempt'', JInt attempt)])) (\<lambda>_.
         eff_bind (utc_now wk) (\<lambda>started.
         eff_bind (eff_catch
             (eff_bind (wk_stage_runner wk
               \<lparr>cx_stage_name = stage_name, cx_spec = wk_spec wk, cx_resolved = wk_resolved wk,
                cx_current_manifest = manifest, cx_output_dir = output_directory wk stage_name key attempt,
                cx_attempt = attempt\<rparr>) (\<lambda>outcome.
              eff_bind (verify_outputs wk outcome) (\<lambda>_. eff_return (Inl outcome))))
             (\<lambda>e. if is_cancelled_error e then eff_bind (to_state wk CANCELLED) (\<lambda>s. eff_return (Inr s))
               else
                 eff_bind (eff_lift (error_of e stage_name)) (\<lambda>err.
                 eff_bind (utc_now wk) (\<lambda>completed.
                 eff_bind (record_stage_receipt wk (receipt SS_FAILED started completed [] [] [] (Some err))) (\<lambda>_.
                 eff_bind (fail_with wk err (Some stage_name)) (\<lambda>s. eff_return (Inr s))))))) (\<lambda>ran.
         case ran of
           Inr status \<Rightarrow> eff_return (Return status)
         | Inl outcome \<Rightarrow>
             eff_bind (utc_now wk) (\<lambda>completed.
             eff_bind (record_stage_receipt wk (receipt SS_SUCCEEDED started completed
               (case manifest of None \<Rightarrow> [] | Some m \<Rightarrow> [m]) (receipt_outputs outcome) (oc_metrics outcome) None)) (\<lambda>_.
             eff_bind (publisher_commit wk (oc_manifest outcome) stage_name) (\<lambda>_.
             eff_return (Continue (ls\<lparr>lp_manifest := (case oc_manifest outcome of
                 Some m \<Rightarrow> Some m
               | None \<Rightarrow> if oc_artifacts outcome \<noteq> [] then Some (last (oc_artifacts outcome)) else manifest)\<rparr>)))))))))"

definition start_stage :: "WorkflowWorker \<Rightarrow> string \<Rightarrow> string \<Rightarrow> loop_state \<Rightarrow> (wstate, loop_step) eff" where
  "start_stage wk stage_name key ls =
     eff_bind (next_attempt wk stage_name key) (\<lambda>next.
     eff_bind (manifest_attempt_floor wk (lp_manifest ls) stage_name) (\<lambda>floor.
     run_stage wk stage_name key (max next floor) ls))"

text \<open>A parent's manifest is forked before the first stage that is not reused.\<close>

definition fork_then_start :: "WorkflowWorker \<Rightarrow> string \<Rightarrow> string \<Rightarrow> loop_state \<Rightarrow> (wstate, loop_step) eff" where
  "fork_then_start wk stage_name key ls = (case (lp_reused_pending ls, lp_manifest ls) of
     (True, Some m) \<Rightarrow>
       eff_bind (fork_reused_manifest wk m (Some stage_name) None None) (\<lambda>(manifest, _).
       eff_bind (publisher_commit wk (Some manifest) (''fork_before_'' @ stage_name)) (\<lambda>_.
       let ls = ls\<lparr>lp_manifest := Some manifest, lp_reused_pending := False\<rparr>
       in eff_bind (stage_key wk stage_name (Some manifest)) (\<lambda>key.
          eff_bind (receipt_of_journal wk key) (\<lambda>resumed. case resumed of
            Some r \<Rightarrow> reuse_stage wk stage_name key [(''reason'', JStr ''resume_after_manifest_fork'')] r False ls
          | None \<Rightarrow> start_stage wk stage_name key ls))))
   | _ \<Rightarrow> start_stage wk stage_name key ls)"

definition do_stage :: "WorkflowWorker \<Rightarrow> string \<Rightarrow> loop_state \<Rightarrow> (wstate, loop_step) eff" where
  "do_stage wk stage_name ls =
     eff_bind (read_journal wk (\<lambda>j. Inr (cancel_requested j))) (\<lambda>cancelled.
     if cancelled then eff_bind (to_state wk CANCELLED) (\<lambda>s. eff_return (Return s))
     else
       eff_bind (fork_initial wk stage_name ls) (\<lambda>ls.
       eff_bind (stage_key wk stage_name (lp_manifest ls)) (\<lambda>key.
       eff_bind (try_reuse wk stage_name key) (\<lambda>reused. case reused of
         Some r \<Rightarrow> reuse_stage wk stage_name key [] r True ls
       | None \<Rightarrow> fork_then_start wk stage_name key ls))))"

fun do_stages :: "WorkflowWorker \<Rightarrow> string list \<Rightarrow> loop_state \<Rightarrow> (wstate, loop_step) eff" where
  "do_stages wk [] ls = eff_return (Continue ls)"
| "do_stages wk (s # ss) ls = eff_bind (do_stage wk s ls) (\<lambda>r. case r of
     Return status \<Rightarrow> eff_return (Return status) | Continue ls \<Rightarrow> do_stages wk ss ls)"

definition finish_job :: "WorkflowWorker \<Rightarrow> loop_state \<Rightarrow> (wstate, JobStatus) eff" where
  "finish_job wk ls =
     eff_bind (case (lp_reused_pending ls, lp_manifest ls) of
         (True, Some m) \<Rightarrow> eff_bind (fork_reused_manifest wk m None None None) (\<lambda>(manifest, _).
           eff_bind (publisher_commit wk (Some manifest) ''fork_after_reuse'') (\<lambda>_. eff_return (Some manifest)))
       | _ \<Rightarrow> eff_return (lp_manifest ls)) (\<lambda>manifest.
     eff_bind (to_state wk COLLECTING) (\<lambda>_.
     eff_bind (to_state wk COMMITTING) (\<lambda>_.
     on_journal wk (set_state SUCCEEDED None None manifest None []))))"

definition drive_job :: "WorkflowWorker \<Rightarrow> (wstate, JobStatus) eff" where
  "drive_job wk =
     eff_bind (to_state wk STAGING) (\<lambda>_.
     eff_bind (to_state wk RUNNING) (\<lambda>_.
     eff_bind (read_journal wk read_state) (\<lambda>s.
     let manifest = (case js_manifest s of None \<Rightarrow> wk_initial_manifest wk | Some m \<Rightarrow> Some m)
     in eff_bind (do_stages wk (wk_stages wk) \<lparr>lp_manifest = manifest,
            lp_initial_pending = (js_manifest s = None \<and> wk_initial_manifest wk \<noteq> None),
            lp_reused_pending = False\<rparr>) (\<lambda>r. case r of
          Return status \<Rightarrow> eff_return status | Continue ls \<Rightarrow> finish_job wk ls))))"

definition run_claimed :: "WorkflowWorker \<Rightarrow> (wstate, JobStatus) eff" where
  "run_claimed wk = eff_catch (drive_job wk) (\<lambda>e.
     eff_bind (eff_lift (error_of e ''worker'')) (\<lambda>err.
     eff_bind (read_journal wk read_state) (\<lambda>current.
     if terminal (js_state current) then eff_return current else fail_with wk err None)))"

text \<open>
  The lock of \<open>worker_lease\<close> is released when the block ends, and by the operating system when
  the process dies. The heartbeat helper is one of the other processes.
\<close>

definition with_worker_lease :: "WorkflowWorker \<Rightarrow> (wstate, 'a) eff \<Rightarrow> (wstate, 'a) eff" where
  "with_worker_lease wk m =
     eff_bind (on_journal wk (\<lambda>_ j. case worker_lease_enter j of Inl e \<Rightarrow> (j, Inl e) | Inr j' \<Rightarrow> (j', Inr ()))) (\<lambda>_ w.
       case m w of (r, w') \<Rightarrow> (r, w'\<lparr>ws_journal := worker_lease_exit (ws_journal w')\<rparr>))"

definition run_worker :: "WorkflowWorker \<Rightarrow> (wstate, JobStatus) eff" where
  "run_worker wk = with_worker_lease wk
     (eff_bind (utc_now wk) (\<lambda>now.
      eff_bind (on_journal wk (mark_orphaned_if_stale (wk_heartbeat_stale_after wk) now)) (\<lambda>current.
      if terminal (js_state current) then eff_return current
      else if js_state current \<in> set IN_FLIGHT_JOB_STATES then eff_raise (job_conflict ''worker'')
      else run_claimed wk)))"

end
