(* ===== verification/EngineRunner.thy ===== *)
theory EngineRunner
  imports Worker PyValues
begin

text \<open>
  \<open>src/qairt_agent/jobs/engine_runner.py\<close>: the stage runner a job uses in production. It calls
  one method of the synchronous engine per stage and turns the result into a stage outcome. The
  engine (\<open>pipeline.QairtAgent\<close>) is a parameter with any behaviour; whether a method accepts an
  execution context is read from its signature.
\<close>

section \<open>Outcomes\<close>

definition is_manifest_invalid :: "exn \<Rightarrow> bool" where
  "is_manifest_invalid e = (case e of AgentExn a \<Rightarrow> ae_code a = class_code ManifestInvalidError | _ \<Rightarrow> False)"

text \<open>\<open>dict(data) if isinstance(data, dict) else {"data": data}\<close>, then the stage name.\<close>

definition result_metrics :: "json option \<Rightarrow> string \<Rightarrow> raw_map" where
  "result_metrics data stage_name = dict_set ''stage'' (JStr stage_name)
     (case data of Some (JObj d) \<Rightarrow> d | Some v \<Rightarrow> [(''data'', v)] | None \<Rightarrow> [(''data'', JNull)])"

text \<open>A run manifest must pass the verification of its graph; an opaque one is only hashed.\<close>

definition manifest_outputs :: "nat \<Rightarrow> formats \<Rightarrow> ArtifactRef \<Rightarrow> (vstate, ArtifactRef list) eff" where
  "manifest_outputs depth fm manifest =
     eff_catch (verify_manifest_graph depth fm manifest) (\<lambda>e.
       if \<not> is_manifest_invalid e \<or> is_run_manifest manifest then eff_raise e
       else eff_bind (verify_artifact fm manifest) (\<lambda>_. eff_return []))"

definition outcome_from_result :: "nat \<Rightarrow> formats \<Rightarrow> json ToolResult \<Rightarrow> string \<Rightarrow> (wstate, StageOutcome) eff" where
  "outcome_from_result depth fm result stage_name =
     (if \<not> tl_ok result then
        (case tl_error result of
           Some e \<Rightarrow> eff_raise (ToolExn e)
         | None \<Rightarrow> eff_raise (agent_exn InvalidSpecError (Some stage_name) False))
      else eff_bind (case tl_manifest result of
           None \<Rightarrow> eff_return []
         | Some m \<Rightarrow> on_disk (manifest_outputs depth fm m)) (\<lambda>artifacts.
        eff_return \<lparr>oc_artifacts = artifacts, oc_metrics = result_metrics (tl_data result) stage_name,
          oc_manifest = tl_manifest result, oc_verified = True\<rparr>))"

definition require_manifest :: "StageContext \<Rightarrow> exn + ArtifactRef" where
  "require_manifest ctx = (case cx_current_manifest ctx of
     None \<Rightarrow> Inl (agent_exn InvalidSpecError (Some (cx_stage_name ctx)) False)
   | Some m \<Rightarrow> Inr m)"

section \<open>Calls of the engine\<close>

datatype engine_method =
    EngineBuild | EngineBuildGenai | EngineValidate | EngineBenchmark | EngineDiagnoseQuality | EngineDiagnoseLatency

record StageExecutionContext =
  ex_output_dir :: string
  ex_attempt :: int

text \<open>The positional and the keyword arguments; \<open>None\<close> is an argument that is not passed.\<close>

record engine_call =
  ec_method :: engine_method
  ec_build_spec :: "raw_map option"
  ec_manifest :: "(string \<times> string) option"
  ec_vector_manifest :: "string option option"
  ec_config :: "raw_map option"
  ec_context :: "StageExecutionContext option"

record engine =
  en_supports_context :: "engine_method \<Rightarrow> bool"
  en_run :: "engine_call \<Rightarrow> (wstate, json ToolResult) eff"

definition invoke :: "engine \<Rightarrow> engine_call \<Rightarrow> StageExecutionContext \<Rightarrow> (wstate, json ToolResult) eff" where
  "invoke engine call context =
     en_run engine (if en_supports_context engine (ec_method call) then call\<lparr>ec_context := Some context\<rparr> else call)"

section \<open>The runner\<close>

record EngineStageRunner =
  er_engine :: engine
  er_build_spec :: raw_map
  er_pipeline :: string
  er_vector_manifest :: "string option"
  er_build_config :: raw_map
  er_validate_config :: raw_map
  er_benchmark_config :: raw_map
  er_diagnose_config :: raw_map
  er_diagnose_kind :: string

text \<open>A configuration that is not given falls back on the shared one.\<close>

definition stage_or_shared :: "raw_map option \<Rightarrow> raw_map option \<Rightarrow> raw_map" where
  "stage_or_shared config given = (case given of Some d \<Rightarrow> d | None \<Rightarrow> (case config of None \<Rightarrow> [] | Some d \<Rightarrow> d))"

definition EngineStageRunner_new ::
  "engine \<Rightarrow> raw_map \<Rightarrow> string \<Rightarrow> string option \<Rightarrow> raw_map option \<Rightarrow> raw_map option \<Rightarrow> raw_map option \<Rightarrow>
   raw_map option \<Rightarrow> raw_map option \<Rightarrow> string \<Rightarrow> exn + EngineStageRunner" where
  "EngineStageRunner_new engine build_spec pipeline vector_manifest config build_config validate_config
     benchmark_config diagnose_config diagnose_kind =
     bind_res (ensure (diagnose_kind \<in> {''quality'', ''latency''}) (agent_exn InvalidSpecError (Some ''diagnose'') False)) (\<lambda>_.
     Inr \<lparr>er_engine = engine, er_build_spec = build_spec, er_pipeline = pipeline, er_vector_manifest = vector_manifest,
       er_build_config = stage_or_shared config build_config, er_validate_config = stage_or_shared config validate_config,
       er_benchmark_config = stage_or_shared config benchmark_config,
       er_diagnose_config = stage_or_shared config diagnose_config, er_diagnose_kind = diagnose_kind\<rparr>)"

text \<open>\<open>config.setdefault("attached_models_by_ar", attached)\<close>\<close>

definition genai_config :: "raw_map \<Rightarrow> raw_map \<Rightarrow> exn + raw_map" where
  "genai_config build_spec config =
     (case json_get_or build_spec ''metadata'' (JObj []) of
        JObj metadata \<Rightarrow>
          Inr (if json_get metadata ''attached_models_by_ar'' \<noteq> JNull \<and> map_of config ''attached_models_by_ar'' = None
            then dict_set ''attached_models_by_ar'' (json_get metadata ''attached_models_by_ar'') config else config)
      | _ \<Rightarrow> Inl attribute_error)"

definition build_call :: "EngineStageRunner \<Rightarrow> exn + engine_call" where
  "build_call er = (if er_pipeline er = ''genai_builder'' then
       bind_res (genai_config (er_build_spec er) (er_build_config er)) (\<lambda>config. Inr
         \<lparr>ec_method = EngineBuildGenai, ec_build_spec = Some (er_build_spec er), ec_manifest = None,
          ec_vector_manifest = None, ec_config = Some config, ec_context = None\<rparr>)
     else Inr \<lparr>ec_method = EngineBuild, ec_build_spec = Some (er_build_spec er), ec_manifest = None,
          ec_vector_manifest = None, ec_config = None, ec_context = None\<rparr>)"

definition continuation_call ::
  "StageContext \<Rightarrow> engine_method \<Rightarrow> string option option \<Rightarrow> raw_map \<Rightarrow> exn + engine_call" where
  "continuation_call ctx method vectors config = bind_res (require_manifest ctx) (\<lambda>m. Inr
     \<lparr>ec_method = method, ec_build_spec = None, ec_manifest = Some (ar_path m, ar_sha256 m),
      ec_vector_manifest = vectors, ec_config = Some config, ec_context = None\<rparr>)"

definition stage_call :: "EngineStageRunner \<Rightarrow> StageContext \<Rightarrow> exn + engine_call" where
  "stage_call er ctx =
    (if cx_stage_name ctx = ''build'' then build_call er
     else if cx_stage_name ctx = ''validate'' then
       continuation_call ctx EngineValidate (Some (er_vector_manifest er)) (er_validate_config er)
     else if cx_stage_name ctx = ''benchmark'' then
       continuation_call ctx EngineBenchmark None (er_benchmark_config er)
     else if cx_stage_name ctx = ''diagnose'' then
       continuation_call ctx (if er_diagnose_kind er = ''latency'' then EngineDiagnoseLatency else EngineDiagnoseQuality)
         None (er_diagnose_config er)
     else Inl (agent_exn InvalidSpecError (Some (cx_stage_name ctx)) False))"

text \<open>
  The runner as the worker calls it. The execution context is built first; its model requires a
  positive attempt.
\<close>

definition run_engine_stage :: "nat \<Rightarrow> formats \<Rightarrow> EngineStageRunner \<Rightarrow> StageRunner" where
  "run_engine_stage depth fm er ctx =
     eff_bind (eff_lift (ensure (0 < cx_attempt ctx) validation_error)) (\<lambda>_.
     eff_bind (eff_lift (stage_call er ctx)) (\<lambda>call.
     eff_bind (invoke (er_engine er) call \<lparr>ex_output_dir = cx_output_dir ctx, ex_attempt = cx_attempt ctx\<rparr>) (\<lambda>result.
     outcome_from_result depth fm result (cx_stage_name ctx))))"

end
