(* ===== verification/ManifestGraph.thy ===== *)
theory ManifestGraph
  imports ManifestStore
begin

text \<open>
  What the operations of the manifest store return: a published reference loads back, a
  revision appends to what it revises, a fork copies a completely verified manifest, and the
  graph walk is complete and ends.
\<close>

section \<open>What publishing, revising and forking return\<close>

text \<open>No file present has the digest of \<open>data\<close> without being \<open>data\<close>.\<close>

definition no_collision :: "formats \<Rightarrow> vstate \<Rightarrow> string \<Rightarrow> bool" where
  "no_collision fm st data \<longleftrightarrow> (\<forall>p f. file_at st p = Some f \<longrightarrow>
     fm_sha256 fm (fl_data f) = fm_sha256 fm data \<longrightarrow> fl_data f = data)"

lemma json_ref_Val:
  "json_ref p d n k l st = (Val ref, st') \<Longrightarrow> st' = st \<and> ar_path ref = p \<and> ar_sha256 ref = py_lower d \<and>
     ar_size_bytes ref = int n \<and> ar_kind ref = k"
  by (auto simp: json_ref_iff ArtifactRef_new_def res_simps split: sum.splits)

lemma atomic_publish_Val:
  assumes "atomic_publish_json fm env p (Inr data) k n False st = (Val ref, st')"
  shows "ar_path ref = p \<and> ar_sha256 ref = py_lower (fm_sha256 fm data) \<and> ar_size_bytes ref = int (length data) \<and>
    ar_kind ref = k \<and> (\<exists>f. file_at st' p = Some f \<and> fm_sha256 fm (fl_data f) = fm_sha256 fm data \<and>
      length (fl_data f) = length data \<and> (file_at st p = Some f \<or> fl_data f = data))"
proof (cases "file_at st p")
  case None
  with assms have "json_ref p (fm_sha256 fm data) (length data) k n
      (put_file p \<lparr>fl_data = data, fl_mtime = we_mtime env\<rparr> st) = (Val ref, st')"
    unfolding atomic_publish_json_def eff_bind_lift_Inr Let_def by (simp split: if_splits)
  from json_ref_Val [OF this] show ?thesis by simp
next
  case (Some f)
  with assms have e: "fm_sha256 fm (fl_data f) = fm_sha256 fm data" "length (fl_data f) = length data"
    "json_ref p (fm_sha256 fm (fl_data f)) (length (fl_data f)) k n st = (Val ref, st')"
    unfolding atomic_publish_json_def eff_bind_lift_Inr Let_def
    by (auto simp: eff_bind_def sha256_file_def eff_raise_def split: if_splits)
  from json_ref_Val [OF e(3)] e(1,2) Some show ?thesis by simp
qed

lemma publish_Val:
  assumes "publish fm sroot env m st = (Val ref, st')"
  obtains data st1 where "fm_encode fm m = Inr data" "grows st st1"
    "atomic_publish_json fm env (manifest_path sroot (rm_run_id m) (rm_revision m) (fm_sha256 fm data)) (Inr data)
       AK_MANIFEST (Some (''run-manifest-r'' @ dec (nat (rm_revision m)))) False st1 = (Val ref, st')"
    "cache_ok fm st \<Longrightarrow> cache_ok fm st1" "vs_files st1 = vs_files st"
proof -
  let ?par = "case rm_parent_manifest m of None \<Rightarrow> eff_return ()
      | Some p \<Rightarrow> eff_bind (load_manifest fm (RefArg p) None) (\<lambda>parent.
          if rm_run_id parent \<noteq> rm_run_id m \<or> rm_revision parent \<noteq> rm_revision m - 1
          then eff_raise (art_error ManifestConflictError) else eff_return ())"
  from assms obtain data where d: "fm_encode fm m = Inr data"
    unfolding publish_def by (auto simp: eff_bind_Val eff_lift_iff split: sum.splits)
  from assms obtain u st1 where s1: "?par st = (Val u, st1)"
    and p: "atomic_publish_json fm env (manifest_path sroot (rm_run_id m) (rm_revision m) (fm_sha256 fm data)) (Inr data)
       AK_MANIFEST (Some (''run-manifest-r'' @ dec (nat (rm_revision m)))) False st1 = (Val ref, st')"
    unfolding publish_def d eff_bind_lift_Inr Let_def
    by (auto simp: eff_bind_Val split: if_splits)
  have k: "keeps I ?par" if "\<And>ref. keeps I (verify_artifact fm ref)" for I
    using that by (auto split: option.split intro!: keeps_bind)
  have "keeps (cache_ok fm) (verify_artifact fm ref)" for ref
    using verify_cache_ok unfolding keeps_def by (metis prod.collapse)
  then have "cache_ok fm st \<Longrightarrow> cache_ok fm st1" using keepsD [OF k, of "cache_ok fm" st] s1 by simp
  moreover have "keeps (\<lambda>s. vs_files s = vs_files st) (verify_artifact fm ref)" for ref
    by (simp add: keeps_def)
  then have f: "vs_files st1 = vs_files st" using keepsD [OF k, of "\<lambda>s. vs_files s = vs_files st" st] s1 by simp
  moreover have "grows st st1" using f by (simp add: grows_def file_at_def)
  ultimately show thesis using that d p by blast
qed

text \<open>
  C35. What was published loads back: a reference returned by \<open>publish\<close> verifies and parses to
  the published manifest in the state \<open>publish\<close> leaves, and still does so in every later state
  with the same files, provided no file present collides with it.
\<close>

theorem publish_load_roundtrip:
  assumes "publish fm sroot env m st = (Val ref, st')" "faithful_formats fm" "is_ok (validate_revision_chain m)"
    and "fm_encode fm m = Inr data" "no_collision fm st data"
    and "grows st' st2" "cache_ok fm st2"
  shows "fst (load_manifest fm (RefArg ref) None st2) = Val m \<and>
    ar_path ref = manifest_path sroot (rm_run_id m) (rm_revision m) (ar_sha256 ref) \<and>
    ar_sha256 ref = fm_sha256 fm data"
proof -
  from assms(1) obtain st1 where files: "vs_files st1 = vs_files st" and
    p: "atomic_publish_json fm env (manifest_path sroot (rm_run_id m) (rm_revision m) (fm_sha256 fm data)) (Inr data)
       AK_MANIFEST (Some (''run-manifest-r'' @ dec (nat (rm_revision m)))) False st1 = (Val ref, st')"
    by (rule publish_Val) (use assms(4) in auto)
  have hex: "py_lower (fm_sha256 fm data) = fm_sha256 fm data"
  proof -
    have "is_sha256 (fm_sha256 fm data)" using assms(2) by (simp add: faithful_formats_def)
    then show ?thesis
      by (auto simp: is_sha256_def py_lower_def py_lower_char_def lower_hex_char_def py_isdigit_char_def
          list_all_iff intro!: map_idI)
  qed
  from atomic_publish_Val [OF p] obtain f where r: "ar_path ref = manifest_path sroot (rm_run_id m) (rm_revision m) (fm_sha256 fm data)"
    "ar_sha256 ref = fm_sha256 fm data" "ar_size_bytes ref = int (length data)" "ar_kind ref = AK_MANIFEST"
    and f: "file_at st' (ar_path ref) = Some f" "fm_sha256 fm (fl_data f) = fm_sha256 fm data"
      "length (fl_data f) = length data" "file_at st1 (ar_path ref) = Some f \<or> fl_data f = data"
    using hex by auto
  from f(4) have "fl_data f = data"
  proof
    assume "file_at st1 (ar_path ref) = Some f"
    then have "file_at st (ar_path ref) = Some f" using files by (simp add: file_at_def)
    with assms(5) f(2) show ?thesis unfolding no_collision_def by blast
  qed
  moreover have f2: "file_at st2 (ar_path ref) = Some f" using f(1) assms(6) by (simp add: grows_def)
  ultimately have v: "fst (verify_artifact fm ref st2) = Val ()"
    using verify_iff [OF assms(7), of ref] r(2,3) by auto
  obtain st3 where v3: "verify_artifact fm ref st2 = (Val (), st3)" using v by (metis prod.collapse)
  have "file_at st3 (ar_path ref) = Some f" using verify_artifact_file_at [of fm ref st2 "ar_path ref"] v3 f2 by simp
  moreover have "parse_manifest fm data = Some m"
    using assms(2-4) by (simp add: parse_manifest_def faithful_formats_def)
  ultimately have "read_manifest fm (ar_path ref) st3 = (Val m, st3)"
    using \<open>fl_data f = data\<close> by (simp add: read_manifest_def)
  then have "fst (load_manifest fm (RefArg ref) None st2) = Val m"
    using v3 r(4) by (simp add: load_manifest_def coerce_manifest_ref_def eff_bind_def eff_return_def)
  with r(1,2) show ?thesis by simp
qed

section \<open>The graph walk\<close>

definition intact :: "formats \<Rightarrow> vstate \<Rightarrow> ArtifactRef \<Rightarrow> bool" where
  "intact fm st a \<longleftrightarrow> (\<exists>f. file_at st (ar_path a) = Some f \<and> fm_sha256 fm (fl_data f) = ar_sha256 a)"

inductive reaches :: "formats \<Rightarrow> vstate \<Rightarrow> ArtifactRef \<Rightarrow> ArtifactRef \<Rightarrow> bool" for fm st where
  self: "reaches fm st a a"
| step: "ar_kind a = AK_MANIFEST \<Longrightarrow> manifest_at fm st a m \<Longrightarrow> b \<in> set (manifest_refs m) \<Longrightarrow>
    reaches fm st b c \<Longrightarrow> reaches fm st a c"

text \<open>Everything the manifest \<open>d\<close> refers to has its key in \<open>S\<close>.\<close>

definition closed_under :: "formats \<Rightarrow> vstate \<Rightarrow> ref_key set \<Rightarrow> ArtifactRef \<Rightarrow> bool" where
  "closed_under fm st S d \<longleftrightarrow> (if ar_kind d = AK_MANIFEST
     then \<exists>m. manifest_at fm st d m \<and> ref_key ` set (manifest_refs m) \<subseteq> S else True)"

lemma closed_under_mono: "closed_under fm st S d \<Longrightarrow> S \<subseteq> T \<Longrightarrow> closed_under fm st T d"
  by (auto simp: closed_under_def split: if_splits)

text \<open>What a walk has done between two states of its bookkeeping.\<close>

definition walked :: "formats \<Rightarrow> vstate \<Rightarrow> ArtifactRef set \<Rightarrow> visited \<Rightarrow> visited \<Rightarrow> bool" where
  "walked fm st starts v v' \<longleftrightarrow> (\<exists>new. vi_discovered v' = vi_discovered v @ new \<and>
     set (vi_seen v') = set (vi_seen v) \<union> ref_key ` set new \<and>
     (\<forall>d \<in> set new. intact fm st d \<and> (\<exists>a \<in> starts. reaches fm st a d) \<and>
        closed_under fm st (set (vi_seen v')) d \<and> ref_key d \<notin> set (vi_seen v)) \<and>
     distinct (map ref_key new))"

lemma walked_refl: "walked fm st A v v"
  by (simp add: walked_def)

lemma walked_trans:
  assumes "walked fm st A v1 v2" "walked fm st B v2 v3"
  shows "walked fm st (A \<union> B) v1 v3"
proof -
  from assms(1) obtain n1 where n1: "vi_discovered v2 = vi_discovered v1 @ n1"
    "set (vi_seen v2) = set (vi_seen v1) \<union> ref_key ` set n1" "distinct (map ref_key n1)"
    "\<forall>d \<in> set n1. intact fm st d \<and> (\<exists>a \<in> A. reaches fm st a d) \<and>
        closed_under fm st (set (vi_seen v2)) d \<and> ref_key d \<notin> set (vi_seen v1)"
    unfolding walked_def by blast
  from assms(2) obtain n2 where n2: "vi_discovered v3 = vi_discovered v2 @ n2"
    "set (vi_seen v3) = set (vi_seen v2) \<union> ref_key ` set n2" "distinct (map ref_key n2)"
    "\<forall>d \<in> set n2. intact fm st d \<and> (\<exists>a \<in> B. reaches fm st a d) \<and>
        closed_under fm st (set (vi_seen v3)) d \<and> ref_key d \<notin> set (vi_seen v2)"
    unfolding walked_def by blast
  have sub: "set (vi_seen v1) \<subseteq> set (vi_seen v2)" "set (vi_seen v2) \<subseteq> set (vi_seen v3)"
    using n1(2) n2(2) by simp_all
  have "closed_under fm st (set (vi_seen v3)) d" if "d \<in> set n1" for d
    using n1(4) that sub(2) closed_under_mono by metis
  then have "\<forall>d \<in> set (n1 @ n2). intact fm st d \<and> (\<exists>a \<in> A \<union> B. reaches fm st a d) \<and>
      closed_under fm st (set (vi_seen v3)) d \<and> ref_key d \<notin> set (vi_seen v1)"
    using n1(4) n2(4) sub(1) unfolding set_append by (metis UnE UnI1 UnI2 subsetD)
  moreover have "ref_key ` set n1 \<inter> ref_key ` set n2 = {}"
  proof (intro equals0I, elim IntE imageE)
    fix k x y assume "k = ref_key x" "x \<in> set n1" "k = ref_key y" "y \<in> set n2"
    with n2(4) n1(2) show False by (metis UnI2 imageI)
  qed
  then have "distinct (map ref_key (n1 @ n2))" using n1(3) n2(3) by simp
  moreover have "set (vi_seen v3) = set (vi_seen v1) \<union> ref_key ` set (n1 @ n2)"
    using n1(2) n2(2) by (simp add: image_Un Un_assoc)
  ultimately show ?thesis
    unfolding walked_def using n1(1) n2(1) by (intro exI [of _ "n1 @ n2"]) simp
qed

lemma walked_seen: "walked fm st A v v' \<Longrightarrow> set (vi_seen v) \<subseteq> set (vi_seen v')"
  unfolding walked_def by auto

definition same_files :: "formats \<Rightarrow> vstate \<Rightarrow> vstate \<Rightarrow> bool" where
  "same_files fm st s \<longleftrightarrow> vs_files s = vs_files st \<and> cache_ok fm s"

lemma same_files_at: "same_files fm st s \<Longrightarrow> file_at s p = file_at st p"
  by (simp add: same_files_def file_at_def)

lemma verify_same_files:
  "triple (same_files fm st) (verify_artifact fm ref) (\<lambda>_ s. same_files fm st s \<and> intact fm st ref) (same_files fm st)"
proof (rule tripleI)
  fix w r w' assume s: "same_files fm st w" and v: "verify_artifact fm ref w = (r, w')"
  from s have "same_files fm st w'"
    using verify_cache_ok [OF _ v] verify_artifact_files [of fm ref w] v by (simp add: same_files_def)
  moreover have "intact fm st ref" if "r = Val ()"
    using verify_iff [of fm w ref] v s that by (auto simp: same_files_def intact_def file_at_def)
  ultimately show "case r of Val x \<Rightarrow> same_files fm st w' \<and> intact fm st ref
      | Exc e \<Rightarrow> same_files fm st w' | Dead \<Rightarrow> same_files fm st w'"
    by (auto split: outcome.split)
qed

lemma same_files_intact: "same_files fm st s \<Longrightarrow> intact fm s = intact fm st"
  by (simp add: fun_eq_iff intact_def same_files_at)

text \<open>
  What the readers of evidence rely on, as an interface: verifying changes nothing they can see,
  and what was verified is good and stays good as long as nothing they can see changes.
\<close>

locale evidence_store =
  fixes verify :: "'r \<Rightarrow> ('w, unit) eff"
    and unchanged :: "'w \<Rightarrow> 'w \<Rightarrow> bool"
    and good :: "'w \<Rightarrow> 'r \<Rightarrow> bool"
  assumes verify_good: "triple (unchanged st) (verify ref) (\<lambda>_ s. unchanged st s \<and> good st ref) (unchanged st)"
    and good_unchanged: "unchanged st s \<Longrightarrow> good s = good st"
begin

lemma verify_unchanged: "keeps (unchanged st) (verify ref)"
  unfolding keeps_def
proof (intro allI impI)
  fix w assume "unchanged st w"
  from tripleD [OF verify_good this, of ref "fst (verify ref w)" "snd (verify ref w)"]
  show "unchanged st (snd (verify ref w))" by (simp split: outcome.splits)
qed

lemma verified: "verify ref s = (Val u, s') \<Longrightarrow> unchanged st s \<Longrightarrow> unchanged st s' \<and> good st ref"
  using triple_Val [OF verify_good, of st s ref u s'] by blast

lemma verify_then:
  assumes "triple (\<lambda>s. unchanged st s \<and> good st ref) m Q (unchanged st)"
  shows "triple (unchanged st) (eff_bind (verify ref) (\<lambda>_. m)) Q (unchanged st)"
  by (rule triple_bind [OF verify_good assms])

end

interpretation artifacts: evidence_store "verify_artifact fm" "same_files fm" "intact fm" for fm
  by unfold_locales (rule verify_same_files, rule same_files_intact)

lemma read_same_files:
  "triple (\<lambda>s. same_files fm st s \<and> intact fm st ref) (read_manifest fm (ar_path ref))
     (\<lambda>m s. same_files fm st s \<and> manifest_at fm st ref m) (same_files fm st)"
  by (auto simp: triple_def read_manifest_def manifest_at_def intact_def same_files_at split: option.split)

lemma fold_walks:
  assumes "\<And>a v. triple (same_files fm st) (f a v)
      (\<lambda>v' s. same_files fm st s \<and> walked fm st {a} v v' \<and> ref_key a \<in> set (vi_seen v')) (same_files fm st)"
  shows "triple (same_files fm st) (eff_fold f as v)
      (\<lambda>v' s. same_files fm st s \<and> walked fm st (set as) v v' \<and> ref_key ` set as \<subseteq> set (vi_seen v')) (same_files fm st)"
proof (induction as arbitrary: v)
  case Nil
  then show ?case by (auto intro: triple_return simp: walked_refl)
next
  case (Cons a as)
  have "triple (\<lambda>s. same_files fm st s \<and> walked fm st {a} v v1 \<and> ref_key a \<in> set (vi_seen v1)) (eff_fold f as v1)
      (\<lambda>v' s. same_files fm st s \<and> walked fm st (set (a # as)) v v' \<and>
        ref_key ` set (a # as) \<subseteq> set (vi_seen v')) (same_files fm st)" for v1
  proof (cases "walked fm st {a} v v1 \<and> ref_key a \<in> set (vi_seen v1)")
    case True
    show ?thesis
    proof (rule triple_weaken [OF Cons.IH [of v1]])
      fix v' s assume a: "same_files fm st s \<and> walked fm st (set as) v1 v' \<and> ref_key ` set as \<subseteq> set (vi_seen v')"
      then have w: "walked fm st (set as) v1 v'" by simp
      from True have "walked fm st {a} v v1" by simp
      from walked_trans [OF this w] have "walked fm st ({a} \<union> set as) v v'" .
      moreover have "ref_key a \<in> set (vi_seen v')" using walked_seen [OF w] True by blast
      ultimately show "same_files fm st s \<and> walked fm st (set (a # as)) v v' \<and>
          ref_key ` set (a # as) \<subseteq> set (vi_seen v')"
        using a by simp
    qed simp_all
  next
    case False
    then show ?thesis unfolding triple_def by blast
  qed
  then show ?case by (simp del: set_simps) (rule triple_bind [OF assms])
qed

lemma visit_walks:
  "triple (same_files fm st) (visit_artifact depth fm a v)
      (\<lambda>v' s. same_files fm st s \<and> walked fm st {a} v v' \<and> ref_key a \<in> set (vi_seen v') \<and>
        (ref_key a \<in> set (vi_seen v) \<or> a \<in> set (vi_discovered v'))) (same_files fm st)"
proof (induction depth arbitrary: a v)
  case 0
  then show ?case by (auto intro: triple_raise)
next
  case (Suc n)
  let ?v = "\<lparr>vi_discovered = vi_discovered v @ [a], vi_seen = ref_key a # vi_seen v\<rparr>"
  let ?Q = "\<lambda>v' s. same_files fm st s \<and> walked fm st {a} v v' \<and> ref_key a \<in> set (vi_seen v') \<and>
        (ref_key a \<in> set (vi_seen v) \<or> a \<in> set (vi_discovered v'))"
  have IH: "triple (same_files fm st) (visit_artifact n fm b u)
      (\<lambda>v' s. same_files fm st s \<and> walked fm st {b} u v' \<and> ref_key b \<in> set (vi_seen v')) (same_files fm st)" for b u
    by (rule triple_weaken [OF Suc.IH]) simp_all
  have leaf: "walked fm st {a} v ?v" if "ar_kind a \<noteq> AK_MANIFEST" "intact fm st a" "ref_key a \<notin> set (vi_seen v)"
    using that by (auto simp: walked_def closed_under_def intro: self exI [of _ "[a]"])
  have node: "?Q v' s"
    if new: "ref_key a \<notin> set (vi_seen v)" and i: "intact fm st a" and k: "ar_kind a = AK_MANIFEST"
      and m: "manifest_at fm st a m" and s: "same_files fm st s"
      and w: "walked fm st (set (manifest_refs m)) ?v v'" "ref_key ` set (manifest_refs m) \<subseteq> set (vi_seen v')"
    for m v' s
  proof -
    from w(1) obtain ds where ds: "vi_discovered v' = vi_discovered v @ a # ds"
      "set (vi_seen v') = set (vi_seen v) \<union> ref_key ` set (a # ds)" "distinct (map ref_key (a # ds))"
      "\<forall>d \<in> set ds. intact fm st d \<and> (\<exists>b \<in> set (manifest_refs m). reaches fm st b d) \<and>
        closed_under fm st (set (vi_seen v')) d \<and> ref_key d \<notin> set (vi_seen v)"
    proof -
      from w(1) obtain ds where "vi_discovered v' = (vi_discovered v @ [a]) @ ds"
        "set (vi_seen v') = set (ref_key a # vi_seen v) \<union> ref_key ` set ds" "distinct (map ref_key ds)"
        "\<forall>d \<in> set ds. intact fm st d \<and> (\<exists>b \<in> set (manifest_refs m). reaches fm st b d) \<and>
          closed_under fm st (set (vi_seen v')) d \<and> ref_key d \<notin> set (ref_key a # vi_seen v)"
        unfolding walked_def by auto
      then show thesis by (intro that [of ds]) auto
    qed
    moreover have "reaches fm st a d" if "d \<in> set ds" for d
      using that ds(4) step [OF k m] by blast
    moreover have "closed_under fm st (set (vi_seen v')) a" using k m w(2) by (auto simp: closed_under_def)
    ultimately show ?thesis
      unfolding walked_def using s i new by (auto intro!: exI [of _ "a # ds"] self)
  qed
  show ?case
  proof (cases "ref_key a \<in> set (vi_seen v)")
    case True
    then show ?thesis by (auto intro: triple_return simp: walked_refl)
  next
    case False
    have leaf': "triple (\<lambda>s. same_files fm st s \<and> intact fm st a) (eff_return ?v) ?Q (same_files fm st)"
      if "ar_kind a \<noteq> AK_MANIFEST"
      using leaf [OF that _ False] by (auto intro: triple_return)
    have "triple (\<lambda>s. same_files fm st s \<and> manifest_at fm st a m) (eff_fold (visit_artifact n fm) (manifest_refs m) ?v)
        ?Q (same_files fm st)" if "ar_kind a = AK_MANIFEST" for m
    proof (cases "manifest_at fm st a m")
      case True
      then have "intact fm st a" by (auto simp: manifest_at_def intact_def)
      show ?thesis
      proof (intro triple_weaken [OF fold_walks [OF IH]])
        fix v' s assume "same_files fm st s \<and> walked fm st (set (manifest_refs m)) ?v v' \<and>
          ref_key ` set (manifest_refs m) \<subseteq> set (vi_seen v')"
        then show "?Q v' s"
          using node [OF False \<open>intact fm st a\<close> that True] by blast
      qed simp_all
    qed (simp add: triple_def)
    then have "triple (\<lambda>s. same_files fm st s \<and> intact fm st a)
        (eff_bind (read_manifest fm (ar_path a)) (\<lambda>m. eff_fold (visit_artifact n fm) (manifest_refs m) ?v))
        ?Q (same_files fm st)" if "ar_kind a = AK_MANIFEST"
      using that by (intro triple_bind [OF read_same_files])
    with leaf' False show ?thesis
      by (cases "ar_kind a = AK_MANIFEST") (simp_all add: Let_def triple_bind [OF verify_same_files])
  qed
qed

lemma graph_verified:
  assumes "verify_manifest_graph depth fm ref st = (Val ds, st')" "cache_ok fm st"
  shows "intact fm st ref \<and> closed_under fm st (ref_key ` set (ref # ds)) ref \<and> distinct (map ref_key ds) \<and>
    list_all (\<lambda>d. d \<noteq> ref \<and> intact fm st d \<and> reaches fm st ref d \<and>
      closed_under fm st (ref_key ` set (ref # ds)) d) ds"
proof -
  let ?v0 = "\<lparr>vi_discovered = [], vi_seen = []\<rparr>"
  from assms(1) obtain v where v: "visit_artifact depth fm ref ?v0 st = (Val v, st')"
    and ds: "ds = filter (\<lambda>item. item \<noteq> ref) (vi_discovered v)"
    by (auto simp: verify_manifest_graph_def eff_bind_Val eff_return_iff)
  have "same_files fm st st" using assms(2) by (simp add: same_files_def)
  from triple_Val [OF visit_walks this v] have w: "walked fm st {ref} ?v0 v"
    and first: "ref \<in> set (vi_discovered v)"
    by simp_all
  from w have all: "\<forall>d \<in> set (vi_discovered v). intact fm st d \<and> reaches fm st ref d \<and>
      closed_under fm st (set (vi_seen v)) d" and seen: "set (vi_seen v) = ref_key ` set (vi_discovered v)"
    and dist: "distinct (map ref_key (vi_discovered v))"
    by (auto simp: walked_def)
  have "set (ref # ds) = set (vi_discovered v)" using ds first by auto
  with all seen dist first ds show ?thesis
    by (auto simp: list_all_iff distinct_map inj_on_def)
qed


section \<open>The walk ends\<close>

definition seen_ok :: "formats \<Rightarrow> vstate \<Rightarrow> visited \<Rightarrow> bool" where
  "seen_ok fm st v \<longleftrightarrow> (\<forall>(p, d) \<in> set (vi_seen v). \<exists>f. file_at st p = Some f \<and> fm_sha256 fm (fl_data f) = d)"

definition unseen :: "vstate \<Rightarrow> visited \<Rightarrow> nat" where
  "unseen st v = card ({p. file_at st p \<noteq> None} - fst ` set (vi_seen v))"

lemma finite_paths [simp]: "finite {p. \<exists>f. file_at st p = Some f}"
  using finite_dom_map_of [of "vs_files st"] by (simp add: file_at_def dom_def)

lemma unseen_bound: "unseen st v \<le> length (vs_files st)"
proof -
  have "{p. file_at st p \<noteq> None} \<subseteq> fst ` set (vs_files st)"
    by (force simp: file_at_def dest: map_of_SomeD)
  then have "unseen st v \<le> card (fst ` set (vs_files st))"
    unfolding unseen_def by (intro card_mono) auto
  also have "\<dots> \<le> length (vs_files st)" using card_image_le [of "set (vs_files st)" fst] card_length by (metis List.finite_set le_trans)
  finally show ?thesis .
qed

lemma unseen_mono: "set (vi_seen v) \<subseteq> set (vi_seen v') \<Longrightarrow> unseen st v' \<le> unseen st v"
  unfolding unseen_def by (intro card_mono) auto

lemma unseen_less:
  assumes "seen_ok fm st v" "intact fm st a" "ref_key a \<notin> set (vi_seen v)"
  shows "unseen st (v\<lparr>vi_seen := ref_key a # vi_seen v\<rparr>) < unseen st v"
proof -
  from assms(2) obtain f where f: "file_at st (ar_path a) = Some f" "fm_sha256 fm (fl_data f) = ar_sha256 a"
    by (auto simp: intact_def)
  have "ar_path a \<notin> fst ` set (vi_seen v)"
  proof
    assume "ar_path a \<in> fst ` set (vi_seen v)"
    then obtain d where d: "(ar_path a, d) \<in> set (vi_seen v)" by force
    with assms(1) f have "d = ar_sha256 a" by (fastforce simp: seen_ok_def)
    with d assms(3) show False by (simp add: ref_key_def)
  qed
  with f(1) show ?thesis
    unfolding unseen_def by (intro psubset_card_mono) (auto simp: ref_key_def)
qed

text \<open>Two computations agree from \<open>s\<close> and neither runs out of depth.\<close>

definition agree :: "('w, 'a) eff \<Rightarrow> ('w, 'a) eff \<Rightarrow> 'w \<Rightarrow> bool" where
  "agree m m' s \<longleftrightarrow> m s = m' s \<and> fst (m s) \<noteq> Exc recursion_error \<and> fst (m s) \<noteq> Dead"

lemma agree_bind:
  "agree m m' s \<Longrightarrow> (\<And>x s'. m s = (Val x, s') \<Longrightarrow> agree (f x) (f' x) s') \<Longrightarrow> agree (eff_bind m f) (eff_bind m' f') s"
proof -
  assume a: "agree m m' s" and k: "\<And>x s'. m s = (Val x, s') \<Longrightarrow> agree (f x) (f' x) s'"
  obtain r w where ms: "m s = (r, w)" by fastforce
  with a have m's: "m' s = (r, w)" "r \<noteq> Exc recursion_error" "r \<noteq> Dead" by (simp_all add: agree_def)
  show ?thesis
  proof (cases r)
    case (Val x)
    with k ms have "agree (f x) (f' x) w" by simp
    then have "f x w = f' x w" "fst (f x w) \<noteq> Exc recursion_error" "fst (f x w) \<noteq> Dead"
      unfolding agree_def by blast+
    with Val ms m's(1) show ?thesis by (auto simp: agree_def eff_bind_def)
  qed (use ms m's in \<open>simp_all add: agree_def eff_bind_def\<close>)
qed

lemma agree_verify: "agree (verify_artifact fm a) (verify_artifact fm a) s"
proof -
  obtain r s' where v: "verify_artifact fm a s = (r, s')" by fastforce
  then show ?thesis
    by (cases rule: verify_artifact_cases)
      (simp_all add: v agree_def recursion_error_def art_error_def agent_exn_def)
qed

lemma agree_read: "agree (read_manifest fm p) (read_manifest fm p) s"
  by (simp add: agree_def read_manifest_def recursion_error_def art_error_def agent_exn_def split: option.split)

lemma agree_return: "agree (eff_return x) (eff_return x) s"
  by (simp add: agree_def eff_return_def)

lemma walked_seen_ok: "walked fm st A v v' \<Longrightarrow> seen_ok fm st v \<Longrightarrow> seen_ok fm st v'"
  by (auto simp: walked_def seen_ok_def intact_def ref_key_def)

lemma fold_agree:
  assumes "\<And>a v s. same_files fm st s \<Longrightarrow> seen_ok fm st v \<Longrightarrow> unseen st v < n \<Longrightarrow> unseen st v < n' \<Longrightarrow>
      agree (visit_artifact n fm a v) (visit_artifact n' fm a v) s"
  shows "same_files fm st s \<Longrightarrow> seen_ok fm st v \<Longrightarrow> unseen st v < n \<Longrightarrow> unseen st v < n' \<Longrightarrow>
      agree (eff_fold (visit_artifact n fm) as v) (eff_fold (visit_artifact n' fm) as v) s"
proof (induction as arbitrary: v s)
  case (Cons a as)
  show ?case
    unfolding eff_fold.simps
  proof (rule agree_bind [OF assms [OF Cons.prems]])
    fix v' s' assume "visit_artifact n fm a v s = (Val v', s')"
    from triple_Val [OF visit_walks Cons.prems(1) this]
    have "same_files fm st s'" and w: "walked fm st {a} v v'" by simp_all
    with Cons.prems unseen_mono [OF walked_seen [OF w], of st] walked_seen_ok [OF w]
    show "agree (eff_fold (visit_artifact n fm) as v') (eff_fold (visit_artifact n' fm) as v') s'"
      by (intro Cons.IH) simp_all
  qed
qed (simp add: agree_return)

lemma visit_agree:
  "same_files fm st s \<Longrightarrow> seen_ok fm st v \<Longrightarrow> unseen st v < d \<Longrightarrow> unseen st v < d' \<Longrightarrow>
   agree (visit_artifact d fm a v) (visit_artifact d' fm a v) s"
proof (induction d arbitrary: d' a v s)
  case (Suc n)
  then obtain n' where d': "d' = Suc n'" by (cases d') auto
  show ?case
  proof (cases "ref_key a \<in> set (vi_seen v)")
    case False
    let ?v = "\<lparr>vi_discovered = vi_discovered v @ [a], vi_seen = ref_key a # vi_seen v\<rparr>"
    let ?k = "\<lambda>n _. if ar_kind a \<noteq> AK_MANIFEST then eff_return ?v
        else eff_bind (read_manifest fm (ar_path a)) (\<lambda>m. eff_fold (visit_artifact n fm) (manifest_refs m) ?v)"
    have "agree (eff_bind (verify_artifact fm a) (?k n)) (eff_bind (verify_artifact fm a) (?k n')) s"
    proof (rule agree_bind [OF agree_verify])
      fix u :: unit and s1 assume v1: "verify_artifact fm a s = (Val u, s1)"
      from triple_Val [OF verify_same_files Suc.prems(1) v1]
      have s1: "same_files fm st s1" and i: "intact fm st a" by simp_all
      from i Suc.prems(2) have ok: "seen_ok fm st ?v" by (auto simp: seen_ok_def intact_def ref_key_def)
      have "unseen st ?v < unseen st v"
        using unseen_less [OF Suc.prems(2) i False] by (simp add: unseen_def)
      with Suc.prems(3,4) d' have less: "unseen st ?v < n" "unseen st ?v < n'" by simp_all
      show "agree (?k n u) (?k n' u) s1"
      proof (cases "ar_kind a = AK_MANIFEST")
        case True
        have "agree (eff_fold (visit_artifact n fm) (manifest_refs m) ?v)
            (eff_fold (visit_artifact n' fm) (manifest_refs m) ?v) s2"
          if "read_manifest fm (ar_path a) s1 = (Val m, s2)" for m s2
        proof -
          from triple_Val [OF read_same_files _ that] s1 i have "same_files fm st s2" by blast
          from fold_agree [OF Suc.IH this ok less] show ?thesis .
        qed
        with True show ?thesis by (simp add: agree_bind [OF agree_read])
      qed (simp add: agree_return)
    qed
    with False d' show ?thesis by (simp add: Let_def)
  qed (simp add: d' agree_return)
qed simp

text \<open>
  C36. The graph walk ends on every store, cyclic references included: with more stack left than
  there are files it never raises \<open>RecursionError\<close>, and how much more makes no difference to
  its result.
\<close>

theorem graph_walk_terminates:
  assumes "cache_ok fm st" "length (vs_files st) < depth" "length (vs_files st) < depth'"
  shows "verify_manifest_graph depth fm ref st = verify_manifest_graph depth' fm ref st \<and>
    fst (verify_manifest_graph depth fm ref st) \<noteq> Exc recursion_error \<and>
    fst (verify_manifest_graph depth fm ref st) \<noteq> Dead"
proof -
  let ?v = "\<lparr>vi_discovered = [], vi_seen = []\<rparr>"
  have "same_files fm st st" "seen_ok fm st ?v" using assms(1) by (simp_all add: same_files_def seen_ok_def)
  from visit_agree [OF this, of depth depth'] unseen_bound [of st ?v] assms(2,3)
  have "agree (visit_artifact depth fm ref ?v) (visit_artifact depth' fm ref ?v) st" by simp
  then have "agree (verify_manifest_graph depth fm ref) (verify_manifest_graph depth' fm ref) st"
    unfolding verify_manifest_graph_def by (rule agree_bind) (rule agree_return)
  then show ?thesis unfolding agree_def .
qed

section \<open>Revisions and forks\<close>

lemma merge_one_self: "addition \<in> set (merge_one addition xs)"
  by (induction xs) auto

lemma merge_one_other: "x \<in> set xs \<Longrightarrow> \<not> same_artifact addition x \<Longrightarrow> x \<in> set (merge_one addition xs)"
  by (induction xs) auto

lemma merge_one_sub: "set (merge_one addition xs) \<subseteq> insert addition (set xs)"
  by (induction xs) auto

lemma merge_artifacts_sub: "set (merge_artifacts xs adds) \<subseteq> set xs \<union> set adds"
  unfolding merge_artifacts_def
  by (induction adds arbitrary: xs) (use merge_one_sub in \<open>fastforce+\<close>)

lemma merge_artifacts_last: "adds \<noteq> [] \<Longrightarrow> last adds \<in> set (merge_artifacts xs adds)"
  by (cases adds rule: rev_cases) (simp_all add: merge_artifacts_def merge_one_self)

lemma merge_artifacts_kept:
  "x \<in> set xs \<Longrightarrow> list_all (\<lambda>a. \<not> same_artifact a x) adds \<Longrightarrow> x \<in> set (merge_artifacts xs adds)"
  unfolding merge_artifacts_def by (induction adds arbitrary: xs) (auto intro: merge_one_other)

lemma load_cache_triple:
  "triple (same_files fm st) (load_manifest fm (RefArg ref) None)
     (\<lambda>m s. same_files fm st s \<and> manifest_at fm st ref m \<and> ar_kind ref = AK_MANIFEST) (same_files fm st)"
proof (cases "ar_kind ref = AK_MANIFEST")
  case True
  have "triple (same_files fm st) (eff_bind (verify_artifact fm ref) (\<lambda>_. read_manifest fm (ar_path ref)))
      (\<lambda>m s. same_files fm st s \<and> manifest_at fm st ref m) (same_files fm st)"
    by (intro triple_bind [OF verify_same_files] read_same_files)
  with True show ?thesis
    by (simp add: load_manifest_def coerce_manifest_ref_def triple_def eff_bind_def eff_return_def)
next
  case False
  then show ?thesis
    by (simp add: load_manifest_def coerce_manifest_ref_def triple_def eff_bind_def eff_return_def eff_raise_def)
qed

lemma coerced_then_loaded:
  assumes "coerce_manifest_ref prev sha st = (Val p, s1)" "load_manifest fm (RefArg p) None s1 = (Val m, s2)"
    and "cache_ok fm st"
  shows "s1 = st \<and> same_files fm st s2 \<and> manifest_at fm st p m \<and> ar_kind p = AK_MANIFEST"
proof -
  have "s1 = st" using coerce_state [of prev sha st] assms(1) by simp
  moreover have "same_files fm st st" using assms(3) by (simp add: same_files_def)
  ultimately show ?thesis using triple_Val [OF load_cache_triple _ assms(2)] by simp
qed

text \<open>
  A revision appends: it extends an intact manifest by one revision number, keeps its run,
  creation time and specification, links to it, keeps all its stages in order followed by the
  new one, and its artifacts are the old ones that no addition replaces together with
  additions, the last addition always among them.
\<close>

theorem revise_appends:
  assumes "revise fm sroot env prev sha stage arts meta st = (Val (m', ref'), st')" "cache_ok fm st"
  shows "\<exists>p m. manifest_at fm st p m \<and> rm_parent_manifest m' = Some p \<and> rm_run_id m' = rm_run_id m \<and>
    rm_revision m' = rm_revision m + 1 \<and> rm_created_at m' = rm_created_at m \<and>
    rm_build_spec m' = rm_build_spec m \<and>
    rm_stages m' = rm_stages m @ (case stage of None \<Rightarrow> [] | Some s \<Rightarrow> [s]) \<and>
    set (rm_artifacts m') \<subseteq> set (rm_artifacts m) \<union> set arts \<and>
    (arts = [] \<or> last arts \<in> set (rm_artifacts m')) \<and>
    {x \<in> set (rm_artifacts m). list_all (\<lambda>a. \<not> same_artifact a x) arts} \<subseteq> set (rm_artifacts m') \<and>
    is_ok (validate_revision_chain m')"
proof -
  from assms(1) obtain p s1 m s2
    where c: "coerce_manifest_ref prev sha st = (Val p, s1)" "load_manifest fm (RefArg p) None s1 = (Val m, s2)"
      and k: "eff_bind (eff_lift (RunManifest_new
       \<lparr>rm_run_id = rm_run_id m, rm_revision = rm_revision m + 1, rm_created_at = rm_created_at m,
        rm_revision_created_at = re_revision_created_at env, rm_parent_manifest = Some p,
        rm_build_spec = rm_build_spec m, rm_stages = rm_stages m @ (case stage of None \<Rightarrow> [] | Some s \<Rightarrow> [s]),
        rm_artifacts = merge_artifacts (rm_artifacts m) arts,
        rm_metadata = dict_update (rm_metadata m) (case meta of None \<Rightarrow> [] | Some d \<Rightarrow> d)\<rparr>)) (\<lambda>revised.
       eff_bind (publish fm sroot (re_write env) revised) (\<lambda>ref. eff_return (revised, ref))) s2 = (Val (m', ref'), st')"
    unfolding revise_def eff_bind_Val by blast
  from coerced_then_loaded [OF c assms(2)] have "manifest_at fm st p m" by blast
  moreover from k have "m' = \<lparr>rm_run_id = rm_run_id m, rm_revision = rm_revision m + 1,
        rm_created_at = rm_created_at m, rm_revision_created_at = re_revision_created_at env,
        rm_parent_manifest = Some p, rm_build_spec = rm_build_spec m,
        rm_stages = rm_stages m @ (case stage of None \<Rightarrow> [] | Some s \<Rightarrow> [s]),
        rm_artifacts = merge_artifacts (rm_artifacts m) arts,
        rm_metadata = dict_update (rm_metadata m) (case meta of None \<Rightarrow> [] | Some d \<Rightarrow> d)\<rparr> \<and>
        is_ok (validate_revision_chain m')"
    unfolding eff_bind_Val eff_lift_iff eff_return_iff RunManifest_new_def
    by (auto simp: res_simps split: sum.splits)
  ultimately show ?thesis
    using merge_artifacts_sub [of "rm_artifacts m" arts] merge_artifacts_last [of arts "rm_artifacts m"]
    by (intro exI [of _ p] exI [of _ m]) (auto intro: merge_artifacts_kept)
qed

text \<open>
  A fork is an independent copy: it starts a new run at revision zero without a parent from
  a manifest of the store whose whole graph was intact, copies its stages and artifacts
  verbatim, takes the replacement specification exactly when one is given, and records the
  source manifest, run and revision and whether the specification changed.
\<close>

theorem fork_copies:
  assumes "fork_snapshot depth fm sroot env prev sha rid repl meta st = (Val (m', ref'), st')" "cache_ok fm st"
  shows "\<exists>p m ds. manifest_at fm st p m \<and> path_parent (ar_path p) = run_directory sroot (rm_run_id m) \<and>
    closed_under fm st (ref_key ` set (p # ds)) p \<and>
    list_all (\<lambda>d. intact fm st d \<and> closed_under fm st (ref_key ` set (p # ds)) d) ds \<and>
    rm_run_id m' \<noteq> rm_run_id m \<and> rm_revision m' = 0 \<and> rm_parent_manifest m' = None \<and>
    rm_stages m' = rm_stages m \<and> rm_artifacts m' = rm_artifacts m \<and>
    rm_build_spec m' = (case repl of None \<Rightarrow> rm_build_spec m | Some b \<Rightarrow> b) \<and>
    map_of (rm_metadata m') ''forked_from_manifest'' = Some (artifact_json p) \<and>
    map_of (rm_metadata m') ''forked_from_run_id'' = Some (JStr (rm_run_id m)) \<and>
    map_of (rm_metadata m') ''forked_from_revision'' = Some (JInt (rm_revision m)) \<and>
    map_of (rm_metadata m') ''build_spec_rebased'' = Some (JBool (rm_build_spec m' \<noteq> rm_build_spec m))"
proof -
  from assms(1) obtain p s1 m s2
    where c: "coerce_manifest_ref prev sha st = (Val p, s1)" "load_manifest fm (RefArg p) None s1 = (Val m, s2)"
      and k: "(if path_parent (ar_path p) \<noteq> run_directory sroot (rm_run_id m)
        then eff_raise (art_error ManifestConflictError)
        else eff_bind (verify_manifest_graph depth fm p) (\<lambda>_.
        let new_run_id = (case rid of None \<Rightarrow> re_run_id env | Some r \<Rightarrow> r)
        in if new_run_id = rm_run_id m then eff_raise (art_error ManifestConflictError)
        else
          let effective = (case repl of None \<Rightarrow> rm_build_spec m | Some b \<Rightarrow> b)
          in eff_bind (eff_lift (fm_encode_spec fm (rm_build_spec m))) (\<lambda>source_spec.
             eff_bind (eff_lift (fm_encode_spec fm effective)) (\<lambda>effective_spec.
             eff_bind (eff_lift (RunManifest_new
               \<lparr>rm_run_id = new_run_id, rm_revision = 0, rm_created_at = re_created_at env,
                rm_revision_created_at = re_revision_created_at env, rm_parent_manifest = None,
                rm_build_spec = effective, rm_stages = rm_stages m, rm_artifacts = rm_artifacts m,
                rm_metadata = dict_update (dict_update (rm_metadata m)
                    (case meta of None \<Rightarrow> [] | Some d \<Rightarrow> d))
                  [(''forked_from_manifest'', artifact_json p),
                   (''forked_from_run_id'', JStr (rm_run_id m)),
                   (''forked_from_revision'', JInt (rm_revision m)),
                   (''forked_from_build_spec_sha256'', JStr (fm_sha256 fm source_spec)),
                   (''effective_build_spec_sha256'', JStr (fm_sha256 fm effective_spec)),
                   (''build_spec_rebased'', JBool (effective \<noteq> rm_build_spec m))]\<rparr>)) (\<lambda>snapshot.
             eff_bind (publish fm sroot (re_write env) snapshot) (\<lambda>ref.
             eff_return (snapshot, ref))))))) s2 = (Val (m', ref'), st')"
    unfolding fork_snapshot_def eff_bind_Val by blast
  from coerced_then_loaded [OF c assms(2)] have p: "manifest_at fm st p m" "same_files fm st s2" by blast+
  from k obtain ds s3 where g: "verify_manifest_graph depth fm p s2 = (Val ds, s3)"
    and pp: "path_parent (ar_path p) = run_directory sroot (rm_run_id m)"
    by (auto simp: eff_bind_Val eff_raise_iff split: if_splits)
  have same: "manifest_at fm s2 = manifest_at fm st" "intact fm s2 = intact fm st"
    using p(2) by (simp_all add: fun_eq_iff manifest_at_def intact_def same_files_at)
  then have "closed_under fm s2 = closed_under fm st" by (simp add: fun_eq_iff closed_under_def)
  with graph_verified [OF g] p(2) same
  have graph: "closed_under fm st (ref_key ` set (p # ds)) p"
    "list_all (\<lambda>d. intact fm st d \<and> closed_under fm st (ref_key ` set (p # ds)) d) ds"
    by (auto simp: same_files_def list_all_iff)
  from k have "rm_run_id m' = (case rid of None \<Rightarrow> re_run_id env | Some r \<Rightarrow> r) \<and> rm_run_id m' \<noteq> rm_run_id m \<and>
    rm_revision m' = 0 \<and> rm_parent_manifest m' = None \<and>
    rm_stages m' = rm_stages m \<and> rm_artifacts m' = rm_artifacts m \<and>
    rm_build_spec m' = (case repl of None \<Rightarrow> rm_build_spec m | Some b \<Rightarrow> b) \<and>
    map_of (rm_metadata m') ''forked_from_manifest'' = Some (artifact_json p) \<and>
    map_of (rm_metadata m') ''forked_from_run_id'' = Some (JStr (rm_run_id m)) \<and>
    map_of (rm_metadata m') ''forked_from_revision'' = Some (JInt (rm_revision m)) \<and>
    map_of (rm_metadata m') ''build_spec_rebased'' = Some (JBool (rm_build_spec m' \<noteq> rm_build_spec m))"
    unfolding Let_def
    by (auto simp: eff_bind_Val eff_raise_iff eff_lift_iff eff_return_iff RunManifest_new_def res_simps
        split: if_splits sum.splits)
  with p(1) pp graph show ?thesis by (intro exI [of _ p] exI [of _ m] exI [of _ ds] conjI) blast+
qed

section \<open>A store with two revisions and a fork\<close>

definition demo_manifest :: RunManifest where
  "demo_manifest = \<lparr>rm_run_id = ''r1'', rm_revision = 0, rm_created_at = 1, rm_revision_created_at = 1,
     rm_parent_manifest = None, rm_build_spec = sample_spec, rm_stages = [], rm_artifacts = [], rm_metadata = []\<rparr>"

definition demo_path :: string where
  "demo_path = manifest_path ''/store'' ''r1'' 0 (toy_sha256 ''m'')"

definition demo_ref :: ArtifactRef where
  "demo_ref = \<lparr>ar_path = demo_path, ar_sha256 = toy_sha256 ''m'', ar_size_bytes = 1, ar_kind = AK_MANIFEST,
     ar_media_type = ''application/json'', ar_logical_name = Some ''run-manifest-r0''\<rparr>"

definition demo_revised :: RunManifest where
  "demo_revised = demo_manifest\<lparr>rm_revision := 1, rm_revision_created_at := 2, rm_parent_manifest := Some demo_ref\<rparr>"

definition demo_forked :: RunManifest where
  "demo_forked = demo_manifest\<lparr>rm_run_id := ''r2'', rm_created_at := 1, rm_revision_created_at := 2,
     rm_metadata := [(''forked_from_manifest'', artifact_json demo_ref), (''forked_from_run_id'', JStr ''r1''),
       (''forked_from_revision'', JInt 0), (''forked_from_build_spec_sha256'', JStr (toy_sha256 ''spec'')),
       (''effective_build_spec_sha256'', JStr (toy_sha256 ''spec'')), (''build_spec_rebased'', JBool False)]\<rparr>"

text \<open>A serialization of these three manifests that refuses every other one.\<close>

definition demo_formats :: formats where
  "demo_formats = \<lparr>fm_sha256 = toy_sha256,
     fm_encode = (\<lambda>m. if m = demo_manifest then Inr ''m'' else if m = demo_revised then Inr ''mm''
       else if m = demo_forked then Inr ''mmm'' else Inl validation_error),
     fm_decode = (\<lambda>d. if d = ''m'' then Some demo_manifest else if d = ''mm'' then Some demo_revised
       else if d = ''mmm'' then Some demo_forked else None),
     fm_encode_spec = (\<lambda>_. Inr ''spec'')\<rparr>"

definition demo_run_env :: run_env where
  "demo_run_env = \<lparr>re_run_id = ''r2'', re_created_at = 1, re_revision_created_at = 2,
     re_write = \<lparr>we_mtime = 9, we_os_error = False\<rparr>\<rparr>"

definition empty_vstate :: vstate where
  "empty_vstate = \<lparr>vs_files = [], vs_verified = [], vs_full = 0, vs_cached = 0\<rparr>"

definition demo_state :: vstate where
  "demo_state = put_file demo_path \<lparr>fl_data = ''m'', fl_mtime = 9\<rparr> empty_vstate"

lemma toy_sha256_hex [simp]: "is_sha256 (toy_sha256 d)"
proof -
  have "lower_hex_char (CHR ''0'')" by (simp add: lower_hex_char_def py_isdigit_char_def)
  moreover have "lower_hex_char (digit_char (length d mod 10))" unfolding lower_hex_char_def by simp
  ultimately have "lower_hex_char (CHR ''0'')" "lower_hex_char (digit_char (length d mod 10))" .
  then show ?thesis by (simp add: is_sha256_def toy_sha256_def list_all_iff)
qed

lemma toy_digests:
  "toy_sha256 ''m'' \<noteq> toy_sha256 ''mm''" "toy_sha256 ''m'' \<noteq> toy_sha256 ''mmm''"
  by code_simp+

lemma demo_faithful: "faithful_formats demo_formats"
  by (simp add: faithful_formats_def demo_formats_def)

theorem store_never_overwrites_witness:
  "file_at (snd (publish demo_formats ''/store'' \<lparr>we_mtime = 9, we_os_error = False\<rparr> demo_manifest toy_state)) ''/a.json'' =
     Some \<lparr>fl_data = ''abc'', fl_mtime = 5\<rparr>"
proof -
  have "file_at toy_state ''/a.json'' = Some \<lparr>fl_data = ''abc'', fl_mtime = 5\<rparr>"
    by (simp add: file_at_def toy_state_def)
  from store_never_overwrites [OF this, of demo_formats "''/store''" _ demo_manifest] show ?thesis by blast
qed

lemma demo_valid: "is_ok (validate_revision_chain demo_manifest)" "is_ok (validate_revision_chain demo_revised)"
    "is_ok (validate_revision_chain demo_forked)"
  by (simp_all add: is_ok_iff validate_revision_chain_def checks_Inr demo_manifest_def demo_revised_def
      demo_forked_def demo_ref_def)

lemma demo_refs:
  "ArtifactRef_new \<lparr>ar_path = p, ar_sha256 = toy_sha256 ''m'', ar_size_bytes = 1, ar_kind = AK_MANIFEST,
     ar_media_type = ''application/json'', ar_logical_name = Some ''run-manifest-r0''\<rparr> =
   Inr \<lparr>ar_path = p, ar_sha256 = toy_sha256 ''m'', ar_size_bytes = 1, ar_kind = AK_MANIFEST,
     ar_media_type = ''application/json'', ar_logical_name = Some ''run-manifest-r0''\<rparr>"
proof -
  have "py_lower (toy_sha256 ''m'') = toy_sha256 ''m''" "py_strip ''run-manifest-r0'' = ''run-manifest-r0''"
    by code_simp+
  then show ?thesis by (simp add: ArtifactRef_new_def require_def ensure_def)
qed

lemma demo_published:
  "publish demo_formats ''/store'' \<lparr>we_mtime = 9, we_os_error = False\<rparr> demo_manifest empty_vstate =
   (Val demo_ref, demo_state)"
proof -
  have "''run-manifest-r'' @ dec 0 = ''run-manifest-r0''" by code_simp
  then show ?thesis
    unfolding publish_def demo_state_def
    by (simp add: eff_bind_def eff_lift_def eff_return_def demo_formats_def demo_manifest_def empty_vstate_def
        atomic_publish_json_def file_at_def json_ref_def demo_refs demo_path_def [symmetric] demo_ref_def Let_def)
qed

lemma demo_manifest_created:
  "create_manifest demo_formats ''/store''
     (demo_run_env\<lparr>re_revision_created_at := 1\<rparr>) sample_spec (Some ''r1'') None empty_vstate =
   (Val (demo_manifest, demo_ref), demo_state)"
proof -
  have "RunManifest_new demo_manifest = Inr demo_manifest"
    by (simp add: RunManifest_new_Inr demo_valid(1))
  moreover have "\<lparr>rm_run_id = (case Some ''r1'' of None \<Rightarrow> re_run_id demo_run_env | Some r \<Rightarrow> r), rm_revision = 0,
      rm_created_at = re_created_at demo_run_env, rm_revision_created_at = 1, rm_parent_manifest = None,
      rm_build_spec = sample_spec, rm_stages = [], rm_artifacts = [],
      rm_metadata = (case None of None \<Rightarrow> [] | Some d \<Rightarrow> d)\<rparr> = demo_manifest"
    by (simp add: demo_manifest_def demo_run_env_def)
  moreover have "re_write demo_run_env = \<lparr>we_mtime = 9, we_os_error = False\<rparr>" by (simp add: demo_run_env_def)
  ultimately show ?thesis
    using demo_published by (simp add: create_manifest_def eff_bind_def eff_return_def eff_lift_def)
qed

lemma demo_at: "file_at demo_state demo_path = Some \<lparr>fl_data = ''m'', fl_mtime = 9\<rparr>"
  by (simp add: demo_state_def)

lemma demo_files: "file_at demo_state p = (if p = demo_path then Some \<lparr>fl_data = ''m'', fl_mtime = 9\<rparr> else None)"
  by (simp add: demo_state_def empty_vstate_def file_at_def put_file_def)

lemma demo_parse: "parse_manifest demo_formats ''m'' = Some demo_manifest"
proof -
  have "fm_decode demo_formats ''m'' = Some demo_manifest" by (simp add: demo_formats_def)
  then show ?thesis using demo_valid(1) by (simp add: parse_manifest_def)
qed

lemma demo_cache: "cache_ok fm demo_state"
  by (simp add: cache_ok_def demo_state_def empty_vstate_def put_file_def)

theorem store_history_linear_witness:
  "revision_file demo_formats demo_state ''/store'' ''r1'' 0 demo_path \<lparr>fl_data = ''m'', fl_mtime = 9\<rparr> \<and>
   {p. revision_glob ''/store'' ''r1'' 0 p \<and> file_at demo_state p \<noteq> None} = {demo_path}"
proof -
  from create [OF demo_manifest_created]
  have "(store_step demo_formats ''/store'')\<^sup>*\<^sup>* empty_vstate demo_state" by blast
  moreover have "vs_verified empty_vstate = []" "\<And>p. file_at empty_vstate p = None"
    by (simp_all add: empty_vstate_def file_at_def)
  moreover have "revision_glob ''/store'' ''r1'' 0 demo_path"
    unfolding demo_path_def by (simp add: manifest_path_glob)
  ultimately show ?thesis
    using store_history_linear [OF _ demo_faithful _ _ _ _ demo_at] by blast
qed

theorem publish_load_roundtrip_witness:
  "fst (load_manifest demo_formats (RefArg demo_ref) None demo_state) = Val demo_manifest"
proof -
  have "fm_encode demo_formats demo_manifest = Inr ''m''" by (simp add: demo_formats_def)
  moreover have "no_collision demo_formats empty_vstate ''m''"
    by (simp add: no_collision_def empty_vstate_def file_at_def)
  ultimately show ?thesis
    using publish_load_roundtrip [OF demo_published demo_faithful demo_valid(1) _ _ grows_refl demo_cache] by blast
qed

lemma demo_loaded:
  "load_manifest demo_formats (RefArg demo_ref) None demo_state =
     (Val demo_manifest, demo_state\<lparr>vs_full := 1, vs_verified := [stat_key demo_path (toy_sha256 ''m'') \<lparr>fl_data = ''m'', fl_mtime = 9\<rparr>]\<rparr>)"
proof -
  have r: "ar_path demo_ref = demo_path" "ar_kind demo_ref = AK_MANIFEST" "ar_sha256 demo_ref = toy_sha256 ''m''"
    "ar_size_bytes demo_ref = 1" by (simp_all add: demo_ref_def)
  have f: "file_at demo_state (ar_path demo_ref) = Some \<lparr>fl_data = ''m'', fl_mtime = 9\<rparr>" by (simp add: r demo_at)
  have v: "vs_verified demo_state = []" "vs_full demo_state = 0" "fm_sha256 demo_formats ''m'' = toy_sha256 ''m''"
    by (simp_all add: demo_state_def empty_vstate_def put_file_def demo_formats_def)
  show ?thesis
    by (simp add: load_manifest_def coerce_manifest_ref_def eff_bind_def eff_return_def r
        verify_artifact_present [OF f] v Let_def read_manifest_def demo_at demo_parse)
qed

definition demo_verified :: vstate where
  "demo_verified = demo_state\<lparr>vs_full := 1,
     vs_verified := [stat_key demo_path (toy_sha256 ''m'') \<lparr>fl_data = ''m'', fl_mtime = 9\<rparr>]\<rparr>"

lemma demo_verified_simps [simp]:
  "file_at demo_verified p = (if p = demo_path then Some \<lparr>fl_data = ''m'', fl_mtime = 9\<rparr> else None)"
  "vs_files demo_verified = [(demo_path, \<lparr>fl_data = ''m'', fl_mtime = 9\<rparr>)]"
  by (simp_all add: demo_verified_def demo_files) (simp add: demo_state_def put_file_def empty_vstate_def)

lemma demo_reload: "\<exists>s. load_manifest demo_formats (RefArg demo_ref) None demo_verified = (Val demo_manifest, s) \<and>
    vs_files s = vs_files demo_verified"
proof -
  have r: "ar_path demo_ref = demo_path" "ar_kind demo_ref = AK_MANIFEST" "ar_sha256 demo_ref = toy_sha256 ''m''"
    by (simp_all add: demo_ref_def)
  have f: "file_at demo_verified (ar_path demo_ref) = Some \<lparr>fl_data = ''m'', fl_mtime = 9\<rparr>" by (simp add: r)
  have k: "stat_key demo_path (toy_sha256 ''m'') \<lparr>fl_data = ''m'', fl_mtime = 9\<rparr> \<in> set (vs_verified demo_verified)"
    by (simp add: demo_verified_def)
  show ?thesis
    by (simp add: load_manifest_def coerce_manifest_ref_def eff_bind_def eff_return_def r
        verify_artifact_present [OF f] k Let_def read_manifest_def demo_parse)
qed

lemma other_revision:
  "\<not> revision_glob ''/store'' rn 1 demo_path" "manifest_path ''/store'' rn 1 (toy_sha256 d) \<noteq> demo_path"
proof -
  show g: "\<not> revision_glob ''/store'' rn 1 demo_path" by (simp add: demo_path_def manifest_path_glob)
  have "revision_glob ''/store'' rn 1 (manifest_path ''/store'' rn 1 (toy_sha256 d))" by (simp add: manifest_path_glob)
  with g show "manifest_path ''/store'' rn 1 (toy_sha256 d) \<noteq> demo_path" by metis
qed

lemma demo_revision_published:
  "\<exists>ref st'. publish demo_formats ''/store'' \<lparr>we_mtime = 9, we_os_error = False\<rparr> demo_revised demo_verified = (Val ref, st')"
proof -
  obtain s where s: "load_manifest demo_formats (RefArg demo_ref) None demo_verified = (Val demo_manifest, s)"
    "vs_files s = vs_files demo_verified" using demo_reload by blast
  have e: "fm_encode demo_formats demo_revised = Inr ''mm''" "fm_sha256 demo_formats = toy_sha256"
    by (simp_all add: demo_formats_def demo_revised_def demo_manifest_def)
  have m: "rm_parent_manifest demo_revised = Some demo_ref" "rm_run_id demo_revised = ''r1''" "rm_revision demo_revised = 1"
    "rm_run_id demo_manifest = ''r1''" "rm_revision demo_manifest = 0"
    by (simp_all add: demo_revised_def demo_manifest_def)
  have n: "file_at s (manifest_path ''/store'' ''r1'' 1 (toy_sha256 ''mm'')) = None"
    using s(2) other_revision(2) by (simp add: file_at_def)
  have l: "py_strip (''run-manifest-r'' @ dec 1) = ''run-manifest-r1''" "py_lower (toy_sha256 ''mm'') = toy_sha256 ''mm''"
    by code_simp+
  show ?thesis
    using s e m n l other_revision(1)
    by (simp add: publish_def eff_bind_def eff_lift_def eff_return_def atomic_publish_json_def json_ref_def
        ArtifactRef_new_def require_def ensure_def Let_def)
qed

theorem revise_appends_witness:
  "\<exists>m' ref' st'. revise demo_formats ''/store'' demo_run_env (RefArg demo_ref) None None [] None demo_state =
     (Val (m', ref'), st') \<and> rm_revision m' = 1 \<and> rm_run_id m' = ''r1'' \<and> is_ok (validate_revision_chain m')"
proof -
  obtain ref st' where p: "publish demo_formats ''/store'' \<lparr>we_mtime = 9, we_os_error = False\<rparr> demo_revised demo_verified =
      (Val ref, st')" using demo_revision_published by blast
  have rec: "\<lparr>rm_run_id = rm_run_id demo_manifest, rm_revision = rm_revision demo_manifest + 1,
        rm_created_at = rm_created_at demo_manifest, rm_revision_created_at = re_revision_created_at demo_run_env,
        rm_parent_manifest = Some demo_ref, rm_build_spec = rm_build_spec demo_manifest,
        rm_stages = rm_stages demo_manifest @ (case None of None \<Rightarrow> [] | Some s \<Rightarrow> [s]),
        rm_artifacts = merge_artifacts (rm_artifacts demo_manifest) [],
        rm_metadata = dict_update (rm_metadata demo_manifest) (case None of None \<Rightarrow> [] | Some d \<Rightarrow> d)\<rparr> = demo_revised"
    by (simp add: demo_revised_def demo_manifest_def demo_run_env_def merge_artifacts_def)
  have w: "re_write demo_run_env = \<lparr>we_mtime = 9, we_os_error = False\<rparr>" by (simp add: demo_run_env_def)
  have "coerce_manifest_ref (RefArg demo_ref) None demo_state = (Val demo_ref, demo_state)"
    by (simp add: coerce_manifest_ref_def eff_return_def)
  moreover note demo_loaded [folded demo_verified_def]
  moreover have "RunManifest_new demo_revised = Inr demo_revised" by (simp add: RunManifest_new_Inr demo_valid(2))
  ultimately have r: "revise demo_formats ''/store'' demo_run_env (RefArg demo_ref) None None [] None demo_state =
      (Val (demo_revised, ref), st')"
    unfolding revise_def by (simp add: eff_bind_def rec [simplified] eff_lift_def w p eff_return_def)
  from revise_appends [OF r demo_cache] r show ?thesis
    by (auto simp: demo_revised_def demo_manifest_def)
qed

lemma demo_graph: "\<exists>st'. verify_manifest_graph 2 demo_formats demo_ref demo_state = (Val [], st')"
proof -
  have r: "ar_path demo_ref = demo_path" "ar_kind demo_ref = AK_MANIFEST" by (simp_all add: demo_ref_def)
  from demo_loaded obtain s1 s2 where v: "verify_artifact demo_formats demo_ref demo_state = (Val (), s1)"
    "read_manifest demo_formats demo_path s1 = (Val demo_manifest, s2)"
    by (auto simp: load_manifest_def coerce_manifest_ref_def eff_bind_Val eff_return_iff r)
  have "manifest_refs demo_manifest = []" by (simp add: manifest_refs_def demo_manifest_def)
  then show ?thesis
    by (simp add: verify_manifest_graph_def numeral_2_eq_2 eff_bind_def v r Let_def eff_return_def)
qed


theorem graph_walk_terminates_witness:
  "verify_manifest_graph 2 demo_formats demo_ref demo_state = verify_manifest_graph 900 demo_formats demo_ref demo_state"
proof -
  have "length (vs_files demo_state) = 1" by (simp add: demo_state_def put_file_def empty_vstate_def)
  with graph_walk_terminates [OF demo_cache, of 2 900 demo_formats demo_ref] show ?thesis by simp
qed

lemma demo_path_parent: "path_parent demo_path = run_directory ''/store'' ''r1''"
  by code_simp

lemma demo_fork_published:
  "\<exists>ref st'. publish demo_formats ''/store'' \<lparr>we_mtime = 9, we_os_error = False\<rparr> demo_forked s = (Val ref, st')"
  if "vs_files s = vs_files demo_state"
proof -
  have e: "fm_encode demo_formats demo_forked = Inr ''mmm''" "fm_sha256 demo_formats = toy_sha256"
    by (simp_all add: demo_formats_def demo_forked_def demo_manifest_def demo_revised_def)
  have m: "rm_parent_manifest demo_forked = None" "rm_run_id demo_forked = ''r2''" "rm_revision demo_forked = 0"
    by (simp_all add: demo_forked_def demo_manifest_def)
  have g: "\<not> revision_glob ''/store'' ''r2'' 0 demo_path" by (simp add: demo_path_def manifest_path_glob)
  have "revision_glob ''/store'' ''r2'' 0 (manifest_path ''/store'' ''r2'' 0 (toy_sha256 ''mmm''))"
    by (simp add: manifest_path_glob)
  with g have p: "manifest_path ''/store'' ''r2'' 0 (toy_sha256 ''mmm'') \<noteq> demo_path" by metis
  have fs: "vs_files s = [(demo_path, \<lparr>fl_data = ''m'', fl_mtime = 9\<rparr>)]"
    using that by (simp add: demo_state_def put_file_def empty_vstate_def)
  with p have n: "file_at s (manifest_path ''/store'' ''r2'' 0 (toy_sha256 ''mmm'')) = None"
    by (simp add: file_at_def)
  have l: "py_strip (''run-manifest-r'' @ dec 0) = ''run-manifest-r0''" "py_lower (toy_sha256 ''mmm'') = toy_sha256 ''mmm''"
    by code_simp+
  show ?thesis
    using e m n l g fs
    by (simp add: publish_def eff_bind_def eff_lift_def eff_return_def atomic_publish_json_def json_ref_def
        ArtifactRef_new_def require_def ensure_def Let_def)
qed

theorem fork_copies_witness:
  "\<exists>m' ref' st'. fork_snapshot 2 demo_formats ''/store'' demo_run_env (RefArg demo_ref) None None None None demo_state =
     (Val (m', ref'), st') \<and> rm_run_id m' \<noteq> ''r1'' \<and> rm_revision m' = 0 \<and>
     map_of (rm_metadata m') ''forked_from_manifest'' = Some (artifact_json demo_ref)"
proof -
  have rec: "\<lparr>rm_run_id = (case None of None \<Rightarrow> re_run_id demo_run_env | Some r \<Rightarrow> r), rm_revision = 0,
      rm_created_at = re_created_at demo_run_env, rm_revision_created_at = re_revision_created_at demo_run_env,
      rm_parent_manifest = None, rm_build_spec = rm_build_spec demo_manifest, rm_stages = rm_stages demo_manifest,
      rm_artifacts = rm_artifacts demo_manifest,
      rm_metadata = dict_update (dict_update (rm_metadata demo_manifest) [])
        [(''forked_from_manifest'', artifact_json demo_ref),
         (''forked_from_run_id'', JStr (rm_run_id demo_manifest)),
         (''forked_from_revision'', JInt (rm_revision demo_manifest)),
         (''forked_from_build_spec_sha256'', JStr (fm_sha256 demo_formats ''spec'')),
         (''effective_build_spec_sha256'', JStr (fm_sha256 demo_formats ''spec'')),
         (''build_spec_rebased'', JBool False)]\<rparr> = demo_forked"
    by (simp add: demo_forked_def demo_manifest_def demo_run_env_def demo_formats_def)
  have "file_at demo_verified = file_at demo_state" by (simp add: fun_eq_iff demo_files)
  have c: "cache_ok demo_formats demo_verified"
    by (auto simp: cache_ok_def demo_verified_def demo_files demo_formats_def stat_key_def split: if_splits)
  have r: "ar_path demo_ref = demo_path" by (simp add: demo_ref_def)
  obtain s where s: "load_manifest demo_formats (RefArg demo_ref) None demo_verified = (Val demo_manifest, s)"
    "vs_files s = vs_files demo_verified" using demo_reload by blast
  obtain s1 s2 where v: "verify_artifact demo_formats demo_ref demo_verified = (Val (), s1)"
    "read_manifest demo_formats demo_path s1 = (Val demo_manifest, s2)"
    using s(1) by (auto simp: load_manifest_def coerce_manifest_ref_def eff_bind_Val eff_return_iff eff_raise_iff r
        split: if_splits)
  have k: "ar_kind demo_ref = AK_MANIFEST" by (simp add: demo_ref_def)
  have "manifest_refs demo_manifest = []" by (simp add: manifest_refs_def demo_manifest_def)
  then have g: "verify_manifest_graph 2 demo_formats demo_ref demo_verified = (Val [], s2)"
    by (simp add: verify_manifest_graph_def numeral_2_eq_2 eff_bind_def v r k Let_def eff_return_def)
  have "vs_files s1 = vs_files demo_verified" using verify_artifact_files [of demo_formats demo_ref demo_verified] v(1) by simp
  moreover have "s2 = s1" using read_state [of demo_formats demo_path s1] v(2) by simp
  ultimately have "vs_files s2 = vs_files demo_state" by (simp add: demo_verified_def)
  then obtain ref st' where p: "publish demo_formats ''/store'' \<lparr>we_mtime = 9, we_os_error = False\<rparr> demo_forked s2 =
      (Val ref, st')" using demo_fork_published by blast
  have n: "''r2'' \<noteq> rm_run_id demo_manifest" "re_run_id demo_run_env = ''r2''" "rm_run_id demo_manifest = ''r1''"
    "re_write demo_run_env = \<lparr>we_mtime = 9, we_os_error = False\<rparr>"
    "fm_encode_spec demo_formats b = Inr ''spec''" for b
    by (simp_all add: demo_manifest_def demo_run_env_def demo_formats_def)
  have co: "coerce_manifest_ref (RefArg demo_ref) None demo_state = (Val demo_ref, demo_state)"
    by (simp add: coerce_manifest_ref_def eff_return_def)
  have nw: "RunManifest_new demo_forked = Inr demo_forked" by (simp add: RunManifest_new_Inr demo_valid(3))
  have f: "fork_snapshot 2 demo_formats ''/store'' demo_run_env (RefArg demo_ref) None None None None demo_state =
      (Val (demo_forked, ref), st')"
    using rec [simplified] nw
    by (simp add: fork_snapshot_def eff_bind_def co demo_loaded [folded demo_verified_def] r demo_path_parent n g
        eff_lift_def p eff_return_def Let_def)
  from fork_copies [OF f demo_cache] f show ?thesis
    by (auto simp: demo_forked_def demo_manifest_def)
qed

end
