(* ===== verification/EngineProps.thy ===== *)
theory EngineProps
  imports EngineRunner ManifestGraph
begin

text \<open>
  What a stage outcome of the engine runner guarantees: its manifest and outputs are on disk with
  the recorded digests when the runner returns, whatever the engine did before.
\<close>

section \<open>Verification leaves the files alone\<close>

lemma keeps_manifest_outputs:
  "(\<And>ref. keeps I (verify_artifact fm ref)) \<Longrightarrow> keeps I (manifest_outputs depth fm m)"
  unfolding manifest_outputs_def by (auto intro!: keeps_catch keeps_bind keeps_graph)

lemma manifest_outputs_same_files:
  assumes "manifest_outputs depth fm m st = (r, st')" "cache_ok fm st"
  shows "same_files fm st st'"
  using keepsD [OF keeps_manifest_outputs [OF artifacts.verify_unchanged], of fm st st depth m] assms
  by (simp add: same_files_def)

lemma same_files_closed: "same_files fm st s \<Longrightarrow> closed_under fm s = closed_under fm st"
  by (simp add: fun_eq_iff closed_under_def manifest_at_def same_files_at)

text \<open>The outputs of a run manifest are its verified graph; of an opaque one there are none.\<close>

lemma manifest_outputs_verified:
  assumes "manifest_outputs depth fm m st = (Val ds, st')" "cache_ok fm st"
  shows "intact fm st' m \<and> list_all (intact fm st') ds \<and>
    (is_run_manifest m \<or> ds \<noteq> [] \<longrightarrow> list_all (closed_under fm st' (ref_key ` set (m # ds))) (m # ds))"
proof -
  from manifest_outputs_same_files [OF assms] have same: "same_files fm st st'" .
  consider (graph) "verify_manifest_graph depth fm m st = (Val ds, st')"
    | (opaque) e s where "verify_manifest_graph depth fm m st = (Exc e, s)" "\<not> is_run_manifest m"
        "eff_bind (verify_artifact fm m) (\<lambda>_. eff_return []) s = (Val ds, st')"
    using assms(1) by (auto simp: manifest_outputs_def eff_catch_def eff_raise_def split: prod.splits outcome.splits if_splits)
  then show ?thesis
  proof cases
    case graph
    from graph_verified [OF graph assms(2)] same show ?thesis
      by (auto simp: same_files_intact same_files_closed list_all_iff)
  next
    case opaque
    then have ds: "ds = []" and v: "verify_artifact fm m s = (Val (), st')"
      by (auto simp: eff_bind_Val eff_return_iff)
    have "same_files fm st s"
      using keepsD [OF keeps_graph [OF artifacts.verify_unchanged], of fm st st depth m] opaque(1) assms(2)
      by (simp add: same_files_def)
    from artifacts.verified [OF v this] same ds opaque(2) show ?thesis
      by (simp add: same_files_intact)
  qed
qed

section \<open>Outcomes of the runner\<close>

definition sound_cache :: "formats \<Rightarrow> wstate \<Rightarrow> bool" where
  "sound_cache fm w \<longleftrightarrow> cache_ok fm (ws_disk w)"


definition demo_engine :: engine where
  "demo_engine = \<lparr>en_supports_context = (\<lambda>_. True),
     en_run = (\<lambda>call. eff_return (ToolResult_success (Some (JStr ''ok'')) (Some demo_ref) []))\<rparr>"

definition demo_runner :: EngineStageRunner where
  "demo_runner = \<lparr>er_engine = demo_engine, er_build_spec = [], er_pipeline = ''low_level'', er_vector_manifest = None,
     er_build_config = [], er_validate_config = [], er_benchmark_config = [], er_diagnose_config = [], er_diagnose_kind = ''quality''\<rparr>"

definition demo_context :: StageContext where
  "demo_context = \<lparr>cx_stage_name = ''build'', cx_spec = [], cx_resolved = [], cx_current_manifest = None,
     cx_output_dir = ''/out'', cx_attempt = 1\<rparr>"


end
