(* ===== verification/Floats.thy ===== *)
theory Floats
  imports PyValues
begin

text \<open>
  Python floats as far as the reports compute with them: an exact real, an infinity
  (\<open>FInf True\<close> is the positive one) or a NaN, whose comparisons are all false. Rounding is not
  modelled.
\<close>

fun float_add :: "pyfloat \<Rightarrow> pyfloat \<Rightarrow> pyfloat" where
  "float_add (Fin a) (Fin b) = Fin (a + b)"
| "float_add FNaN _ = FNaN"
| "float_add _ FNaN = FNaN"
| "float_add (FInf a) (FInf b) = (if a = b then FInf a else FNaN)"
| "float_add (FInf a) (Fin _) = FInf a"
| "float_add (Fin _) (FInf b) = FInf b"

fun float_neg :: "pyfloat \<Rightarrow> pyfloat" where
  "float_neg (Fin a) = Fin (- a)"
| "float_neg FNaN = FNaN"
| "float_neg (FInf a) = FInf (\<not> a)"

definition float_sub :: "pyfloat \<Rightarrow> pyfloat \<Rightarrow> pyfloat" where
  "float_sub a b = float_add a (float_neg b)"

text \<open>\<open>100.0 * a / b\<close> for a \<open>b\<close> that is not zero; \<open>FInf True\<close> is the positive infinity.\<close>

fun float_percent :: "pyfloat \<Rightarrow> pyfloat \<Rightarrow> pyfloat" where
  "float_percent (Fin a) (Fin b) = Fin (100 * a / b)"
| "float_percent (Fin a) (FInf _) = Fin 0"
| "float_percent (FInf a) (Fin b) = FInf (a = (0 < b))"
| "float_percent _ _ = FNaN"

fun float_less :: "pyfloat \<Rightarrow> pyfloat \<Rightarrow> bool" where
  "float_less (Fin a) (Fin b) = (a < b)"
| "float_less (FInf a) (FInf b) = (\<not> a \<and> b)"
| "float_less (FInf a) (Fin _) = (\<not> a)"
| "float_less (Fin _) (FInf b) = b"
| "float_less _ _ = False"

definition isfinite :: "pyfloat \<Rightarrow> bool" where
  "isfinite f = (case f of Fin _ \<Rightarrow> True | _ \<Rightarrow> False)"

text \<open>\<open>float(v)\<close>; the parser of a text is the parameter \<open>parse\<close>.\<close>

fun py_float :: "(string \<Rightarrow> exn + pyfloat) \<Rightarrow> json \<Rightarrow> exn + pyfloat" where
  "py_float parse (JBool b) = Inr (Fin (if b then 1 else 0))"
| "py_float parse (JInt i) = Inr (Fin (of_int i))"
| "py_float parse (JFloat f) = Inr f"
| "py_float parse (JStr s) = parse s"
| "py_float parse _ = Inl type_error"

text \<open>\<open>float(v) if isinstance(v, (int, float)) else None\<close>; a bool is an int.\<close>

fun number_of :: "json \<Rightarrow> pyfloat option" where
  "number_of (JBool b) = Some (Fin (if b then 1 else 0))"
| "number_of (JInt i) = Some (Fin (of_int i))"
| "number_of (JFloat f) = Some f"
| "number_of _ = None"

end
