(* ===== verification/StableSort.thy ===== *)
theory StableSort
  imports Main "HOL-Library.Multiset"
begin

text \<open>
  Python's \<open>sorted\<close> with a key, as a stable insertion: \<open>before y x\<close> says that the key of \<open>y\<close> is
  strictly before the key of \<open>x\<close>. The interface is a strict weak order on the items that have a
  comparable key; on items outside it (a NaN key) the order is that of this insertion, not the
  one of Python.
\<close>

fun insert_by :: "('a \<Rightarrow> 'a \<Rightarrow> bool) \<Rightarrow> 'a \<Rightarrow> 'a list \<Rightarrow> 'a list" where
  "insert_by before x [] = [x]"
| "insert_by before x (y # ys) = (if before y x then y # insert_by before x ys else x # y # ys)"

definition sort_by :: "('a \<Rightarrow> 'a \<Rightarrow> bool) \<Rightarrow> 'a list \<Rightarrow> 'a list" where
  "sort_by before xs = foldr (insert_by before) xs []"

lemma sort_by_simps [simp]:
  "sort_by before [] = []" "sort_by before (x # xs) = insert_by before x (sort_by before xs)"
  by (simp_all add: sort_by_def)

lemma mset_insert_by [simp]: "mset (insert_by before x ys) = add_mset x (mset ys)"
  by (induction ys) auto

lemma mset_sort_by [simp]: "mset (sort_by before xs) = mset xs"
  by (induction xs) auto

lemma set_insert_by [simp]: "set (insert_by before x ys) = insert x (set ys)"
  by (induction ys) auto

lemma set_sort_by [simp]: "set (sort_by before xs) = set xs"
  by (induction xs) auto

lemma length_sort_by [simp]: "length (sort_by before xs) = length xs"
  by (metis mset_sort_by size_mset)

locale sort_order =
  fixes before :: "'a \<Rightarrow> 'a \<Rightarrow> bool"
    and has_key :: "'a \<Rightarrow> bool"
  assumes before_asym: "has_key x \<Longrightarrow> has_key y \<Longrightarrow> before x y \<Longrightarrow> \<not> before y x"
    and not_before_trans: "has_key x \<Longrightarrow> has_key y \<Longrightarrow> has_key z \<Longrightarrow>
      \<not> before y x \<Longrightarrow> \<not> before z y \<Longrightarrow> \<not> before z x"
begin

lemma sorted_insert:
  assumes "sorted_wrt (\<lambda>x y. \<not> before y x) ys" "has_key x" "list_all has_key ys"
  shows "sorted_wrt (\<lambda>x y. \<not> before y x) (insert_by before x ys)"
  using assms
proof (induction ys)
  case (Cons y ys)
  show ?case
  proof (cases "before y x")
    case True
    with Cons show ?thesis using before_asym [of y x] by auto
  next
    case False
    have "\<not> before z x" if "z \<in> set ys" for z
      by (rule not_before_trans [of x y z]) (use Cons.prems that False in \<open>auto simp: list_all_iff\<close>)
    with False Cons.prems show ?thesis by simp
  qed
qed simp

lemma sorted_sort: "list_all has_key xs \<Longrightarrow> sorted_wrt (\<lambda>x y. \<not> before y x) (sort_by before xs)"
proof (induction xs)
  case (Cons x xs)
  have "list_all has_key (sort_by before xs)" using Cons.prems by (simp add: list_all_iff)
  with Cons show ?case using sorted_insert [of "sort_by before xs" x] by simp
qed simp

text \<open>Items that need not move do not: the sort is stable on a list in order.\<close>

lemma sort_sorted: "sorted_wrt (\<lambda>x y. \<not> before y x) xs \<Longrightarrow> sort_by before xs = xs"
proof (induction xs)
  case (Cons x xs)
  then have "sort_by before xs = xs" "\<forall>y \<in> set xs. \<not> before y x" by auto
  then show ?case by (cases xs) auto
qed simp

lemma sort_idempotent: "list_all has_key xs \<Longrightarrow> sort_by before (sort_by before xs) = sort_by before xs"
  by (rule sort_sorted) (rule sorted_sort)

end

end
