(* ===== verification/Latency.thy ===== *)
theory Latency
  imports Effects Floats StableSort "HOL-Library.List_Lexorder" "HOL-Library.Char_ord" "HOL-Library.Product_Lexorder"
begin

text \<open>
  \<open>src/qairt_agent/diagnostics/latency.py\<close>: wall-latency statistics, A/A calibration, the
  measurement loop and the attribution of op cycles. A float is an exact real, an infinity or a
  NaN; rounding is not modelled. The statistics of numpy are the parameter \<open>numpy_stats\<close>.
\<close>

section \<open>Statistics\<close>

record numpy_stats =
  np_percentile :: "real list \<Rightarrow> real \<Rightarrow> real"
  np_median :: "real list \<Rightarrow> real"
  np_mean :: "real list \<Rightarrow> real"
  np_std :: "real list \<Rightarrow> real"

record LatencySummary =
  ls_samples_ms :: "real list"
  ls_count :: nat
  ls_minimum_ms :: real
  ls_maximum_ms :: real
  ls_mean_ms :: real
  ls_stddev_ms :: real
  ls_p10_ms :: real
  ls_p50_ms :: real
  ls_p90_ms :: real
  ls_p95_ms :: real
  ls_mad_ms :: real
  ls_robust_cv_percent :: "real option"

fun finite_value :: "pyfloat \<Rightarrow> real option" where
  "finite_value (Fin a) = Some a"
| "finite_value _ = None"

definition finite_positive_samples :: "pyfloat list \<Rightarrow> exn + real list" where
  "finite_positive_samples samples =
     bind_res (ensure (samples \<noteq> []) value_error) (\<lambda>_.
     bind_res (ensure (list_all isfinite samples) value_error) (\<lambda>_.
     let values = List.map_filter finite_value samples
     in bind_res (ensure (list_all (\<lambda>v. 0 \<le> v) values) value_error) (\<lambda>_. Inr values)))"

definition summarize_latency :: "numpy_stats \<Rightarrow> pyfloat list \<Rightarrow> exn + LatencySummary" where
  "summarize_latency np raw = bind_res (finite_positive_samples raw) (\<lambda>samples.
     let median = np_percentile np samples 50;
         mad = np_median np (map (\<lambda>v. \<bar>v - median\<bar>) samples)
     in Inr \<lparr>ls_samples_ms = samples, ls_count = length samples,
       ls_minimum_ms = Min (set samples), ls_maximum_ms = Max (set samples),
       ls_mean_ms = np_mean np samples, ls_stddev_ms = np_std np samples,
       ls_p10_ms = np_percentile np samples 10, ls_p50_ms = median,
       ls_p90_ms = np_percentile np samples 90, ls_p95_ms = np_percentile np samples 95,
       ls_mad_ms = mad, ls_robust_cv_percent = (if median = 0 then None else Some (100 * (14826 / 10000) * mad / median))\<rparr>)"

record LatencyMeasurement =
  lm_summary :: LatencySummary
  lm_warmup_count :: nat
  lm_repeat_count :: nat

record AACalibration =
  aa_first :: LatencySummary
  aa_second :: LatencySummary
  aa_median_delta_ms :: real
  aa_median_delta_percent :: "real option"
  aa_observed_noise_percent :: "real option"

definition compare_aa :: "numpy_stats \<Rightarrow> pyfloat list \<Rightarrow> pyfloat list \<Rightarrow> exn + AACalibration" where
  "compare_aa np first_samples second_samples =
     bind_res (summarize_latency np first_samples) (\<lambda>first.
     bind_res (summarize_latency np second_samples) (\<lambda>second.
     let delta_ms = ls_p50_ms second - ls_p50_ms first;
         delta_percent = (if ls_p50_ms first = 0 then None else Some (100 * delta_ms / ls_p50_ms first));
         candidates = List.map_filter id [map_option abs delta_percent, ls_robust_cv_percent first, ls_robust_cv_percent second]
     in Inr \<lparr>aa_first = first, aa_second = second, aa_median_delta_ms = delta_ms,
       aa_median_delta_percent = delta_percent,
       aa_observed_noise_percent = (if candidates = [] then None else Some (Max (set candidates)))\<rparr>))"

section \<open>Op records\<close>

record OpCycleRecord =
  oc_op_id :: string
  oc_cycles :: pyfloat
  oc_cycle_basis :: string
  oc_critical_path :: bool
  oc_lineage :: "(string \<times> json) list"

text \<open>A value of a collection of records: a record, or a value read from JSON.\<close>

datatype op_value = OpRecord OpCycleRecord | OpJson json

text \<open>\<open>a or b or ...\<close> over the fields that may name an op.\<close>

fun first_truthy :: "(string \<times> json) list \<Rightarrow> string list \<Rightarrow> json option" where
  "first_truthy d [] = None"
| "first_truthy d (k # ks) = (if py_truthy (json_get d k) then Some (json_get d k) else first_truthy d ks)"

definition record_id :: "(json \<Rightarrow> string) \<Rightarrow> string \<Rightarrow> (string \<times> json) list \<Rightarrow> string" where
  "record_id repr op_id d = (case first_truthy d [''op_id'', ''source_id'', ''name'', ''op_name''] of
     None \<Rightarrow> op_id | Some v \<Rightarrow> py_str repr v)"

text \<open>\<open>max(xs)\<close> keeps the first of the greatest values.\<close>

fun float_max :: "pyfloat \<Rightarrow> pyfloat list \<Rightarrow> pyfloat" where
  "float_max best [] = best"
| "float_max best (x # xs) = float_max (if float_less best x then x else best) xs"

definition thread_values :: "json \<Rightarrow> exn + json list" where
  "thread_values v = (case v of JObj d \<Rightarrow> Inr (map snd d) | _ \<Rightarrow> py_iter v)"

definition record_cycles ::
  "(json \<Rightarrow> string) \<Rightarrow> (string \<Rightarrow> exn + pyfloat) \<Rightarrow> (string \<times> json) list \<Rightarrow> exn + pyfloat \<times> string" where
  "record_cycles repr parse d =
    (if json_get d ''cycles'' \<noteq> JNull then bind_res (py_float parse (json_get d ''cycles'')) (\<lambda>c.
       Inr (c, py_str repr (json_get_or d ''cycle_basis'' (JStr ''reported''))))
     else if json_get d ''thread_cycles'' \<noteq> JNull then
       bind_res (thread_values (json_get d ''thread_cycles'')) (\<lambda>vs.
       bind_res (map_res (py_float parse) vs) (\<lambda>threads. case threads of
         [] \<Rightarrow> Inl value_error | t # ts \<Rightarrow> Inr (float_max t ts, ''max_thread'')))
     else Inl value_error)"

definition record_from_value ::
  "(json \<Rightarrow> string) \<Rightarrow> (string \<Rightarrow> exn + pyfloat) \<Rightarrow> string \<Rightarrow> op_value \<Rightarrow> exn + OpCycleRecord" where
  "record_from_value repr parse op_id value =
    (let plain = (\<lambda>f. Inr \<lparr>oc_op_id = op_id, oc_cycles = f, oc_cycle_basis = ''reported'', oc_critical_path = False, oc_lineage = []\<rparr>)
     in case value of
       OpRecord r \<Rightarrow> Inr r
     | OpJson (JBool b) \<Rightarrow> plain (Fin (if b then 1 else 0))
     | OpJson (JInt i) \<Rightarrow> plain (Fin (of_int i))
     | OpJson (JFloat f) \<Rightarrow> plain f
     | OpJson (JObj d) \<Rightarrow>
         bind_res (record_cycles repr parse d) (\<lambda>(cycles, basis).
         bind_res (ensure (isfinite cycles \<and> \<not> float_less cycles (Fin 0)) value_error) (\<lambda>_.
         case json_get_or d ''lineage'' (JObj []) of
           JObj lineage \<Rightarrow> Inr \<lparr>oc_op_id = record_id repr op_id d, oc_cycles = cycles, oc_cycle_basis = basis,
             oc_critical_path = py_truthy (json_get_or d ''critical_path'' (JBool False)), oc_lineage = lineage\<rparr>
         | _ \<Rightarrow> Inl type_error))
     | OpJson _ \<Rightarrow> Inl type_error)"

text \<open>The items of a mapping, or of a sequence numbered from 0.\<close>

datatype op_records = OpMapping "(string \<times> op_value) list" | OpSequence "op_value list"

definition op_items :: "op_records \<Rightarrow> (string \<times> op_value) list" where
  "op_items records = (case records of
     OpMapping d \<Rightarrow> d | OpSequence vs \<Rightarrow> map (\<lambda>(i, v). (dec i, v)) (enumerate 0 vs))"

fun normalize_from ::
  "(json \<Rightarrow> string) \<Rightarrow> (string \<Rightarrow> exn + pyfloat) \<Rightarrow> (string \<times> OpCycleRecord) list \<Rightarrow> (string \<times> op_value) list \<Rightarrow>
   exn + (string \<times> OpCycleRecord) list" where
  "normalize_from repr parse normalized [] = Inr normalized"
| "normalize_from repr parse normalized ((fallback, value) # rest) =
     bind_res (record_from_value repr parse fallback value) (\<lambda>r.
     bind_res (ensure (map_of normalized (oc_op_id r) = None) value_error) (\<lambda>_.
     normalize_from repr parse (dict_set (oc_op_id r) r normalized) rest))"

definition normalize_op_records ::
  "(json \<Rightarrow> string) \<Rightarrow> (string \<Rightarrow> exn + pyfloat) \<Rightarrow> op_records \<Rightarrow> exn + (string \<times> OpCycleRecord) list" where
  "normalize_op_records repr parse records = normalize_from repr parse [] (op_items records)"

section \<open>Attribution\<close>

record OpAttribution =
  oa_op_id :: string
  oa_baseline_cycles :: "pyfloat option"
  oa_candidate_cycles :: "pyfloat option"
  oa_delta_cycles :: "pyfloat option"
  oa_delta_percent :: "pyfloat option"
  oa_cycle_basis :: string
  oa_critical_path :: bool
  oa_status :: string
  oa_lineage :: "(string \<times> json) list"

definition lineage_of :: "OpCycleRecord option \<Rightarrow> (string \<times> json) list" where
  "lineage_of r = (case r of None \<Rightarrow> [] | Some r \<Rightarrow> oc_lineage r)"

definition critical_in :: "OpCycleRecord option \<Rightarrow> bool" where
  "critical_in r = (case r of None \<Rightarrow> False | Some r \<Rightarrow> oc_critical_path r)"

definition basis_of :: "OpCycleRecord option \<Rightarrow> OpCycleRecord option \<Rightarrow> string" where
  "basis_of b c = (case c of Some r \<Rightarrow> oc_cycle_basis r | None \<Rightarrow> (case b of Some r \<Rightarrow> oc_cycle_basis r | None \<Rightarrow> []))"

definition attribution ::
  "string \<Rightarrow> OpCycleRecord option \<Rightarrow> OpCycleRecord option \<Rightarrow> OpAttribution" where
  "attribution op_id b c =
    (let delta = (case (b, c) of (Some rb, Some rc) \<Rightarrow> Some (float_sub (oc_cycles rc) (oc_cycles rb)) | _ \<Rightarrow> None)
     in \<lparr>oa_op_id = op_id, oa_baseline_cycles = map_option oc_cycles b, oa_candidate_cycles = map_option oc_cycles c,
       oa_delta_cycles = delta,
       oa_delta_percent = (case (b, delta) of
          (Some rb, Some d) \<Rightarrow> if oc_cycles rb = Fin 0 then None else Some (float_percent d (oc_cycles rb)) | _ \<Rightarrow> None),
       oa_cycle_basis = basis_of b c, oa_critical_path = (critical_in b \<or> critical_in c),
       oa_status = (case (b, c) of (None, _) \<Rightarrow> ''candidate_only'' | (Some _, None) \<Rightarrow> ''baseline_only'' | _ \<Rightarrow> ''matched''),
       oa_lineage = dict_update (lineage_of b) (lineage_of c)\<rparr>)"

text \<open>The key of \<open>sort_key\<close>, and \<open>k1 < k2\<close> on it.\<close>

definition op_sort_key :: "OpAttribution \<Rightarrow> nat \<times> pyfloat" where
  "op_sort_key item = (case oa_delta_cycles item of
     None \<Rightarrow> (1, Fin 0) | Some d \<Rightarrow> if float_less (Fin 0) d then (2, d) else (0, d))"

definition key_less :: "nat \<times> pyfloat \<Rightarrow> nat \<times> pyfloat \<Rightarrow> bool" where
  "key_less k1 k2 \<longleftrightarrow> fst k1 < fst k2 \<or> (fst k1 = fst k2 \<and> float_less (snd k1) (snd k2))"

text \<open>
  \<open>sorted(items, key=sort_key, reverse=True)\<close>: by descending key, equal keys in their order. For
  keys that are not comparable (a NaN) the order is that of the insertion, not of Python.
\<close>

definition worse :: "OpAttribution \<Rightarrow> OpAttribution \<Rightarrow> bool" where
  "worse x y \<longleftrightarrow> key_less (op_sort_key y) (op_sort_key x)"

definition sort_descending :: "OpAttribution list \<Rightarrow> OpAttribution list" where
  "sort_descending items = sort_by worse items"

definition attribute_op_cycles ::
  "(json \<Rightarrow> string) \<Rightarrow> (string \<Rightarrow> exn + pyfloat) \<Rightarrow> op_records \<Rightarrow> op_records \<Rightarrow> exn + OpAttribution list" where
  "attribute_op_cycles repr parse baseline candidate =
     bind_res (normalize_op_records repr parse baseline) (\<lambda>bs.
     bind_res (normalize_op_records repr parse candidate) (\<lambda>cs.
     Inr (sort_descending (map (\<lambda>op_id. attribution op_id (map_of bs op_id) (map_of cs op_id))
       (sort (dedup (map fst bs @ map fst cs)))))))"

section \<open>Measurement\<close>

record 'w LatencyDiagnoser =
  ld_clock_ns :: "('w, int) eff"
  ld_synchronize :: "('w, unit) eff option"

definition synchronize :: "'w LatencyDiagnoser \<Rightarrow> ('w, unit) eff" where
  "synchronize ld = (case ld_synchronize ld of None \<Rightarrow> eff_return () | Some s \<Rightarrow> s)"

fun warm_up :: "'w LatencyDiagnoser \<Rightarrow> ('w, unit) eff \<Rightarrow> nat \<Rightarrow> ('w, unit) eff" where
  "warm_up ld invocation 0 = eff_return ()"
| "warm_up ld invocation (Suc n) = eff_bind invocation (\<lambda>_. eff_bind (synchronize ld) (\<lambda>_. warm_up ld invocation n))"

definition sample :: "'w LatencyDiagnoser \<Rightarrow> ('w, unit) eff \<Rightarrow> ('w, real) eff" where
  "sample ld invocation =
     eff_bind (synchronize ld) (\<lambda>_. eff_bind (ld_clock_ns ld) (\<lambda>start_ns.
     eff_bind invocation (\<lambda>_. eff_bind (synchronize ld) (\<lambda>_. eff_bind (ld_clock_ns ld) (\<lambda>end_ns.
     if end_ns < start_ns then eff_raise runtime_error
     else eff_return (of_int (end_ns - start_ns) / 1000000))))))"

fun sample_all :: "'w LatencyDiagnoser \<Rightarrow> ('w, unit) eff \<Rightarrow> nat \<Rightarrow> ('w, real list) eff" where
  "sample_all ld invocation 0 = eff_return []"
| "sample_all ld invocation (Suc n) =
     eff_bind (sample ld invocation) (\<lambda>s. eff_bind (sample_all ld invocation n) (\<lambda>ss. eff_return (s # ss)))"

definition measure_latency ::
  "numpy_stats \<Rightarrow> 'w LatencyDiagnoser \<Rightarrow> ('w, unit) eff \<Rightarrow> int \<Rightarrow> int \<Rightarrow> ('w, LatencyMeasurement) eff" where
  "measure_latency np ld invocation warmup repeats =
     (if warmup < 0 \<or> repeats \<le> 0 then eff_raise value_error
      else eff_bind (warm_up ld invocation (nat warmup)) (\<lambda>_.
        eff_bind (sample_all ld invocation (nat repeats)) (\<lambda>samples.
        eff_bind (eff_lift (summarize_latency np (map Fin samples))) (\<lambda>summary.
        eff_return \<lparr>lm_summary = summary, lm_warmup_count = nat warmup, lm_repeat_count = nat repeats\<rparr>))))"

definition calibrate_aa ::
  "numpy_stats \<Rightarrow> 'w LatencyDiagnoser \<Rightarrow> ('w, unit) eff \<Rightarrow> int \<Rightarrow> int \<Rightarrow> ('w, AACalibration) eff" where
  "calibrate_aa np ld invocation warmup repeats =
     eff_bind (measure_latency np ld invocation warmup repeats) (\<lambda>m1.
     eff_bind (measure_latency np ld invocation warmup repeats) (\<lambda>m2.
     eff_lift (compare_aa np (map Fin (ls_samples_ms (lm_summary m1))) (map Fin (ls_samples_ms (lm_summary m2))))))"

end
