(* ===== verification/LatencyProps.thy ===== *)
theory LatencyProps
  imports Latency "HOL-Library.Multiset"
begin

text \<open>
  The order and completeness of the op attribution, and what a latency measurement measures.
\<close>

section \<open>Sorting by a descending key\<close>

definition comparable :: "OpAttribution \<Rightarrow> bool" where
  "comparable x \<longleftrightarrow> (case oa_delta_cycles x of None \<Rightarrow> True | Some d \<Rightarrow> isfinite d)"

definition descending :: "OpAttribution \<Rightarrow> OpAttribution \<Rightarrow> bool" where
  "descending x y \<longleftrightarrow> \<not> worse y x"

lemma set_sort_descending [simp]: "set (sort_descending xs) = set xs"
  by (simp add: sort_descending_def)

lemma mset_sort_descending: "mset (sort_descending xs) = mset xs"
  by (simp add: sort_descending_def)

lemma comparable_key:
  assumes "comparable x"
  obtains k r where "op_sort_key x = (k, Fin r)"
proof -
  from assms have "\<exists>r. snd (op_sort_key x) = Fin r"
    by (auto simp: comparable_def op_sort_key_def isfinite_def split: option.splits pyfloat.splits)
  with that show thesis by (metis prod.collapse)
qed

lemma descending_trans:
  assumes "comparable x" "comparable y" "comparable z" "descending x y" "descending y z"
  shows "descending x z"
proof -
  from comparable_key [OF assms(1)] comparable_key [OF assms(2)] comparable_key [OF assms(3)]
  obtain k1 r1 k2 r2 k3 r3 where "op_sort_key x = (k1, Fin r1)" "op_sort_key y = (k2, Fin r2)" "op_sort_key z = (k3, Fin r3)"
    by metis
  with assms(4,5) show ?thesis by (auto simp: descending_def worse_def key_less_def)
qed

lemma not_descending:
  assumes "comparable x" "comparable y" "\<not> descending x y"
  shows "descending y x"
proof -
  from comparable_key [OF assms(1)] comparable_key [OF assms(2)]
  obtain k1 r1 k2 r2 where "op_sort_key x = (k1, Fin r1)" "op_sort_key y = (k2, Fin r2)" by metis
  with assms(3) show ?thesis by (auto simp: descending_def worse_def key_less_def)
qed

interpretation by_gain: sort_order worse comparable
proof
  show "\<not> worse y x" if "comparable x" "comparable y" "worse x y" for x y
    using not_descending [of y x] that by (auto simp: descending_def)
  show "\<not> worse z x" if "comparable x" "comparable y" "comparable z" "\<not> worse y x" "\<not> worse z y" for x y z
    using descending_trans [of x y z] that by (auto simp: descending_def)
qed

lemma sorted_sort_descending: "list_all comparable xs \<Longrightarrow> sorted_wrt descending (sort_descending xs)"
  using by_gain.sorted_sort [of xs] by (simp add: sort_descending_def descending_def [abs_def])

section \<open>The attribution\<close>

lemma attribution_fields [simp]: "oa_op_id (attribution k b c) = k"
  by (simp add: attribution_def Let_def)

lemma comparable_attribution:
  assumes "case b of None \<Rightarrow> True | Some r \<Rightarrow> isfinite (oc_cycles r)" "case c of None \<Rightarrow> True | Some r \<Rightarrow> isfinite (oc_cycles r)"
  shows "comparable (attribution k b c)"
  using assms by (cases b; cases c)
    (auto simp: comparable_def attribution_def float_sub_def isfinite_def split: pyfloat.splits)

definition finite_cycles :: "(string \<times> OpCycleRecord) list \<Rightarrow> bool" where
  "finite_cycles d \<longleftrightarrow> list_all (\<lambda>(_, r). isfinite (oc_cycles r)) d"

lemma finite_cyclesD: "finite_cycles d \<Longrightarrow> (case map_of d k of None \<Rightarrow> True | Some r \<Rightarrow> isfinite (oc_cycles r))"
  by (auto simp: finite_cycles_def list_all_iff split: option.splits dest!: map_of_SomeD)

text \<open>Cycles gained by an op that both runs have, as a real.\<close>

definition gain :: "OpAttribution \<Rightarrow> real" where
  "gain a = (case oa_delta_cycles a of Some (Fin d) \<Rightarrow> d | _ \<Rightarrow> 0)"

definition is_regression :: "OpAttribution \<Rightarrow> bool" where
  "is_regression a \<longleftrightarrow> oa_status a = ''matched'' \<and> 0 < gain a"

definition is_unmatched :: "OpAttribution \<Rightarrow> bool" where
  "is_unmatched a \<longleftrightarrow> oa_status a \<noteq> ''matched''"

definition is_improvement :: "OpAttribution \<Rightarrow> bool" where
  "is_improvement a \<longleftrightarrow> oa_status a = ''matched'' \<and> gain a \<le> 0"

definition report_class :: "OpAttribution \<Rightarrow> nat" where
  "report_class a = fst (op_sort_key a)"

lemma descending_class: "descending x y \<Longrightarrow> report_class y \<le> report_class x"
  by (auto simp: descending_def worse_def key_less_def report_class_def)

text \<open>A list sorted by descending class splits into its three classes.\<close>

lemma split_by_class:
  assumes "sorted_wrt (\<lambda>x y. c y \<le> c x) xs" "\<forall>x \<in> set xs. c x \<le> (2::nat)"
  shows "xs = filter (\<lambda>x. c x = 2) xs @ filter (\<lambda>x. c x = 1) xs @ filter (\<lambda>x. c x = 0) xs"
  using assms
proof (induction xs)
  case (Cons x xs)
  then have IH: "xs = filter (\<lambda>x. c x = 2) xs @ filter (\<lambda>x. c x = 1) xs @ filter (\<lambda>x. c x = 0) xs" by simp
  from Cons.prems have below: "\<forall>y \<in> set xs. c y \<le> c x" "c x \<le> 2" by auto
  then consider "c x = 2" | "c x = 1" "filter (\<lambda>x. c x = 2) xs = []"
    | "c x = 0" "filter (\<lambda>x. c x = 2) xs = []" "filter (\<lambda>x. c x = 1) xs = []"
    by (auto simp: filter_empty_conv) force
  then show ?case using IH by cases auto
qed simp

lemma attribution_class:
  assumes "finite_cycles bs" "finite_cycles cs" "map_of bs k \<noteq> None \<or> map_of cs k \<noteq> None"
  shows "report_class (attribution k (map_of bs k) (map_of cs k)) =
      (if is_unmatched (attribution k (map_of bs k) (map_of cs k)) then 1
       else if 0 < gain (attribution k (map_of bs k) (map_of cs k)) then 2 else 0) \<and>
    (\<not> is_unmatched (attribution k (map_of bs k) (map_of cs k)) \<longrightarrow>
      snd (op_sort_key (attribution k (map_of bs k) (map_of cs k))) = Fin (gain (attribution k (map_of bs k) (map_of cs k))))"
  using finite_cyclesD [OF assms(1), of k] finite_cyclesD [OF assms(2), of k] assms(3)
  by (cases "map_of bs k"; cases "map_of cs k")
    (auto simp: report_class_def op_sort_key_def attribution_def is_unmatched_def gain_def float_sub_def isfinite_def
      split: pyfloat.splits)

text \<open>The attributions of all ops of two runs.\<close>

definition attributions :: "(string \<times> OpCycleRecord) list \<Rightarrow> (string \<times> OpCycleRecord) list \<Rightarrow> OpAttribution list" where
  "attributions bs cs = map (\<lambda>k. attribution k (map_of bs k) (map_of cs k)) (sort (dedup (map fst bs @ map fst cs)))"

lemma attributions_ids:
  "map oa_op_id (attributions bs cs) = sort (dedup (map fst bs @ map fst cs))"
  by (simp add: attributions_def comp_def)

lemma in_attributions:
  assumes "a \<in> set (attributions bs cs)"
  obtains k where "a = attribution k (map_of bs k) (map_of cs k)" "map_of bs k \<noteq> None \<or> map_of cs k \<noteq> None"
proof -
  from assms obtain k where k: "k \<in> fst ` set bs \<or> k \<in> fst ` set cs" "a = attribution k (map_of bs k) (map_of cs k)"
    by (auto simp: attributions_def)
  with that show thesis by (simp add: map_of_eq_None_iff)
qed

lemma attributions_status:
  assumes "a \<in> set (attributions bs cs)"
  shows "(oa_status a = ''matched'' \<longleftrightarrow> oa_op_id a \<in> fst ` set bs \<and> oa_op_id a \<in> fst ` set cs) \<and>
    oa_baseline_cycles a = map_option oc_cycles (map_of bs (oa_op_id a)) \<and>
    oa_candidate_cycles a = map_option oc_cycles (map_of cs (oa_op_id a))"
proof -
  from in_attributions [OF assms] obtain k
    where a: "a = attribution k (map_of bs k) (map_of cs k)" "map_of bs k \<noteq> None \<or> map_of cs k \<noteq> None" by blast
  have "k \<in> fst ` set d \<longleftrightarrow> map_of d k \<noteq> None" for d :: "(string \<times> OpCycleRecord) list" by (simp add: map_of_eq_None_iff)
  with a show ?thesis by (cases "map_of bs k"; cases "map_of cs k") (simp_all add: attribution_def Let_def)
qed

text \<open>The class of an attribution decides where it is listed, and its gain where in its class.\<close>

definition classified :: "OpAttribution \<Rightarrow> bool" where
  "classified a \<longleftrightarrow> report_class a = (if is_unmatched a then 1 else if 0 < gain a then 2 else 0) \<and>
     (\<not> is_unmatched a \<longrightarrow> snd (op_sort_key a) = Fin (gain a))"

lemma attributions_classified:
  "finite_cycles bs \<Longrightarrow> finite_cycles cs \<Longrightarrow> a \<in> set (attributions bs cs) \<Longrightarrow> classified a"
  by (elim in_attributions) (simp add: classified_def attribution_class)

lemma attributions_comparable: "finite_cycles bs \<Longrightarrow> finite_cycles cs \<Longrightarrow> list_all comparable (attributions bs cs)"
  using finite_cyclesD [of bs] finite_cyclesD [of cs] by (auto simp: attributions_def list_all_iff intro!: comparable_attribution)

lemma descending_gains:
  assumes "sorted_wrt descending as" "\<forall>a \<in> set as. classified a" "\<And>a. classified a \<Longrightarrow> P a \<Longrightarrow> \<not> is_unmatched a \<and> report_class a = n"
  shows "sorted_wrt (\<lambda>x y. gain y \<le> gain x) (filter P as)"
proof (rule sorted_wrt_mono_rel)
  show "sorted_wrt descending (filter P as)" using assms(1) by (rule sorted_wrt_filter)
  fix x y assume "x \<in> set (filter P as)" "y \<in> set (filter P as)" "descending x y"
  with assms(2,3) have "classified x" "classified y" "report_class x = n" "report_class y = n" "\<not> is_unmatched x" "\<not> is_unmatched y"
    by auto
  with \<open>descending x y\<close> show "gain y \<le> gain x"
    by (simp add: classified_def report_class_def descending_def worse_def key_less_def)
qed

lemma classes_of_report:
  assumes "sorted_wrt descending as" "\<forall>a \<in> set as. classified a"
  shows "as = filter is_regression as @ filter is_unmatched as @ filter is_improvement as"
proof -
  have c: "report_class a = (if is_unmatched a then 1 else if 0 < gain a then 2 else 0)" if "a \<in> set as" for a
    using assms(2) that by (simp add: classified_def)
  have "sorted_wrt (\<lambda>x y. report_class y \<le> report_class x) as"
    by (rule sorted_wrt_mono_rel [OF descending_class assms(1)])
  then have "as = filter (\<lambda>x. report_class x = 2) as @ filter (\<lambda>x. report_class x = 1) as @ filter (\<lambda>x. report_class x = 0) as"
    by (rule split_by_class) (use c in auto)
  moreover have "filter (\<lambda>x. report_class x = 2) as = filter is_regression as"
    "filter (\<lambda>x. report_class x = 1) as = filter is_unmatched as"
    "filter (\<lambda>x. report_class x = 0) as = filter is_improvement as"
    by (rule filter_cong [OF refl]; drule c; simp add: is_regression_def is_unmatched_def is_improvement_def split: if_splits)+
  ultimately show ?thesis by simp
qed


definition demo_baseline :: op_records where
  "demo_baseline = OpMapping [(''conv'', OpJson (JInt 100)), (''gelu'', OpJson (JInt 40)), (''old'', OpJson (JInt 7))]"

definition demo_candidate :: op_records where
  "demo_candidate = OpSequence [OpJson (JObj [(''op_id'', JStr ''conv''), (''cycles'', JInt 90)]),
     OpJson (JObj [(''name'', JStr ''gelu''), (''thread_cycles'', JList [JInt 41, JInt 55])])]"


section \<open>What a measurement measures\<close>

text \<open>Every call of the clock, the invocation and the synchronization is noted.\<close>

datatype tick = Invoked | Synchronized | Read int

definition noting :: "('a \<Rightarrow> tick) \<Rightarrow> ('w, 'a) eff \<Rightarrow> ('w \<times> tick list, 'a) eff" where
  "noting f m = (\<lambda>(w, ts). case m w of
     (Val x, w') \<Rightarrow> (Val x, (w', ts @ [f x])) | (Exc e, w') \<Rightarrow> (Exc e, (w', ts)) | (Dead, w') \<Rightarrow> (Dead, (w', ts)))"

definition noting_all :: "('w, int) eff \<Rightarrow> ('w, unit) eff \<Rightarrow> ('w \<times> tick list) LatencyDiagnoser" where
  "noting_all clock sync = \<lparr>ld_clock_ns = noting Read clock, ld_synchronize = Some (noting (\<lambda>_. Synchronized) sync)\<rparr>"

definition sample_ticks :: "int \<times> int \<Rightarrow> tick list" where
  "sample_ticks = (\<lambda>(s, e). [Synchronized, Read s, Invoked, Synchronized, Read e])"

lemma noting_Val:
  "noting f m (w, ts) = (Val x, z) \<longleftrightarrow> (\<exists>w'. m w = (Val x, w') \<and> z = (w', ts @ [f x]))"
  by (auto simp: noting_def split: prod.splits outcome.splits)

lemma synchronize_noting:
  "synchronize (noting_all clock sync) = noting (\<lambda>_. Synchronized) sync"
  by (simp add: synchronize_def noting_all_def)

lemma warm_up_ticks:
  "warm_up (noting_all clock sync) (noting (\<lambda>_. Invoked) work) n (w, ts) = (Val u, (w', ts')) \<Longrightarrow>
   ts' = ts @ concat (replicate n [Invoked, Synchronized])"
proof (induction n arbitrary: w ts)
  case 0
  then show ?case by (simp add: eff_return_iff)
next
  case (Suc n)
  then obtain w2 where "warm_up (noting_all clock sync) (noting (\<lambda>_. Invoked) work) n (w2, ts @ [Invoked, Synchronized]) = (Val u, (w', ts'))"
    by (auto simp: eff_bind_Val synchronize_noting noting_Val)
  from Suc.IH [OF this] show ?case by simp
qed

lemma sample_ticks_of:
  assumes "sample (noting_all clock sync) (noting (\<lambda>_. Invoked) work) (w, ts) = (Val v, (w', ts'))"
  shows "\<exists>s e. s \<le> e \<and> v = of_int (e - s) / 1000000 \<and> ts' = ts @ sample_ticks (s, e)"
proof -
  have clock: "ld_clock_ns (noting_all clock sync) = noting Read clock" by (simp add: noting_all_def)
  from assms show ?thesis
    unfolding sample_def clock synchronize_noting
    by (fastforce simp: eff_bind_Val noting_Val eff_raise_iff eff_return_iff sample_ticks_def split: if_splits)
qed

lemma sample_all_ticks:
  "sample_all (noting_all clock sync) (noting (\<lambda>_. Invoked) work) n (w, ts) = (Val vs, (w', ts')) \<Longrightarrow>
   \<exists>rs. length rs = n \<and> list_all (\<lambda>(s, e). s \<le> e) rs \<and> vs = map (\<lambda>(s, e). of_int (e - s) / 1000000) rs \<and>
     ts' = ts @ concat (map sample_ticks rs)"
proof (induction n arbitrary: w ts vs)
  case 0
  then show ?case by (auto simp: eff_simps)
next
  case (Suc n)
  then obtain v vs' w1 ts1 where v: "sample (noting_all clock sync) (noting (\<lambda>_. Invoked) work) (w, ts) = (Val v, (w1, ts1))"
    and vs': "sample_all (noting_all clock sync) (noting (\<lambda>_. Invoked) work) n (w1, ts1) = (Val vs', (w', ts'))" "vs = v # vs'"
    by (auto simp: eff_bind_Val eff_return_iff)
  from sample_ticks_of [OF v] obtain s e where "s \<le> e" "v = of_int (e - s) / 1000000" "ts1 = ts @ sample_ticks (s, e)" by blast
  moreover from Suc.IH [OF vs'(1)] obtain rs where "length rs = n" "list_all (\<lambda>(s, e). s \<le> e) rs"
    "vs' = map (\<lambda>(s, e). of_int (e - s) / 1000000) rs" "ts' = ts1 @ concat (map sample_ticks rs)" by blast
  ultimately show ?case using vs'(2) by (intro exI [of _ "(s, e) # rs"]) simp
qed

lemma finite_samples: "List.map_filter finite_value (map Fin vs) = vs"
  by (induction vs) auto

lemma summarize_fields:
  "summarize_latency np (map Fin vs) = Inr s \<Longrightarrow> ls_samples_ms s = vs \<and> ls_count s = length vs"
  by (auto simp: summarize_latency_def finite_positive_samples_def res_simps finite_samples Let_def)


text \<open>Statistics by position in the sorted samples, a concrete instance of the parameter.\<close>

definition rank_percentile :: "real list \<Rightarrow> real \<Rightarrow> real" where
  "rank_percentile xs q = sort xs ! nat \<lfloor>q * real (length xs - 1) / 100\<rfloor>"

definition rank_stats :: numpy_stats where
  "rank_stats = \<lparr>np_percentile = rank_percentile, np_median = (\<lambda>xs. rank_percentile xs 50),
     np_mean = (\<lambda>xs. sum_list xs / real (length xs)), np_std = (\<lambda>_. 0)\<rparr>"

definition demo_clock :: "(int, int) eff" where
  "demo_clock = (\<lambda>w. (Val w, w + 2000000))"


end
