(* ===== verification/DeviceMetrics.thy ===== *)
theory DeviceMetrics
  imports Floats "HOL-Library.List_Lexorder" "HOL-Library.Char_ord"
begin

text \<open>
  \<open>src/qairt_agent/diagnostics/device_metrics.py\<close>: the device-side execution block parsed from one
  profiling report, and the aggregate of several. A report is a JSON value; \<open>repr\<close> is the text of
  a float, list or dict. Statistics are exact on finite samples; where a sample is a NaN or an
  infinity the model's statistic is a NaN (Python's is one of NaN, infinity or an error). The
  constant descriptive fields of the blocks are left out.
\<close>

definition metrics_error :: exn where
  "metrics_error = PyExn ''DeviceMetricsError'' []"

definition COMPUTE_IDENTIFIER :: string where
  "COMPUTE_IDENTIFIER = ''Accelerator (execute excluding wait) time''"

definition ACCELERATOR_IDENTIFIER :: string where
  "ACCELERATOR_IDENTIFIER = ''Accelerator (execute) time''"

definition QNN_EXECUTE_IDENTIFIER :: string where
  "QNN_EXECUTE_IDENTIFIER = ''QNN (execute) time''"

definition CYCLES_IDENTIFIER :: string where
  "CYCLES_IDENTIFIER = ''Accelerator (execute) time (cycles)''"

section \<open>One report\<close>

type_synonym event = "(string \<times> json) list"

definition mappings_of :: "json list \<Rightarrow> event list" where
  "mappings_of vs = List.map_filter as_obj vs"

text \<open>The messages of a report: a text is a sequence too, without mappings.\<close>

definition messages :: "event \<Rightarrow> exn + event list" where
  "messages report_data = (case json_get report_data ''messages'' of
     JList vs \<Rightarrow> Inr (mappings_of vs) | JStr _ \<Rightarrow> Inr [] | _ \<Rightarrow> Inl metrics_error)"

definition events_of :: "event \<Rightarrow> event list" where
  "events_of message = (case json_get message ''profilingEvents'' of JList vs \<Rightarrow> mappings_of vs | _ \<Rightarrow> [])"

definition identifier_of :: "(json \<Rightarrow> string) \<Rightarrow> event \<Rightarrow> string" where
  "identifier_of repr event = py_str repr (json_get_or event ''identifier'' (JStr []))"

fun microseconds_from :: "(json \<Rightarrow> string) \<Rightarrow> (string \<times> pyfloat) list \<Rightarrow> event list \<Rightarrow> (string \<times> pyfloat) list" where
  "microseconds_from repr vs [] = vs"
| "microseconds_from repr vs (e # es) = microseconds_from repr
     (if py_str repr (json_get e ''unit'') \<noteq> ''MICROSEC'' then vs
      else case (identifier_of repr e, number_of (json_get e ''value'')) of
        (c # cs, Some v) \<Rightarrow> dict_set (c # cs) v vs | _ \<Rightarrow> vs) es"

definition microseconds :: "(json \<Rightarrow> string) \<Rightarrow> event list \<Rightarrow> (string \<times> pyfloat) list" where
  "microseconds repr es = microseconds_from repr [] es"

text \<open>The operators of the first cycle event, and its total.\<close>

definition operator_cycles :: "(json \<Rightarrow> string) \<Rightarrow> event \<Rightarrow> exn + (string \<times> pyfloat option) list" where
  "operator_cycles repr e =
     bind_res (list_or_empty (json_get_or e ''sub-events'' (JList []))) (\<lambda>subs.
     Inr (map (\<lambda>s. (identifier_of repr s, number_of (json_get s ''value'')))
       (filter (\<lambda>s. py_str repr (json_get s ''unit'') = ''CYCLES'' \<and> py_str repr (json_get s ''type'') = ''NODE'') (mappings_of subs))))"

definition per_op_cycles :: "(json \<Rightarrow> string) \<Rightarrow> event list \<Rightarrow> exn + (string \<times> pyfloat option) list \<times> pyfloat option" where
  "per_op_cycles repr es = (case List.find (\<lambda>e. identifier_of repr e = CYCLES_IDENTIFIER) es of
     None \<Rightarrow> Inr ([], None)
   | Some e \<Rightarrow> bind_res (operator_cycles repr e) (\<lambda>ops. Inr (ops, number_of (json_get e ''value''))))"

record DeviceExecute =
  de_accelerator_execute_us :: pyfloat
  de_execute_events_us :: "(string \<times> pyfloat) list"
  de_per_op_cycles :: "(string \<times> pyfloat option) list"
  de_accelerator_execute_cycles :: "pyfloat option"
  de_per_process_overhead_us :: "(string \<times> pyfloat) list"
  de_producer :: "json \<times> json \<times> json"
  de_accelerator_compute_us :: "pyfloat option"
  de_qnn_execute_us :: "pyfloat option"

definition method_of :: "(json \<Rightarrow> string) \<Rightarrow> event \<Rightarrow> string" where
  "method_of repr m = py_str repr (json_get_or m ''method'' (JStr []))"

definition events_of_method :: "(json \<Rightarrow> string) \<Rightarrow> string \<Rightarrow> event list \<Rightarrow> event list" where
  "events_of_method repr name ms = concat (map events_of (filter (\<lambda>m. method_of repr m = name) ms))"

definition producer_of :: "event \<Rightarrow> json \<times> json \<times> json" where
  "producer_of report_data = (let metadata = (case as_obj (json_get report_data ''metadata'') of None \<Rightarrow> [] | Some d \<Rightarrow> d)
     in (json_get metadata ''appName'', json_get metadata ''appVersion'', json_get metadata ''backendVersion''))"

definition parse_device_execution :: "(json \<Rightarrow> string) \<Rightarrow> json \<Rightarrow> exn + DeviceExecute" where
  "parse_device_execution repr report = (case as_obj report of
     None \<Rightarrow> Inl metrics_error
   | Some report_data \<Rightarrow>
     bind_res (messages report_data) (\<lambda>ms.
     case List.find (\<lambda>m. method_of repr m = ''BACKEND_EXECUTE'') ms of
       None \<Rightarrow> Inl metrics_error
     | Some execute_message \<Rightarrow>
         let execute_events = events_of execute_message; execute_us = microseconds repr execute_events
         in case map_of execute_us ACCELERATOR_IDENTIFIER of
              None \<Rightarrow> Inl metrics_error
            | Some accelerator \<Rightarrow>
                bind_res (per_op_cycles repr execute_events) (\<lambda>(operators, total_cycles).
                Inr \<lparr>de_accelerator_execute_us = accelerator, de_execute_events_us = execute_us,
                  de_per_op_cycles = operators, de_accelerator_execute_cycles = total_cycles,
                  de_per_process_overhead_us =
                    dict_update (microseconds repr (events_of_method repr ''BACKEND_CREATE_FROM_BINARY'' ms))
                      (microseconds repr (events_of_method repr ''BACKEND_DEINIT'' ms)),
                  de_producer = producer_of report_data,
                  de_accelerator_compute_us = map_of execute_us COMPUTE_IDENTIFIER,
                  de_qnn_execute_us = map_of execute_us QNN_EXECUTE_IDENTIFIER\<rparr>)))"

section \<open>Statistics\<close>

fun finite_reals :: "pyfloat list \<Rightarrow> real list option" where
  "finite_reals [] = Some []"
| "finite_reals (Fin r # fs) = map_option (\<lambda>rs. r # rs) (finite_reals fs)"
| "finite_reals _ = None"

definition statistic :: "(real list \<Rightarrow> real) \<Rightarrow> pyfloat list \<Rightarrow> pyfloat" where
  "statistic f xs = (case finite_reals xs of None \<Rightarrow> FNaN | Some rs \<Rightarrow> Fin (f rs))"

definition real_mean :: "real list \<Rightarrow> real" where
  "real_mean rs = sum_list rs / real (length rs)"

text \<open>\<open>statistics.median\<close>: the middle one, or the mean of the two in the middle.\<close>

definition real_median :: "real list \<Rightarrow> real" where
  "real_median rs = (let s = sort rs; n = length rs
     in if odd n then s ! (n div 2) else (s ! (n div 2 - 1) + s ! (n div 2)) / 2)"

text \<open>\<open>statistics.stdev\<close>, the sample standard deviation.\<close>

definition real_stdev :: "real list \<Rightarrow> real" where
  "real_stdev rs = sqrt (sum_list (map (\<lambda>x. (x - real_mean rs)\<^sup>2) rs) / real (length rs - 1))"

definition fmean :: "pyfloat list \<Rightarrow> pyfloat" where
  "fmean xs = statistic real_mean xs"

record metric_spread =
  ms_mean :: pyfloat
  ms_p50 :: pyfloat
  ms_min :: pyfloat
  ms_max :: pyfloat
  ms_stddev :: pyfloat

definition spread_of :: "pyfloat list \<Rightarrow> metric_spread" where
  "spread_of xs = \<lparr>ms_mean = fmean xs, ms_p50 = statistic real_median xs,
     ms_min = statistic (\<lambda>rs. hd (sort rs)) xs, ms_max = statistic (\<lambda>rs. last (sort rs)) xs,
     ms_stddev = (if 1 < length xs then statistic real_stdev xs else Fin 0)\<rparr>"

section \<open>The aggregate\<close>

definition AGGREGATED_SCALARS :: "(string \<times> (DeviceExecute \<Rightarrow> pyfloat option)) list" where
  "AGGREGATED_SCALARS =
    [(''accelerator_compute_us'', de_accelerator_compute_us),
     (''accelerator_execute_us'', (\<lambda>b. Some (de_accelerator_execute_us b))),
     (''qnn_execute_us'', de_qnn_execute_us),
     (''accelerator_execute_cycles'', de_accelerator_execute_cycles)]"

definition samples_of :: "DeviceExecute list \<Rightarrow> (string \<times> pyfloat list) list" where
  "samples_of blocks = filter (\<lambda>(_, vs). vs \<noteq> []) (map (\<lambda>(name, f). (name, List.map_filter f blocks)) AGGREGATED_SCALARS)"

text \<open>The values of each name over the blocks, in the order the names appear, and their means.\<close>

definition collect :: "(string \<times> pyfloat) list list \<Rightarrow> (string \<times> pyfloat list) list" where
  "collect dicts = foldl (\<lambda>acc (name, v). dict_append name v acc) [] (concat dicts)"

definition mean_by_key :: "(string \<times> pyfloat) list list \<Rightarrow> (string \<times> pyfloat) list" where
  "mean_by_key dicts = map (\<lambda>(name, vs). (name, fmean vs)) (collect dicts)"

text \<open>\<open>{identifier: cycles}\<close> of one block, where the last of two operators with one name counts.\<close>

definition op_cycles :: "DeviceExecute \<Rightarrow> (string \<times> pyfloat) list" where
  "op_cycles b = List.map_filter (\<lambda>(name, c). map_option (Pair name) c) (dict_of (de_per_op_cycles b))"

record DeviceAggregate =
  da_sample_count :: nat
  da_samples_requested :: int
  da_samples_used_by_metric :: "(string \<times> nat) list"
  da_samples :: "(string \<times> pyfloat list) list"
  da_means :: "(string \<times> pyfloat) list"
  da_spread :: "(string \<times> metric_spread) list"
  da_per_op_cycles :: "(string \<times> pyfloat) list"
  da_execute_events_us :: "(string \<times> pyfloat) list"
  da_per_process_overhead_us :: "(string \<times> pyfloat) list"
  da_producer :: "json \<times> json \<times> json"
  da_partial :: bool
  da_partial_metrics :: "(string \<times> nat) list"
  da_production_latency_us :: "pyfloat option"
  da_production_latency_cv_percent :: "pyfloat option"

definition short_metrics :: "int \<Rightarrow> (string \<times> pyfloat list) list \<Rightarrow> (string \<times> nat) list" where
  "short_metrics expected samples = map (\<lambda>(name, vs). (name, length vs)) (filter (\<lambda>(_, vs). int (length vs) < expected) samples)"

text \<open>The coefficient of variation in percent; a zero latency has none.\<close>

definition cv_percent :: "pyfloat list \<Rightarrow> pyfloat option" where
  "cv_percent vs = (if fmean vs = Fin 0 then None else Some (float_percent (ms_stddev (spread_of vs)) (fmean vs)))"

definition aggregate_device_executions :: "DeviceExecute list \<Rightarrow> int option \<Rightarrow> exn + DeviceAggregate" where
  "aggregate_device_executions blocks requested = (case blocks of
     [] \<Rightarrow> Inl metrics_error
   | first # _ \<Rightarrow>
     let samples = samples_of blocks;
         expected = (case requested of None \<Rightarrow> int (length blocks) | Some r \<Rightarrow> r);
         short = short_metrics expected samples;
         production = map_of samples ''accelerator_compute_us''
     in if samples = [] then Inl metrics_error
        else Inr \<lparr>da_sample_count = length blocks, da_samples_requested = expected,
          da_samples_used_by_metric = sort_key fst (map (\<lambda>(name, vs). (name, length vs)) samples), da_samples = samples,
          da_means = map (\<lambda>(name, vs). (name, fmean vs)) samples, da_spread = map (\<lambda>(name, vs). (name, spread_of vs)) samples,
          da_per_op_cycles = sort_key fst (mean_by_key (map op_cycles blocks)),
          da_execute_events_us = mean_by_key (map de_execute_events_us blocks),
          da_per_process_overhead_us = mean_by_key (map de_per_process_overhead_us blocks),
          da_producer = de_producer first,
          da_partial = (int (length blocks) < expected \<or> short \<noteq> []),
          da_partial_metrics = sort_key fst short,
          da_production_latency_us = map_option fmean production,
          da_production_latency_cv_percent = (case production of None \<Rightarrow> None | Some vs \<Rightarrow> cv_percent vs)\<rparr>)"

end
