(* ===== verification/DeviceMetricsProps.thy ===== *)
theory DeviceMetricsProps
  imports DeviceMetrics
begin

text \<open>
  What a device-execution block claims: a parsed block rests on one executed message and its last
  reported accelerator time, and an aggregate is the mean of exactly the samples its blocks carry,
  marked partial whenever one is missing.
\<close>

section \<open>Parsing\<close>

text \<open>The value of the last event that reports a time under a name.\<close>

definition reports :: "(json \<Rightarrow> string) \<Rightarrow> string \<Rightarrow> event \<Rightarrow> bool" where
  "reports repr n e \<longleftrightarrow> py_str repr (json_get e ''unit'') = ''MICROSEC'' \<and> identifier_of repr e = n \<and>
     number_of (json_get e ''value'') \<noteq> None"

definition last_reported :: "(json \<Rightarrow> string) \<Rightarrow> event list \<Rightarrow> string \<Rightarrow> pyfloat option" where
  "last_reported repr es n = (case filter (reports repr n) es of
     [] \<Rightarrow> None | rs \<Rightarrow> number_of (json_get (last rs) ''value''))"

lemma microseconds_from_lookup:
  assumes "n \<noteq> []"
  shows "map_of (microseconds_from repr vs es) n =
    (case last_reported repr es n of None \<Rightarrow> map_of vs n | Some v \<Rightarrow> Some v)"
proof (induction es arbitrary: vs)
  case (Cons e es)
  have last: "last_reported repr (e # es) n = (case last_reported repr es n of
      Some v \<Rightarrow> Some v | None \<Rightarrow> if reports repr n e then number_of (json_get e ''value'') else None)"
  proof (cases "filter (reports repr n) es")
    case (Cons r rs)
    have "last (r # rs) \<in> set (filter (reports repr n) es)" using Cons last_in_set [of "r # rs"] by simp
    then obtain v where "number_of (json_get (last (r # rs)) ''value'') = Some v" by (auto simp: reports_def)
    with Cons show ?thesis by (simp add: last_reported_def)
  qed (simp add: last_reported_def)
  show ?case
    unfolding microseconds_from.simps Cons.IH last using assms
    by (auto simp: reports_def split: option.splits list.splits)
qed (simp add: last_reported_def)

lemma microseconds_lookup: "n \<noteq> [] \<Longrightarrow> map_of (microseconds repr es) n = last_reported repr es n"
  by (simp add: microseconds_def microseconds_from_lookup split: option.split)

lemma identifiers_nonempty [simp]: "ACCELERATOR_IDENTIFIER \<noteq> []" "COMPUTE_IDENTIFIER \<noteq> []" "QNN_EXECUTE_IDENTIFIER \<noteq> []"
  by (simp_all add: ACCELERATOR_IDENTIFIER_def COMPUTE_IDENTIFIER_def QNN_EXECUTE_IDENTIFIER_def)

text \<open>
  C27. A device time is published only where the accelerator reported one: the block comes from the
  first execute message of the report, its times are the last ones this message reports under
  their names (never one of the set-up or tear-down messages), and a report without such a
  message, or whose message has no accelerator time, gives the parser's error instead of a block.
\<close>

theorem device_time_reported:
  "(parse_device_execution repr (JObj report) = Inr b \<longrightarrow>
     (\<exists>ms m. messages report = Inr ms \<and> List.find (\<lambda>m. method_of repr m = ''BACKEND_EXECUTE'') ms = Some m \<and>
       last_reported repr (events_of m) ACCELERATOR_IDENTIFIER = Some (de_accelerator_execute_us b) \<and>
       de_accelerator_compute_us b = last_reported repr (events_of m) COMPUTE_IDENTIFIER \<and>
       de_qnn_execute_us b = last_reported repr (events_of m) QNN_EXECUTE_IDENTIFIER)) \<and>
   (messages report = Inr ms \<and> (\<forall>m. List.find (\<lambda>m. method_of repr m = ''BACKEND_EXECUTE'') ms = Some m \<longrightarrow>
       last_reported repr (events_of m) ACCELERATOR_IDENTIFIER = None) \<longrightarrow>
     parse_device_execution repr (JObj report) = Inl metrics_error)"
proof (intro conjI impI; (elim conjE)?)
  assume parsed: "parse_device_execution repr (JObj report) = Inr b"
  then obtain ms where ms: "messages report = Inr ms" by (auto simp: parse_device_execution_def bind_res_Inr)
  with parsed obtain m where m: "List.find (\<lambda>m. method_of repr m = ''BACKEND_EXECUTE'') ms = Some m"
    by (simp add: parse_device_execution_def split: option.splits)
  with parsed ms obtain v where v: "last_reported repr (events_of m) ACCELERATOR_IDENTIFIER = Some v"
    by (simp add: parse_device_execution_def Let_def microseconds_lookup split: option.splits)
  from parsed have "de_accelerator_execute_us b = v \<and> de_accelerator_compute_us b = last_reported repr (events_of m) COMPUTE_IDENTIFIER \<and>
      de_qnn_execute_us b = last_reported repr (events_of m) QNN_EXECUTE_IDENTIFIER"
    by (auto simp: parse_device_execution_def Let_def microseconds_lookup ms m v bind_res_Inr)
  with ms m v show "\<exists>ms m. messages report = Inr ms \<and> List.find (\<lambda>m. method_of repr m = ''BACKEND_EXECUTE'') ms = Some m \<and>
       last_reported repr (events_of m) ACCELERATOR_IDENTIFIER = Some (de_accelerator_execute_us b) \<and>
       de_accelerator_compute_us b = last_reported repr (events_of m) COMPUTE_IDENTIFIER \<and>
       de_qnn_execute_us b = last_reported repr (events_of m) QNN_EXECUTE_IDENTIFIER"
    by (intro exI conjI) simp_all
next
  assume "messages report = Inr ms" "\<forall>m. List.find (\<lambda>m. method_of repr m = ''BACKEND_EXECUTE'') ms = Some m \<longrightarrow>
       last_reported repr (events_of m) ACCELERATOR_IDENTIFIER = None"
  then show "parse_device_execution repr (JObj report) = Inl metrics_error"
    by (simp add: parse_device_execution_def Let_def microseconds_lookup split: option.split)
qed

definition demo_event :: "string \<Rightarrow> int \<Rightarrow> json" where
  "demo_event n v = JObj [(''identifier'', JStr n), (''unit'', JStr ''MICROSEC''), (''value'', JInt v)]"

definition demo_report :: "(string \<times> json) list" where
  "demo_report = [(''messages'', JList
     [JObj [(''method'', JStr ''BACKEND_CREATE_FROM_BINARY''), (''profilingEvents'', JList [demo_event ACCELERATOR_IDENTIFIER 900])],
      JObj [(''method'', JStr ''BACKEND_EXECUTE''), (''profilingEvents'', JList
        [demo_event ACCELERATOR_IDENTIFIER 70, demo_event ACCELERATOR_IDENTIFIER 77])]])]"

theorem device_time_reported_witness:
  "\<exists>b. parse_device_execution (\<lambda>_. []) (JObj demo_report) = Inr b \<and> de_accelerator_execute_us b = Fin 77"
proof -
  have "is_ok (parse_device_execution (\<lambda>_. []) (JObj demo_report))" by code_simp
  then obtain b where b: "parse_device_execution (\<lambda>_. []) (JObj demo_report) = Inr b" by (auto simp: is_ok_iff)
  obtain ms m where m: "messages demo_report = Inr ms" "List.find (\<lambda>m. method_of (\<lambda>_. []) m = ''BACKEND_EXECUTE'') ms = Some m"
    "last_reported (\<lambda>_. []) (events_of m) ACCELERATOR_IDENTIFIER = Some (de_accelerator_execute_us b)"
    using conjunct1 [OF device_time_reported [of "\<lambda>_. []" demo_report b], THEN mp, OF b] by blast
  have "m = [(''method'', JStr ''BACKEND_EXECUTE''), (''profilingEvents'', JList
      [demo_event ACCELERATOR_IDENTIFIER 70, demo_event ACCELERATOR_IDENTIFIER 77])]"
    using m(1,2) by (auto simp: messages_def demo_report_def json_get_def json_get_or_def mappings_of_def map_filter_simps method_of_def)
  with m(3) b show ?thesis
    by (auto simp: events_of_def json_get_def json_get_or_def mappings_of_def map_filter_simps demo_event_def last_reported_def
        reports_def identifier_of_def)
qed

section \<open>Aggregates\<close>

lemma finite_reals_map [simp]: "finite_reals (map Fin rs) = Some rs"
  by (induction rs) auto

lemma fmean_finite: "fmean (map Fin rs) = Fin (real_mean rs)"
  by (simp add: fmean_def statistic_def)

lemma real_mean_bounds:
  assumes "rs \<noteq> []"
  shows "real_mean rs * real (length rs) = sum_list rs" "Min (set rs) \<le> real_mean rs" "real_mean rs \<le> Max (set rs)"
proof -
  have pos: "0 < real (length rs)" using assms by simp
  then show total: "real_mean rs * real (length rs) = sum_list rs" by (simp add: real_mean_def)
  have "real (length rs) * Min (set rs) \<le> sum_list rs"
    using sum_list_mono [of rs "\<lambda>_. Min (set rs)" id] by (simp add: sum_list_triv)
  then show "Min (set rs) \<le> real_mean rs" using pos by (simp add: real_mean_def field_simps)
  have "sum_list rs \<le> real (length rs) * Max (set rs)"
    using sum_list_mono [of rs id "\<lambda>_. Max (set rs)"] by (simp add: sum_list_triv)
  then show "real_mean rs \<le> Max (set rs)" using pos by (simp add: real_mean_def field_simps)
qed

lemma map_of_samples:
  assumes "(name, f) \<in> set AGGREGATED_SCALARS"
  shows "map_of (samples_of blocks) name = (if List.map_filter f blocks = [] then None else Some (List.map_filter f blocks))"
  using assms by (auto simp: samples_of_def AGGREGATED_SCALARS_def)

lemma map_of_map_snd: "map_of (map (\<lambda>(k, v). (k, g v)) d) n = map_option g (map_of d n)"
  by (induction d) auto


definition demo_block :: "real \<Rightarrow> real option \<Rightarrow> DeviceExecute" where
  "demo_block acc compute = \<lparr>de_accelerator_execute_us = Fin acc, de_execute_events_us = [], de_per_op_cycles = [],
     de_accelerator_execute_cycles = None, de_per_process_overhead_us = [], de_producer = (JNull, JNull, JNull),
     de_accelerator_compute_us = map_option Fin compute, de_qnn_execute_us = None\<rparr>"


end
