(* ===== verification/Compare.thy ===== *)
theory Compare
  imports Floats StableSort Paths ManifestStore "HOL-Library.List_Lexorder" "HOL-Library.Char_ord"
begin

text \<open>
  \<open>src/qairt_agent/compare.py\<close>: the report-only comparison of two verified runs, over the disk of
  the manifest store. Parsing a JSON text and validating a device-execution block (pydantic) are
  parameters; the latencies of a block are reals, the quality metrics floats.
\<close>

section \<open>Surroundings\<close>

record DeviceExecutionBlock =
  de_available :: "bool option"
  de_meter :: "string option"
  de_lane :: "string option"
  de_scope :: "string option"
  de_production_latency_us :: "real option"
  de_production_latency_source :: "string option"
  de_production_latency_cv_percent :: "real option"

definition measured :: "DeviceExecutionBlock \<Rightarrow> bool" where
  "measured b \<longleftrightarrow> de_available b \<noteq> Some False \<and> de_production_latency_us b \<noteq> None"

record compare_env =
  ce_formats :: formats
  ce_cwd :: string
  ce_home :: string
  ce_media :: "string \<Rightarrow> string option"
  ce_parse :: "string \<Rightarrow> exn + json"
  ce_block :: "(string \<times> json) list \<Rightarrow> exn + DeviceExecutionBlock"
  ce_repr :: "json \<Rightarrow> string"

definition compare_error :: exn where
  "compare_error = agent_exn InvalidSpecError (Some ''compare'') False"

section \<open>Loading a run\<close>

text \<open>The digest in a published name, \<open>manifest-rNNNNNN-<sha256>.json\<close>.\<close>

definition name_digest :: "string \<Rightarrow> string option" where
  "name_digest name =
    (let revision = take 6 (drop 10 name); digest = take 64 (drop 17 name)
     in if py_startswith name ''manifest-r'' \<and> length revision = 6 \<and> list_all py_isdigit_char revision \<and>
           take 1 (drop 16 name) = ''-'' \<and> length digest = 64 \<and> list_all (\<lambda>c. c \<in> set ''0123456789abcdef'') digest \<and>
           drop 81 name \<in> {''.json'', ''.json'' @ [newline]}
        then Some digest else None)"

text \<open>\<open>ArtifactRef.from_path(path, kind=ArtifactKind.MANIFEST)\<close>\<close>

definition manifest_ref_of :: "compare_env \<Rightarrow> string \<Rightarrow> vstate \<Rightarrow> exn + ArtifactRef" where
  "manifest_ref_of ce path st = (case file_at st path of
     None \<Rightarrow> Inl (PyExn ''FileNotFoundError'' path)
   | Some f \<Rightarrow> ArtifactRef_new \<lparr>ar_path = path, ar_sha256 = fm_sha256 (ce_formats ce) (fl_data f),
       ar_size_bytes = int (length (fl_data f)), ar_kind = AK_MANIFEST,
       ar_media_type = (case ce_media ce (path_name path) of Some m \<Rightarrow> m | None \<Rightarrow> ''application/octet-stream''),
       ar_logical_name = None\<rparr>)"

definition real_path_of :: "compare_env \<Rightarrow> string \<Rightarrow> string" where
  "real_path_of ce p = resolve_path (ce_cwd ce) (expanduser (ce_home ce) p)"

definition load_run_manifest :: "compare_env \<Rightarrow> manifest_arg \<Rightarrow> (vstate, ArtifactRef \<times> RunManifest) eff" where
  "load_run_manifest ce reference = (case reference of
     RefArg ref \<Rightarrow>
       eff_bind (load_manifest (ce_formats ce) (PathArg (real_path_of ce (ar_path ref))) (Some (ar_sha256 ref))) (\<lambda>m.
       eff_return (ref, m))
   | PathArg p \<Rightarrow>
       let path = real_path_of ce p
       in case name_digest (path_name path) of
            None \<Rightarrow> eff_raise compare_error
          | Some expected \<Rightarrow>
              eff_bind (load_manifest (ce_formats ce) (PathArg path) (Some expected)) (\<lambda>m.
              eff_bind (\<lambda>st. eff_lift (manifest_ref_of ce path st) st) (\<lambda>ref. eff_return (ref, m))))"

text \<open>\<open>ref.path.read_text()\<close> and \<open>json.loads\<close>, whose failures become one error.\<close>

definition read_report :: "compare_env \<Rightarrow> string \<Rightarrow> (vstate, (string \<times> json) list) eff" where
  "read_report ce path = (\<lambda>st. case file_at st path of
     None \<Rightarrow> (Exc compare_error, st)
   | Some f \<Rightarrow> (case ce_parse ce (fl_data f) of
       Inl _ \<Rightarrow> (Exc compare_error, st)
     | Inr v \<Rightarrow> (case as_obj v of None \<Rightarrow> (Exc compare_error, st) | Some d \<Rightarrow> (Val d, st))))"

type_synonym evidence = "(ArtifactRef \<times> (string \<times> json) list) option"

definition named_artifact :: "compare_env \<Rightarrow> RunManifest \<Rightarrow> string \<Rightarrow> (vstate, evidence) eff" where
  "named_artifact ce manifest logical_name =
    (case filter (\<lambda>a. ar_logical_name a = Some logical_name) (rm_artifacts manifest) of
       [] \<Rightarrow> eff_return None
     | [ref] \<Rightarrow> eff_bind (verify_artifact (ce_formats ce) ref) (\<lambda>_.
         eff_bind (read_report ce (ar_path ref)) (\<lambda>payload. eff_return (Some (ref, payload))))
     | _ \<Rightarrow> eff_raise compare_error)"

definition payload_of :: "evidence \<Rightarrow> (string \<times> json) list option" where
  "payload_of e = map_option snd e"

section \<open>What must agree\<close>

fun sqnr_mode_value :: "SqnrMode \<Rightarrow> string" where
  "sqnr_mode_value SQ_FULL_REFERENCE = ''full_reference''"
| "sqnr_mode_value SQ_CHAIN = ''chain''"
| "sqnr_mode_value SQ_TEACHER_FORCED = ''teacher_forced''"

record run_identity =
  ri_preset :: json
  ri_family :: string
  ri_target :: "string \<times> string \<times> string \<times> int"
  ri_ars :: "int list"
  ri_context_lengths :: "int list"
  ri_sqnr_modes :: "string list"

definition identity_of :: "RunManifest \<Rightarrow> run_identity" where
  "identity_of m =
    (let b = rm_build_spec m; t = bs_target b
     in \<lparr>ri_preset = json_get (rm_metadata m) ''preset'', ri_family = family_value (bs_family b),
         ri_target = (tg_name t, tg_chipset t, tg_dsp_arch t, tg_soc_model t),
         ri_ars = sort (sq_ars (bs_sequence b)), ri_context_lengths = sort (sq_context_lengths (bs_sequence b)),
         ri_sqnr_modes = sort (map sqnr_mode_value (ql_sqnr_modes (bs_quality b)))\<rparr>)"

definition latency_block :: "(string \<times> json) list option \<Rightarrow> (string \<times> json) list" where
  "latency_block report = (case report of
     None \<Rightarrow> [] | Some r \<Rightarrow> (case as_obj (json_get r ''device_execution'') of None \<Rightarrow> [] | Some d \<Rightarrow> d))"

text \<open>The metric, the meter and the lane of a report.\<close>

definition latency_meter :: "(string \<times> json) list option \<Rightarrow> json \<times> json \<times> json" where
  "latency_meter report = (case report of
     None \<Rightarrow> (JNull, JNull, JNull)
   | Some r \<Rightarrow> (json_get r ''latency_metric'', json_get (latency_block report) ''meter'', json_get (latency_block report) ''lane''))"

definition identity_mismatches :: "run_identity \<Rightarrow> run_identity \<Rightarrow> string list" where
  "identity_mismatches b c =
     (if ri_preset b \<noteq> ri_preset c then [''preset''] else []) @
     (if ri_family b \<noteq> ri_family c then [''family''] else []) @
     (if ri_target b \<noteq> ri_target c then [''target''] else []) @
     (if ri_ars b \<noteq> ri_ars c then [''ars''] else []) @
     (if ri_context_lengths b \<noteq> ri_context_lengths c then [''context_lengths''] else []) @
     (if ri_sqnr_modes b \<noteq> ri_sqnr_modes c then [''sqnr_modes''] else [])"

definition both_differ :: "json \<Rightarrow> json \<Rightarrow> bool" where
  "both_differ b c \<longleftrightarrow> b \<noteq> JNull \<and> c \<noteq> JNull \<and> b \<noteq> c"

definition meter_mismatches :: "json \<times> json \<times> json \<Rightarrow> json \<times> json \<times> json \<Rightarrow> string list" where
  "meter_mismatches b c =
     (if both_differ (fst (snd b)) (fst (snd c)) then [''latency_meter''] else []) @
     (if both_differ (snd (snd b)) (snd (snd c)) then [''latency_lane''] else [])"

section \<open>Latency rows\<close>

record latency_number =
  ln_production_latency_us :: real
  ln_production_latency_source :: "string option"
  ln_production_latency_cv_percent :: "real option"
  ln_scope :: "string option"

definition single_latency :: "compare_env \<Rightarrow> (string \<times> json) list \<Rightarrow> exn + latency_number option" where
  "single_latency ce report = (case as_obj (json_get report ''device_execution'') of
     None \<Rightarrow> Inr None
   | Some raw \<Rightarrow> bind_res (ce_block ce raw) (\<lambda>b.
       Inr (if measured b then Some \<lparr>ln_production_latency_us = the (de_production_latency_us b),
           ln_production_latency_source = de_production_latency_source b,
           ln_production_latency_cv_percent = de_production_latency_cv_percent b, ln_scope = de_scope b\<rparr>
         else None)))"

definition child_report :: "json \<Rightarrow> (string \<times> json) list option" where
  "child_report entry = (case as_obj entry of None \<Rightarrow> None | Some e \<Rightarrow> as_obj (json_get e ''report''))"

definition results_by_ar :: "(string \<times> json) list \<Rightarrow> (string \<times> json) list" where
  "results_by_ar report = (case as_obj (json_get report ''results_by_ar'') of None \<Rightarrow> [] | Some d \<Rightarrow> d)"

definition aggregate_latency :: "compare_env \<Rightarrow> (string \<times> json) list \<Rightarrow> exn + (string \<times> latency_number) list" where
  "aggregate_latency ce results =
     bind_res (map_res (\<lambda>(ar_key, entry). case child_report entry of
         None \<Rightarrow> Inr None
       | Some child \<Rightarrow> bind_res (single_latency ce child) (\<lambda>n. Inr (map_option (Pair ar_key) n))) results) (\<lambda>rows.
     Inr (dict_of (List.map_filter id rows)))"

definition per_ar_latency :: "compare_env \<Rightarrow> (string \<times> json) list option \<Rightarrow> exn + (string \<times> latency_number) list" where
  "per_ar_latency ce report = (case report of
     None \<Rightarrow> Inr []
   | Some r \<Rightarrow>
       if results_by_ar r \<noteq> [] then aggregate_latency ce (results_by_ar r)
       else bind_res (single_latency ce r) (\<lambda>n. Inr (case n of
          None \<Rightarrow> []
        | Some number \<Rightarrow>
            let ar = (case as_obj (json_get r ''runtime_binding'') of None \<Rightarrow> JNull | Some b \<Rightarrow> json_get b ''ar'')
            in [(if ar = JNull then ''default'' else py_str (ce_repr ce) ar, number)])))"

record latency_row =
  lr_ar :: string
  lr_baseline :: "latency_number option"
  lr_candidate :: "latency_number option"
  lr_comparable :: bool
  lr_delta_us :: "real option"
  lr_delta_percent :: "real option"
  lr_pooled_cv_percent :: "real option"
  lr_delta_in_pooled_cv :: "real option"

definition mean_of :: "real list \<Rightarrow> real option" where
  "mean_of xs = (if xs = [] then None else Some (sum_list xs / real (length xs)))"

definition latency_row_of :: "string \<Rightarrow> latency_number option \<Rightarrow> latency_number option \<Rightarrow> latency_row" where
  "latency_row_of ar_key before after = (case (before, after) of
     (Some b, Some a) \<Rightarrow>
       let base = ln_production_latency_us b; delta = ln_production_latency_us a - base;
           pooled = mean_of (List.map_filter ln_production_latency_cv_percent [b, a]);
           noise = map_option (\<lambda>cv. cv / 100 * base) pooled
       in \<lparr>lr_ar = ar_key, lr_baseline = before, lr_candidate = after, lr_comparable = True, lr_delta_us = Some delta,
           lr_delta_percent = (if base \<noteq> 0 then Some (100 * delta / base) else None),
           lr_pooled_cv_percent = pooled,
           lr_delta_in_pooled_cv = (case noise of None \<Rightarrow> None | Some n \<Rightarrow> if n \<noteq> 0 then Some (delta / n) else None)\<rparr>
   | _ \<Rightarrow> \<lparr>lr_ar = ar_key, lr_baseline = before, lr_candidate = after, lr_comparable = False, lr_delta_us = None,
           lr_delta_percent = None, lr_pooled_cv_percent = None, lr_delta_in_pooled_cv = None\<rparr>)"

definition latency_rows :: "(string \<times> latency_number) list \<Rightarrow> (string \<times> latency_number) list \<Rightarrow> latency_row list" where
  "latency_rows b c = map (\<lambda>k. latency_row_of k (map_of b k) (map_of c k)) (sort (dedup (map fst b @ map fst c)))"

section \<open>Quality rows\<close>

record tap_quality =
  tq_sqnr_db :: "pyfloat option"
  tq_rmse :: "pyfloat option"
  tq_cosine_similarity :: "pyfloat option"

definition tap_of :: "(string \<times> json) list \<Rightarrow> tap_quality" where
  "tap_of q = \<lparr>tq_sqnr_db = number_of (json_get q ''sqnr_db''), tq_rmse = number_of (json_get q ''rmse''),
     tq_cosine_similarity = number_of (json_get q ''cosine_similarity'')\<rparr>"

definition observation_taps :: "compare_env \<Rightarrow> string \<Rightarrow> json \<Rightarrow> (string \<times> tap_quality) list" where
  "observation_taps ce scope observation = (case as_obj observation of
     None \<Rightarrow> []
   | Some ob \<Rightarrow>
       let slice_id = py_str (ce_repr ce) (json_get_or ob ''slice_id'' (JStr []));
           tensor = py_str (ce_repr ce) (json_get_or ob ''tensor_name'' (JStr []))
       in List.map_filter (\<lambda>mode. map_option
            (\<lambda>q. (scope @ ''/'' @ mode @ ''/'' @ slice_id @ ''/'' @ tensor, tap_of q)) (as_obj (json_get ob mode)))
          [''teacher_forced'', ''device_chain''])"

definition block_taps :: "compare_env \<Rightarrow> string \<times> (string \<times> json) list \<Rightarrow> (string \<times> tap_quality) list" where
  "block_taps ce = (\<lambda>(scope, block). case json_get block ''observations'' of
     JList observations \<Rightarrow> concat (map (observation_taps ce scope) observations) | _ \<Rightarrow> [])"

definition quality_blocks :: "(string \<times> json) list \<Rightarrow> (string \<times> (string \<times> json) list) list" where
  "quality_blocks report = (''default'', report) #
     (case as_obj (json_get report ''mode_reports'') of
        None \<Rightarrow> []
      | Some modes \<Rightarrow> List.map_filter (\<lambda>(name, block). map_option (Pair name) (as_obj block)) modes)"

lemma as_obj_iff: "as_obj v = Some d \<longleftrightarrow> v = JObj d"
  by (cases v) auto

lemma child_report_size:
  assumes "(k, entry) \<in> set (results_by_ar report)" "child_report entry = Some child"
  shows "size (JObj child) < size (JObj report)"
proof -
  have field: "size (json_get d n) < size (JObj d)" if "json_get d n \<noteq> JNull" for d n
  proof -
    from that obtain v where v: "map_of d n = Some v" "json_get d n = v" by (auto simp: json_get_def split: option.splits)
    then have "(n, v) \<in> set d" by (simp add: map_of_SomeD)
    then have "size_prod (\<lambda>_. 0) size (n, v) < size (JObj d)"
      by (induction d) (auto simp: less_Suc_eq_le)
    with v show ?thesis by simp
  qed
  from assms(1) obtain results where r: "json_get report ''results_by_ar'' = JObj results" "(k, entry) \<in> set results"
    by (cases "as_obj (json_get report ''results_by_ar'')") (auto simp: results_by_ar_def as_obj_iff)
  have "size entry < size (JObj results)"
  proof -
    from r(2) have "size_prod (\<lambda>_. 0) size (k, entry) < size (JObj results)"
      by (induction results) (auto simp: less_Suc_eq_le)
    then show ?thesis by simp
  qed
  moreover have "size (JObj results) < size (JObj report)" using field [of report "''results_by_ar''"] r(1) by simp
  moreover from assms(2) obtain e where e: "entry = JObj e" "json_get e ''report'' = JObj child"
    by (cases "as_obj entry") (auto simp: child_report_def as_obj_iff)
  moreover have "size (JObj child) < size entry" using field [of e "''report''"] e by simp
  ultimately show ?thesis by simp
qed

text \<open>The taps of a report; a report of several ARs prefixes those of its children.\<close>

function per_tensor_quality :: "compare_env \<Rightarrow> (string \<times> json) list \<Rightarrow> (string \<times> tap_quality) list" where
  "per_tensor_quality ce report =
    (if results_by_ar report \<noteq> [] then
       dict_of (concat (map (\<lambda>(ar_key, entry). case child_report entry of
           None \<Rightarrow> []
         | Some child \<Rightarrow> map (\<lambda>(key, v). (''ar'' @ ar_key @ ''/'' @ key, v)) (per_tensor_quality ce child)) (results_by_ar report)))
     else dict_of (concat (map (block_taps ce) (quality_blocks report))))"
  by pat_completeness auto

termination per_tensor_quality
  by (relation "measure (\<lambda>(_, report). size (JObj report))") (auto dest: child_report_size)

declare per_tensor_quality.simps [simp del]

definition quality_of :: "compare_env \<Rightarrow> (string \<times> json) list option \<Rightarrow> (string \<times> tap_quality) list" where
  "quality_of ce report = (case report of None \<Rightarrow> [] | Some r \<Rightarrow> per_tensor_quality ce r)"

definition float_delta :: "pyfloat option \<Rightarrow> pyfloat option \<Rightarrow> pyfloat option" where
  "float_delta baseline candidate = (case (baseline, candidate) of
     (Some b, Some c) \<Rightarrow> Some (float_sub c b) | _ \<Rightarrow> None)"

record quality_row =
  qr_tap :: string
  qr_baseline :: "tap_quality option"
  qr_candidate :: "tap_quality option"
  qr_delta_sqnr_db :: "pyfloat option"
  qr_delta_rmse :: "pyfloat option"
  qr_delta_cosine_similarity :: "pyfloat option"

definition tap_field :: "(tap_quality \<Rightarrow> pyfloat option) \<Rightarrow> tap_quality option \<Rightarrow> pyfloat option" where
  "tap_field f t = (case t of None \<Rightarrow> None | Some q \<Rightarrow> f q)"

definition quality_row_of :: "string \<Rightarrow> tap_quality option \<Rightarrow> tap_quality option \<Rightarrow> quality_row" where
  "quality_row_of key before after = \<lparr>qr_tap = key, qr_baseline = before, qr_candidate = after,
     qr_delta_sqnr_db = float_delta (tap_field tq_sqnr_db before) (tap_field tq_sqnr_db after),
     qr_delta_rmse = float_delta (tap_field tq_rmse before) (tap_field tq_rmse after),
     qr_delta_cosine_similarity = float_delta (tap_field tq_cosine_similarity before) (tap_field tq_cosine_similarity after)\<rparr>"

text \<open>
  The sort key \<open>(delta is None, delta)\<close> and the stable sort by it; with a NaN the order is that of
  the insertion, not of Python.
\<close>

definition row_less :: "quality_row \<Rightarrow> quality_row \<Rightarrow> bool" where
  "row_less x y = (case (qr_delta_sqnr_db x, qr_delta_sqnr_db y) of
     (Some a, Some b) \<Rightarrow> float_less a b | (Some _, None) \<Rightarrow> True | _ \<Rightarrow> False)"

definition worst_first :: "quality_row list \<Rightarrow> quality_row list" where
  "worst_first rows = sort_by row_less rows"

definition quality_rows :: "(string \<times> tap_quality) list \<Rightarrow> (string \<times> tap_quality) list \<Rightarrow> quality_row list" where
  "quality_rows b c = worst_first (map (\<lambda>k. quality_row_of k (map_of b k) (map_of c k)) (sort (dedup (map fst b @ map fst c))))"

section \<open>The comparison\<close>

record run_provenance =
  rp_run_id :: string
  rp_revision :: int
  rp_manifest_sha256 :: string
  rp_manifest_path :: string
  rp_latency_report_sha256 :: "string option"
  rp_sqnr_report_sha256 :: "string option"

definition provenance_of :: "ArtifactRef \<Rightarrow> RunManifest \<Rightarrow> evidence \<Rightarrow> evidence \<Rightarrow> run_provenance" where
  "provenance_of ref m latency quality = \<lparr>rp_run_id = rm_run_id m, rp_revision = rm_revision m,
     rp_manifest_sha256 = ar_sha256 ref, rp_manifest_path = ar_path ref,
     rp_latency_report_sha256 = map_option (\<lambda>e. ar_sha256 (fst e)) latency,
     rp_sqnr_report_sha256 = map_option (\<lambda>e. ar_sha256 (fst e)) quality\<rparr>"

record comparison =
  co_identity :: run_identity
  co_meter :: "json \<times> json \<times> json"
  co_by_ar :: "latency_row list"
  co_covered_ars :: "string list"
  co_uncomparable_ars :: "string list"
  co_by_tap :: "quality_row list"
  co_worst_mover :: "quality_row option"
  co_baseline :: run_provenance
  co_candidate :: run_provenance

definition comparison_of ::
  "compare_env \<Rightarrow> ArtifactRef \<times> RunManifest \<times> evidence \<times> evidence \<Rightarrow> ArtifactRef \<times> RunManifest \<times> evidence \<times> evidence \<Rightarrow>
   (string \<times> latency_number) list \<Rightarrow> (string \<times> latency_number) list \<Rightarrow> comparison" where
  "comparison_of ce = (\<lambda>(bref, bm, blat, bq) (cref, cm, clat, cq) bars cars.
     let rows = latency_rows bars cars;
         taps = quality_rows (quality_of ce (payload_of bq)) (quality_of ce (payload_of cq))
     in \<lparr>co_identity = identity_of bm, co_meter = latency_meter (payload_of blat), co_by_ar = rows,
         co_covered_ars = map lr_ar (filter lr_comparable rows),
         co_uncomparable_ars = map lr_ar (filter (\<lambda>r. \<not> lr_comparable r) rows),
         co_by_tap = taps, co_worst_mover = (case taps of [] \<Rightarrow> None | r # _ \<Rightarrow> Some r),
         co_baseline = provenance_of bref bm blat bq, co_candidate = provenance_of cref cm clat cq\<rparr>)"

text \<open>What follows once both manifests and both latency reports are loaded.\<close>

definition compare_loaded ::
  "compare_env \<Rightarrow> ArtifactRef \<times> RunManifest \<Rightarrow> ArtifactRef \<times> RunManifest \<Rightarrow> evidence \<Rightarrow> evidence \<Rightarrow> (vstate, comparison) eff" where
  "compare_loaded ce = (\<lambda>(bref, bm) (cref, cm) blat clat.
     if identity_mismatches (identity_of bm) (identity_of cm) @
        meter_mismatches (latency_meter (payload_of blat)) (latency_meter (payload_of clat)) \<noteq> []
     then eff_raise compare_error
     else
       eff_bind (eff_lift (per_ar_latency ce (payload_of blat))) (\<lambda>bars.
       eff_bind (eff_lift (per_ar_latency ce (payload_of clat))) (\<lambda>cars.
       eff_bind (named_artifact ce bm ''sqnr_report'') (\<lambda>bq.
       eff_bind (named_artifact ce cm ''sqnr_report'') (\<lambda>cq.
       eff_return (comparison_of ce (bref, bm, blat, bq) (cref, cm, clat, cq) bars cars))))))"

definition compare_runs :: "compare_env \<Rightarrow> manifest_arg \<Rightarrow> manifest_arg \<Rightarrow> (vstate, comparison) eff" where
  "compare_runs ce baseline candidate =
     eff_bind (load_run_manifest ce baseline) (\<lambda>b.
     eff_bind (load_run_manifest ce candidate) (\<lambda>c.
     eff_bind (named_artifact ce (snd b) ''latency_report'') (\<lambda>blat.
     eff_bind (named_artifact ce (snd c) ''latency_report'') (\<lambda>clat.
     compare_loaded ce b c blat clat))))"

end
