(* ===== verification/CompareProps.thy ===== *)
theory CompareProps
  imports Compare ManifestGraph
begin

text \<open>
  A comparison is made of verified evidence of two runs that agree in everything the module says
  must agree, and covers every AR and tap of either run once; the meters of an aggregate report
  are the exception.
\<close>

section \<open>Evidence\<close>

text \<open>The manifest a reference denotes, and the report a run carries under a name.\<close>

definition arg_path :: "compare_env \<Rightarrow> manifest_arg \<Rightarrow> string" where
  "arg_path ce a = real_path_of ce (case a of RefArg r \<Rightarrow> ar_path r | PathArg p \<Rightarrow> p)"

definition run_at :: "compare_env \<Rightarrow> vstate \<Rightarrow> manifest_arg \<Rightarrow> RunManifest \<Rightarrow> string \<Rightarrow> bool" where
  "run_at ce st a m digest \<longleftrightarrow> (\<exists>f. file_at st (arg_path ce a) = Some f \<and>
     fm_sha256 (ce_formats ce) (fl_data f) = py_lower digest \<and> parse_manifest (ce_formats ce) (fl_data f) = Some m)"

definition carries :: "compare_env \<Rightarrow> vstate \<Rightarrow> RunManifest \<Rightarrow> string \<Rightarrow> evidence \<Rightarrow> bool" where
  "carries ce st m name e \<longleftrightarrow> (case e of
     None \<Rightarrow> Some name \<notin> ar_logical_name ` set (rm_artifacts m)
   | Some (ref, payload) \<Rightarrow> ref \<in> set (rm_artifacts m) \<and> ar_logical_name ref = Some name \<and> intact (ce_formats ce) st ref \<and>
       (\<exists>f. file_at st (ar_path ref) = Some f \<and> ce_parse ce (fl_data f) = Inr (JObj payload)))"

lemma load_path_manifest:
  assumes "load_manifest fm (PathArg p) (Some digest) s = (Val m, s')" "same_files fm st s"
  shows "same_files fm st s' \<and> (\<exists>f. file_at st p = Some f \<and> fm_sha256 fm (fl_data f) = py_lower digest \<and>
    parse_manifest fm (fl_data f) = Some m)"
proof -
  from assms(1) obtain ref s1 where ref: "coerce_manifest_ref (PathArg p) (Some digest) s = (Val ref, s1)"
    and rest: "eff_bind (verify_artifact fm ref) (\<lambda>_. read_manifest fm (ar_path ref)) s1 = (Val m, s')"
    unfolding load_manifest_def by (auto simp: eff_bind_Val eff_raise_iff split: if_splits)
  have s1: "s1 = s" using coerce_state [of "PathArg p" "Some digest" s] ref by simp
  from ref have "ar_path ref = p" "ar_sha256 ref = py_lower digest"
    by (auto simp: coerce_manifest_ref_def eff_lift_Val ArtifactRef_new_def res_simps require_def split: option.splits)
  moreover have "triple (same_files fm st) (eff_bind (verify_artifact fm ref) (\<lambda>_. read_manifest fm (ar_path ref)))
      (\<lambda>m s. same_files fm st s \<and> manifest_at fm st ref m) (same_files fm st)"
    by (rule artifacts.verify_then [OF read_same_files])
  from triple_Val [OF this assms(2)] rest s1 have "same_files fm st s'" "manifest_at fm st ref m" by blast+
  ultimately show ?thesis by (auto simp: manifest_at_def)
qed

lemma load_run_verified:
  assumes "load_run_manifest ce a s = (Val (ref, m), s')" "same_files (ce_formats ce) st s"
  shows "same_files (ce_formats ce) st s' \<and> run_at ce st a m (ar_sha256 ref)"
proof (cases a)
  case (RefArg r)
  with assms(1) have "load_manifest (ce_formats ce) (PathArg (arg_path ce a)) (Some (ar_sha256 r)) s = (Val m, s')" "ref = r"
    by (auto simp: load_run_manifest_def arg_path_def eff_bind_Val eff_return_iff)
  with load_path_manifest [OF this(1) assms(2)] show ?thesis by (simp add: run_at_def)
next
  case (PathArg p)
  with assms(1) obtain expected s1 where m: "load_manifest (ce_formats ce) (PathArg (arg_path ce a)) (Some expected) s = (Val m, s1)"
    and ref: "manifest_ref_of ce (arg_path ce a) s1 = Inr ref" "s' = s1"
    by (auto simp: load_run_manifest_def arg_path_def Let_def eff_bind_Val eff_return_iff eff_raise_iff eff_lift_Val
        split: option.splits)
  from load_path_manifest [OF m assms(2)] obtain f where same: "same_files (ce_formats ce) st s1"
    and f: "file_at st (arg_path ce a) = Some f" "fm_sha256 (ce_formats ce) (fl_data f) = py_lower expected"
      "parse_manifest (ce_formats ce) (fl_data f) = Some m" by blast
  have "file_at s1 (arg_path ce a) = Some f" using same f(1) by (simp add: same_files_at)
  with ref(1) have "ar_sha256 ref = py_lower (fm_sha256 (ce_formats ce) (fl_data f))"
    by (auto simp: manifest_ref_of_def ArtifactRef_new_def res_simps)
  with f same ref(2) show ?thesis by (simp add: run_at_def)
qed

lemma named_artifact_carried:
  assumes "named_artifact ce m name s = (Val e, s')" "same_files (ce_formats ce) st s"
  shows "same_files (ce_formats ce) st s' \<and> carries ce st m name e"
proof (cases "filter (\<lambda>a. ar_logical_name a = Some name) (rm_artifacts m)" rule: remdups_adj.cases)
  case 1
  with assms show ?thesis
    by (auto simp: named_artifact_def carries_def eff_return_iff filter_empty_conv)
next
  case (2 ref)
  with assms(1) obtain s1 payload where v: "verify_artifact (ce_formats ce) ref s = (Val (), s1)"
    and r: "read_report ce (ar_path ref) s1 = (Val payload, s')" and e: "e = Some (ref, payload)"
    by (auto simp: named_artifact_def eff_bind_Val eff_return_iff)
  from artifacts.verified [OF v assms(2)] have s1: "same_files (ce_formats ce) st s1" "intact (ce_formats ce) st ref" by blast+
  have "ref \<in> set (filter (\<lambda>a. ar_logical_name a = Some name) (rm_artifacts m))" using 2 by simp
  moreover from r s1(1) have "s' = s1" "\<exists>f. file_at st (ar_path ref) = Some f \<and> ce_parse ce (fl_data f) = Inr (JObj payload)"
    by (auto simp: read_report_def same_files_at as_obj_iff split: option.splits sum.splits)
  ultimately show ?thesis using s1 e by (simp add: carries_def)
next
  case (3 x y ys)
  with assms(1) show ?thesis by (simp add: named_artifact_def eff_raise_iff)
qed

lemma identity_mismatches_Nil: "identity_mismatches b c = [] \<longleftrightarrow> b = c"
  by (auto simp: identity_mismatches_def intro!: run_identity.equality)

lemma latency_row_fields [simp]:
  "lr_ar (latency_row_of k b a) = k"
  "lr_comparable (latency_row_of k b a) \<longleftrightarrow> b \<noteq> None \<and> a \<noteq> None"
  by (auto simp: latency_row_of_def Let_def split: option.splits)

text \<open>The difference of two numbers, when both are there.\<close>

definition change_us :: "latency_number option \<Rightarrow> latency_number option \<Rightarrow> real option" where
  "change_us b a = (case (b, a) of
     (Some x, Some y) \<Rightarrow> Some (ln_production_latency_us y - ln_production_latency_us x) | _ \<Rightarrow> None)"

lemma latency_row_delta: "lr_delta_us (latency_row_of k b a) = change_us b a"
  by (auto simp: latency_row_of_def change_us_def Let_def split: option.splits)

text \<open>The steps of a comparison that was published.\<close>

lemma compare_runs_steps:
  assumes "compare_runs ce baseline candidate st = (Val r, st')"
  obtains bref bm s1 cref cm s2 blat s3 clat s4 bars cars bq s5 cq where
    "load_run_manifest ce baseline st = (Val (bref, bm), s1)" "load_run_manifest ce candidate s1 = (Val (cref, cm), s2)"
    "named_artifact ce bm ''latency_report'' s2 = (Val blat, s3)" "named_artifact ce cm ''latency_report'' s3 = (Val clat, s4)"
    "identity_mismatches (identity_of bm) (identity_of cm) = []"
    "meter_mismatches (latency_meter (payload_of blat)) (latency_meter (payload_of clat)) = []"
    "per_ar_latency ce (payload_of blat) = Inr bars" "per_ar_latency ce (payload_of clat) = Inr cars"
    "named_artifact ce bm ''sqnr_report'' s4 = (Val bq, s5)" "named_artifact ce cm ''sqnr_report'' s5 = (Val cq, st')"
    "r = comparison_of ce (bref, bm, blat, bq) (cref, cm, clat, cq) bars cars"
proof -
  from assms obtain b s1 c s2 blat s3 clat s4 where loaded:
    "load_run_manifest ce baseline st = (Val b, s1)" "load_run_manifest ce candidate s1 = (Val c, s2)"
    "named_artifact ce (snd b) ''latency_report'' s2 = (Val blat, s3)"
    "named_artifact ce (snd c) ''latency_report'' s3 = (Val clat, s4)"
    and rest: "compare_loaded ce b c blat clat s4 = (Val r, st')"
    unfolding compare_runs_def eff_bind_Val by blast
  from rest obtain bars cars bq s5 cq where compared:
    "identity_mismatches (identity_of (snd b)) (identity_of (snd c)) = []"
    "meter_mismatches (latency_meter (payload_of blat)) (latency_meter (payload_of clat)) = []"
    "per_ar_latency ce (payload_of blat) = Inr bars" "per_ar_latency ce (payload_of clat) = Inr cars"
    "named_artifact ce (snd b) ''sqnr_report'' s4 = (Val bq, s5)" "named_artifact ce (snd c) ''sqnr_report'' s5 = (Val cq, st')"
    "r = comparison_of ce (fst b, snd b, blat, bq) (fst c, snd c, clat, cq) bars cars"
    by (cases b; cases c) (auto simp: compare_loaded_def eff_bind_Val eff_return_iff eff_raise_iff eff_lift_Val split: if_splits)
  show thesis
    by (rule that [of "fst b" "snd b" s1 "fst c" "snd c" s2 blat s3 clat s4 bars cars bq s5 cq])
      (simp_all only: prod.collapse loaded compared)
qed

text \<open>The rows of a comparison: one per AR of either run, covered where both have it.\<close>

lemma latency_rows_ids: "map lr_ar (latency_rows bars cars) = sorted_list_of_set (fst ` set bars \<union> fst ` set cars)"
proof -
  have "map lr_ar (latency_rows bars cars) = sort (dedup (map fst bars @ map fst cars))"
    unfolding latency_rows_def by (induction "sort (dedup (map fst bars @ map fst cars))") (simp_all add: comp_def)
  also have "\<dots> = sorted_list_of_set (set (map fst bars @ map fst cars))"
    by (rule sorted_distinct_set_unique) simp_all
  finally show ?thesis by simp
qed

lemma latency_rows_deltas:
  "list_all (\<lambda>row. lr_delta_us row = change_us (map_of bars (lr_ar row)) (map_of cars (lr_ar row))) (latency_rows bars cars)"
  by (simp add: latency_rows_def list_all_iff latency_row_delta)

lemma latency_rows_covered:
  "set (map lr_ar (filter lr_comparable (latency_rows bars cars))) = fst ` set bars \<inter> fst ` set cars"
  "set (map lr_ar (filter (\<lambda>r. \<not> lr_comparable r) (latency_rows bars cars))) =
    (fst ` set bars \<union> fst ` set cars) - (fst ` set bars \<inter> fst ` set cars)"
proof -
  have mem: "k \<in> fst ` set d \<longleftrightarrow> map_of d k \<noteq> None" for k and d :: "(string \<times> latency_number) list"
    by (simp add: map_of_eq_None_iff)
  have rows: "set (latency_rows bars cars) =
      (\<lambda>k. latency_row_of k (map_of bars k) (map_of cars k)) ` (fst ` set bars \<union> fst ` set cars)"
    by (simp add: latency_rows_def image_Un)
  have pick: "lr_ar ` {row \<in> R ` K. P row} = {k \<in> K. P (R k)}" if "\<And>k. lr_ar (R k) = k" for R P and K :: "string set"
    using that by (force simp: image_iff)
  show "set (map lr_ar (filter lr_comparable (latency_rows bars cars))) = fst ` set bars \<inter> fst ` set cars"
    "set (map lr_ar (filter (\<lambda>r. \<not> lr_comparable r) (latency_rows bars cars))) =
      (fst ` set bars \<union> fst ` set cars) - (fst ` set bars \<inter> fst ` set cars)"
    unfolding set_map set_filter rows
    by (subst pick, rule latency_row_fields(1), unfold latency_row_fields(2) mem [symmetric], blast)+
qed


text \<open>
  The meters of a report that aggregates several ARs are not compared: they are in the reports of
  the single ARs, and the aggregate has no block of its own.
\<close>

lemma aggregate_meters_not_compared:
  "json_get report ''device_execution'' = JNull \<Longrightarrow> meter_mismatches (latency_meter (Some report)) other = []"
  by (simp add: latency_meter_def latency_block_def meter_mismatches_def both_differ_def json_get_def)

section \<open>A comparison of two runs\<close>

definition cmp_sha256 :: "string \<Rightarrow> string" where
  "cmp_sha256 d = replicate 63 (CHR ''0'') @
     [if d = ''m'' then CHR ''1'' else if d = ''n'' then CHR ''2'' else if d = ''a'' then CHR ''3'' else CHR ''4'']"

definition cmp_ref :: "string \<Rightarrow> string \<Rightarrow> ArtifactKind \<Rightarrow> string \<Rightarrow> ArtifactRef" where
  "cmp_ref path data kind name = \<lparr>ar_path = path, ar_sha256 = cmp_sha256 data, ar_size_bytes = 1, ar_kind = kind,
     ar_media_type = ''application/json'', ar_logical_name = Some name\<rparr>"

definition cmp_manifest :: "string \<Rightarrow> RunManifest" where
  "cmp_manifest d = demo_manifest\<lparr>rm_artifacts := [cmp_ref (''/w/'' @ d) d AK_REPORT ''latency_report'']\<rparr>"

definition cmp_env :: compare_env where
  "cmp_env = \<lparr>ce_formats = \<lparr>fm_sha256 = cmp_sha256, fm_encode = (\<lambda>_. Inl validation_error),
       fm_decode = (\<lambda>d. if d = ''m'' then Some (cmp_manifest ''a'') else if d = ''n'' then Some (cmp_manifest ''b'') else None),
       fm_encode_spec = (\<lambda>_. Inl validation_error)\<rparr>,
     ce_cwd = ''/w'', ce_home = ''/h'', ce_media = (\<lambda>_. None),
     ce_parse = (\<lambda>d. Inr (JObj [(''device_execution'', JObj [(''us'', JStr d)]), (''runtime_binding'', JObj [(''ar'', JInt 1)])])),
     ce_block = (\<lambda>b. Inr \<lparr>de_available = None, de_meter = None, de_lane = None, de_scope = None,
       de_production_latency_us = Some (if json_get b ''us'' = JStr ''a'' then 100 else 120),
       de_production_latency_source = None, de_production_latency_cv_percent = None\<rparr>),
     ce_repr = (\<lambda>_. [])\<rparr>"

definition cmp_state :: vstate where
  "cmp_state = \<lparr>vs_files = map (\<lambda>d. (''/w/'' @ d, \<lparr>fl_data = d, fl_mtime = 1\<rparr>)) [''m'', ''n'', ''a'', ''b''],
     vs_verified = [], vs_full = 0, vs_cached = 0\<rparr>"

definition cmp_arg :: "string \<Rightarrow> manifest_arg" where
  "cmp_arg d = RefArg (cmp_ref (''/w/'' @ d) d AK_MANIFEST ''run-manifest-r0'')"

lemma cmp_runs:
  "(case fst (compare_runs cmp_env (cmp_arg ''m'') (cmp_arg ''n'') cmp_state) of
      Val r \<Rightarrow> co_covered_ars r = [''1''] \<and> map lr_delta_us (co_by_ar r) = [Some 20] | _ \<Rightarrow> False)"
  by code_simp


section \<open>The worst mover\<close>

definition finite_sqnr :: "quality_row \<Rightarrow> bool" where
  "finite_sqnr row \<longleftrightarrow> (case qr_delta_sqnr_db row of None \<Rightarrow> True | Some d \<Rightarrow> isfinite d)"

lemma set_worst_first [simp]: "set (worst_first rows) = set rows"
  by (simp add: worst_first_def)

interpretation by_sqnr_drop: sort_order row_less finite_sqnr
  by unfold_locales
    (auto simp: row_less_def finite_sqnr_def isfinite_def split: option.splits pyfloat.splits)

text \<open>Without infinities and NaNs the largest SQNR drop comes first, the taps without a delta last.\<close>

lemma worst_first_sorted:
  "list_all finite_sqnr rows \<Longrightarrow> sorted_wrt (\<lambda>x y. \<not> row_less y x) (worst_first rows)"
  by (simp add: worst_first_def by_sqnr_drop.sorted_sort)

end
