(* ===== verification/Profiles.thy ===== *)
theory Profiles
  imports FamilyRegistry SplitPlan PyValues "HOL-Library.List_Lexorder" "HOL-Library.Char_ord"
begin

text \<open>
  \<open>src/qairt_agent/families/profiles.py\<close> and \<open>families/config.py\<close>: the decoder profiles, the
  family a Hugging Face configuration implies, its confrontation with a declared family, and the
  build configuration generated from it. A configuration is a JSON value; reading a field of a
  value that is no mapping gives the default, as \<open>getattr\<close> does. \<open>repr\<close> is the text of a float,
  a list or a dict, \<open>canonical\<close> and \<open>sha256\<close> the serialization and the digest of the standard
  library.
\<close>

section \<open>Profiles\<close>

datatype FamilyId = ID_QWEN3_DENSE | ID_QWEN3_MOE | ID_QWEN3_VL | ID_QWEN3_5 | ID_QWEN3_5_OMNI

fun family_id_value :: "FamilyId \<Rightarrow> string" where
  "family_id_value ID_QWEN3_DENSE = ''qwen3''"
| "family_id_value ID_QWEN3_MOE = ''qwen3-moe''"
| "family_id_value ID_QWEN3_VL = ''qwen3-vl''"
| "family_id_value ID_QWEN3_5 = ''qwen3.5''"
| "family_id_value ID_QWEN3_5_OMNI = ''qwen3.5-omni''"

datatype AutoArPolicy = AR_SUPPORTED | AR_EXPERIMENTAL_FAIL_CLOSED

datatype QairtFactorySupport = EXPLICIT | GENERIC_FALLBACK

record MhaStartPointSpec =
  mh_output_name_regex :: string
  mh_axis :: int
  mh_split_map :: "(int \<times> int) list option"

definition start_point_json :: "MhaStartPointSpec \<Rightarrow> json" where
  "start_point_json p = JList [JStr (mh_output_name_regex p), JInt (mh_axis p),
     (case mh_split_map p of
        None \<Rightarrow> JNull
      | Some [] \<Rightarrow> JNull
      | Some m \<Rightarrow> JObj (map (\<lambda>(k, v). (int_str k, JInt v)) m))]"

definition start_point_fingerprint :: "(json \<Rightarrow> string) \<Rightarrow> (string \<Rightarrow> string) \<Rightarrow> MhaStartPointSpec list \<Rightarrow> string" where
  "start_point_fingerprint canonical sha256 points = sha256 (canonical (JList (map start_point_json points)))"

record SdkStartPointSource =
  sd_module :: string
  sd_qualname :: string
  sd_reviewed_sha256 :: string

record FamilyProfile =
  pf_family :: FamilyId
  pf_architecture_names :: "string list"
  pf_model_type_names :: "string list"
  pf_aliases :: "string list"
  pf_factory_support :: QairtFactorySupport
  pf_auto_ar_policy :: AutoArPolicy
  pf_is_moe :: bool
  pf_is_multimodal :: bool
  pf_is_hybrid_attention :: bool
  pf_config_container :: "string option"
  pf_sdk_mha_start_points :: "SdkStartPointSource option"

definition experimental_auto_ar :: "FamilyProfile \<Rightarrow> bool" where
  "experimental_auto_ar p \<longleftrightarrow> pf_auto_ar_policy p = AR_EXPERIMENTAL_FAIL_CLOSED"

definition QWEN3_DENSE_PROFILE :: FamilyProfile where
  "QWEN3_DENSE_PROFILE = \<lparr>pf_family = ID_QWEN3_DENSE, pf_architecture_names = [''Qwen3ForCausalLM''],
     pf_model_type_names = [''qwen3''], pf_aliases = aliases_for_profile ''qwen3'',
     pf_factory_support = GENERIC_FALLBACK, pf_auto_ar_policy = AR_SUPPORTED, pf_is_moe = False,
     pf_is_multimodal = False, pf_is_hybrid_attention = False, pf_config_container = None,
     pf_sdk_mha_start_points = None\<rparr>"

definition QWEN3_MOE_PROFILE :: FamilyProfile where
  "QWEN3_MOE_PROFILE = \<lparr>pf_family = ID_QWEN3_MOE, pf_architecture_names = [''Qwen3MoeForCausalLM''],
     pf_model_type_names = [''qwen3_moe'', ''qwen3-moe''], pf_aliases = aliases_for_profile ''qwen3-moe'',
     pf_factory_support = EXPLICIT, pf_auto_ar_policy = AR_SUPPORTED, pf_is_moe = True,
     pf_is_multimodal = False, pf_is_hybrid_attention = False, pf_config_container = None,
     pf_sdk_mha_start_points = None\<rparr>"

definition QWEN3_VL_PROFILE :: FamilyProfile where
  "QWEN3_VL_PROFILE = \<lparr>pf_family = ID_QWEN3_VL,
     pf_architecture_names = [''Qwen3VLForConditionalGeneration'', ''Qwen3VLModel''],
     pf_model_type_names = [''qwen3_vl'', ''qwen3-vl''], pf_aliases = aliases_for_profile ''qwen3-vl'',
     pf_factory_support = GENERIC_FALLBACK, pf_auto_ar_policy = AR_SUPPORTED, pf_is_moe = False,
     pf_is_multimodal = True, pf_is_hybrid_attention = False, pf_config_container = Some ''text_config'',
     pf_sdk_mha_start_points = None\<rparr>"

definition QWEN3_5_START_POINTS :: SdkStartPointSource where
  "QWEN3_5_START_POINTS = \<lparr>sd_module = ''qairt.gen_ai_api.builders.qwen.builder'',
     sd_qualname = ''Qwen3_5BuilderHTP._QWEN3_5_START_POINTS'',
     sd_reviewed_sha256 = ''e6276e42e66ae5826d91e552709ff99371d03b87624d4c3315898627923ea960''\<rparr>"

definition QWEN3_5_PROFILE :: FamilyProfile where
  "QWEN3_5_PROFILE = \<lparr>pf_family = ID_QWEN3_5,
     pf_architecture_names = [''Qwen3_5ForConditionalGeneration'', ''Qwen3_5ForCausalLM'',
       ''Qwen3_5OmniThinkerForConditionalGeneration'', ''Qwen3_5OmniThinkerModel''],
     pf_model_type_names = [''qwen3_5'', ''qwen3.5'', ''qwen3_5_text'', ''qwen3_5_omni_thinker''],
     pf_aliases = aliases_for_profile ''qwen3.5'',
     pf_factory_support = EXPLICIT, pf_auto_ar_policy = AR_EXPERIMENTAL_FAIL_CLOSED, pf_is_moe = False,
     pf_is_multimodal = False, pf_is_hybrid_attention = True, pf_config_container = None,
     pf_sdk_mha_start_points = Some QWEN3_5_START_POINTS\<rparr>"

definition QWEN3_5_OMNI_PROFILE :: FamilyProfile where
  "QWEN3_5_OMNI_PROFILE = \<lparr>pf_family = ID_QWEN3_5_OMNI,
     pf_architecture_names = [''Qwen3OmniForConditionalGeneration''],
     pf_model_type_names = [''qwen3_omni'', ''qwen3.5_omni'', ''qwen3_5_omni''],
     pf_aliases = aliases_for_profile ''qwen3.5-omni'',
     pf_factory_support = EXPLICIT, pf_auto_ar_policy = AR_EXPERIMENTAL_FAIL_CLOSED, pf_is_moe = False,
     pf_is_multimodal = True, pf_is_hybrid_attention = True, pf_config_container = Some ''text_config'',
     pf_sdk_mha_start_points = Some QWEN3_5_START_POINTS\<rparr>"

definition FAMILY_PROFILES :: "FamilyProfile list" where
  "FAMILY_PROFILES = [QWEN3_DENSE_PROFILE, QWEN3_MOE_PROFILE, QWEN3_VL_PROFILE, QWEN3_5_PROFILE, QWEN3_5_OMNI_PROFILE]"

definition normalized :: "string \<Rightarrow> string" where
  "normalized v = py_replace_char (CHR ''_'') (CHR ''-'') (py_lower (py_strip v))"

text \<open>A family is named by its member of the enumeration or by a text.\<close>

datatype family_name = ById FamilyId | ByText string

definition declared_text :: "family_name \<Rightarrow> string" where
  "declared_text f = (case f of ById i \<Rightarrow> family_id_value i | ByText s \<Rightarrow> s)"

definition profile_names :: "FamilyProfile \<Rightarrow> string list" where
  "profile_names p = normalized (family_id_value (pf_family p)) # map normalized (pf_aliases p)"

definition get_family_profile :: "family_name \<Rightarrow> exn + FamilyProfile" where
  "get_family_profile family = (case family of
     ById i \<Rightarrow> (case List.find (\<lambda>p. pf_family p = i) FAMILY_PROFILES of None \<Rightarrow> Inl key_error | Some p \<Rightarrow> Inr p)
   | ByText s \<Rightarrow> (case List.find (\<lambda>p. normalized s \<in> set (profile_names p)) FAMILY_PROFILES of
       None \<Rightarrow> Inl value_error | Some p \<Rightarrow> Inr p))"

section \<open>The family a configuration implies\<close>

definition read_field :: "json \<Rightarrow> string \<Rightarrow> json \<Rightarrow> json" where
  "read_field value key fallback = (case as_obj value of None \<Rightarrow> fallback | Some d \<Rightarrow> json_get_or d key fallback)"

text \<open>The names \<open>architectures\<close> declares: nothing, one text, or what iterating it gives.\<close>

definition architecture_texts :: "(json \<Rightarrow> string) \<Rightarrow> json \<Rightarrow> exn + string list" where
  "architecture_texts repr config = (let v = read_field config ''architectures'' (JList []) in
     if \<not> py_truthy v then Inr [] else case v of JStr s \<Rightarrow> Inr [s] | _ \<Rightarrow> py_strs repr v)"

definition model_type_texts :: "(json \<Rightarrow> string) \<Rightarrow> json \<Rightarrow> string list" where
  "model_type_texts repr config = (let v = read_field config ''model_type'' JNull in
     if py_truthy v then [py_str repr v] else [])"

text \<open>The architectures and model types, of the outer level and of \<open>text_config\<close>, each once.\<close>

definition config_identity :: "(json \<Rightarrow> string) \<Rightarrow> json \<Rightarrow> exn + string list \<times> string list" where
  "config_identity repr config =
     bind_res (architecture_texts repr config) (\<lambda>outer.
     let text_config = read_field config ''text_config'' JNull in
     if text_config = JNull then Inr (dedup outer, dedup (model_type_texts repr config))
     else bind_res (architecture_texts repr text_config) (\<lambda>nested.
       Inr (dedup (outer @ nested), dedup (model_type_texts repr config @ model_type_texts repr text_config))))"

definition by_architecture :: "string list \<Rightarrow> FamilyProfile option" where
  "by_architecture names = List.find (\<lambda>p. set names \<inter> set (pf_architecture_names p) \<noteq> {}) FAMILY_PROFILES"

definition by_model_type :: "string list \<Rightarrow> FamilyProfile option" where
  "by_model_type names = List.find (\<lambda>p. set names \<inter> set (pf_model_type_names p) \<noteq> {}) FAMILY_PROFILES"

definition resolve_family_profile :: "(json \<Rightarrow> string) \<Rightarrow> json \<Rightarrow> family_name option \<Rightarrow> exn + FamilyProfile" where
  "resolve_family_profile repr config family = (case family of
     Some f \<Rightarrow> get_family_profile f
   | None \<Rightarrow> bind_res (config_identity repr config) (\<lambda>(architectures, model_types).
       case by_architecture architectures of
         Some p \<Rightarrow> Inr p
       | None \<Rightarrow> (case by_model_type model_types of Some p \<Rightarrow> Inr p | None \<Rightarrow> Inl value_error)))"

section \<open>Confronting a declared family\<close>

datatype FamilyCrossCheckStatus =
  AGREES | SILENT | UNKNOWN_ARCHITECTURE | MODEL_TYPE_DISAGREES | CONTRADICTS | NO_PROFILE

record FamilyCrossCheck =
  cc_status :: FamilyCrossCheckStatus
  cc_declared_family :: string
  cc_architectures :: "string list"
  cc_model_types :: "string list"
  cc_implied_family :: "string option"
  cc_config_path :: "string option"

definition contradicts :: "FamilyCrossCheck \<Rightarrow> bool" where
  "contradicts c \<longleftrightarrow> cc_status c = CONTRADICTS"

definition is_warning :: "FamilyCrossCheck \<Rightarrow> bool" where
  "is_warning c \<longleftrightarrow> cc_status c \<in> {UNKNOWN_ARCHITECTURE, MODEL_TYPE_DISAGREES}"

definition cross_check_to_dict :: "FamilyCrossCheck \<Rightarrow> (string \<times> json) list" where
  "cross_check_to_dict c =
     [(''status'', JStr (case cc_status c of
         AGREES \<Rightarrow> ''agrees'' | SILENT \<Rightarrow> ''silent'' | UNKNOWN_ARCHITECTURE \<Rightarrow> ''unknown_architecture''
       | MODEL_TYPE_DISAGREES \<Rightarrow> ''model_type_disagrees'' | CONTRADICTS \<Rightarrow> ''contradicts'' | NO_PROFILE \<Rightarrow> ''no_profile'')),
      (''declared_family'', JStr (cc_declared_family c)),
      (''architectures'', JList (map JStr (cc_architectures c))),
      (''model_types'', JList (map JStr (cc_model_types c)))] @
     (case cc_implied_family c of None \<Rightarrow> [] | Some f \<Rightarrow> [(''implied_family'', JStr f)]) @
     (case cc_config_path c of None \<Rightarrow> [] | Some p \<Rightarrow> [(''config_path'', JStr p)])"

text \<open>The verdict on the names, and the family they imply where it is another one.\<close>

definition family_verdict ::
  "FamilyProfile \<Rightarrow> string list \<Rightarrow> string list \<Rightarrow> FamilyCrossCheckStatus \<times> string option" where
  "family_verdict declared architectures model_types =
     (if architectures = [] \<and> model_types = [] then (SILENT, None)
      else case by_architecture architectures of
        Some p \<Rightarrow> if pf_family p = pf_family declared then (AGREES, None)
                 else (CONTRADICTS, Some (family_id_value (pf_family p)))
      | None \<Rightarrow> (case by_model_type model_types of
          Some p \<Rightarrow> if pf_family p = pf_family declared then (AGREES, None)
                   else (MODEL_TYPE_DISAGREES, Some (family_id_value (pf_family p)))
        | None \<Rightarrow> (UNKNOWN_ARCHITECTURE, None)))"

definition cross_check_declared_family ::
  "(json \<Rightarrow> string) \<Rightarrow> json \<Rightarrow> family_name \<Rightarrow> string option \<Rightarrow> exn + FamilyCrossCheck" where
  "cross_check_declared_family repr config family config_path =
     (case get_family_profile family of
        Inl _ \<Rightarrow> Inr \<lparr>cc_status = NO_PROFILE, cc_declared_family = declared_text family, cc_architectures = [],
          cc_model_types = [], cc_implied_family = None, cc_config_path = config_path\<rparr>
      | Inr declared \<Rightarrow> bind_res (config_identity repr config) (\<lambda>(architectures, model_types).
          let (status, implied) = family_verdict declared architectures model_types
          in Inr \<lparr>cc_status = status, cc_declared_family = declared_text family, cc_architectures = sort architectures,
            cc_model_types = sort model_types, cc_implied_family = implied, cc_config_path = config_path\<rparr>))"

text \<open>The labels of the sources a build may share weights between.\<close>

definition validate_weight_sharing_sources :: "family_name \<Rightarrow> string list \<Rightarrow> exn + unit" where
  "validate_weight_sharing_sources profile source_kinds =
     bind_res (get_family_profile profile) (\<lambda>_.
       ensure (list_all (\<lambda>k. py_lower (py_strip k) \<in> {''base'', ''derived'', ''attached''}) source_kinds) value_error)"

section \<open>The generated configuration\<close>

text \<open>The first of the fields that is there and not null.\<close>

fun first_field :: "json \<Rightarrow> string list \<Rightarrow> json \<Rightarrow> json" where
  "first_field value [] fallback = fallback"
| "first_field value (key # keys) fallback =
     (let candidate = read_field value key JNull in if candidate \<noteq> JNull then candidate else first_field value keys fallback)"

datatype config_warning = AutoArExperimental | NoExplicitBuilder

record GeneratedFamilyConfig =
  gc_profile :: FamilyProfile
  gc_architecture :: string
  gc_model_type :: string
  gc_hidden_size :: int
  gc_num_hidden_layers :: int
  gc_num_attention_heads :: int
  gc_num_key_value_heads :: int
  gc_head_dim :: int
  gc_context_length :: int
  gc_vocab_size :: "int option"
  gc_num_experts :: "int option"
  gc_ar_values :: "int list"
  gc_split_plan :: SplitPlan
  gc_source_config_container :: "string option"
  gc_warnings :: "config_warning list"

definition native_kv_head_shape :: "GeneratedFamilyConfig \<Rightarrow> int \<times> int" where
  "native_kv_head_shape g = (gc_num_key_value_heads g, gc_head_dim g)"

definition zero_division_error :: exn where
  "zero_division_error = PyExn ''ZeroDivisionError'' []"

text \<open>The decoder's part of the configuration: the container the profile names, or all of it.\<close>

definition decoder_config :: "FamilyProfile \<Rightarrow> json \<Rightarrow> exn + json" where
  "decoder_config profile config = (case pf_config_container profile of
     None \<Rightarrow> Inr config
   | Some container \<Rightarrow> (let nested = read_field config container JNull in
       if nested = JNull then Inl value_error else Inr nested))"

text \<open>\<open>architectures[0]\<close>: a mapping has no key 0, a number no items.\<close>

definition first_item :: "json \<Rightarrow> exn + json" where
  "first_item v = (case v of JList (x # _) \<Rightarrow> Inr x | JObj _ \<Rightarrow> Inl key_error | _ \<Rightarrow> Inl type_error)"

definition architecture_of :: "(json \<Rightarrow> string) \<Rightarrow> FamilyProfile \<Rightarrow> json \<Rightarrow> json \<Rightarrow> exn + string" where
  "architecture_of repr profile config source =
     (let outer = read_field config ''architectures'' (JList []);
          architectures = (if py_truthy outer then outer else read_field source ''architectures'' (JList []))
      in case architectures of
           JStr s \<Rightarrow> Inr s
         | _ \<Rightarrow> if py_truthy architectures then bind_res (first_item architectures) (\<lambda>x. Inr (py_str repr x))
               else Inr (hd (pf_architecture_names profile)))"

text \<open>The width of a head, given or the hidden size divided exactly among the heads.\<close>

definition head_dim_of :: "json \<Rightarrow> int \<Rightarrow> int \<Rightarrow> exn + int" where
  "head_dim_of source hidden_size num_heads = (let explicit = first_field source [''head_dim''] JNull in
     if explicit = JNull then
       (if num_heads = 0 then Inl zero_division_error
        else bind_res (ensure (hidden_size mod num_heads = 0) value_error) (\<lambda>_. Inr (hidden_size div num_heads)))
     else py_int explicit)"

definition optional_int :: "json \<Rightarrow> exn + int option" where
  "optional_int v = (if v = JNull then Inr None else bind_res (py_int v) (\<lambda>i. Inr (Some i)))"

definition config_warnings :: "FamilyProfile \<Rightarrow> int list \<Rightarrow> config_warning list" where
  "config_warnings profile ars =
     (if experimental_auto_ar profile \<and> 1 < length ars then [AutoArExperimental] else []) @
     (if pf_factory_support profile = GENERIC_FALLBACK then [NoExplicitBuilder] else [])"

definition generate ::
  "(json \<Rightarrow> string) \<Rightarrow> json \<Rightarrow> family_name option \<Rightarrow> int list \<Rightarrow> int option \<Rightarrow> int \<Rightarrow> bool \<Rightarrow> bool \<Rightarrow> exn + GeneratedFamilyConfig" where
  "generate repr config family ar_values context_length decoder_slices split_embedding split_lm_head =
     bind_res (resolve_family_profile repr config family) (\<lambda>profile.
     bind_res (decoder_config profile config) (\<lambda>source.
     bind_res (architecture_of repr profile config source) (\<lambda>architecture.
     let model_type = py_str repr (first_field config [''model_type''] (read_field source ''model_type'' (JStr []))) in
     bind_res (py_int (first_field source [''hidden_size'', ''d_model''] JNull)) (\<lambda>hidden_size.
     bind_res (py_int (first_field source [''num_hidden_layers'', ''n_layer'', ''num_layers''] JNull)) (\<lambda>num_layers.
     bind_res (py_int (first_field source [''num_attention_heads'', ''n_head''] JNull)) (\<lambda>num_heads.
     bind_res (py_int (first_field source [''num_key_value_heads'', ''num_kv_heads''] (JInt num_heads))) (\<lambda>num_kv_heads.
     bind_res (head_dim_of source hidden_size num_heads) (\<lambda>head_dim.
     bind_res (ensure (ar_values \<noteq> [] \<and> list_all (\<lambda>a. 0 < a) ar_values) value_error) (\<lambda>_.
     bind_res (ensure (distinct ar_values) value_error) (\<lambda>_.
     bind_res (case context_length of Some c \<Rightarrow> Inr c
         | None \<Rightarrow> py_int (first_field source [''max_position_embeddings'', ''seq_length'', ''context_length''] (JInt 4096))) (\<lambda>resolved_context.
     bind_res (ensure (0 < resolved_context) value_error) (\<lambda>_.
     bind_res (optional_int (first_field source [''vocab_size''] JNull)) (\<lambda>vocab_size.
     bind_res (optional_int (first_field source [''num_experts'', ''num_local_experts''] JNull)) (\<lambda>num_experts.
     bind_res (build_split_plan num_layers decoder_slices split_embedding split_lm_head) (\<lambda>split_plan.
     Inr \<lparr>gc_profile = profile, gc_architecture = architecture, gc_model_type = model_type, gc_hidden_size = hidden_size,
       gc_num_hidden_layers = num_layers, gc_num_attention_heads = num_heads, gc_num_key_value_heads = num_kv_heads,
       gc_head_dim = head_dim, gc_context_length = resolved_context, gc_vocab_size = vocab_size,
       gc_num_experts = num_experts, gc_ar_values = ar_values, gc_split_plan = split_plan,
       gc_source_config_container = pf_config_container profile, gc_warnings = config_warnings profile ar_values\<rparr>)))))))))))))))"

end
