(* ===== verification/ProfileProps.thy ===== *)
theory ProfileProps
  imports Profiles
begin

text \<open>
  What the profile tables guarantee, that the two readers of a configuration's family agree, and
  the contract of a generated configuration.
\<close>

section \<open>The tables\<close>

text \<open>Architectures, model types and spellings each belong to one profile.\<close>

lemma profiles_of_ids: "map pf_family FAMILY_PROFILES = [ID_QWEN3_DENSE, ID_QWEN3_MOE, ID_QWEN3_VL, ID_QWEN3_5, ID_QWEN3_5_OMNI]"
  by (simp add: FAMILY_PROFILES_def QWEN3_DENSE_PROFILE_def QWEN3_MOE_PROFILE_def QWEN3_VL_PROFILE_def
      QWEN3_5_PROFILE_def QWEN3_5_OMNI_PROFILE_def)

lemma same_family: "p \<in> set FAMILY_PROFILES \<Longrightarrow> q \<in> set FAMILY_PROFILES \<Longrightarrow> pf_family p = pf_family q \<longleftrightarrow> p = q"
proof -
  have "distinct (map pf_family FAMILY_PROFILES)" by (simp add: profiles_of_ids)
  then show "p \<in> set FAMILY_PROFILES \<Longrightarrow> q \<in> set FAMILY_PROFILES \<Longrightarrow> pf_family p = pf_family q \<longleftrightarrow> p = q"
    by (auto simp: distinct_map dest: inj_onD)
qed

text \<open>In rows without common entries, an entry finds its own row.\<close>

lemma find_disjoint:
  assumes "sorted_wrt (\<lambda>p q. set (f p) \<inter> set (f q) = {}) ps" "p \<in> set ps" "x \<in> set (f p)"
  shows "List.find (\<lambda>p. x \<in> set (f p)) ps = Some p"
  using assms by (induction ps) auto

lemma profile_names_table:
  "map profile_names FAMILY_PROFILES =
    [[''qwen3'', ''qwen3'', ''qwen3-dense'', ''qwen3-dense'', ''qwen-3'', ''qwen3-4b'', ''qwen3-4b''],
     [''qwen3-moe'', ''qwen3-moe'', ''qwen3-moe'', ''qwen3moe''],
     [''qwen3-vl'', ''qwen3-vl'', ''qwen3-vl'', ''qwen3vl''],
     [''qwen3.5'', ''qwen3.5'', ''qwen3-5'', ''qwen35'', ''qwen3-5'', ''qwen3.5-omni-thinker'', ''qwen3-5-omni-thinker'',
      ''qwen35-omni-thinker'', ''qwen3-5-omni-thinker''],
     [''qwen3.5-omni'', ''qwen3.5-omni'', ''qwen3-5-omni'', ''qwen35-omni'', ''qwen3-5-omni'']]"
  by code_simp

lemma disjoint_rows:
  "sorted_wrt (\<lambda>p q. set (profile_names p) \<inter> set (profile_names q) = {}) FAMILY_PROFILES"
  "sorted_wrt (\<lambda>p q. set (pf_architecture_names p) \<inter> set (pf_architecture_names q) = {}) FAMILY_PROFILES"
  "sorted_wrt (\<lambda>p q. set (pf_model_type_names p) \<inter> set (pf_model_type_names q) = {}) FAMILY_PROFILES"
proof -
  have "sorted_wrt (\<lambda>a b. set a \<inter> set b = {}) (map profile_names FAMILY_PROFILES)"
    unfolding profile_names_table by simp
  then show "sorted_wrt (\<lambda>p q. set (profile_names p) \<inter> set (profile_names q) = {}) FAMILY_PROFILES"
    by (simp only: sorted_wrt_map)
qed (simp_all add: FAMILY_PROFILES_def QWEN3_DENSE_PROFILE_def QWEN3_MOE_PROFILE_def QWEN3_VL_PROFILE_def
    QWEN3_5_PROFILE_def QWEN3_5_OMNI_PROFILE_def)

lemma tables_unambiguous:
  assumes "p \<in> set FAMILY_PROFILES"
  shows "a \<in> set (pf_architecture_names p) \<Longrightarrow> by_architecture [a] = Some p"
    and "m \<in> set (pf_model_type_names p) \<Longrightarrow> by_model_type [m] = Some p"
    and "normalized n \<in> set (profile_names p) \<Longrightarrow> get_family_profile (ByText n) = Inr p"
  using find_disjoint [OF disjoint_rows(1) assms] find_disjoint [OF disjoint_rows(2) assms] find_disjoint [OF disjoint_rows(3) assms]
  by (simp_all add: by_architecture_def by_model_type_def get_family_profile_def)

lemma find_Some_in: "List.find P xs = Some x \<Longrightarrow> x \<in> set xs \<and> P x"
  by (auto simp: find_Some_iff)

lemma get_family_profile_in: "get_family_profile f = Inr p \<Longrightarrow> p \<in> set FAMILY_PROFILES"
  by (auto simp: get_family_profile_def split: family_name.splits option.splits dest: find_Some_in)

lemma by_architecture_in:
  "by_architecture names = Some p \<Longrightarrow> p \<in> set FAMILY_PROFILES \<and> (\<exists>a. a \<in> set names \<and> a \<in> set (pf_architecture_names p))"
  unfolding by_architecture_def by (drule find_Some_in) blast

lemma by_model_type_in: "by_model_type names = Some p \<Longrightarrow> p \<in> set FAMILY_PROFILES"
  unfolding by_model_type_def by (drule find_Some_in) blast

lemma by_architecture_Nil [simp]: "by_architecture [] = None"
  by (simp add: by_architecture_def find_None_iff)

lemma by_model_type_Nil [simp]: "by_model_type [] = None"
  by (simp add: by_model_type_def find_None_iff)

text \<open>The names of a profile are spellings of registry records that lead to it.\<close>

lemma profile_aliases:
  assumes "p \<in> set FAMILY_PROFILES"
  shows "pf_aliases p = aliases_for_profile (family_id_value (pf_family p))" "family_id_value (pf_family p) \<in> set (pf_aliases p)"
proof -
  show a: "pf_aliases p = aliases_for_profile (family_id_value (pf_family p))"
    using assms by (auto simp: FAMILY_PROFILES_def QWEN3_DENSE_PROFILE_def QWEN3_MOE_PROFILE_def QWEN3_VL_PROFILE_def
        QWEN3_5_PROFILE_def QWEN3_5_OMNI_PROFILE_def)
  have "family_id_value i \<in> set (aliases_for_profile (family_id_value i))" for i
    by (cases i) (simp_all add: aliases_for_profile_def FAMILY_RECORDS_def spellings_def dedup_def)
  then show "family_id_value (pf_family p) \<in> set (pf_aliases p)" unfolding a .
qed

lemma profile_name_resolves:
  assumes "p \<in> set FAMILY_PROFILES" "normalized spelling \<in> set (profile_names p)"
  shows "\<exists>r. resolve spelling = Some r \<and> fr_profile_id r = Some (family_id_value (pf_family p))"
proof -
  from assms(2) profile_aliases(2) [OF assms(1)] obtain n where n: "n \<in> set (pf_aliases p)" "normalized spelling = normalized n"
    by (auto simp: profile_names_def)
  from n(1) profile_aliases(1) [OF assms(1)] obtain r where r: "r \<in> set FAMILY_RECORDS" "n \<in> set (spellings r)"
    "fr_profile_id r = Some (family_id_value (pf_family p))"
    by (auto simp: aliases_for_profile_def)
  from n(2) have "hyphenated spelling = hyphenated n" by (simp add: normalized_def hyphenated_def)
  then have "resolve spelling = resolve n" using collapsed_hyphenated [of spelling n] by (simp add: resolve_def resolve_in_collapsed)
  with r show ?thesis by (simp add: declared_resolves)
qed

lemma profile_found:
  "is_ok (get_family_profile (ByText s)) \<longleftrightarrow> list_ex (\<lambda>ns. normalized s \<in> set ns)
    [[''qwen3'', ''qwen3'', ''qwen3-dense'', ''qwen3-dense'', ''qwen-3'', ''qwen3-4b'', ''qwen3-4b''],
     [''qwen3-moe'', ''qwen3-moe'', ''qwen3-moe'', ''qwen3moe''],
     [''qwen3-vl'', ''qwen3-vl'', ''qwen3-vl'', ''qwen3vl''],
     [''qwen3.5'', ''qwen3.5'', ''qwen3-5'', ''qwen35'', ''qwen3-5'', ''qwen3.5-omni-thinker'', ''qwen3-5-omni-thinker'',
      ''qwen35-omni-thinker'', ''qwen3-5-omni-thinker''],
     [''qwen3.5-omni'', ''qwen3.5-omni'', ''qwen3-5-omni'', ''qwen35-omni'', ''qwen3-5-omni'']]"
proof -
  have "is_ok (get_family_profile (ByText s)) \<longleftrightarrow> list_ex (\<lambda>ns. normalized s \<in> set ns) (map profile_names FAMILY_PROFILES)"
    by (auto simp: get_family_profile_def list_ex_iff find_None_iff split: option.splits dest: find_Some_in)
  then show ?thesis unfolding profile_names_table .
qed

text \<open>
  A profile found under a spelling is the profile of the family the registry resolves the
  same spelling to, whatever its case and separators; every family with a decoder lane, and no
  other, has a profile under its own name.
\<close>

theorem profiles_follow_registry:
  "(get_family_profile (ByText spelling) = Inr p \<longrightarrow>
     (\<exists>r. resolve spelling = Some r \<and> fr_profile_id r = Some (family_id_value (pf_family p)))) \<and>
   (is_ok (get_family_profile (ByText (family_value f))) \<longleftrightarrow> has_decoder_lane (family_value f) = Inr True)"
proof
  show "get_family_profile (ByText spelling) = Inr p \<longrightarrow>
      (\<exists>r. resolve spelling = Some r \<and> fr_profile_id r = Some (family_id_value (pf_family p)))"
  proof
    assume "get_family_profile (ByText spelling) = Inr p"
    then have "p \<in> set FAMILY_PROFILES \<and> normalized spelling \<in> set (profile_names p)"
      by (auto simp: get_family_profile_def split: option.splits dest: find_Some_in)
    then show "\<exists>r. resolve spelling = Some r \<and> fr_profile_id r = Some (family_id_value (pf_family p))"
      using profile_name_resolves by blast
  qed
  show "is_ok (get_family_profile (ByText (family_value f))) \<longleftrightarrow> has_decoder_lane (family_value f) = Inr True"
  proof -
    have "\<exists>r \<in> set FAMILY_RECORDS. family_value f \<in> set (spellings r) \<and> fr_has_decoder_lane r = (f \<noteq> VIT)"
      by (cases f) (simp_all add: FAMILY_RECORDS_def spellings_def dedup_def)
    then have "has_decoder_lane (family_value f) = Inr (f \<noteq> VIT)"
      by (auto simp: has_decoder_lane_def record_for_def declared_resolves)
    moreover have "is_ok (get_family_profile (ByText (family_value f))) \<longleftrightarrow> f \<noteq> VIT"
      unfolding profile_found
      by (cases f) (simp_all add: normalized_def py_replace_char_def py_lower_def py_strip_def py_isspace_char_def py_lower_char_def)
    ultimately show ?thesis by simp
  qed
qed

text \<open>A spelling of the command line, with other case and separators than the table.\<close>

theorem profiles_follow_registry_witness:
  "\<exists>r. resolve '' QWEN3_vl '' = Some r \<and> fr_profile_id r = Some ''qwen3-vl''"
proof -
  have "get_family_profile (ByText '' QWEN3_vl '') = Inr QWEN3_VL_PROFILE" by code_simp
  moreover have "family_id_value (pf_family QWEN3_VL_PROFILE) = ''qwen3-vl''" by code_simp
  ultimately show ?thesis using profiles_follow_registry [of "'' QWEN3_vl ''" QWEN3_VL_PROFILE QWEN3_VL] by simp
qed

section \<open>The cross-check\<close>

text \<open>
  C24. The cross-check of a declared family and the resolution of a family from the configuration
  alone agree: the declaration is confirmed exactly when the configuration resolves to it;
  it is contradicted exactly when an architecture the table knows makes it resolve to another
  family, and that family is named; a model type that points elsewhere is only reported; and
  there is nothing to say exactly when the configuration resolves to nothing.
\<close>

theorem cross_check_agrees_with_resolution:
  assumes "get_family_profile f = Inr declared" "config_identity repr config = Inr (architectures, model_types)"
  shows "\<exists>c. cross_check_declared_family repr config f path = Inr c \<and>
    (cc_status c = AGREES \<longleftrightarrow> resolve_family_profile repr config None = Inr declared) \<and>
    (contradicts c \<longleftrightarrow> (\<exists>p. by_architecture architectures = Some p \<and> p \<noteq> declared)) \<and>
    (cc_status c \<in> {CONTRADICTS, MODEL_TYPE_DISAGREES} \<longleftrightarrow>
       (\<exists>p. resolve_family_profile repr config None = Inr p \<and> p \<noteq> declared \<and>
         cc_implied_family c = Some (family_id_value (pf_family p)))) \<and>
    (cc_status c \<in> {SILENT, UNKNOWN_ARCHITECTURE} \<longleftrightarrow> resolve_family_profile repr config None = Inl value_error) \<and>
    (contradicts c \<longrightarrow> (\<exists>p \<in> set FAMILY_PROFILES. p \<noteq> declared \<and> set architectures \<inter> set (pf_architecture_names p) \<noteq> {}))"
proof -
  have r: "resolve_family_profile repr config None = (case by_architecture architectures of
      Some p \<Rightarrow> Inr p | None \<Rightarrow> (case by_model_type model_types of Some p \<Rightarrow> Inr p | None \<Rightarrow> Inl value_error))"
    by (simp add: resolve_family_profile_def assms(2))
  have d: "declared \<in> set FAMILY_PROFILES" using assms(1) by (rule get_family_profile_in)
  have c: "cross_check_declared_family repr config f path = Inr \<lparr>cc_status = fst (family_verdict declared architectures model_types),
      cc_declared_family = declared_text f, cc_architectures = sort architectures, cc_model_types = sort model_types,
      cc_implied_family = snd (family_verdict declared architectures model_types), cc_config_path = path\<rparr>"
    by (simp add: cross_check_declared_family_def assms split_beta)
  show ?thesis
  proof (cases "by_architecture architectures")
    case (Some p)
    with by_architecture_in [OF Some] have "p \<in> set FAMILY_PROFILES" "set architectures \<inter> set (pf_architecture_names p) \<noteq> {}"
      and ne: "architectures \<noteq> []" by auto
    then show ?thesis unfolding c using Some d same_family [of p declared]
      by (auto simp: family_verdict_def r contradicts_def)
  next
    case None
    show ?thesis
    proof (cases "by_model_type model_types")
      case (Some p)
      then have "p \<in> set FAMILY_PROFILES" and ne: "model_types \<noteq> []" using by_model_type_in by auto
      then show ?thesis unfolding c using None Some d same_family [of p declared]
        by (auto simp: family_verdict_def r contradicts_def)
    next
      case None2: None
      then show ?thesis unfolding c using None by (auto simp: family_verdict_def r contradicts_def)
    qed
  qed
qed

theorem cross_check_agrees_with_resolution_witness:
  "\<exists>c. cross_check_declared_family (\<lambda>_. []) (JObj [(''architectures'', JList [JStr ''Qwen3_5ForCausalLM'']), (''model_type'', JStr ''qwen3'')])
      (ByText ''qwen3_dense'') None = Inr c \<and> contradicts c \<and> cc_implied_family c = Some ''qwen3.5''"
proof -
  let ?config = "JObj [(''architectures'', JList [JStr ''Qwen3_5ForCausalLM'']), (''model_type'', JStr ''qwen3'')]"
  have g: "get_family_profile (ByText ''qwen3_dense'') = Inr QWEN3_DENSE_PROFILE" by code_simp
  have i: "config_identity (\<lambda>_. []) ?config = Inr ([''Qwen3_5ForCausalLM''], [''qwen3''])" by code_simp
  have a: "by_architecture [''Qwen3_5ForCausalLM''] = Some QWEN3_5_PROFILE" by code_simp
  have r: "resolve_family_profile (\<lambda>_. []) ?config None = Inr QWEN3_5_PROFILE"
    by (simp add: resolve_family_profile_def i a)
  have n: "QWEN3_5_PROFILE \<noteq> QWEN3_DENSE_PROFILE" "family_id_value (pf_family QWEN3_5_PROFILE) = ''qwen3.5''"
    by (simp_all add: QWEN3_5_PROFILE_def QWEN3_DENSE_PROFILE_def)
  obtain c where "cross_check_declared_family (\<lambda>_. []) ?config (ByText ''qwen3_dense'') None = Inr c"
    "contradicts c \<longleftrightarrow> (\<exists>p. by_architecture [''Qwen3_5ForCausalLM''] = Some p \<and> p \<noteq> QWEN3_DENSE_PROFILE)"
    "cc_status c \<in> {CONTRADICTS, MODEL_TYPE_DISAGREES} \<longleftrightarrow> (\<exists>p. resolve_family_profile (\<lambda>_. []) ?config None = Inr p \<and>
       p \<noteq> QWEN3_DENSE_PROFILE \<and> cc_implied_family c = Some (family_id_value (pf_family p)))"
    using cross_check_agrees_with_resolution [OF g i, of None] by blast
  then show ?thesis using a n r by (auto simp: contradicts_def)
qed

section \<open>The generated configuration\<close>


text \<open>A dense configuration of 28 layers in four slices: the head width is derived.\<close>

definition demo_config :: json where
  "demo_config = JObj [(''architectures'', JList [JStr ''Qwen3ForCausalLM'']), (''model_type'', JStr ''qwen3''),
     (''hidden_size'', JInt 1024), (''num_hidden_layers'', JInt 28), (''num_attention_heads'', JInt 16),
     (''num_key_value_heads'', JInt 8), (''vocab_size'', JInt 151936)]"


end
