(* ===== verification/Harness.thy ===== *)
theory Harness
  imports Adb Paths PyValues "HOL-Library.List_Lexorder" "HOL-Library.Char_ord"
begin

text \<open>
  \<open>src/qairt_agent/harness.py\<close>: the versioned compatibility constraints, the registry of reviewed
  targets beside them, and the gate that refuses a target no hardware run has proven. Files are
  texts by path (no empty directories, no unreadable files); the JSON parser is the parameter
  \<open>he_parse\<close>, where \<open>None\<close> is a \<open>JSONDecodeError\<close>. The packaged locations, the home and working
  directories and the environment are fields of \<open>harness_env\<close>; the active constraints path (a
  context variable) is passed explicitly.
\<close>

section \<open>Surroundings\<close>

record harness_env =
  he_parse :: "string \<Rightarrow> json option"
  he_repr :: "json \<Rightarrow> string"
  he_source_tree :: string
  he_bundled :: string
  he_home :: string
  he_cwd :: string
  he_constraints_var :: "string option"
  he_acceptance_var :: "string option"

type_synonym texts = "(string \<times> string) list"

definition harness_error :: exn where
  "harness_error = agent_exn InvalidSpecError (Some ''harness'') False"

text \<open>\<open>Path(p).expanduser().resolve()\<close>\<close>

definition harness_path :: "harness_env \<Rightarrow> string \<Rightarrow> string" where
  "harness_path he p = resolve_path (he_cwd he) (expanduser (he_home he) p)"

definition dir_prefix :: "string \<Rightarrow> string" where
  "dir_prefix d = (if d = ''/'' then d else d @ ''/'')"

definition in_directory :: "string \<Rightarrow> string \<Rightarrow> string" where
  "in_directory d n = dir_prefix d @ n"

definition is_directory :: "texts \<Rightarrow> string \<Rightarrow> bool" where
  "is_directory fs d \<longleftrightarrow> list_ex (\<lambda>(p, _). py_startswith p (dir_prefix d)) fs"

text \<open>\<open>sorted(directory.glob("*.json"))\<close>, as names.\<close>

definition json_names :: "texts \<Rightarrow> string \<Rightarrow> string list" where
  "json_names fs d = sort (dedup (filter (\<lambda>n. CHR ''/'' \<notin> set n \<and> py_endswith n ''.json'')
     (map (\<lambda>(p, _). drop (length (dir_prefix d)) p) (filter (\<lambda>(p, _). py_startswith p (dir_prefix d)) fs))))"

section \<open>Reading a document\<close>

definition require_mapping :: "json \<Rightarrow> exn + (string \<times> json) list" where
  "require_mapping value = (case as_obj value of None \<Rightarrow> Inl harness_error | Some d \<Rightarrow> Inr d)"

definition require_string :: "(string \<times> json) list \<Rightarrow> string \<Rightarrow> exn + string" where
  "require_string section key = (case json_get section key of
     JStr s \<Rightarrow> if py_strip s = [] then Inl harness_error else Inr (py_strip s)
   | _ \<Rightarrow> Inl harness_error)"

definition require_int :: "(string \<times> json) list \<Rightarrow> string \<Rightarrow> exn + int" where
  "require_int section key = (case json_get section key of JInt i \<Rightarrow> Inr i | _ \<Rightarrow> Inl harness_error)"

text \<open>\<open>v == 1\<close>: also for a float or a bool.\<close>

fun equals_one :: "json \<Rightarrow> bool" where
  "equals_one (JInt i) = (i = 1)"
| "equals_one (JFloat f) = (f = Fin 1)"
| "equals_one (JBool b) = b"
| "equals_one _ = False"

text \<open>
  The first \<open>major.minor.patch\<close> of a text: three digit runs with dots between them, neither
  preceded nor followed by another digit.
\<close>

definition version_at :: "string \<Rightarrow> (nat \<times> nat \<times> nat) option" where
  "version_at s =
     (let major = takeWhile py_isdigit_char s; r1 = dropWhile py_isdigit_char s;
          minor = takeWhile py_isdigit_char (tl r1); r2 = dropWhile py_isdigit_char (tl r1);
          patch = takeWhile py_isdigit_char (tl r2)
      in if major \<noteq> [] \<and> py_startswith r1 ''.'' \<and> minor \<noteq> [] \<and> py_startswith r2 ''.'' \<and> patch \<noteq> []
         then Some (undec major, undec minor, undec patch) else None)"

fun search_version :: "bool \<Rightarrow> string \<Rightarrow> (nat \<times> nat \<times> nat) option" where
  "search_version after_digit [] = None"
| "search_version after_digit (c # cs) =
     (case (if after_digit then None else version_at (c # cs)) of
        Some v \<Rightarrow> Some v | None \<Rightarrow> search_version (py_isdigit_char c) cs)"

definition parse_version :: "string \<Rightarrow> (nat \<times> nat \<times> nat) option" where
  "parse_version value = search_version False value"

section \<open>Constraints\<close>

record HarnessConstraints =
  hc_source_path :: string
  hc_schema_version :: int
  hc_qairt_version :: string
  hc_qairt_build_id :: string
  hc_ubuntu_version :: string
  hc_python_version :: string
  hc_platform :: string
  hc_worker_image :: string
  hc_dockerfile :: string
  hc_dependencies_file :: string
  hc_torch_version :: string
  hc_torch_index_url :: string
  hc_apple_container_version :: string
  hc_apple_container_host_alias :: string
  hc_docker_minimum_version :: string
  hc_docker_host_alias :: string
  hc_target_name :: string

definition targets_dir :: "HarnessConstraints \<Rightarrow> string" where
  "targets_dir c = in_directory (path_parent (hc_source_path c)) ''targets''"

definition python_version_tuple :: "HarnessConstraints \<Rightarrow> exn + nat \<times> nat" where
  "python_version_tuple c = (case py_split (CHR ''.'') (hc_python_version c) of
     [major, minor] \<Rightarrow> if py_isdigit major \<and> py_isdigit minor then Inr (undec major, undec minor) else Inl harness_error
   | _ \<Rightarrow> Inl harness_error)"

text \<open>\<open>platform.partition("/")\<close>: what follows the first slash.\<close>

definition platform_arch :: "HarnessConstraints \<Rightarrow> exn + string" where
  "platform_arch c = (let p = hc_platform c; os_name = takeWhile (\<lambda>x. x \<noteq> CHR ''/'') p;
     arch = tl (dropWhile (\<lambda>x. x \<noteq> CHR ''/'') p)
   in if os_name = ''linux'' \<and> CHR ''/'' \<in> set p \<and> arch \<noteq> [] then Inr arch else Inl harness_error)"

definition checked_constraints :: "HarnessConstraints \<Rightarrow> exn + HarnessConstraints" where
  "checked_constraints c =
     bind_res (python_version_tuple c) (\<lambda>_.
     bind_res (platform_arch c) (\<lambda>_.
     bind_res (ensure (list_all (\<lambda>v. parse_version v \<noteq> None)
        [hc_qairt_version c, hc_apple_container_version c, hc_docker_minimum_version c, hc_torch_version c]) harness_error) (\<lambda>_.
     Inr c)))"

text \<open>The texts of a document, in the order they are required.\<close>

definition document_texts :: "(string \<times> json) list \<Rightarrow> exn + string list" where
  "document_texts document =
     bind_res (require_mapping (json_get document ''qairt'')) (\<lambda>qairt.
     bind_res (require_mapping (json_get document ''worker'')) (\<lambda>worker.
     bind_res (require_mapping (json_get document ''runtime_cli'')) (\<lambda>runtime_cli.
     bind_res (require_mapping (json_get runtime_cli ''apple_container'')) (\<lambda>apple.
     bind_res (require_mapping (json_get runtime_cli ''docker'')) (\<lambda>docker.
     bind_res (require_mapping (json_get document ''target'')) (\<lambda>target.
     map_res (\<lambda>(section, key). require_string section key)
       [(qairt, ''version''), (qairt, ''build_id''), (worker, ''ubuntu_version''), (worker, ''python_version''),
        (worker, ''platform''), (worker, ''image''), (worker, ''dockerfile''), (worker, ''dependencies_file''),
        (worker, ''torch_version''), (worker, ''torch_index_url''), (apple, ''version''), (apple, ''host_alias''),
        (docker, ''minimum_version''), (docker, ''host_alias''), (target, ''name'')]))))))"

definition constraints_of :: "string \<Rightarrow> string list \<Rightarrow> HarnessConstraints" where
  "constraints_of source_path texts = \<lparr>hc_source_path = source_path, hc_schema_version = 1,
     hc_qairt_version = texts ! 0, hc_qairt_build_id = texts ! 1, hc_ubuntu_version = texts ! 2,
     hc_python_version = texts ! 3, hc_platform = texts ! 4, hc_worker_image = texts ! 5, hc_dockerfile = texts ! 6,
     hc_dependencies_file = texts ! 7, hc_torch_version = texts ! 8, hc_torch_index_url = texts ! 9,
     hc_apple_container_version = texts ! 10, hc_apple_container_host_alias = texts ! 11,
     hc_docker_minimum_version = texts ! 12, hc_docker_host_alias = texts ! 13, hc_target_name = texts ! 14\<rparr>"

definition HarnessConstraints_from_dict :: "(string \<times> json) list \<Rightarrow> string \<Rightarrow> exn + HarnessConstraints" where
  "HarnessConstraints_from_dict document source_path =
     bind_res (ensure (equals_one (json_get document ''schema_version'')) harness_error) (\<lambda>_.
     bind_res (document_texts document) (\<lambda>texts. checked_constraints (constraints_of source_path texts)))"

definition default_constraints_path :: "harness_env \<Rightarrow> texts \<Rightarrow> string" where
  "default_constraints_path he fs = (if map_of fs (he_source_tree he) \<noteq> None then he_source_tree he else he_bundled he)"

text \<open>\<open>path or the active one or the environment's\<close>, the first that is not empty.\<close>

definition selected_path :: "harness_env \<Rightarrow> string option \<Rightarrow> string option \<Rightarrow> string option" where
  "selected_path he active path = List.find (\<lambda>p. p \<noteq> [])
     (List.map_filter id [path, active, he_constraints_var he])"

definition read_mapping :: "harness_env \<Rightarrow> texts \<Rightarrow> string \<Rightarrow> exn + (string \<times> json) list" where
  "read_mapping he fs p = (case map_of fs p of
     None \<Rightarrow> Inl harness_error
   | Some t \<Rightarrow> (case he_parse he t of None \<Rightarrow> Inl harness_error | Some v \<Rightarrow> require_mapping v))"

definition load_harness_constraints ::
  "harness_env \<Rightarrow> texts \<Rightarrow> string option \<Rightarrow> string option \<Rightarrow> exn + HarnessConstraints" where
  "load_harness_constraints he fs active path =
     (let resolved = harness_path he (case selected_path he active path of
            Some p \<Rightarrow> p | None \<Rightarrow> default_constraints_path he fs)
      in bind_res (read_mapping he fs resolved) (\<lambda>document. HarnessConstraints_from_dict document resolved))"

text \<open>
  The context manager: the project's constraints are active for the body, and whatever the body
  does, the previous ones are active again after it.
\<close>

definition use_harness_constraints ::
  "harness_env \<Rightarrow> texts \<Rightarrow> string \<Rightarrow> (HarnessConstraints \<Rightarrow> (string option \<times> 'w, 'a) eff) \<Rightarrow> (string option \<times> 'w, 'a) eff" where
  "use_harness_constraints he fs path body = (\<lambda>(active, w).
     let resolved = harness_path he path
     in case load_harness_constraints he fs active (Some resolved) of
          Inl e \<Rightarrow> (Exc e, (active, w))
        | Inr constraints \<Rightarrow> (case body constraints (Some resolved, w) of (r, (_, w')) \<Rightarrow> (r, (active, w'))))"

section \<open>Installing the defaults\<close>

definition default_targets_dir :: "harness_env \<Rightarrow> texts \<Rightarrow> string" where
  "default_targets_dir he fs = in_directory (path_parent (default_constraints_path he fs)) ''targets''"

text \<open>\<open>shutil.copyfile\<close> of an existing file.\<close>

definition copy_file :: "string \<Rightarrow> string \<Rightarrow> texts \<Rightarrow> texts" where
  "copy_file src dst fs = (case map_of fs src of None \<Rightarrow> fs | Some t \<Rightarrow> dict_set dst t fs)"

fun copy_missing :: "string \<Rightarrow> string \<Rightarrow> string list \<Rightarrow> texts \<Rightarrow> texts" where
  "copy_missing src dst [] fs = fs"
| "copy_missing src dst (n # ns) fs = copy_missing src dst ns
     (if map_of fs (in_directory dst n) \<noteq> None then fs else copy_file (in_directory src n) (in_directory dst n) fs)"

definition install_default_constraints :: "harness_env \<Rightarrow> string \<Rightarrow> texts \<Rightarrow> exn + string \<times> texts" where
  "install_default_constraints he target fs =
     (let destination = harness_path he target;
          registry_source = default_targets_dir he fs;
          registry_destination = in_directory (path_parent destination) ''targets'';
          fs1 = (if is_directory fs registry_source
                 then copy_missing registry_source registry_destination (json_names fs registry_source) fs else fs)
      in if map_of fs1 destination \<noteq> None then Inr (destination, fs1)
         else if map_of fs1 (default_constraints_path he fs1) = None then Inl (PyExn ''FileNotFoundError'' [])
         else Inr (destination, copy_file (default_constraints_path he fs1) destination fs1))"

section \<open>Targets\<close>

definition py_upper :: "string \<Rightarrow> string" where
  "py_upper s = map (\<lambda>c. if 97 \<le> (of_char c :: nat) \<and> (of_char c :: nat) \<le> 122 then char_of ((of_char c :: nat) - 32) else c) s"

definition target_matches :: "TargetEntry \<Rightarrow> string \<Rightarrow> string \<Rightarrow> int \<Rightarrow> bool" where
  "target_matches e chipset dsp_arch soc_model \<longleftrightarrow> py_upper chipset = py_upper (te_chipset e) \<and>
     py_lower dsp_arch = py_lower (te_dsp_arch e) \<and> soc_model = te_soc_model e"

text \<open>The SoC identifiers: one integer (a bool is one) or a list of them.\<close>

definition soc_ids_of :: "(string \<times> json) list \<Rightarrow> exn + json list" where
  "soc_ids_of document = (case json_get_or document ''soc_id'' (JList []) of
     JInt i \<Rightarrow> Inr [JInt i] | JBool b \<Rightarrow> Inr [JBool b] | JList l \<Rightarrow> Inr l | _ \<Rightarrow> Inl harness_error)"

definition TargetEntry_from_dict :: "harness_env \<Rightarrow> (string \<times> json) list \<Rightarrow> string \<Rightarrow> exn + TargetEntry" where
  "TargetEntry_from_dict he document source_path =
     bind_res (ensure (equals_one (json_get document ''schema_version'')) harness_error) (\<lambda>_.
     bind_res (soc_ids_of document) (\<lambda>raw_soc_id.
     let verified = json_get document ''verified'' in
     bind_res (ensure (verified = JNull \<or> as_obj verified \<noteq> None) harness_error) (\<lambda>_.
     bind_res (require_string document ''name'') (\<lambda>name.
     bind_res (require_string document ''chipset'') (\<lambda>chipset.
     bind_res (require_string document ''dsp_arch'') (\<lambda>dsp_arch.
     bind_res (require_int document ''soc_model'') (\<lambda>soc_model.
     bind_res (map_res py_int raw_soc_id) (\<lambda>soc_id.
     bind_res (py_strs (he_repr he) (json_get_or document ''notes'' (JList []))) (\<lambda>notes.
     Inr \<lparr>te_source_path = source_path, te_name = name, te_chipset = chipset, te_dsp_arch = dsp_arch,
       te_soc_model = soc_model, te_soc_id = soc_id, te_notes = notes, te_verified = as_obj verified\<rparr>)))))))))"

fun load_entries ::
  "harness_env \<Rightarrow> texts \<Rightarrow> string \<Rightarrow> (string \<times> TargetEntry) list \<Rightarrow> string list \<Rightarrow> exn + (string \<times> TargetEntry) list" where
  "load_entries he fs d registry [] = Inr registry"
| "load_entries he fs d registry (n # ns) =
     bind_res (read_mapping he fs (in_directory d n)) (\<lambda>document.
     bind_res (TargetEntry_from_dict he document (in_directory d n)) (\<lambda>entry.
     bind_res (ensure (te_name entry = path_stem (in_directory d n)) harness_error) (\<lambda>_.
     bind_res (ensure (te_name entry \<notin> fst ` set registry) harness_error) (\<lambda>_.
     load_entries he fs d (dict_set (te_name entry) entry registry) ns))))"

definition load_target_registry :: "harness_env \<Rightarrow> texts \<Rightarrow> HarnessConstraints \<Rightarrow> exn + (string \<times> TargetEntry) list" where
  "load_target_registry he fs constraints = (let d = targets_dir constraints in
     bind_res (ensure (is_directory fs d) harness_error) (\<lambda>_.
     bind_res (load_entries he fs d [] (json_names fs d)) (\<lambda>registry.
     bind_res (ensure (registry \<noteq> []) harness_error) (\<lambda>_. Inr registry))))"

definition selected_target :: "HarnessConstraints \<Rightarrow> string option \<Rightarrow> string" where
  "selected_target constraints name = py_lower (py_strip (case name of
     Some n \<Rightarrow> if n = [] then hc_target_name constraints else n | None \<Rightarrow> hc_target_name constraints))"

definition resolve_target :: "harness_env \<Rightarrow> texts \<Rightarrow> HarnessConstraints \<Rightarrow> string option \<Rightarrow> exn + TargetEntry" where
  "resolve_target he fs constraints name =
     bind_res (load_target_registry he fs constraints) (\<lambda>registry.
     case map_of registry (selected_target constraints name) of None \<Rightarrow> Inl harness_error | Some e \<Rightarrow> Inr e)"

definition resolve_target_tuple ::
  "harness_env \<Rightarrow> texts \<Rightarrow> HarnessConstraints \<Rightarrow> string \<Rightarrow> string \<Rightarrow> int \<Rightarrow> exn + TargetEntry" where
  "resolve_target_tuple he fs constraints chipset dsp_arch soc_model =
     bind_res (load_target_registry he fs constraints) (\<lambda>registry.
     case List.find (\<lambda>e. target_matches e chipset dsp_arch soc_model) (map snd registry) of
       None \<Rightarrow> Inl harness_error | Some e \<Rightarrow> Inr e)"

definition acceptance_target_name :: "harness_env \<Rightarrow> string option" where
  "acceptance_target_name he = (let value = py_lower (py_strip (case he_acceptance_var he of None \<Rightarrow> [] | Some v \<Rightarrow> v))
     in if value = [] then None else Some value)"

definition require_verified_target :: "harness_env \<Rightarrow> TargetEntry \<Rightarrow> exn + TargetEntry" where
  "require_verified_target he entry =
     (if te_verified entry \<noteq> None then Inr entry
      else if acceptance_target_name he = Some (te_name entry) then Inr entry
      else Inl harness_error)"

end
