(* ===== verification/HarnessProps.thy ===== *)
theory HarnessProps
  imports Harness
begin

text \<open>
  What the harness guarantees: the version a text contains, the registry as a picture of its
  directory, the resolution of a target without fallback, the gate on hardware evidence, and a
  freshly installed project that sees the same registry.
\<close>

section \<open>Versions\<close>

definition is_version :: "string \<Rightarrow> nat \<times> nat \<times> nat \<Rightarrow> bool" where
  "is_version rest v \<longleftrightarrow> (\<exists>major minor patch post. rest = major @ ''.'' @ minor @ ''.'' @ patch @ post \<and>
     py_isdigit major \<and> py_isdigit minor \<and> py_isdigit patch \<and> (post = [] \<or> \<not> py_isdigit_char (hd post)) \<and>
     v = (undec major, undec minor, undec patch))"

lemma span_digits:
  "py_isdigit d \<Longrightarrow> r = [] \<or> \<not> py_isdigit_char (hd r) \<Longrightarrow>
   takeWhile py_isdigit_char (d @ r) = d \<and> dropWhile py_isdigit_char (d @ r) = r"
  by (cases r) (auto simp: py_isdigit_def list_all_iff takeWhile_append dropWhile_append)

lemma dot_no_digit [simp]: "\<not> py_isdigit_char (CHR ''.'')"
  by (simp add: py_isdigit_char_def)

lemma takeWhile_digits: "takeWhile py_isdigit_char s \<noteq> [] \<Longrightarrow> py_isdigit (takeWhile py_isdigit_char s)"
  by (auto simp: py_isdigit_def list_all_iff dest: set_takeWhileD)

lemma version_at_iff: "version_at s = Some v \<longleftrightarrow> is_version s v"
proof
  assume v: "version_at s = Some v"
  define major r1 where m: "major = takeWhile py_isdigit_char s" "r1 = dropWhile py_isdigit_char s"
  define minor r2 where n: "minor = takeWhile py_isdigit_char (tl r1)" "r2 = dropWhile py_isdigit_char (tl r1)"
  define patch post where p: "patch = takeWhile py_isdigit_char (tl r2)" "post = dropWhile py_isdigit_char (tl r2)"
  from v have c: "major \<noteq> []" "py_startswith r1 ''.''" "minor \<noteq> []" "py_startswith r2 ''.''" "patch \<noteq> []"
    "v = (undec major, undec minor, undec patch)"
    by (auto simp: version_at_def Let_def m n p split: if_splits)
  have r: "r1 = CHR ''.'' # tl r1" "r2 = CHR ''.'' # tl r2" using c(2,4) by (auto simp: py_startswith_iff)
  have "s = major @ r1" "tl r1 = minor @ r2" "tl r2 = patch @ post" by (simp_all add: m n p)
  then have "s = major @ ''.'' @ minor @ ''.'' @ patch @ post" using r by (metis append_Cons append_Nil)
  moreover have "post = [] \<or> \<not> py_isdigit_char (hd post)" unfolding p by (metis hd_dropWhile)
  moreover have "py_isdigit major" "py_isdigit minor" "py_isdigit patch"
    using c takeWhile_digits unfolding m n p by blast+
  ultimately show "is_version s v" unfolding is_version_def using c(6) by blast
next
  assume "is_version s v"
  then obtain major minor patch post where s: "s = major @ ''.'' @ minor @ ''.'' @ patch @ post"
    and d: "py_isdigit major" "py_isdigit minor" "py_isdigit patch" "post = [] \<or> \<not> py_isdigit_char (hd post)"
    and v: "v = (undec major, undec minor, undec patch)"
    unfolding is_version_def by blast
  have a: "takeWhile py_isdigit_char s = major \<and> dropWhile py_isdigit_char s = ''.'' @ minor @ ''.'' @ patch @ post"
    unfolding s by (rule span_digits) (use d in simp_all)
  have b: "takeWhile py_isdigit_char (minor @ ''.'' @ patch @ post) = minor \<and>
      dropWhile py_isdigit_char (minor @ ''.'' @ patch @ post) = ''.'' @ patch @ post"
    by (rule span_digits) (use d in simp_all)
  have e: "takeWhile py_isdigit_char (patch @ post) = patch" using span_digits [OF d(3,4)] by simp
  show "version_at s = Some v"
    using a b e d v by (simp add: version_at_def py_isdigit_def py_startswith_iff)
qed

text \<open>Where a version may start: not right after a digit.\<close>

definition boundary :: "bool \<Rightarrow> string \<Rightarrow> bool" where
  "boundary after_digit pre \<longleftrightarrow> (if pre = [] then \<not> after_digit else \<not> py_isdigit_char (last pre))"

lemma boundary_Cons: "boundary b (c # pre) \<longleftrightarrow> boundary (py_isdigit_char c) pre"
  by (simp add: boundary_def)

text \<open>The first place of a text that reads as a version.\<close>

definition first_version :: "bool \<Rightarrow> string \<Rightarrow> nat \<times> nat \<times> nat \<Rightarrow> string \<Rightarrow> string \<Rightarrow> bool" where
  "first_version b s v pre rest \<longleftrightarrow> s = pre @ rest \<and> boundary b pre \<and> is_version rest v \<and>
     (\<forall>pre' rest'. s = pre' @ rest' \<and> boundary b pre' \<and> length pre' < length pre \<longrightarrow> (\<forall>v'. \<not> is_version rest' v'))"

lemma first_version_here:
  assumes "boundary b []" "is_version s w"
  shows "first_version b s v pre rest \<longleftrightarrow> pre = [] \<and> rest = s \<and> v = w"
proof
  assume f: "first_version b s v pre rest"
  with assms have "pre = []" unfolding first_version_def by (metis append_Nil length_greater_0_conv list.size(3))
  with f assms(2) show "pre = [] \<and> rest = s \<and> v = w" by (auto simp: first_version_def version_at_iff [symmetric])
qed (use assms in \<open>simp add: first_version_def\<close>)

lemma first_version_later:
  assumes no: "\<And>w. \<not> (boundary b [] \<and> is_version (c # cs) w)"
  shows "first_version b (c # cs) v pre rest \<longleftrightarrow> (\<exists>q. pre = c # q \<and> first_version (py_isdigit_char c) cs v q rest)"
proof
  assume f: "first_version b (c # cs) v pre rest"
  with no obtain q where q: "pre = c # q" "cs = q @ rest" by (cases pre) (auto simp: first_version_def)
  have "\<not> is_version rest' v'" if "cs = pre' @ rest' \<and> boundary (py_isdigit_char c) pre' \<and> length pre' < length q" for pre' rest' v'
  proof -
    from that q have "c # cs = (c # pre') @ rest' \<and> boundary b (c # pre') \<and> length (c # pre') < length pre" by (simp add: boundary_Cons)
    with f show ?thesis unfolding first_version_def by blast
  qed
  with f q show "\<exists>q. pre = c # q \<and> first_version (py_isdigit_char c) cs v q rest"
    by (auto simp: first_version_def boundary_Cons)
next
  assume "\<exists>q. pre = c # q \<and> first_version (py_isdigit_char c) cs v q rest"
  then obtain q where q: "pre = c # q" and f: "first_version (py_isdigit_char c) cs v q rest" by blast
  have "\<not> is_version rest' v'" if a: "c # cs = pre' @ rest' \<and> boundary b pre' \<and> length pre' < length pre" for pre' rest' v'
  proof (cases pre')
    case Nil
    with a no show ?thesis by auto
  next
    case (Cons x r)
    with a q have "cs = r @ rest' \<and> boundary (py_isdigit_char c) r \<and> length r < length q" by (simp add: boundary_Cons)
    with f show ?thesis unfolding first_version_def by blast
  qed
  with f q show "first_version b (c # cs) v pre rest" by (auto simp: first_version_def boundary_Cons)
qed

lemma search_version_iff: "search_version b s = Some v \<longleftrightarrow> (\<exists>pre rest. first_version b s v pre rest)"
proof (induction b s rule: search_version.induct)
  case (1 b)
  show ?case by (auto simp: first_version_def is_version_def py_isdigit_def)
next
  case (2 b c cs)
  show ?case
  proof (cases "if b then None else version_at (c # cs)")
    case (Some w)
    then have "boundary b []" "is_version (c # cs) w" by (auto simp: boundary_def version_at_iff split: if_splits)
    with Some first_version_here [OF this] show ?thesis by auto
  next
    case None
    then have "\<not> (boundary b [] \<and> is_version (c # cs) w)" for w
      by (auto simp: boundary_def version_at_iff [symmetric] split: if_splits)
    from first_version_later [OF this] "2.IH" [OF None] None show ?thesis by auto
  qed
qed

text \<open>
  The version read from a text is its first one: three runs of digits separated by dots, not
  inside a longer run on either side; every earlier place where a version could start has none.
\<close>

theorem first_version_parsed:
  "parse_version text = Some v \<longleftrightarrow> (\<exists>pre rest. text = pre @ rest \<and> boundary False pre \<and> is_version rest v \<and>
     (\<forall>pre' rest'. text = pre' @ rest' \<and> boundary False pre' \<and> length pre' < length pre \<longrightarrow> (\<forall>v'. \<not> is_version rest' v')))"
  unfolding parse_version_def search_version_iff first_version_def ..

theorem first_version_parsed_witness: "parse_version ''v2.49.0.260730'' = Some (2, 49, 0)"
proof -
  have "is_version ''2.49.0.260730'' (2, 49, 0)" unfolding version_at_iff [symmetric] by code_simp
  moreover have "\<not> is_version ''v2.49.0.260730'' v'" for v'
    by (auto simp: version_at_iff [symmetric] version_at_def py_isdigit_char_def)
  ultimately show ?thesis
    unfolding first_version_parsed
    by (intro exI [of _ "''v''"] exI [of _ "''2.49.0.260730''"]) (auto simp: boundary_def py_isdigit_char_def)
qed

section \<open>The registry and its directory\<close>

text \<open>A file of the registry's directory is well formed: it declares the name it is stored under.\<close>

definition entry_at :: "harness_env \<Rightarrow> texts \<Rightarrow> string \<Rightarrow> string \<Rightarrow> TargetEntry \<Rightarrow> bool" where
  "entry_at he fs d n e \<longleftrightarrow> (\<exists>document. read_mapping he fs (in_directory d n) = Inr document \<and>
     TargetEntry_from_dict he document (in_directory d n) = Inr e \<and> te_name e = path_stem (in_directory d n))"

definition named :: "TargetEntry list \<Rightarrow> (string \<times> TargetEntry) list" where
  "named es = map (\<lambda>e. (te_name e, e)) es"

lemma named_simps [simp]:
  "named [] = []" "named (e # es) = (te_name e, e) # named es" "map fst (named es) = map te_name es"
  "fst ` set (named es) = te_name ` set es" "map snd (named es) = es"
  by (auto simp: named_def comp_def image_image)

lemma load_entries_Inr:
  "distinct (map fst registry) \<Longrightarrow> load_entries he fs d registry ns = Inr registry' \<longleftrightarrow>
    (\<exists>es. list_all2 (entry_at he fs d) ns es \<and> registry' = registry @ named es \<and> distinct (map fst registry @ map te_name es))"
proof (induction ns arbitrary: registry)
  case Nil
  then show ?case by auto
next
  case (Cons n ns)
  have step: "load_entries he fs d registry (n # ns) = Inr registry' \<longleftrightarrow>
      (\<exists>e. entry_at he fs d n e \<and> te_name e \<notin> fst ` set registry \<and>
        load_entries he fs d (registry @ [(te_name e, e)]) ns = Inr registry')"
    by (auto simp: res_simps entry_at_def dict_set_fresh)
  have IH: "load_entries he fs d (registry @ [(te_name e, e)]) ns = Inr registry' \<longleftrightarrow>
      (\<exists>es. list_all2 (entry_at he fs d) ns es \<and> registry' = registry @ named (e # es) \<and>
        distinct (map fst registry @ map te_name (e # es)))" if "te_name e \<notin> fst ` set registry" for e
    using Cons.IH [of "registry @ [(te_name e, e)]"] Cons.prems that by auto
  show ?case unfolding step list_all2_Cons1
  proof
    assume "\<exists>e. entry_at he fs d n e \<and> te_name e \<notin> fst ` set registry \<and>
        load_entries he fs d (registry @ [(te_name e, e)]) ns = Inr registry'"
    then obtain e es where "entry_at he fs d n e" "list_all2 (entry_at he fs d) ns es" "registry' = registry @ named (e # es)"
        "distinct (map fst registry @ map te_name (e # es))"
      using IH by blast
    then show "\<exists>es. (\<exists>z zs. es = z # zs \<and> entry_at he fs d n z \<and> list_all2 (entry_at he fs d) ns zs) \<and>
        registry' = registry @ named es \<and> distinct (map fst registry @ map te_name es)" by blast
  next
    assume "\<exists>es. (\<exists>z zs. es = z # zs \<and> entry_at he fs d n z \<and> list_all2 (entry_at he fs d) ns zs) \<and>
        registry' = registry @ named es \<and> distinct (map fst registry @ map te_name es)"
    then obtain e es where e: "entry_at he fs d n e" "list_all2 (entry_at he fs d) ns es" "registry' = registry @ named (e # es)"
        "distinct (map fst registry @ map te_name (e # es))" by blast
    then have "te_name e \<notin> fst ` set registry" by auto
    with e IH [OF this] show "\<exists>e. entry_at he fs d n e \<and> te_name e \<notin> fst ` set registry \<and>
        load_entries he fs d (registry @ [(te_name e, e)]) ns = Inr registry'" by blast
  qed
qed

lemma json_names_directory: "json_names fs d \<noteq> [] \<Longrightarrow> is_directory fs d"
proof -
  assume "json_names fs d \<noteq> []"
  then have "set (json_names fs d) \<noteq> {}" by simp
  then show ?thesis by (auto simp: json_names_def is_directory_def list_ex_iff)
qed

lemma registry_entries:
  "load_target_registry he fs c = Inr registry \<longleftrightarrow>
    (\<exists>es. list_all2 (entry_at he fs (targets_dir c)) (json_names fs (targets_dir c)) es \<and> registry = named es \<and>
      distinct (map te_name es) \<and> es \<noteq> [])"
proof -
  have "load_target_registry he fs c = Inr registry \<longleftrightarrow> is_directory fs (targets_dir c) \<and>
      load_entries he fs (targets_dir c) [] (json_names fs (targets_dir c)) = Inr registry \<and> registry \<noteq> []"
    by (auto simp: load_target_registry_def Let_def res_simps)
  also have "\<dots> \<longleftrightarrow> is_directory fs (targets_dir c) \<and> (\<exists>es. list_all2 (entry_at he fs (targets_dir c)) (json_names fs (targets_dir c)) es \<and>
      registry = named es \<and> distinct (map te_name es)) \<and> registry \<noteq> []"
    by (simp add: load_entries_Inr)
  also have "\<dots> \<longleftrightarrow> (\<exists>es. list_all2 (entry_at he fs (targets_dir c)) (json_names fs (targets_dir c)) es \<and>
      registry = named es \<and> distinct (map te_name es) \<and> es \<noteq> [])"
  proof -
    have "es \<noteq> [] \<Longrightarrow> list_all2 (entry_at he fs (targets_dir c)) (json_names fs (targets_dir c)) es \<Longrightarrow>
        is_directory fs (targets_dir c)" for es
      by (rule json_names_directory) auto
    moreover have "named es \<noteq> [] \<longleftrightarrow> es \<noteq> []" for es by (simp add: named_def)
    ultimately show ?thesis by (intro iffI; elim exE conjE; intro exI conjI) simp_all
  qed
  finally show ?thesis .
qed

lemma list_all2_in_set2: "list_all2 P xs ys \<Longrightarrow> y \<in> set ys \<Longrightarrow> \<exists>x \<in> set xs. P x y"
  by (induction rule: list_all2_induct) auto

lemma map_of_named: "distinct (map te_name es) \<Longrightarrow> map_of (named es) k = Some e \<longleftrightarrow> e \<in> set es \<and> te_name e = k"
  by (auto simp: map_of_eq_Some_iff named_def comp_def)

lemma resolve_target_registered:
  assumes "resolve_target he fs c name = Inr e"
  shows "te_name e = selected_target c name \<and>
    (\<exists>n \<in> set (json_names fs (targets_dir c)). entry_at he fs (targets_dir c) n e)"
proof -
  from assms obtain registry where r: "load_target_registry he fs c = Inr registry" and
    e: "map_of registry (selected_target c name) = Some e"
    by (auto simp: resolve_target_def Let_def res_simps split: option.splits)
  from r obtain es where es: "list_all2 (entry_at he fs (targets_dir c)) (json_names fs (targets_dir c)) es" "registry = named es"
    "distinct (map te_name es)" by (auto simp: registry_entries)
  with e map_of_named [OF es(3)] have m: "e \<in> set es" "te_name e = selected_target c name" by blast+
  from es(1) m(1) have "\<exists>n \<in> set (json_names fs (targets_dir c)). entry_at he fs (targets_dir c) n e"
    using list_all2_in_set2 by fastforce
  with m(2) show ?thesis by blast
qed


text \<open>A registry of one target, proven on hardware.\<close>

definition demo_entry_json :: json where
  "demo_entry_json = JObj [(''schema_version'', JInt 1), (''name'', JStr ''sm8850''), (''chipset'', JStr ''SM8850''),
     (''dsp_arch'', JStr ''v81''), (''soc_model'', JInt 87), (''soc_id'', JInt 660), (''verified'', JObj [(''date'', JStr ''d'')])]"

definition demo_harness :: harness_env where
  "demo_harness = \<lparr>he_parse = (\<lambda>t. if t = ''T'' then Some demo_entry_json else None), he_repr = (\<lambda>_. []),
     he_source_tree = ''/h/constraints.json'', he_bundled = ''/b/c.json'', he_home = ''/root'', he_cwd = ''/w'',
     he_constraints_var = None, he_acceptance_var = None\<rparr>"

definition demo_texts :: texts where
  "demo_texts = [(''/h/constraints.json'', ''C''), (''/h/targets/sm8850.json'', ''T''), (''/h/targets/README'', ''R'')]"

definition demo_constraints :: HarnessConstraints where
  "demo_constraints = \<lparr>hc_source_path = ''/h/constraints.json'', hc_schema_version = 1, hc_qairt_version = ''2.49.0'',
     hc_qairt_build_id = ''b'', hc_ubuntu_version = ''24.04'', hc_python_version = ''3.12'', hc_platform = ''linux/amd64'',
     hc_worker_image = ''i'', hc_dockerfile = ''f'', hc_dependencies_file = ''d'', hc_torch_version = ''2.1.0'',
     hc_torch_index_url = ''u'', hc_apple_container_version = ''1.0.0'', hc_apple_container_host_alias = ''h'',
     hc_docker_minimum_version = ''1.0.0'', hc_docker_host_alias = ''h'', hc_target_name = ''SM8850''\<rparr>"


lemma find_in: "List.find P xs = Some x \<Longrightarrow> x \<in> set xs \<and> P x"
  by (auto simp: find_Some_iff)

text \<open>
  An inline target is accepted exactly when a registered entry has its chipset, architecture and
  model; the entry is one of those.
\<close>

lemma resolve_target_tuple_iff:
  assumes "load_target_registry he fs c = Inr registry"
  shows "(\<exists>e. resolve_target_tuple he fs c chipset arch model = Inr e) \<longleftrightarrow>
      (\<exists>e \<in> set (map snd registry). target_matches e chipset arch model)"
    and "resolve_target_tuple he fs c chipset arch model = Inr e \<Longrightarrow>
      e \<in> set (map snd registry) \<and> target_matches e chipset arch model"
  using assms by (auto simp: resolve_target_tuple_def find_None_iff split: option.splits dest!: find_in)

text \<open>
  An entry whose declared name is not in lower case is in the registry and is never found by name:
  the lookup lower-cases the request only.
\<close>

lemma capital_names_unreachable:
  "py_lower (te_name e) \<noteq> te_name e \<Longrightarrow> resolve_target he fs c name \<noteq> Inr e"
  using resolve_target_registered [of he fs c name e] by (auto simp: selected_target_def)

section \<open>Installing the defaults\<close>

text \<open>Whatever the disk holds, installing changes no file that is there.\<close>

lemma copy_file_keeps: "map_of fs dst = None \<Longrightarrow> map_of fs p = Some t \<Longrightarrow> map_of (copy_file src dst fs) p = Some t"
  by (auto simp: copy_file_def split: option.splits)

lemma copy_missing_keeps: "map_of fs p = Some t \<Longrightarrow> map_of (copy_missing src dst ns fs) p = Some t"
proof (induction src dst ns fs rule: copy_missing.induct)
  case (2 src dst n ns fs)
  show ?case
  proof (cases "map_of fs (in_directory dst n)")
    case None
    with 2 copy_file_keeps [OF None "2.prems"] show ?thesis by simp
  qed (use 2 in simp)
qed simp

lemma install_keeps:
  assumes "install_default_constraints he target fs = Inr (dest, fs')" "map_of fs p = Some t"
  shows "map_of fs' p = Some t"
proof -
  let ?src = "default_targets_dir he fs" and ?dst = "in_directory (path_parent dest) ''targets''"
  define fs1 where "fs1 = (if is_directory fs ?src then copy_missing ?src ?dst (json_names fs ?src) fs else fs)"
  from assms(1) have "dest = harness_path he target" by (auto simp: install_default_constraints_def Let_def split: if_splits)
  with assms(1) have fs': "fs' = (if map_of fs1 dest \<noteq> None then fs1 else copy_file (default_constraints_path he fs1) dest fs1)"
    by (auto simp: install_default_constraints_def Let_def fs1_def split: if_splits)
  have "map_of fs1 p = Some t" using assms(2) by (simp add: fs1_def copy_missing_keeps)
  then show ?thesis by (auto simp: fs' copy_file_keeps)
qed

text \<open>The names in a directory, by the paths on the disk.\<close>

lemma set_json_names:
  "n \<in> set (json_names fs d) \<longleftrightarrow> CHR ''/'' \<notin> set n \<and> py_endswith n ''.json'' \<and> map_of fs (in_directory d n) \<noteq> None"
proof -
  have "(\<exists>p t. (p, t) \<in> set fs \<and> py_startswith p (dir_prefix d) \<and> n = drop (length (dir_prefix d)) p) \<longleftrightarrow>
      in_directory d n \<in> fst ` set fs"
    by (force simp: in_directory_def py_startswith_iff)
  moreover have "n \<in> set (json_names fs d) \<longleftrightarrow> CHR ''/'' \<notin> set n \<and> py_endswith n ''.json'' \<and>
      (\<exists>p t. (p, t) \<in> set fs \<and> py_startswith p (dir_prefix d) \<and> n = drop (length (dir_prefix d)) p)"
    by (auto simp: json_names_def)
  moreover have "map_of fs (in_directory d n) \<noteq> None \<longleftrightarrow> in_directory d n \<in> fst ` set fs"
    by (simp add: map_of_eq_None_iff)
  ultimately show ?thesis by blast
qed

lemma json_names_eqI:
  "(\<And>n. n \<in> set (json_names fs d) \<longleftrightarrow> n \<in> set (json_names fs' d')) \<Longrightarrow> json_names fs d = json_names fs' d'"
  by (rule sorted_distinct_set_unique) (auto simp: json_names_def)

lemma in_directory_inject [simp]: "in_directory d m = in_directory d n \<longleftrightarrow> m = n"
  by (simp add: in_directory_def)

lemma py_split_last: "c \<notin> set b \<Longrightarrow> py_split c (a @ c # b) = py_split c a @ [b]"
  by (induction a) (auto simp: py_split_no_sep split: list.splits)

lemma path_name_in_directory:
  assumes "CHR ''/'' \<notin> set n" "py_endswith n ''.json''"
  shows "path_name (in_directory d n) = n"
proof -
  have ne: "n \<noteq> ''''" "n \<noteq> ''.''" using assms(2) by (auto simp: py_endswith_iff)
  have "\<exists>a. in_directory d n = a @ CHR ''/'' # n"
    by (cases "d = ''/''") (auto simp: in_directory_def dir_prefix_def)
  then obtain a where "in_directory d n = a @ CHR ''/'' # n" by blast
  then have "path_components (in_directory d n) = filter (\<lambda>c. c \<noteq> '''' \<and> c \<noteq> ''.'') (py_split (CHR ''/'') a) @ [n]"
    using ne assms(1) by (simp add: path_components_def py_split_last)
  then show ?thesis
    by (cases "filter (\<lambda>c. c \<noteq> '''' \<and> c \<noteq> ''.'') (py_split (CHR ''/'') a)") (simp_all add: path_name_def)
qed

text \<open>What copying the missing entries does, entry by entry.\<close>

lemma copy_missing_other:
  "p \<notin> in_directory dst ` set ns \<Longrightarrow> map_of (copy_missing src dst ns fs) p = map_of fs p"
  by (induction src dst ns fs rule: copy_missing.induct) (auto simp: copy_file_def split: option.splits)

lemma copy_missing_entry:
  assumes "distinct ns" "n \<in> set ns" "map_of fs (in_directory dst n) = None"
    "\<And>m k. m \<in> set ns \<Longrightarrow> k \<in> set ns \<Longrightarrow> in_directory src m \<noteq> in_directory dst k"
  shows "map_of (copy_missing src dst ns fs) (in_directory dst n) = map_of fs (in_directory src n)"
  using assms
proof (induction src dst ns fs rule: copy_missing.induct)
  case (2 src dst m ns fs)
  define fs1 where "fs1 = (if map_of fs (in_directory dst m) \<noteq> None then fs
    else copy_file (in_directory src m) (in_directory dst m) fs)"
  have src: "map_of fs1 (in_directory src k) = map_of fs (in_directory src k)" if "k \<in> set (m # ns)" for k
    using "2.prems"(4) [of k m] that by (auto simp: fs1_def copy_file_def split: option.split)
  show ?case
  proof (cases "n = m")
    case True
    with "2.prems" have "n \<notin> set ns" by simp
    then have "map_of (copy_missing src dst ns fs1) (in_directory dst n) = map_of fs1 (in_directory dst n)"
      by (intro copy_missing_other) auto
    with "2.prems"(3) True show ?thesis by (auto simp: fs1_def copy_file_def split: option.splits)
  next
    case False
    with "2.prems" have n: "n \<in> set ns" by simp
    have "map_of fs1 (in_directory dst n) = None" using "2.prems"(3) False by (auto simp: fs1_def copy_file_def split: option.splits)
    with "2.IH" "2.prems" n have "map_of (copy_missing src dst ns fs1) (in_directory dst n) = map_of fs1 (in_directory src n)"
      by (simp add: fs1_def)
    with src n show ?thesis by (simp add: fs1_def)
  qed
qed simp

text \<open>The file's content decides the record, up to where it was read from.\<close>

lemma entry_from_dict_path:
  "TargetEntry_from_dict he document p = Inr e \<Longrightarrow> TargetEntry_from_dict he document q = Inr (e\<lparr>te_source_path := q\<rparr>)"
  by (auto simp: TargetEntry_from_dict_def Let_def res_simps)

lemma checked_constraints_path:
  assumes "checked_constraints c = Inr c'"
  shows "c' = c \<and> checked_constraints (c\<lparr>hc_source_path := q\<rparr>) = Inr (c\<lparr>hc_source_path := q\<rparr>)"
proof -
  have "python_version_tuple (c\<lparr>hc_source_path := q\<rparr>) = python_version_tuple c"
    "platform_arch (c\<lparr>hc_source_path := q\<rparr>) = platform_arch c"
    by (simp_all add: python_version_tuple_def platform_arch_def)
  with assms show ?thesis by (auto simp: checked_constraints_def bind_res_Inr ensure_Inr)
qed

lemma constraints_from_dict_path:
  assumes "HarnessConstraints_from_dict document p = Inr c"
  shows "hc_source_path c = p \<and> HarnessConstraints_from_dict document q = Inr (c\<lparr>hc_source_path := q\<rparr>)"
proof -
  from assms obtain vs where one: "equals_one (json_get document ''schema_version'')" and vs: "document_texts document = Inr vs"
    and c: "checked_constraints (constraints_of p vs) = Inr c"
    by (auto simp: HarnessConstraints_from_dict_def res_simps)
  from checked_constraints_path [OF c, of q] one vs show ?thesis
    by (auto simp: HarnessConstraints_from_dict_def constraints_of_def ensure_def)
qed

lemma resolved_parent:
  assumes "p = resolve_path cwd q"
  shows "\<exists>x. p = in_directory (path_parent p) x \<and> CHR ''/'' \<notin> set x"
proof -
  let ?cs = "drop_dotdot [] (path_components (path_join cwd q))"
  have p: "p = render_path ?cs" using assms by (simp add: resolve_path_def)
  have clean: "list_all (\<lambda>c. c \<noteq> '''' \<and> CHR ''/'' \<notin> set c) ?cs"
    using resolve_path_clean [of cwd q] by (simp add: list_all_iff)
  show ?thesis
  proof (cases ?cs rule: rev_cases)
    case Nil
    moreover have "path_parent ''/'' = ''/''" by code_simp
    ultimately show ?thesis unfolding p by (simp add: render_path_def in_directory_def dir_prefix_def)
  next
    case (snoc cs c)
    then have c: "CHR ''/'' \<notin> set c" and cs: "list_all (\<lambda>c. c \<noteq> '''' \<and> CHR ''/'' \<notin> set c) cs" using clean by auto
    let ?h = "concat (map (\<lambda>c. CHR ''/'' # c) cs)"
    have "p = ?h @ CHR ''/'' # c" using snoc by (simp add: p render_path_def)
    then have parent: "path_parent p = (if ?h = '''' then ''/'' else ?h)" and p': "p = ?h @ ''/'' @ c"
      using py_rpartition_append [OF c, of ?h] by (simp_all add: path_parent_def)
    have "?h \<noteq> ''/''" using cs by (cases cs) (auto simp: Cons_eq_append_conv)
    then show ?thesis using c unfolding parent in_directory_def dir_prefix_def
      by (intro exI [of _ c]) (use p' in auto)
  qed
qed

text \<open>A directory with the same files gives the same registry, read from the other place.\<close>

lemma registry_of_copies:
  assumes dir: "targets_dir c = T" and names: "json_names fs' T = json_names fs D"
    and same: "\<And>n. n \<in> set (json_names fs D) \<Longrightarrow> map_of fs' (in_directory T n) = map_of fs (in_directory D n)"
    and es: "list_all2 (entry_at he fs D) (json_names fs D) es" "distinct (map te_name es)" "es \<noteq> []"
  shows "load_target_registry he fs' c = Inr (named (map2 (\<lambda>n e. e\<lparr>te_source_path := in_directory T n\<rparr>) (json_names fs D) es))"
proof -
  let ?es = "map2 (\<lambda>n e. e\<lparr>te_source_path := in_directory T n\<rparr>) (json_names fs D) es"
  have entry: "entry_at he fs' T n (e\<lparr>te_source_path := in_directory T n\<rparr>)"
    if n: "n \<in> set (json_names fs D)" and e: "entry_at he fs D n e" for n e
  proof -
    from n have "path_name (in_directory T n) = path_name (in_directory D n)"
      by (simp add: set_json_names path_name_in_directory)
    then have "path_stem (in_directory T n) = path_stem (in_directory D n)" by (simp add: path_stem_def path_suffix_def)
    with e same [OF n] show ?thesis unfolding entry_at_def read_mapping_def by (auto dest: entry_from_dict_path)
  qed
  have "list_all2 (entry_at he fs' T) (json_names fs D) ?es"
    using es(1) entry by (auto simp: list_all2_conv_all_nth)
  moreover have "map te_name ?es = map te_name es"
    using list_all2_lengthD [OF es(1)] by (simp add: list_eq_iff_nth_eq)
  moreover have "json_names fs D \<noteq> []" using es(1,3) by auto
  ultimately show ?thesis using es(2,3) unfolding registry_entries dir names by (intro exI [of _ ?es]) auto
qed

lemma harness_path_idem: "harness_path he (harness_path he p) = harness_path he p"
proof -
  have "is_absolute (harness_path he p)" by (simp add: harness_path_def resolve_path_absolute)
  then have "expanduser (he_home he) (harness_path he p) = harness_path he p"
    by (auto simp: expanduser_def is_absolute_def py_startswith_iff)
  then show ?thesis by (simp add: harness_path_def [of he "harness_path he p"]) (simp add: harness_path_def)
qed

lemma harness_path_nonempty: "harness_path he p \<noteq> []"
proof -
  have "is_absolute (harness_path he p)" by (simp add: harness_path_def resolve_path_absolute)
  then show ?thesis by (auto simp: is_absolute_def py_startswith_iff)
qed

text \<open>
  What installing leaves in a fresh place: the constraints file and one copy per entry of the
  default registry, and no other entry.
\<close>

lemma install_fresh:
  assumes def_there: "map_of fs (default_constraints_path he fs) \<noteq> None"
    and isdir: "is_directory fs (default_targets_dir he fs)"
    and fresh: "\<not> is_directory fs (path_parent (harness_path he target))"
      "\<not> py_startswith (he_source_tree he) (dir_prefix (path_parent (harness_path he target)))"
  obtains fs' where "install_default_constraints he target fs = Inr (harness_path he target, fs')"
    "map_of fs' (harness_path he target) = map_of fs (default_constraints_path he fs)"
    "\<And>n. n \<in> set (json_names fs (default_targets_dir he fs)) \<Longrightarrow>
      map_of fs' (in_directory (in_directory (path_parent (harness_path he target)) ''targets'') n) =
      map_of fs (in_directory (default_targets_dir he fs) n)"
    "json_names fs' (in_directory (path_parent (harness_path he target)) ''targets'') = json_names fs (default_targets_dir he fs)"
proof -
  let ?p = "harness_path he target" and ?def = "default_constraints_path he fs" and ?D = "default_targets_dir he fs"
  let ?P = "path_parent ?p" and ?ns = "json_names fs ?D"
  let ?T = "in_directory ?P ''targets''"
  define fs1 where "fs1 = copy_missing ?D ?T ?ns fs"
  define fs' where "fs' = copy_file ?def ?p fs1"
  have below: "map_of fs (dir_prefix ?P @ x) = None" for x
    using fresh(1) by (auto simp: is_directory_def list_ex_iff py_startswith_iff dest!: map_of_SomeD intro: ccontr)
  have T: "in_directory ?T n = dir_prefix ?P @ ''targets/'' @ n" for n by (simp add: in_directory_def dir_prefix_def)
  obtain x where x: "?p = dir_prefix ?P @ x" "CHR ''/'' \<notin> set x"
    using resolved_parent [of ?p] by (auto simp: harness_path_def in_directory_def)
  have "dir_prefix ?P @ x \<noteq> in_directory ?T n" for n using x(2) unfolding T by auto
  then have pT: "?p \<noteq> in_directory ?T n" for n using x(1) by metis
  have D_entries: "map_of fs (in_directory ?D n) \<noteq> None" if "n \<in> set ?ns" for n using that by (simp add: set_json_names)
  have apart: "in_directory ?D m \<noteq> in_directory ?T k" if "m \<in> set ?ns" for m k
    using D_entries [OF that] below unfolding T by metis
  have in_T: "map_of fs1 (in_directory ?T n) = map_of fs (in_directory ?D n)" if "n \<in> set ?ns" for n
    unfolding fs1_def by (rule copy_missing_entry) (use that below apart in \<open>auto simp: json_names_def T\<close>)
  have other: "map_of fs1 q = map_of fs q" if "q \<notin> in_directory ?T ` set ?ns" for q
    unfolding fs1_def using that by (rule copy_missing_other)
  have "map_of fs1 (he_source_tree he) = map_of fs (he_source_tree he)"
    using fresh(2) by (intro other) (auto simp: T py_startswith_iff)
  then have def1: "default_constraints_path he fs1 = ?def" by (simp add: default_constraints_path_def)
  have def_notT: "?def \<notin> in_directory ?T ` set ?ns" using def_there below by (auto simp: T)
  have p1: "map_of fs1 ?p = None" using below x(1) pT by (subst other) (auto, metis)
  have dom': "map_of fs' = (map_of fs1)(?p := map_of fs ?def)"
    using def_there by (auto simp: fs'_def copy_file_def other [OF def_notT] split: option.splits)
  have there: "map_of fs' (in_directory ?T n) = (if n \<in> set ?ns then map_of fs (in_directory ?D n) else None)" for n
    using in_T [of n] other [of "in_directory ?T n"] below pT [of n] by (auto simp: dom' T)
  show thesis
  proof (rule that)
    show "install_default_constraints he target fs = Inr (?p, fs')"
      using isdir p1 def_there def_notT by (simp add: install_default_constraints_def Let_def fs1_def [symmetric] def1 fs'_def other)
    show "json_names fs' ?T = ?ns"
      by (rule json_names_eqI) (use there D_entries in \<open>auto simp: set_json_names\<close>)
    show "map_of fs' (in_directory ?T n) = map_of fs (in_directory ?D n)" if "n \<in> set ?ns" for n
      unfolding there using that by simp
  qed (simp add: dom')
qed

text \<open>
  C39. A new project sees what the defaults say: installing into a place with no files below it
  succeeds, changes no file, and afterwards the project's constraints are the default ones and its
  registry lists the same targets with the same entries, read from the project's own copies.
\<close>

theorem fresh_project_sees_defaults:
  assumes load: "load_harness_constraints he fs None None = Inr c" and reg: "load_target_registry he fs c = Inr registry"
    and canonical: "harness_path he (default_constraints_path he fs) = default_constraints_path he fs" "he_constraints_var he = None"
    and fresh: "\<not> is_directory fs (path_parent (harness_path he target))"
      "\<not> py_startswith (he_source_tree he) (dir_prefix (path_parent (harness_path he target)))"
  shows "\<exists>fs' registry'. let project = harness_path he target in
    install_default_constraints he target fs = Inr (project, fs') \<and> map_of fs \<subseteq>\<^sub>m map_of fs' \<and>
    load_harness_constraints he fs' None (Some project) = Inr (c\<lparr>hc_source_path := project\<rparr>) \<and>
    load_target_registry he fs' (c\<lparr>hc_source_path := project\<rparr>) = Inr registry' \<and>
    map (\<lambda>(k, e). (k, e\<lparr>te_source_path := []\<rparr>)) registry' = map (\<lambda>(k, e). (k, e\<lparr>te_source_path := []\<rparr>)) registry"
proof -
  let ?p = "harness_path he target" and ?def = "default_constraints_path he fs" and ?D = "default_targets_dir he fs"
  let ?ns = "json_names fs ?D" and ?T = "in_directory (path_parent ?p) ''targets''"
  from load canonical obtain document where doc: "read_mapping he fs ?def = Inr document"
    and c: "HarnessConstraints_from_dict document ?def = Inr c"
    by (auto simp: load_harness_constraints_def selected_path_def map_filter_simps res_simps Let_def)
  have D: "targets_dir c = ?D" using constraints_from_dict_path [OF c] by (simp add: targets_dir_def default_targets_dir_def)
  from reg D obtain es where es: "list_all2 (entry_at he fs ?D) ?ns es" "registry = named es" "distinct (map te_name es)" "es \<noteq> []"
    by (auto simp: registry_entries)
  then have "is_directory fs ?D" by (intro json_names_directory) auto
  moreover have "map_of fs ?def \<noteq> None" using doc by (auto simp: read_mapping_def split: option.splits)
  ultimately obtain fs' where fs': "install_default_constraints he target fs = Inr (?p, fs')" "map_of fs' ?p = map_of fs ?def"
    "\<And>n. n \<in> set ?ns \<Longrightarrow> map_of fs' (in_directory ?T n) = map_of fs (in_directory ?D n)" "json_names fs' ?T = ?ns"
    using install_fresh fresh by blast
  have "map_of fs \<subseteq>\<^sub>m map_of fs'" using install_keeps [OF fs'(1)] by (auto simp: map_le_def dom_def)
  moreover have "load_harness_constraints he fs' None (Some ?p) = Inr (c\<lparr>hc_source_path := ?p\<rparr>)"
    using doc constraints_from_dict_path [OF c, of ?p] harness_path_nonempty [of he target]
    by (simp add: load_harness_constraints_def selected_path_def map_filter_simps Let_def read_mapping_def fs'(2) harness_path_idem)
  moreover have "load_target_registry he fs' (c\<lparr>hc_source_path := ?p\<rparr>) = Inr (named (map2 (\<lambda>n e. e\<lparr>te_source_path := in_directory ?T n\<rparr>) ?ns es))"
    by (rule registry_of_copies [OF _ fs'(4) fs'(3) es(1,3,4)]) (simp_all add: targets_dir_def)
  moreover have "map (\<lambda>(k, e). (k, e\<lparr>te_source_path := []\<rparr>)) (named (map2 (\<lambda>n e. e\<lparr>te_source_path := in_directory ?T n\<rparr>) ?ns es)) =
      map (\<lambda>(k, e). (k, e\<lparr>te_source_path := []\<rparr>)) registry"
    using list_all2_lengthD [OF es(1)] by (simp add: es(2) named_def list_eq_iff_nth_eq)
  ultimately show ?thesis using fs'(1) unfolding Let_def by blast
qed

definition demo_document :: json where
  "demo_document = JObj [(''schema_version'', JInt 1), (''qairt'', JObj [(''version'', JStr ''2.49.0''), (''build_id'', JStr ''b'')]),
     (''worker'', JObj [(''ubuntu_version'', JStr ''24.04''), (''python_version'', JStr ''3.12''), (''platform'', JStr ''linux/amd64''),
       (''image'', JStr ''i''), (''dockerfile'', JStr ''f''), (''dependencies_file'', JStr ''d''), (''torch_version'', JStr ''2.1.0''),
       (''torch_index_url'', JStr ''u'')]),
     (''runtime_cli'', JObj [(''apple_container'', JObj [(''version'', JStr ''1.0.0''), (''host_alias'', JStr ''h'')]),
       (''docker'', JObj [(''minimum_version'', JStr ''1.0.0''), (''host_alias'', JStr ''h'')])]),
     (''target'', JObj [(''name'', JStr ''SM8850'')])]"

definition demo_defaults :: harness_env where
  "demo_defaults = demo_harness\<lparr>he_parse := (\<lambda>t. if t = ''T'' then Some demo_entry_json else if t = ''C'' then Some demo_document else None)\<rparr>"

theorem fresh_project_sees_defaults_witness:
  "\<exists>fs' registry'. install_default_constraints demo_defaults ''/p/constraints.json'' demo_texts = Inr (''/p/constraints.json'', fs') \<and>
     map_of fs' ''/h/constraints.json'' = Some ''C'' \<and>
     load_harness_constraints demo_defaults fs' None (Some ''/p/constraints.json'') =
       Inr (demo_constraints\<lparr>hc_source_path := ''/p/constraints.json''\<rparr>) \<and>
     load_target_registry demo_defaults fs' (demo_constraints\<lparr>hc_source_path := ''/p/constraints.json''\<rparr>) = Inr registry' \<and>
     map fst registry' = [''sm8850'']"
proof -
  let ?p = "''/p/constraints.json''"
  have l: "load_harness_constraints demo_defaults demo_texts None None = Inr demo_constraints" by code_simp
  have "case load_target_registry demo_defaults demo_texts demo_constraints of Inl _ \<Rightarrow> False | Inr r \<Rightarrow> map fst r = [''sm8850'']"
    by code_simp
  then obtain registry where r: "load_target_registry demo_defaults demo_texts demo_constraints = Inr registry" "map fst registry = [''sm8850'']"
    by (auto split: sum.splits)
  have d: "harness_path demo_defaults (default_constraints_path demo_defaults demo_texts) = default_constraints_path demo_defaults demo_texts"
    "he_constraints_var demo_defaults = None" "harness_path demo_defaults ?p = ?p"
    by code_simp+
  have f: "\<not> is_directory demo_texts (path_parent (harness_path demo_defaults ?p))"
    "\<not> py_startswith (he_source_tree demo_defaults) (dir_prefix (path_parent (harness_path demo_defaults ?p)))"
    by code_simp+
  obtain fs' registry' where i: "install_default_constraints demo_defaults ?p demo_texts = Inr (?p, fs')" "map_of demo_texts \<subseteq>\<^sub>m map_of fs'"
    "load_harness_constraints demo_defaults fs' None (Some ?p) = Inr (demo_constraints\<lparr>hc_source_path := ?p\<rparr>)"
    "load_target_registry demo_defaults fs' (demo_constraints\<lparr>hc_source_path := ?p\<rparr>) = Inr registry'"
    "map (\<lambda>(k, e). (k, e\<lparr>te_source_path := []\<rparr>)) registry' = map (\<lambda>(k, e). (k, e\<lparr>te_source_path := []\<rparr>)) registry"
    using fresh_project_sees_defaults [OF l r(1) d(1,2) f] unfolding d(3) Let_def by blast
  have "map_of fs' ''/h/constraints.json'' = Some ''C''" using i(2) by (auto simp: map_le_def demo_texts_def dom_def)
  moreover have "map fst registry' = map fst registry"
    using arg_cong [OF i(5), of "map fst"] by (simp add: comp_def split_beta)
  ultimately show ?thesis using i r(2) by auto
qed

end
