(* ===== verification/WorkerRules.thy ===== *)
theory WorkerRules
  imports Worker
begin

text \<open>
  Rules for the worker's computations: assertions on its job directory that the other
  processes keep (the rely part), and what the auxiliary steps of the worker keep of them, so
  that a property of the worker only has to look at the steps that start a stage or end the job.
\<close>

section \<open>Assertions on the job directory\<close>

text \<open>
  Started with \<open>P\<close> of the job directory, the computation ends with \<open>Q\<close> of its value and the
  job directory, or raises or dies with \<open>E\<close> of it.
\<close>

definition jt ::
  "(Journal \<Rightarrow> bool) \<Rightarrow> (wstate, 'a) eff \<Rightarrow> ('a \<Rightarrow> Journal \<Rightarrow> bool) \<Rightarrow> (Journal \<Rightarrow> bool) \<Rightarrow> bool" where
  "jt P m Q E = triple (\<lambda>w. P (ws_journal w)) m (\<lambda>x w. Q x (ws_journal w)) (\<lambda>w. E (ws_journal w))"

definition rely :: "WorkflowWorker \<Rightarrow> (Journal \<Rightarrow> bool) \<Rightarrow> bool" where
  "rely wk P \<longleftrightarrow> (\<forall>n j. P j \<longrightarrow> P (wv_others (wk_env wk) n j))"

lemma jt_return: "(\<And>j. P j \<Longrightarrow> Q x j) \<Longrightarrow> jt P (eff_return x) Q E"
  unfolding jt_def by (rule triple_return)

lemma jt_raise: "(\<And>j. P j \<Longrightarrow> E j) \<Longrightarrow> jt P (eff_raise e) Q E"
  unfolding jt_def by (rule triple_raise)

lemma jt_lift: "(\<And>j x. r = Inr x \<Longrightarrow> P j \<Longrightarrow> Q x j) \<Longrightarrow> (\<And>j. P j \<Longrightarrow> E j) \<Longrightarrow> jt P (eff_lift r) Q E"
  unfolding jt_def by (rule triple_lift)

lemma jt_bind: "jt P m R E \<Longrightarrow> (\<And>x. jt (R x) (f x) Q E) \<Longrightarrow> jt P (eff_bind m f) Q E"
  unfolding jt_def by (rule triple_bind)

lemma jt_weaken:
  "jt P m Q E \<Longrightarrow> (\<And>j. P' j \<Longrightarrow> P j) \<Longrightarrow> (\<And>x j. Q x j \<Longrightarrow> Q' x j) \<Longrightarrow> (\<And>j. E j \<Longrightarrow> E' j) \<Longrightarrow> jt P' m Q' E'"
  unfolding jt_def by (erule triple_weaken) simp_all

lemma jt_catch:
  assumes "jt P m Q E1" "\<And>e. jt E1 (h e) Q E" "\<And>j. E1 j \<Longrightarrow> E j"
  shows "jt P (eff_catch m h) Q E"
  unfolding jt_def
proof (rule tripleI)
  fix w r w' assume p: "P (ws_journal w)" and r: "eff_catch m h w = (r, w')"
  obtain r1 w1 where m: "m w = (r1, w1)" by fastforce
  note d = tripleD [OF assms(1)[unfolded jt_def] p m]
  show "case r of Val x \<Rightarrow> Q x (ws_journal w') | Exc e \<Rightarrow> E (ws_journal w') | Dead \<Rightarrow> E (ws_journal w')"
  proof (cases r1)
    case (Exc e)
    with r m have "h e w1 = (r, w')" by (simp add: eff_catch_def)
    with d Exc tripleD [OF assms(2)[unfolded jt_def]] show ?thesis by simp
  qed (use r m d assms(3) in \<open>auto simp: eff_catch_def\<close>)
qed

lemma jt_disk: "(\<And>j. P j \<Longrightarrow> E j) \<Longrightarrow> (\<And>x j. P j \<Longrightarrow> Q x j) \<Longrightarrow> jt P (on_disk m) Q E"
  unfolding jt_def triple_def on_disk_def by (simp split: prod.split outcome.split)

lemma jt_read_disk: "(\<And>j. P j \<Longrightarrow> E j) \<Longrightarrow> (\<And>x j. P j \<Longrightarrow> Q x j) \<Longrightarrow> jt P (read_disk f) Q E"
  unfolding read_disk_def by (rule jt_disk)

lemma jt_on_journal:
  assumes "rely wk P" "\<And>j. P j \<Longrightarrow> E j"
    and "\<And>t j j' x. P j \<Longrightarrow> f t j = (j', Inr x) \<Longrightarrow> Q x j'"
    and "\<And>t j j' e. P j \<Longrightarrow> f t j = (j', Inl e) \<Longrightarrow> E j'"
  shows "jt P (on_journal wk f) Q E"
  unfolding jt_def
proof (rule tripleI)
  fix w r w' assume p: "P (ws_journal w)" and r: "on_journal wk f w = (r, w')"
  let ?n = "ws_tick w"
  let ?j = "wv_others (wk_env wk) ?n (ws_journal w)"
  have pj: "P ?j" using assms(1) p by (simp add: rely_def)
  obtain j' x where f: "f (wv_clock (wk_env wk) ?n) ?j = (j', x)" by fastforce
  show "case r of Val x \<Rightarrow> Q x (ws_journal w') | Exc e \<Rightarrow> E (ws_journal w') | Dead \<Rightarrow> E (ws_journal w')"
    using r f pj assms(2-4) by (cases x) (auto simp: on_journal_def Let_def split: if_splits)
qed

lemma jt_read_journal:
  "rely wk P \<Longrightarrow> (\<And>j. P j \<Longrightarrow> E j) \<Longrightarrow> (\<And>j x. P j \<Longrightarrow> f j = Inr x \<Longrightarrow> Q x j) \<Longrightarrow> jt P (read_journal wk f) Q E"
  unfolding read_journal_def by (rule jt_on_journal) auto

lemma jt_utc_now: "rely wk P \<Longrightarrow> (\<And>j. P j \<Longrightarrow> E j) \<Longrightarrow> (\<And>x j. P j \<Longrightarrow> Q x j) \<Longrightarrow> jt P (utc_now wk) Q E"
  unfolding utc_now_def by (rule jt_on_journal) auto

text \<open>Computations that keep an assertion, whatever they return.\<close>

abbreviation jkeeps :: "(Journal \<Rightarrow> bool) \<Rightarrow> (wstate, 'a) eff \<Rightarrow> bool" where
  "jkeeps P m \<equiv> jt P m (\<lambda>_. P) P"

named_theorems jkeep \<open>computations that keep an assertion\<close>

lemma jkeeps_return [jkeep]: "jkeeps P (eff_return x)" by (rule jt_return)
lemma jkeeps_raise [jkeep]: "jkeeps P (eff_raise e)" by (rule jt_raise)
lemma jkeeps_lift [jkeep]: "jkeeps P (eff_lift r)" by (rule jt_lift)
lemma jkeeps_disk [jkeep]: "jkeeps P (on_disk m)" by (rule jt_disk)
lemma jkeeps_read_disk [jkeep]: "jkeeps P (read_disk f)" by (rule jt_read_disk)
lemma jkeeps_bind [jkeep]: "jkeeps P m \<Longrightarrow> (\<And>x. jkeeps P (f x)) \<Longrightarrow> jkeeps P (eff_bind m f)" by (rule jt_bind)
lemma jkeeps_read [jkeep]: "rely wk P \<Longrightarrow> jkeeps P (read_journal wk f)" by (rule jt_read_journal)
lemma jkeeps_now [jkeep]: "rely wk P \<Longrightarrow> jkeeps P (utc_now wk)" by (rule jt_utc_now)
lemma jkeeps_if [jkeep]: "jkeeps P m \<Longrightarrow> jkeeps P m' \<Longrightarrow> jkeeps P (if b then m else m')" by simp
lemma jkeeps_option [jkeep]:
  "jkeeps P m \<Longrightarrow> (\<And>x. jkeeps P (f x)) \<Longrightarrow> jkeeps P (case v of None \<Rightarrow> m | Some x \<Rightarrow> f x)"
  by (simp split: option.split)
lemma jkeeps_prod [jkeep]: "(\<And>x y. jkeeps P (f x y)) \<Longrightarrow> jkeeps P (case p of (x, y) \<Rightarrow> f x y)"
  by (simp split: prod.split)
lemma jkeeps_foreach [jkeep]: "(\<And>x. jkeeps P (f x)) \<Longrightarrow> jkeeps P (eff_foreach xs f)"
  by (induction xs) (auto intro: jkeep)

lemma jkeeps_at_state [jkeep]: "jkeeps P (\<lambda>w. on_disk (m w) w)"
  unfolding jt_def triple_def on_disk_def by (simp split: prod.split outcome.split)

section \<open>Auxiliary steps\<close>

text \<open>
  What the steps between the stages keep: other processes, the events about manifests and
  reused stages, receipts, and the publisher.
\<close>

definition frame :: "WorkflowWorker \<Rightarrow> (Journal \<Rightarrow> bool) \<Rightarrow> bool" where
  "frame wk P \<longleftrightarrow> rely wk P \<and>
     (\<forall>ty p t j. ty \<in> {''manifest_forked'', ''stage_reused''} \<longrightarrow> P j \<longrightarrow> P (fst (append_event ty p t j))) \<and>
     (\<forall>r t j. P j \<longrightarrow> P (fst (record_receipt r t j))) \<and>
     (\<forall>m s. jkeeps P (publisher_commit wk m s))"

lemma frame_rely [intro]: "frame wk P \<Longrightarrow> rely wk P"
  by (simp add: frame_def)

lemma frame_event [jkeep]:
  "frame wk P \<Longrightarrow> ty \<in> {''manifest_forked'', ''stage_reused''} \<Longrightarrow> jkeeps P (on_journal wk (append_event ty p))"
  by (rule jt_on_journal) (auto simp: frame_def, (metis fst_conv)+)

lemma frame_commit [jkeep]: "frame wk P \<Longrightarrow> jkeeps P (publisher_commit wk m s)"
  by (simp add: frame_def)

lemma frame_receipt [jkeep]: "frame wk P \<Longrightarrow> jkeeps P (record_stage_receipt wk r)"
  unfolding record_stage_receipt_def
  by (intro jkeep jt_on_journal) (auto simp: frame_def, (metis fst_conv)+)

lemma own_receipts_keeps [jkeep]: "rely wk P \<Longrightarrow> jkeeps P (own_verified_receipts wk)"
  unfolding own_verified_receipts_def by (intro jkeep)

lemma other_receipts_keeps [jkeep]: "jkeeps P (other_verified_receipts wk j)"
  unfolding other_verified_receipts_def by (intro jkeep)

lemma identity_keeps [jkeep]: "jkeeps P (manifest_stage_key_identity wk m)"
  unfolding manifest_stage_key_identity_def Let_def by (intro jkeep) (auto split: json.split intro: jkeep)

lemma input_basis_keeps [jkeep]: "jkeeps P (input_basis wk s m)"
  unfolding input_basis_def by (intro jkeep)

lemma stage_key_keeps [jkeep]: "jkeeps P (stage_key wk s m)"
  unfolding stage_key_def Let_def by (intro jkeep)

lemma next_attempt_keeps [jkeep]: "rely wk P \<Longrightarrow> jkeeps P (next_attempt wk s k)"
  unfolding next_attempt_def Let_def by (intro jkeep)

lemma receipt_of_journal_keeps [jkeep]: "rely wk P \<Longrightarrow> jkeeps P (receipt_of_journal wk k)"
  unfolding receipt_of_journal_def by (intro jkeep)

lemma reuse_parent_keeps [jkeep]: "frame wk P \<Longrightarrow> jkeeps P (reuse_parent wk s k r)"
  unfolding reuse_parent_def Let_def by (intro jkeep frame_rely)

lemma try_reuse_keeps [jkeep]: "frame wk P \<Longrightarrow> jkeeps P (try_reuse wk s k)"
  unfolding try_reuse_def by (intro jkeep frame_rely)

lemma ancestor_keeps [jkeep]: "rely wk P \<Longrightarrow> jkeeps P (ancestor_search n wk k cs vs)"
proof (induction n arbitrary: cs vs)
  case (Suc n)
  show ?case
  proof (cases cs)
    case (Cons c cs')
    have "jkeeps P (candidate_receipts wk c)" "jkeeps P (candidate_state wk c)"
      using Suc.prems by (auto simp: candidate_receipts_def candidate_state_def split: candidate.split intro: jkeep)
    then show ?thesis unfolding Cons ancestor_search.simps Let_def by (intro jkeep Suc.IH Suc.prems)
  qed (simp add: jkeep)
qed (simp add: jkeep)

lemma has_ancestor_keeps [jkeep]: "rely wk P \<Longrightarrow> jkeeps P (has_verified_ancestor_build_receipt wk)"
  unfolding has_verified_ancestor_build_receipt_def by (intro jkeep)

lemma replacement_keeps [jkeep]: "rely wk P \<Longrightarrow> jkeeps P (replacement_build_spec_for_fork wk m)"
  unfolding replacement_build_spec_for_fork_def by (intro jkeep)

lemma recorded_fork_keeps [jkeep]: "jkeeps P (recorded_fork wk b e)"
  unfolding recorded_fork_def Let_def by (intro jkeep)

lemma fork_keeps_frame [jkeep]: "frame wk P \<Longrightarrow> jkeeps P (fork_reused_manifest wk m n r s)"
  unfolding fork_reused_manifest_def Let_def by (intro jkeep frame_rely) auto

lemma floor_keeps [jkeep]: "jkeeps P (manifest_attempt_floor wk m s)"
  unfolding manifest_attempt_floor_def Let_def by (intro jkeep)

lemma verify_outputs_keeps [jkeep]: "jkeeps P (verify_outputs wk oc)"
  unfolding verify_outputs_def Let_def by (intro jkeep)

lemma fork_initial_keeps [jkeep]: "frame wk P \<Longrightarrow> jkeeps P (fork_initial wk s ls)"
  unfolding fork_initial_def
  by (cases "lp_initial_pending ls"; cases "lp_manifest ls"; simp; intro jkeep frame_rely)

lemma reuse_stage_keeps: "frame wk P \<Longrightarrow> jkeeps P (reuse_stage wk s k x r d ls)"
  unfolding reuse_stage_def by (intro jkeep) auto

section \<open>The stages\<close>

text \<open>A key of the stage: what \<open>stage_key\<close> computes for it at some manifest and disk.\<close>

definition key_of :: "WorkflowWorker \<Rightarrow> string \<Rightarrow> string \<Rightarrow> bool" where
  "key_of wk stage_name key \<longleftrightarrow> (\<exists>manifest w w'. stage_key wk stage_name manifest w = (Val key, w'))"

lemma jt_fact:
  assumes "jt P m Q E" "\<And>x w w'. P (ws_journal w) \<Longrightarrow> m w = (Val x, w') \<Longrightarrow> F x"
  shows "jt P m (\<lambda>x j. Q x j \<and> F x) E"
  unfolding jt_def
proof (rule tripleI)
  fix w r w' assume "P (ws_journal w)" "m w = (r, w')"
  with tripleD [OF assms(1)[unfolded jt_def] this] assms(2) [OF this(1)]
  show "case r of Val x \<Rightarrow> Q x (ws_journal w') \<and> F x | Exc e \<Rightarrow> E (ws_journal w') | Dead \<Rightarrow> E (ws_journal w')"
    by (auto split: outcome.splits)
qed

lemma jt_constant: "(\<And>j. b \<Longrightarrow> jt (\<lambda>j. P j) m Q E) \<Longrightarrow> jt (\<lambda>j. P j \<and> b) m Q E"
  by (cases b) (auto simp: jt_def triple_def)

text \<open>
  \<open>P K\<close> holds between the stages when the keys \<open>K\<close> are done; \<open>R\<close> holds of a status returned
  early, and \<open>E\<close> when the worker raises or dies.
\<close>

lemma do_stage_jt:
  assumes fr: "\<And>K. frame wk (P K)"
    and reuse: "\<And>K s key. jt (P K) (try_reuse wk s key) (\<lambda>r. if r = None then P K else P (insert key K)) E"
    and own: "\<And>K key. jt (P K) (receipt_of_journal wk key) (\<lambda>r. if r = None then P K else P (insert key K)) E"
    and start: "\<And>K s key ls. jt (P K) (start_stage wk s key ls)
       (\<lambda>r j. case r of Continue _ \<Rightarrow> P (insert key K) j | Return st \<Rightarrow> R st j) E"
    and cancel: "\<And>K. jt (P K) (to_state wk CANCELLED) R E"
    and weak: "\<And>K j. P K j \<Longrightarrow> E j"
  shows "jt (P K) (do_stage wk s ls) (\<lambda>r j. case r of
     Continue _ \<Rightarrow> (\<exists>key. key_of wk s key \<and> P (insert key K) j) | Return st \<Rightarrow> R st j) E"
proof -
  let ?Q = "\<lambda>r j. case r of Continue _ \<Rightarrow> (\<exists>key. key_of wk s key \<and> P (insert key K) j) | Return st \<Rightarrow> R st j"
  have st: "rely wk (P K)" for K using fr by auto
  have E: "jkeeps (P K) m \<Longrightarrow> jt (P K) m (\<lambda>_. P K) E" for K and m :: "(wstate, 'x) eff"
    by (erule jt_weaken) (simp_all add: weak)
  have cont: "key_of wk s key \<Longrightarrow> jt (P K) (start_stage wk s key ls) ?Q E" for key ls
    by (rule jt_weaken [OF start]) (auto split: loop_step.splits)
  have reused: "key_of wk s key \<Longrightarrow> jt (P (insert key K)) (reuse_stage wk s key x r d ls) ?Q E" for key x r d ls
  proof -
    assume k: "key_of wk s key"
    have "jt (P (insert key K)) (reuse_stage wk s key x r d ls) (\<lambda>r j. P (insert key K) j \<and> (\<exists>l. r = Continue l)) E"
      by (rule jt_fact [OF E [OF reuse_stage_keeps [OF fr]]])
        (auto simp: reuse_stage_def eff_simps split: option.splits)
    then show ?thesis by (rule jt_weaken) (use k in auto)
  qed
  have key: "jt (P K) (stage_key wk s m) (\<lambda>key j. P K j \<and> key_of wk s key) E" for m
    by (rule jt_fact [OF E [OF stage_key_keeps]]) (auto simp: key_of_def)
  have forked: "key_of wk s key \<Longrightarrow> jt (P K) (fork_then_start wk s key ls) ?Q E" for key ls
  proof (cases "lp_reused_pending ls \<and> lp_manifest ls \<noteq> None")
    case False
    then have "fork_then_start wk s key ls = start_stage wk s key ls"
      by (cases "lp_reused_pending ls"; cases "lp_manifest ls") (simp_all add: fork_then_start_def)
    then show "key_of wk s key \<Longrightarrow> ?thesis" using cont by simp
  next
    case True
    then obtain m where m: "lp_reused_pending ls = True" "lp_manifest ls = Some m" by auto
    have tail: "jt (if resumed = None then P K else P (insert key K))
        (case resumed of Some r \<Rightarrow> reuse_stage wk s key x r False ls | None \<Rightarrow> start_stage wk s key ls) ?Q E"
      if "key_of wk s key" for resumed key x ls using that cont reused by (cases resumed) simp_all
    have "jt (P K) (eff_bind (stage_key wk s m) (\<lambda>key. eff_bind (receipt_of_journal wk key) (\<lambda>resumed. case resumed of
        Some r \<Rightarrow> reuse_stage wk s key x r False ls | None \<Rightarrow> start_stage wk s key ls))) ?Q E" for m x ls
      by (intro jt_bind [OF key] jt_constant jt_bind [OF own] tail)
    then have rest: "jt (P K) (eff_bind (publisher_commit wk m' t) (\<lambda>_. eff_bind (stage_key wk s m) (\<lambda>key.
        eff_bind (receipt_of_journal wk key) (\<lambda>resumed. case resumed of
        Some r \<Rightarrow> reuse_stage wk s key x r False ls | None \<Rightarrow> start_stage wk s key ls)))) ?Q E" for m m' t x ls
      by (rule jt_bind [OF E [OF frame_commit [OF fr]]])
    show ?thesis
      unfolding fork_then_start_def m option.case prod.case bool.case Let_def
      by (intro jt_bind [OF E [OF fork_keeps_frame [OF fr]]]) (split prod.split, intro allI impI, rule rest)
  qed
  have "jt (if r = None then P K else P (insert key K)) (case r of
         Some r \<Rightarrow> reuse_stage wk s key [] r True ls | None \<Rightarrow> fork_then_start wk s key ls) ?Q E"
    if "key_of wk s key" for r key ls using that forked reused by (cases r) simp_all
  then have main: "jt (P K) (eff_bind (fork_initial wk s ls) (\<lambda>ls. eff_bind (stage_key wk s (lp_manifest ls)) (\<lambda>key.
       eff_bind (try_reuse wk s key) (\<lambda>reused. case reused of
         Some r \<Rightarrow> reuse_stage wk s key [] r True ls
       | None \<Rightarrow> fork_then_start wk s key ls)))) ?Q E"
    by (intro jt_bind [OF E [OF fork_initial_keeps [OF fr]]] jt_bind [OF key] jt_constant jt_bind [OF reuse]) simp_all
  have "jt (P K) (eff_bind (to_state wk CANCELLED) (\<lambda>s. eff_return (Return s))) ?Q E"
    by (rule jt_bind [OF cancel]) (simp add: jt_return)
  with main show ?thesis unfolding do_stage_def
    by (intro jt_bind [OF E [OF jkeeps_read [OF st]]]) simp
qed

lemma do_stages_jt:
  assumes "\<And>K s ls. jt (P K) (do_stage wk s ls) (\<lambda>r j. case r of
     Continue _ \<Rightarrow> (\<exists>key. key_of wk s key \<and> P (insert key K) j) | Return st \<Rightarrow> R st j) E"
    and "\<And>K j. P K j \<Longrightarrow> E j"
  shows "jt (P K) (do_stages wk ss ls) (\<lambda>r j. case r of
     Continue _ \<Rightarrow> (\<exists>K'. K \<subseteq> K' \<and> P K' j \<and> (\<forall>s \<in> set ss. \<exists>key \<in> K'. key_of wk s key)) | Return st \<Rightarrow> R st j) E"
proof (induction ss arbitrary: K ls)
  case Nil
  show ?case by (auto intro!: jt_return)
next
  case (Cons s ss)
  let ?Q = "\<lambda>K r j. case r of Continue _ \<Rightarrow> (\<exists>K'. K \<subseteq> K' \<and> P K' j \<and> (\<forall>s \<in> set ss. \<exists>key \<in> K'. key_of wk s key))
     | Return st \<Rightarrow> R st j"
  have step: "jt (\<lambda>j. \<exists>key. key_of wk s key \<and> P (insert key K) j) (do_stages wk ss ls) (\<lambda>r j. case r of
     Continue _ \<Rightarrow> (\<exists>K'. K \<subseteq> K' \<and> P K' j \<and> (\<forall>s \<in> set (s # ss). \<exists>key \<in> K'. key_of wk s key)) | Return st \<Rightarrow> R st j) E" for ls
    unfolding jt_def
  proof (rule tripleI)
    fix w r w' assume "\<exists>key. key_of wk s key \<and> P (insert key K) (ws_journal w)" and m: "do_stages wk ss ls w = (r, w')"
    then obtain key where k: "key_of wk s key" "P (insert key K) (ws_journal w)" by blast
    from tripleD [OF Cons.IH [unfolded jt_def] k(2) m] k(1)
    show "case r of Val x \<Rightarrow> (case x of Continue _ \<Rightarrow>
          (\<exists>K'. K \<subseteq> K' \<and> P K' (ws_journal w') \<and> (\<forall>s \<in> set (s # ss). \<exists>key \<in> K'. key_of wk s key))
        | Return st \<Rightarrow> R st (ws_journal w')) | Exc e \<Rightarrow> E (ws_journal w') | Dead \<Rightarrow> E (ws_journal w')"
      by (auto split: outcome.splits loop_step.splits)
  qed
  show ?case unfolding do_stages.simps
  proof (rule jt_bind [OF assms(1)])
    fix r
    show "jt (\<lambda>j. case r of Continue _ \<Rightarrow> \<exists>key. key_of wk s key \<and> P (insert key K) j | Return st \<Rightarrow> R st j)
       (case r of Return status \<Rightarrow> eff_return (Return status) | Continue ls \<Rightarrow> do_stages wk ss ls) (\<lambda>r j. case r of
     Continue _ \<Rightarrow> (\<exists>K'. K \<subseteq> K' \<and> P K' j \<and> (\<forall>s \<in> set (s # ss). \<exists>key \<in> K'. key_of wk s key)) | Return st \<Rightarrow> R st j) E"
      by (cases r) (simp_all add: step jt_return)
  qed
qed

text \<open>
  Running a stage: \<open>S\<close> holds from the reservation of the attempt until the stage has ended, \<open>C\<close>
  once its receipt is recorded.
\<close>

lemma run_stage_jt:
  assumes start: "jt P (on_journal wk (append_event ''stage_started''
      [(''stage_name'', JStr s), (''stage_key'', JStr key), (''attempt'', JInt attempt)])) (\<lambda>_. S) E"
    and runner: "\<And>cx. jkeeps S (wk_stage_runner wk cx)"
    and S: "rely wk S" "\<And>r. jkeeps S (record_stage_receipt wk r)" "\<And>j. S j \<Longrightarrow> E j"
    and cancel: "jt S (to_state wk CANCELLED) R E" and fail: "\<And>err st. jt S (fail_with wk err st) R E"
    and recorded: "\<And>r. rc_stage_key r = key \<Longrightarrow> verified r \<Longrightarrow> jt S (record_stage_receipt wk r) (\<lambda>_. C) E"
    and C: "\<And>m t. jkeeps C (publisher_commit wk m t)" "\<And>j. C j \<Longrightarrow> E j"
  shows "jt P (run_stage wk s key attempt ls) (\<lambda>r j. case r of Continue _ \<Rightarrow> C j | Return st \<Rightarrow> R st j) E"
proof -
  have weak: "jkeeps S m \<Longrightarrow> jt S m (\<lambda>_. S) E" for m :: "(wstate, 'x) eff"
    by (erule jt_weaken) (simp_all add: S)
  let ?Q = "\<lambda>ran j. case ran of Inl _ \<Rightarrow> S j | Inr st \<Rightarrow> R st j"
  have body: "jt S (eff_bind (wk_stage_runner wk cx) (\<lambda>outcome. eff_bind (verify_outputs wk outcome)
       (\<lambda>_. eff_return (Inl outcome)))) ?Q S" for cx
    by (intro jt_bind [OF runner] jt_bind [OF verify_outputs_keeps]) (simp add: jt_return)
  have failed: "jt S (eff_bind (utc_now wk) (\<lambda>completed. eff_bind (record_stage_receipt wk (r completed)) (\<lambda>_.
       eff_bind (fail_with wk err st) (\<lambda>s. eff_return (Inr s))))) ?Q E" for r err st
    by (intro jt_bind [OF weak [OF jkeeps_now [OF S(1)]]] jt_bind [OF weak [OF S(2)]] jt_bind [OF fail])
      (simp add: jt_return)
  have handler: "jt S (if is_cancelled_error e then eff_bind (to_state wk CANCELLED) (\<lambda>s. eff_return (Inr s))
       else eff_bind (eff_lift (error_of e t)) (\<lambda>err. eff_bind (utc_now wk) (\<lambda>completed.
         eff_bind (record_stage_receipt wk (r completed err)) (\<lambda>_.
         eff_bind (fail_with wk err st) (\<lambda>s. eff_return (Inr s)))))) ?Q E" for e t r st
  proof (cases "is_cancelled_error e")
    case True
    then show ?thesis by (simp, intro jt_bind [OF cancel]) (simp add: jt_return)
  qed (simp, rule jt_bind [OF weak [OF jkeeps_lift]], rule failed)
  have rest: "jt (\<lambda>j. ?Q ran j) (case ran of Inr status \<Rightarrow> eff_return (Return status) | Inl outcome \<Rightarrow>
      eff_bind (utc_now wk) (\<lambda>completed. eff_bind (record_stage_receipt wk (r outcome completed)) (\<lambda>_.
      eff_bind (publisher_commit wk (oc_manifest outcome) s) (\<lambda>_. eff_return (Continue (l outcome))))))
      (\<lambda>r j. case r of Continue _ \<Rightarrow> C j | Return st \<Rightarrow> R st j) E"
    if r: "\<And>oc c. rc_stage_key (r oc c) = key" "\<And>oc c. verified (r oc c)" for ran r l
  proof (cases ran)
    case (Inl oc)
    have pub: "jt C (publisher_commit wk m t) (\<lambda>_. C) E" for m t by (rule jt_weaken [OF C(1)]) (simp_all add: C(2))
    show ?thesis unfolding Inl sum.case
      by (intro jt_bind [OF weak [OF jkeeps_now [OF S(1)]]] jt_bind [OF recorded [OF r]] jt_bind [OF pub]) (rule jt_return, simp)
  qed (simp add: jt_return)
  show ?thesis unfolding run_stage_def Let_def
    by (intro jt_bind [OF start] jt_bind [OF weak [OF jkeeps_now [OF S(1)]]]
        jt_bind [OF jt_catch [OF body handler S(3)]] rest) (simp_all add: verified_def)
qed

lemma start_stage_jt:
  assumes "jt P (next_attempt wk s key) N E" "\<And>n j. N n j \<Longrightarrow> E j"
    and "\<And>n attempt. n \<le> attempt \<Longrightarrow> jt (N n) (run_stage wk s key attempt ls) Q E"
  shows "jt P (start_stage wk s key ls) Q E"
proof -
  have floor: "jt (N n) (manifest_attempt_floor wk m s) (\<lambda>_. N n) E" for n m
    by (rule jt_weaken [OF floor_keeps [of "N n"]]) (simp_all add: assms(2))
  show ?thesis unfolding start_stage_def
    by (intro jt_bind [OF assms(1)] jt_bind [OF floor] assms(3)) simp
qed

section \<open>The job\<close>

lemma finish_job_jt:
  assumes fr: "\<And>K. frame wk (P K)" and weak: "\<And>K j. P K j \<Longrightarrow> E j"
    and last: "\<And>m. jt (P K) (eff_bind (to_state wk COLLECTING) (\<lambda>_. eff_bind (to_state wk COMMITTING)
       (\<lambda>_. on_journal wk (set_state SUCCEEDED None None m None [])))) R E"
  shows "jt (P K) (finish_job wk ls) R E"
proof -
  have E: "jkeeps (P K) m \<Longrightarrow> jt (P K) m (\<lambda>_. P K) E" for m :: "(wstate, 'x) eff"
    by (erule jt_weaken) (simp_all add: weak)
  have "jkeeps (P K) (case (lp_reused_pending ls, lp_manifest ls) of
         (True, Some m) \<Rightarrow> eff_bind (fork_reused_manifest wk m None None None) (\<lambda>(manifest, _).
           eff_bind (publisher_commit wk (Some manifest) ''fork_after_reuse'') (\<lambda>_. eff_return (Some manifest)))
       | _ \<Rightarrow> eff_return (lp_manifest ls))"
    using fr by (cases "lp_reused_pending ls"; cases "lp_manifest ls"; simp; intro jkeep)
  from jt_bind [OF E [OF this] last] show ?thesis unfolding finish_job_def .
qed

lemma drive_job_jt:
  assumes fr: "\<And>K. frame wk (P K)" and weak: "\<And>K j. P K j \<Longrightarrow> E j"
    and first: "jt P0 (to_state wk STAGING) (\<lambda>_. P1) E" "jt P1 (to_state wk RUNNING) (\<lambda>_. P {}) E"
    and stages: "\<And>K s ls. jt (P K) (do_stage wk s ls) (\<lambda>r j. case r of
       Continue _ \<Rightarrow> (\<exists>key. key_of wk s key \<and> P (insert key K) j) | Return st \<Rightarrow> R st j) E"
    and last: "\<And>K m. \<forall>s \<in> set (wk_stages wk). \<exists>key \<in> K. key_of wk s key \<Longrightarrow>
       jt (P K) (eff_bind (to_state wk COLLECTING) (\<lambda>_. eff_bind (to_state wk COMMITTING)
         (\<lambda>_. on_journal wk (set_state SUCCEEDED None None m None [])))) R E"
  shows "jt P0 (drive_job wk) R E"
proof -
  let ?done = "\<lambda>K. \<forall>s \<in> set (wk_stages wk). \<exists>key \<in> K. key_of wk s key"
  have tail: "jt (\<lambda>j. \<exists>K. {} \<subseteq> K \<and> P K j \<and> ?done K) (finish_job wk ls) R E" for ls
    unfolding jt_def
  proof (rule tripleI)
    fix w r w' assume "\<exists>K. {} \<subseteq> K \<and> P K (ws_journal w) \<and> ?done K" and m: "finish_job wk ls w = (r, w')"
    then obtain K where K: "P K (ws_journal w)" "?done K" by blast
    have "jt (P K) (finish_job wk ls) R E" by (rule finish_job_jt [of wk P, OF fr weak last [OF K(2)]])
    from tripleD [OF this [unfolded jt_def] K(1) m]
    show "case r of Val x \<Rightarrow> R x (ws_journal w') | Exc e \<Rightarrow> E (ws_journal w') | Dead \<Rightarrow> E (ws_journal w')" .
  qed
  have read: "jt (P {}) (read_journal wk read_state) (\<lambda>_. P {}) E"
    by (rule jt_weaken [OF jkeeps_read [OF frame_rely [OF fr]]]) (assumption | erule weak)+
  have "jt (P {}) (eff_bind (do_stages wk (wk_stages wk) ls) (\<lambda>r. case r of
          Return status \<Rightarrow> eff_return status | Continue ls \<Rightarrow> finish_job wk ls)) R E" for ls
  proof (rule jt_bind [OF do_stages_jt [OF stages weak]])
    fix r
    show "jt (\<lambda>j. case r of Continue _ \<Rightarrow> (\<exists>K'. {} \<subseteq> K' \<and> P K' j \<and> ?done K') | Return st \<Rightarrow> R st j)
        (case r of Return status \<Rightarrow> eff_return status | Continue ls \<Rightarrow> finish_job wk ls) R E"
      using tail by (cases r) (simp_all add: jt_return)
  qed
  then show ?thesis unfolding drive_job_def Let_def
    by (intro jt_bind [OF first(1)] jt_bind [OF first(2)] jt_bind [OF read])
qed

lemma run_worker_jt:
  assumes P: "rely wk P" "\<And>j. P j \<Longrightarrow> P (j\<lparr>jn_worker_lock := True\<rparr>)" "\<And>j. P j \<Longrightarrow> E j"
    and mark: "\<And>now. jt P (on_journal wk (mark_orphaned_if_stale (wk_heartbeat_stale_after wk) now)) M E"
    and ret: "\<And>s j. M s j \<Longrightarrow> terminal (js_state s) \<Longrightarrow> R s j" "\<And>s j. M s j \<Longrightarrow> E j"
    and drive: "\<And>s. \<not> terminal (js_state s) \<Longrightarrow> js_state s \<notin> set IN_FLIGHT_JOB_STATES \<Longrightarrow> jt (M s) (drive_job wk) R E1"
    and guard: "\<And>err. jt E1 (eff_bind (read_journal wk read_state) (\<lambda>current.
       if terminal (js_state current) then eff_return current else fail_with wk err None)) R E" "\<And>j. E1 j \<Longrightarrow> E j"
    and leave: "\<And>s j. R s j \<Longrightarrow> R s (worker_lease_exit j)" "\<And>j. E j \<Longrightarrow> E (worker_lease_exit j)"
  shows "jt P (run_worker wk) R E"
proof -
  have claimed: "jt (M s) (run_claimed wk) R E" if "\<not> terminal (js_state s)" "js_state s \<notin> set IN_FLIGHT_JOB_STATES" for s
    unfolding run_claimed_def
  proof (rule jt_catch [OF drive [OF that]])
    fix e
    have "jt E1 (eff_lift (error_of e ''worker'')) (\<lambda>_. E1) E" by (rule jt_lift) (simp_all add: guard(2))
    from jt_bind [OF this guard(1)]
    show "jt E1 (eff_bind (eff_lift (error_of e ''worker'')) (\<lambda>err. eff_bind (read_journal wk read_state) (\<lambda>current.
       if terminal (js_state current) then eff_return current else fail_with wk err None))) R E" .
  qed (rule guard(2))
  have now: "jt P (utc_now wk) (\<lambda>_. P) E" by (rule jt_utc_now) (simp_all add: P)
  have body: "jt P (eff_bind (utc_now wk) (\<lambda>now.
      eff_bind (on_journal wk (mark_orphaned_if_stale (wk_heartbeat_stale_after wk) now)) (\<lambda>current.
      if terminal (js_state current) then eff_return current
      else if js_state current \<in> set IN_FLIGHT_JOB_STATES then eff_raise (job_conflict ''worker'')
      else run_claimed wk))) R E"
    by (intro jt_bind [OF now] jt_bind [OF mark])
      (simp add: jt_return jt_raise ret claimed)
  have wrapped: "jt P m R E \<Longrightarrow> jt P (\<lambda>w. case m w of (r, w') \<Rightarrow>
      (r, w'\<lparr>ws_journal := worker_lease_exit (ws_journal w')\<rparr>)) R E" for m
    unfolding jt_def triple_def using leave by (fastforce split: prod.splits outcome.splits)
  have enter: "jt P (on_journal wk (\<lambda>_ j. case worker_lease_enter j of Inl e \<Rightarrow> (j, Inl e) | Inr j' \<Rightarrow> (j', Inr ()))) (\<lambda>_. P) E"
    using P by (intro jt_on_journal) (auto simp: worker_lease_enter_def res_simps split: sum.splits if_splits)
  show ?thesis unfolding run_worker_def with_worker_lease_def
    by (rule jt_bind [OF enter]) (rule wrapped [OF body])
qed

end
