(* ===== verification/WorkerProps.thy ===== *)
theory WorkerProps
  imports WorkerRules
begin

text \<open>
  What the worker guarantees: the status it returns, that a succeeded job has a verified
  receipt of every stage, that attempt numbers are never used twice, that a cancelled job
  starts nothing, and that its snapshots follow the job machine.
\<close>

section \<open>The effect of the journal operations\<close>

lemma commit_False_Inr:
  "commit False target ty payload now j = Inr (j', final) \<longleftrightarrow>
    (\<exists>current. read_state j = Inr current \<and> \<not> (terminal (js_state current) \<and> js_state target \<noteq> js_state current) \<and>
      final = (preserve_heartbeat current target)\<lparr>js_seq := next_seq j, js_updated_at := now\<rparr> \<and>
      j' = j\<lparr>jn_events := dict_set (next_seq j)
          \<lparr>ev_seq = next_seq j, ev_type = ty, ev_at = now, ev_payload = payload\<rparr> (jn_events j), jn_state := Some final\<rparr>)"
  by (auto simp: commit_def res_simps Let_def)

lemma preserve_heartbeat_state [simp]:
  "js_state (preserve_heartbeat c t) = js_state t" "js_error (preserve_heartbeat c t) = js_error t"
  "js_manifest (preserve_heartbeat c t) = js_manifest t"
  by (simp_all add: preserve_heartbeat_def split: option.split)

lemma committed_Inr: "committed j r = (j', Inr s) \<longleftrightarrow> r = Inr (j', s)"
  by (cases r) (auto simp: committed_def)

lemma committed_Inl: "committed j r = (j', Inl e) \<longleftrightarrow> r = Inl e \<and> j' = j"
  by (cases r) (auto simp: committed_def split: prod.splits)

definition logged :: "string \<Rightarrow> raw_map \<Rightarrow> int \<Rightarrow> Journal \<Rightarrow> JobStatus \<Rightarrow> Journal" where
  "logged ty payload now j s = j\<lparr>jn_events := dict_set (next_seq j)
     \<lparr>ev_seq = next_seq j, ev_type = ty, ev_at = now, ev_payload = payload\<rparr> (jn_events j), jn_state := Some s\<rparr>"

lemma append_event_Inr:
  assumes "append_event ty payload now j = (j', Inr s)"
  shows "j' = logged ty payload now j s" "JobStatus_ok s" "\<exists>c. jn_state j = Some c \<and> js_state s = js_state c"
  using assms by (auto simp: append_event_def committed_Inr res_simps read_state_Inr commit_False_Inr
      logged_def JobStatus_ok_def)

lemma append_event_Inl: "append_event ty payload now j = (j', Inl e) \<Longrightarrow> j' = j"
  by (simp add: append_event_def committed_Inl)

lemma set_state_Inr:
  assumes "set_state st stage err m hb ep now j = (j', Inr s)"
  shows "js_state s = st" "JobStatus_ok s" "\<exists>c p. jn_state j = Some c \<and> (terminal (js_state c) \<longrightarrow> st = js_state c) \<and>
    j' = logged ''state_changed'' (dict_update [(''state'', JStr (job_state_value st)), (''current_stage'', p)] ep) now j s"
  using assms by (auto simp: set_state_def set_state_target_def committed_Inr res_simps read_state_Inr
      commit_False_Inr JobStatus_new_Inr logged_def JobStatus_ok_def)

lemma set_state_Inl: "set_state st stage err m hb ep now j = (j', Inl e) \<Longrightarrow> j' = j"
  by (simp add: set_state_def committed_Inl)

lemma record_receipt_cases:
  assumes "record_receipt r now j = (j', x)"
  obtains (same) e where "j' = j" "x = Inl e"
  | (stored) j1 where "jn_receipts j1 = (if map_of (jn_receipts j) (receipt_path r) = None
        then dict_set (receipt_path r) r (jn_receipts j) else jn_receipts j)"
      "map_of (jn_receipts j1) (receipt_path r) = Some r" "jn_events j1 = jn_events j" "jn_state j1 = jn_state j"
      "(\<exists>e. x = Inl e \<and> j' = j1) \<or> (\<exists>s c. x = Inr s \<and> JobStatus_ok s \<and> jn_state j = Some c \<and>
          js_state s = js_state c \<and> j' = logged ''stage_receipt'' (receipt_payload r) now j1 s)"
proof (cases "map_of (jn_receipts j) (receipt_path r) \<noteq> None \<and> map_of (jn_receipts j) (receipt_path r) \<noteq> Some r")
  case True
  with assms same show ?thesis by (auto simp: record_receipt_def receipt_target_def)
next
  case False
  let ?j1 = "if map_of (jn_receipts j) (receipt_path r) \<noteq> None then j
     else j\<lparr>jn_receipts := dict_set (receipt_path r) r (jn_receipts j)\<rparr>"
  have t: "receipt_target r j = (?j1, bind_res (read_state ?j1) (\<lambda>current. Inr (with_receipt r current)))"
    using False by (cases "map_of (jn_receipts j) (receipt_path r)") (auto simp: receipt_target_def Let_def)
  show ?thesis
  proof (rule stored [of ?j1])
    show "(\<exists>e. x = Inl e \<and> j' = ?j1) \<or> (\<exists>s c. x = Inr s \<and> JobStatus_ok s \<and> jn_state j = Some c \<and>
          js_state s = js_state c \<and> j' = logged ''stage_receipt'' (receipt_payload r) now ?j1 s)"
    proof (cases "read_state ?j1")
      case (Inl e)
      with assms t have "x = Inl e" "j' = ?j1" by (simp_all add: record_receipt_def)
      then show ?thesis by blast
    next
      case (Inr c)
      with assms t have c: "committed ?j1 (commit False (with_receipt r c) ''stage_receipt'' (receipt_payload r) now ?j1) = (j', x)"
        by (simp add: record_receipt_def)
      have "JobStatus_ok c" "jn_state j = Some c" using Inr by (auto simp: read_state_Inr split: if_splits)
      with c Inr show ?thesis
        by (cases x) (auto simp: committed_Inl committed_Inr commit_False_Inr logged_def with_receipt_def Let_def JobStatus_ok_def)
    qed
  qed (use False in auto)
qed

section \<open>The status returned\<close>

definition good_end :: "JobStatus \<Rightarrow> bool" where
  "good_end s \<longleftrightarrow> terminal (js_state s) \<and> JobStatus_ok s"

lemma good_endI: "terminal (js_state s) \<Longrightarrow> JobStatus_ok s \<Longrightarrow> good_end s"
  by (simp add: good_end_def)

lemma rely_True [simp]: "rely wk (\<lambda>_. True)"
  by (simp add: rely_def)

lemma publisher_keeps:
  assumes "rely wk P" "jt P (read_journal wk read_state) (\<lambda>c j. P j \<and> S c) P"
    and "\<And>c stage m ep t j. P j \<Longrightarrow> S c \<Longrightarrow> P (fst (set_state (js_state c) stage None (Some m) None [(''manifest_sha256'', ep)] t j))"
  shows "jkeeps P (publisher_commit wk m s)"
proof (cases m)
  case (Some a)
  have "jt (\<lambda>j. P j \<and> S c) (on_journal wk (set_state (js_state c) (Some s) None (Some a) None
       [(''manifest_sha256'', JStr (ar_sha256 a))])) (\<lambda>_. P) P" for c
    by (rule jt_constant, rule jt_on_journal [OF assms(1)]) (use assms(3) in \<open>auto, (metis fst_conv)+\<close>)
  from jt_bind [OF this jkeeps_return] show ?thesis
    unfolding publisher_commit_def Some option.case by (rule jt_bind [OF assms(2)])
qed (simp add: publisher_commit_def jkeeps_return)

lemma jt_True [simp]: "jt P m (\<lambda>_ _. True) (\<lambda>_. True)"
  by (simp add: jt_def triple_def split: prod.split outcome.split)

lemma frame_True: "frame wk (\<lambda>_. True)"
  by (simp add: frame_def)

lemma set_state_jt:
  "rely wk P \<Longrightarrow> jt P (on_journal wk (set_state st stage err m hb ep)) (\<lambda>s _. js_state s = st \<and> JobStatus_ok s) (\<lambda>_. True)"
  by (rule jt_on_journal) (auto dest: set_state_Inr)

lemma start_stage_status:
  "jt (\<lambda>_. True) (start_stage wk s key ls)
     (\<lambda>r _. case r of Continue _ \<Rightarrow> True | Return st \<Rightarrow> good_end st) (\<lambda>_. True)"
proof -
  have set: "st \<in> {FAILED, CANCELLED} \<Longrightarrow>
      jt (\<lambda>_. True) (on_journal wk (set_state st stage err m hb ep)) (\<lambda>st _. good_end st) (\<lambda>_. True)"
    for st stage err m hb ep
    by (rule jt_weaken [OF set_state_jt [OF rely_True]]) (auto simp: good_end_def terminal_def)
  show ?thesis
    by (rule start_stage_jt [of _ wk s key "\<lambda>_ _. True"], simp, simp, rule run_stage_jt [where S = "\<lambda>_. True" and C = "\<lambda>_. True"])
      (simp_all add: to_state_def fail_with_def set)
qed

lemma mark_orphaned_ok: "mark_orphaned_if_stale a now clock j = (j', Inr s) \<Longrightarrow> JobStatus_ok s"
  by (auto simp: mark_orphaned_if_stale_def read_state_Inr dest: set_state_Inr(2) split: sum.splits if_splits)

text \<open>
  C29. The worker leaves no job half way: whatever the stage runner and the other processes do,
  a status it returns is final, and it is a failure exactly when it carries an error.
\<close>

theorem worker_ends_terminal:
  assumes "run_worker wk w = (Val st, w')"
  shows "terminal (js_state st) \<and> (js_state st = FAILED \<longleftrightarrow> js_error st \<noteq> None)"
proof -
  let ?T = "\<lambda>_ :: Journal. True" and ?R = "\<lambda>st (_ :: Journal). good_end st"
  have set: "st \<in> {FAILED, CANCELLED, SUCCEEDED} \<Longrightarrow> jt ?T (on_journal wk (set_state st stage err m hb ep)) ?R ?T"
    for st stage err m hb ep
    by (rule jt_weaken [OF set_state_jt [OF rely_True]]) (auto simp: good_end_def terminal_def)
  have stage: "jt ?T (do_stage wk s ls) (\<lambda>r j. case r of
       Continue _ \<Rightarrow> (\<exists>key. key_of wk s key \<and> True) | Return st \<Rightarrow> ?R st j) ?T" for s ls
    by (rule do_stage_jt [where P = "\<lambda>_. ?T"])
      (simp_all add: frame_True start_stage_status to_state_def set)
  have drive: "jt ?T (drive_job wk) ?R ?T"
    by (rule drive_job_jt [where P = "\<lambda>_. ?T" and ?P1.0 = ?T, OF _ _ _ _ stage])
      (simp_all add: frame_True to_state_def jt_bind [OF jt_True] set)
  have read: "jt ?T (read_journal wk read_state) (\<lambda>s _. JobStatus_ok s) ?T"
    by (rule jt_read_journal) (auto simp: read_state_Inr)
  have guard: "jt ?T (eff_bind (read_journal wk read_state) (\<lambda>current.
       if terminal (js_state current) then eff_return current else fail_with wk err None)) ?R ?T" for err
    by (rule jt_bind [OF read]) (auto intro!: jt_return jt_weaken [OF set] simp: good_end_def fail_with_def)
  have "jt ?T (run_worker wk) ?R ?T"
    by (rule run_worker_jt [where M = "\<lambda>s _. JobStatus_ok s" and ?E1.0 = ?T])
      (auto intro!: jt_on_journal jt_weaken [OF drive] guard good_endI dest: mark_orphaned_ok)
  from triple_Val [OF this [unfolded jt_def] _ assms] show ?thesis
    by (auto simp: good_end_def JobStatus_ok_def)
qed

section \<open>Attempts\<close>

text \<open>The events that start a stage, in the order of the log.\<close>

definition started :: "Journal \<Rightarrow> (nat \<times> Event) list" where
  "started j = filter (\<lambda>(n, e). ev_type e = ''stage_started'') (jn_events j)"

text \<open>Of two starts of the same stage with the same key, the later has the higher attempt.\<close>

definition attempts_increase :: "Journal \<Rightarrow> bool" where
  "attempts_increase j \<longleftrightarrow> (\<forall>(n, e) \<in> set (started j). 0 < n) \<and>
     sorted_wrt (\<lambda>(_, e) (_, e'). \<forall>s k a a'. reserved_attempt s k e = Some a \<longrightarrow>
       reserved_attempt s k e' = Some a' \<longrightarrow> a < a') (started j)"

text \<open>Only the worker starts stages: neither the other processes nor the stage runner log a start.\<close>

definition starts_alone :: "WorkflowWorker \<Rightarrow> bool" where
  "starts_alone wk \<longleftrightarrow> (\<forall>n j. started (wv_others (wk_env wk) n j) = started j) \<and>
     (\<forall>cx w. started (ws_journal (snd (wk_stage_runner wk cx w))) = started (ws_journal w))"

lemma next_seq_fresh: "next_seq j \<notin> fst ` set (jn_events j)"
proof
  assume n: "next_seq j \<in> fst ` set (jn_events j)"
  then have "jn_events j \<noteq> []" by auto
  then have "next_seq j = Suc (Max (fst ` set (jn_events j)))" by (simp add: next_seq_def Let_def)
  moreover have "next_seq j \<le> Max (fst ` set (jn_events j))" using n by (intro Max_ge) simp_all
  ultimately show False by simp
qed

lemma logged_events: "jn_events (logged ty p t j s) = jn_events j @
    [(next_seq j, \<lparr>ev_seq = next_seq j, ev_type = ty, ev_at = t, ev_payload = p\<rparr>)]"
  by (simp add: logged_def dict_set_fresh [OF next_seq_fresh])

lemma logged_fields [simp]:
  "jn_receipts (logged ty p t j s) = jn_receipts j" "jn_state (logged ty p t j s) = Some s"
  by (simp_all add: logged_def)

lemma next_seq_pos: "0 < next_seq j"
  by (simp add: next_seq_def Let_def)

lemma started_append:
  "ty \<noteq> ''stage_started'' \<Longrightarrow> started (fst (append_event ty p t j)) = started j"
  by (cases "append_event ty p t j"; cases "snd (append_event ty p t j)")
    (auto dest!: append_event_Inr(1) append_event_Inl simp: started_def logged_events)

lemma started_set_state: "started (fst (set_state st stage err m hb ep t j)) = started j"
proof (cases "set_state st stage err m hb ep t j")
  case (Pair j' x)
  then show ?thesis
    by (cases x) (auto dest!: set_state_Inl set_state_Inr(3) simp: started_def logged_events)
qed

lemma started_receipt: "started (fst (record_receipt r t j)) = started j"
proof (cases "record_receipt r t j")
  case (Pair j' x)
  have s: "started (logged ''stage_receipt'' p t j1 s) = started j1" for p j1 s
    by (simp add: started_def logged_events)
  from Pair have "started j' = started j"
    by (rule record_receipt_cases) (auto simp: s, auto simp: started_def)
  with Pair show ?thesis by simp
qed

lemma rely_started: "starts_alone wk \<Longrightarrow> rely wk (\<lambda>j. Q (started j))"
  by (simp add: rely_def starts_alone_def)

lemma runner_started: "starts_alone wk \<Longrightarrow> jkeeps (\<lambda>j. Q (started j)) (wk_stage_runner wk cx)"
  unfolding jt_def triple_def starts_alone_def
  by (auto split: prod.split outcome.split) (metis snd_conv)+

lemma set_state_started:
  "starts_alone wk \<Longrightarrow> jkeeps (\<lambda>j. Q (started j)) (on_journal wk (set_state st stage err m hb ep))"
  by (rule jt_on_journal [OF rely_started]) (auto, (metis fst_conv started_set_state)+)

lemma frame_started: "starts_alone wk \<Longrightarrow> frame wk (\<lambda>j. Q (started j))"
proof -
  assume wk: "starts_alone wk"
  have "jkeeps (\<lambda>j. Q (started j)) (publisher_commit wk m s)" for m s
    by (rule publisher_keeps [where S = "\<lambda>_. True"])
      (use wk in \<open>simp_all add: rely_started started_set_state jkeeps_read\<close>)
  with wk show ?thesis by (simp add: frame_def rely_started started_append started_receipt)
qed


definition starts_before :: "string \<Rightarrow> string \<Rightarrow> int \<Rightarrow> Journal \<Rightarrow> bool" where
  "starts_before s key n j \<longleftrightarrow> attempts_increase j \<and> 0 < n \<and>
     (\<forall>(m, e) \<in> set (started j). \<forall>a. reserved_attempt s key e = Some a \<longrightarrow> a < n)"

lemma attempts_frame:
  assumes "starts_alone wk"
  shows "frame wk attempts_increase" "rely wk (starts_before s key n)"
    "jkeeps attempts_increase (wk_stage_runner wk cx)"
    "jkeeps attempts_increase (on_journal wk (set_state st stage err m hb ep))"
proof -
  define A where "A = (\<lambda>es. (\<forall>(n, e) \<in> set es. 0 < (n :: nat)) \<and>
     sorted_wrt (\<lambda>(_, e) (_, e'). \<forall>s k a a'. reserved_attempt s k e = Some a \<longrightarrow>
       reserved_attempt s k e' = Some a' \<longrightarrow> a < a') es)"
  have A: "attempts_increase = (\<lambda>j. A (started j))" by (simp add: fun_eq_iff attempts_increase_def A_def)
  show "frame wk attempts_increase" "jkeeps attempts_increase (wk_stage_runner wk cx)"
    "jkeeps attempts_increase (on_journal wk (set_state st stage err m hb ep))"
    unfolding A using assms by (rule frame_started, rule runner_started, rule set_state_started)
  have "starts_before s key n = (\<lambda>j. A (started j) \<and> 0 < n \<and>
       (\<forall>(m, e) \<in> set (started j). \<forall>a. reserved_attempt s key e = Some a \<longrightarrow> a < n))"
    by (simp add: fun_eq_iff starts_before_def A)
  then show "rely wk (starts_before s key n)"
    using rely_started [OF assms, of "\<lambda>es. A es \<and> 0 < n \<and>
       (\<forall>(m, e) \<in> set es. \<forall>a. reserved_attempt s key e = Some a \<longrightarrow> a < n)"] by simp
qed

lemma valid_receipts:
  "map_res (\<lambda>(_, r). StageReceipt_new r) xs = Inr rs \<Longrightarrow> rs = map snd xs \<and> (\<forall>r \<in> set rs. 0 < rc_attempt r)"
proof (induction xs arbitrary: rs)
  case (Cons x xs)
  then show ?case by (cases x) (auto simp: res_simps StageReceipt_new_Inr)
qed simp

lemma reserved_pos: "reserved_attempt s key e = Some a \<Longrightarrow> 0 < a"
  by (auto simp: reserved_attempt_def split: if_splits json.splits bool.splits)

lemma events_started:
  assumes "(m, e) \<in> set (started j)" "0 < m"
  shows "e \<in> set (events 0 j)"
proof -
  from assms have "(m, e) \<in> set (sort_key fst (filter (\<lambda>(n, _). \<not> n \<le> 0) (jn_events j)))"
    by (simp add: started_def)
  then have "snd (m, e) \<in> snd ` set (sort_key fst (filter (\<lambda>(n, _). \<not> n \<le> 0) (jn_events j)))" by (rule imageI)
  then show ?thesis by (simp add: events_def)
qed

lemma next_attempt_jt:
  assumes wk: "starts_alone wk"
  shows "jt attempts_increase (next_attempt wk s key) (\<lambda>n. starts_before s key n) attempts_increase"
proof -
  note rely = frame_rely [OF attempts_frame(1) [OF wk]]
  have receipts: "jt attempts_increase (read_journal wk receipts)
      (\<lambda>rs j. attempts_increase j \<and> (\<forall>r \<in> set rs. 0 < rc_attempt r)) attempts_increase"
    by (rule jt_read_journal [OF rely]) (auto simp: receipts_def dest: valid_receipts)
  have events: "jt attempts_increase (read_journal wk (\<lambda>j. Inr (events 0 j)))
      (\<lambda>es j. attempts_increase j \<and> (\<forall>(m, e) \<in> set (started j). e \<in> set es)) attempts_increase"
    by (rule jt_read_journal [OF rely]) (auto simp: attempts_increase_def intro: events_started)
  let ?n = "\<lambda>rs es. let attempts = map rc_attempt (filter (\<lambda>r. rc_stage_name r = s \<and> rc_stage_key r = key) rs) @
           List.map_filter (reserved_attempt s key) es in if attempts \<noteq> [] then Max (set attempts) + 1 else 1"
  have n: "0 < ?n rs es \<and> (\<forall>e a. e \<in> set es \<longrightarrow> reserved_attempt s key e = Some a \<longrightarrow> a < ?n rs es)"
    if "\<forall>r \<in> set rs. 0 < rc_attempt r" for rs es
  proof -
    define as where "as = map rc_attempt (filter (\<lambda>r. rc_stage_name r = s \<and> rc_stage_key r = key) rs) @
           List.map_filter (reserved_attempt s key) es"
    have pos: "a \<in> set as \<Longrightarrow> 0 < a" for a
      using that by (auto simp: as_def map_filter_def dest: reserved_pos)
    have "a \<in> set as" if "e \<in> set es" "reserved_attempt s key e = Some a" for e a
      using that by (force simp: as_def map_filter_def image_iff)
    moreover have "a < Max (set as) + 1" if "a \<in> set as" for a using that by (simp add: le_imp_less_Suc Max_ge)
    moreover have "0 < Max (set as) + 1" if "as \<noteq> []" using pos [OF Max_in] that by fastforce
    ultimately show ?thesis unfolding as_def [symmetric] Let_def by (cases "as = []") fastforce+
  qed
  show ?thesis unfolding next_attempt_def
  proof (rule jt_bind [OF receipts], rule jt_constant)
    fix rs assume "\<forall>r \<in> set (rs :: StageReceipt list). 0 < rc_attempt r"
    note n = n [OF this]
    show "jt attempts_increase (eff_bind (read_journal wk (\<lambda>j. Inr (events 0 j))) (\<lambda>es. let attempts =
        map rc_attempt (filter (\<lambda>r. rc_stage_name r = s \<and> rc_stage_key r = key) rs) @ List.map_filter (reserved_attempt s key) es
        in eff_return (if attempts \<noteq> [] then Max (set attempts) + 1 else 1)))
       (starts_before s key) attempts_increase"
      unfolding Let_def
      by (rule jt_bind [OF events]) (rule jt_return, use n [unfolded Let_def] in \<open>fastforce simp: starts_before_def\<close>)
  qed
qed

lemma start_event_increases:
  assumes "starts_before s key n j" "n \<le> attempt"
    and "append_event ''stage_started''
      [(''stage_name'', JStr s), (''stage_key'', JStr key), (''attempt'', JInt attempt)] t j = (j', x)"
  shows "attempts_increase j'"
proof (cases x)
  case (Inr st)
  let ?e = "\<lparr>ev_seq = next_seq j, ev_type = ''stage_started'', ev_at = t,
     ev_payload = [(''stage_name'', JStr s), (''stage_key'', JStr key), (''attempt'', JInt attempt)]\<rparr>"
  have "started j' = started j @ [(next_seq j, ?e)]"
    using assms(3) Inr append_event_Inr(1) by (fastforce simp: started_def logged_events)
  moreover have "reserved_attempt s' k' ?e = Some a \<Longrightarrow> s' = s \<and> k' = key \<and> a = attempt" for s' k' a
    by (auto simp: reserved_attempt_def field_def split: if_splits)
  ultimately show ?thesis using assms(1,2) next_seq_pos [of j]
    unfolding starts_before_def attempts_increase_def by (fastforce simp: sorted_wrt_append)
qed (use assms in \<open>auto simp: starts_before_def dest: append_event_Inl\<close>)

lemma start_stage_attempts:
  assumes wk: "starts_alone wk"
  shows "jkeeps attempts_increase (start_stage wk s key ls)"
proof -
  note fr = attempts_frame [OF wk]
  have event: "jt (starts_before s key n) (on_journal wk (append_event ''stage_started''
      [(''stage_name'', JStr s), (''stage_key'', JStr key), (''attempt'', JInt attempt)])) (\<lambda>_. attempts_increase) attempts_increase"
    if "n \<le> attempt" for n attempt
    by (rule jt_on_journal [OF fr(2)]) (use that in \<open>auto intro: start_event_increases simp: starts_before_def\<close>)
  have "jt (starts_before s key n) (run_stage wk s key attempt ls)
      (\<lambda>r j. case r of Continue _ \<Rightarrow> attempts_increase j | Return st \<Rightarrow> attempts_increase j) attempts_increase"
    if "n \<le> attempt" for n attempt
    by (rule run_stage_jt [OF event [OF that]])
      (simp_all add: fr frame_rely frame_receipt frame_commit to_state_def fail_with_def)
  then have "jt (starts_before s key n) (run_stage wk s key attempt ls) (\<lambda>_. attempts_increase) attempts_increase"
    if "n \<le> attempt" for n attempt
    by (rule jt_weaken) (use that in \<open>auto split: loop_step.splits\<close>)
  then show ?thesis
    by (intro start_stage_jt [OF next_attempt_jt [OF wk]]) (auto simp: starts_before_def)
qed

text \<open>
  C9. No attempt number is used twice: in any number of runs of the worker, killed at any
  point or not, the starts of one stage with one key are logged with increasing attempts, so no
  two of them share an output directory. The worker is the only one that logs starts.
\<close>

theorem attempts_never_reused:
  assumes "starts_alone wk" "attempts_increase (ws_journal w)"
  shows "attempts_increase (ws_journal (snd (run_worker wk w)))"
proof -
  note wk = assms(1) and fr = attempts_frame [OF assms(1)]
  let ?A = attempts_increase
  have set: "jkeeps ?A (on_journal wk (set_state st stage err m hb ep))" for st stage err m hb ep by (rule fr(4))
  have start: "jt ?A (start_stage wk s key ls) (\<lambda>r j. case r of Continue _ \<Rightarrow> ?A j | Return st \<Rightarrow> ?A j) ?A" for s key ls
    by (rule jt_weaken [OF start_stage_attempts [OF wk]]) (auto split: loop_step.splits)
  have stage: "jt ?A (do_stage wk s ls) (\<lambda>r j. case r of
       Continue _ \<Rightarrow> (\<exists>key. key_of wk s key \<and> ?A j) | Return st \<Rightarrow> ?A j) ?A" for s ls
    by (rule do_stage_jt [where P = "\<lambda>_. ?A" and R = "\<lambda>_. ?A"])
      (simp_all add: fr start to_state_def try_reuse_keeps receipt_of_journal_keeps frame_rely)
  have drive: "jkeeps ?A (drive_job wk)"
    by (rule drive_job_jt [where P = "\<lambda>_. ?A" and ?P1.0 = ?A, OF _ _ _ _ stage])
      (simp_all add: fr to_state_def jkeeps_bind)
  have mark: "jkeeps ?A (on_journal wk (mark_orphaned_if_stale a now))" for a now
  proof (rule jt_on_journal [OF frame_rely [OF fr(1)]])
    have "started (fst (mark_orphaned_if_stale a now t j)) = started j" for t j
      by (auto simp: mark_orphaned_if_stale_def started_set_state split: sum.split option.split)
    then have "?A (fst (mark_orphaned_if_stale a now t j)) = ?A j" for t j by (simp add: attempts_increase_def)
    then show "?A j \<Longrightarrow> mark_orphaned_if_stale a now t j = (j', Inr x) \<Longrightarrow> ?A j'"
      "?A j \<Longrightarrow> mark_orphaned_if_stale a now t j = (j', Inl e) \<Longrightarrow> ?A j'" for t j j' x e by (metis fst_conv)+
  qed
  have guard: "jkeeps ?A (eff_bind (read_journal wk read_state) (\<lambda>current.
       if terminal (js_state current) then eff_return current else fail_with wk err None))" for err
    unfolding fail_with_def by (intro jkeep set frame_rely [OF fr(1)])
  have lock: "?A (j\<lparr>jn_worker_lock := b\<rparr>) = ?A j" for j b by (simp add: attempts_increase_def started_def)
  have "jkeeps ?A (run_worker wk)"
    by (rule run_worker_jt [where M = "\<lambda>_. ?A" and ?E1.0 = ?A])
      (simp_all add: mark drive guard lock worker_lease_exit_def frame_rely [OF fr(1)])
  then show ?thesis unfolding jt_def keeps_triple [symmetric] using assms(2) by (rule keepsD)
qed

section \<open>Success\<close>

definition recorded :: "Journal \<Rightarrow> string \<Rightarrow> bool" where
  "recorded j key \<longleftrightarrow> (\<exists>r \<in> snd ` set (jn_receipts j). verified r \<and> rc_stage_key r = key)"

definition not_succeeded :: "Journal \<Rightarrow> bool" where
  "not_succeeded j \<longleftrightarrow> (\<forall>s. jn_state j = Some s \<longrightarrow> js_state s \<noteq> SUCCEEDED)"

text \<open>
  The other processes and the stage runner remove no receipt and do not declare the job
  succeeded.
\<close>

definition honest :: "(Journal \<Rightarrow> Journal) \<Rightarrow> bool" where
  "honest f \<longleftrightarrow> (\<forall>j. set (jn_receipts j) \<subseteq> set (jn_receipts (f j)) \<and> (not_succeeded j \<longrightarrow> not_succeeded (f j)))"

definition honest_others :: "WorkflowWorker \<Rightarrow> bool" where
  "honest_others wk \<longleftrightarrow> (\<forall>n. honest (wv_others (wk_env wk) n)) \<and>
     (\<forall>cx w. set (jn_receipts (ws_journal w)) \<subseteq> set (jn_receipts (ws_journal (snd (wk_stage_runner wk cx w)))) \<and>
       (not_succeeded (ws_journal w) \<longrightarrow> not_succeeded (ws_journal (snd (wk_stage_runner wk cx w)))))"

definition progress :: "string set \<Rightarrow> Journal \<Rightarrow> bool" where
  "progress K j \<longleftrightarrow> not_succeeded j \<and> (\<forall>key \<in> K. recorded j key)"

lemma lock_irrelevant [simp]:
  "recorded (j\<lparr>jn_worker_lock := b\<rparr>) = recorded j" "not_succeeded (j\<lparr>jn_worker_lock := b\<rparr>) = not_succeeded j"
  by (simp_all add: recorded_def not_succeeded_def fun_eq_iff)

lemma recorded_mono: "set (jn_receipts j) \<subseteq> set (jn_receipts j') \<Longrightarrow> recorded j key \<Longrightarrow> recorded j' key"
  by (auto simp: recorded_def)

lemma progress_mono:
  "progress K j \<Longrightarrow> set (jn_receipts j) \<subseteq> set (jn_receipts j') \<Longrightarrow> not_succeeded j' \<Longrightarrow> progress K j'"
  by (auto simp: progress_def intro: recorded_mono)

lemma progress_not_succeeded: "progress K j \<Longrightarrow> not_succeeded j"
  by (simp add: progress_def)

lemma progress_rely: "honest_others wk \<Longrightarrow> rely wk (progress K)"
  unfolding rely_def honest_others_def honest_def
  by (blast intro: progress_mono dest: progress_not_succeeded)

lemma progress_runner: "honest_others wk \<Longrightarrow> jkeeps (progress K) (wk_stage_runner wk cx)"
  unfolding jt_def keeps_triple [symmetric] keeps_def honest_others_def
  by (blast intro: progress_mono dest: progress_not_succeeded)

lemma progress_logged:
  "progress K j \<Longrightarrow> js_state s \<noteq> SUCCEEDED \<Longrightarrow> progress K (logged ty p t j s)"
  by (erule progress_mono) (simp_all add: not_succeeded_def)

lemma progress_event: "progress K j \<Longrightarrow> progress K (fst (append_event ty p t j))"
proof (cases "append_event ty p t j")
  case (Pair j' x)
  assume K: "progress K j"
  show ?thesis
  proof (cases x)
    case (Inr s)
    from append_event_Inr(1,3) [OF Pair [unfolded Inr]] K show ?thesis
      by (auto simp: Pair intro!: progress_logged) (auto simp: progress_def not_succeeded_def)
  qed (use Pair K append_event_Inl in fastforce)
qed

lemma progress_set_state:
  "progress K j \<Longrightarrow> st \<noteq> SUCCEEDED \<Longrightarrow> progress K (fst (set_state st stage err m hb ep t j))"
proof (cases "set_state st stage err m hb ep t j")
  case (Pair j' x)
  assume K: "progress K j" "st \<noteq> SUCCEEDED"
  show ?thesis
  proof (cases x)
    case (Inr s)
    from set_state_Inr(1,3) [OF Pair [unfolded Inr]] K show ?thesis
      by (auto simp: Pair intro!: progress_logged)
  qed (use Pair K set_state_Inl in fastforce)
qed

lemma receipts_grow:
  assumes "jn_receipts j1 = (if map_of (jn_receipts j) p = None then dict_set p r (jn_receipts j) else jn_receipts j)"
  shows "set (jn_receipts j) \<subseteq> set (jn_receipts j1)"
proof -
  have "map_of (jn_receipts j) p = None \<Longrightarrow> dict_set p r (jn_receipts j) = jn_receipts j @ [(p, r)]"
    by (simp add: dict_set_fresh map_of_eq_None_iff)
  with assms show ?thesis by auto
qed

lemma progress_receipt:
  assumes "progress K j" "record_receipt r t j = (j', x)"
  shows "progress K j'" "x = Inr s \<Longrightarrow> verified r \<Longrightarrow> progress (insert (rc_stage_key r) K) j'"
proof -
  from assms(2) have "progress K j' \<and> (\<forall>s. x = Inr s \<longrightarrow> verified r \<longrightarrow> progress (insert (rc_stage_key r) K) j')"
  proof (cases rule: record_receipt_cases)
    case (stored j1)
    have g: "set (jn_receipts j) \<subseteq> set (jn_receipts j1)" using stored(1) by (rule receipts_grow)
    have n: "not_succeeded j1" "not_succeeded j'"
      using assms(1) stored(4,5) by (auto simp: progress_def not_succeeded_def)
    have j': "jn_receipts j' = jn_receipts j1" using stored(5) by auto
    have "(receipt_path r, r) \<in> set (jn_receipts j1)" using stored(2) by (rule map_of_SomeD)
    then have "verified r \<Longrightarrow> recorded j' (rc_stage_key r)" unfolding recorded_def j' by force
    moreover have "progress K j'" by (rule progress_mono [OF assms(1) _ n(2)]) (simp add: j' g)
    ultimately show ?thesis by (simp add: progress_def)
  qed (use assms(1) in auto)
  then show "progress K j'" "x = Inr s \<Longrightarrow> verified r \<Longrightarrow> progress (insert (rc_stage_key r) K) j'" by blast+
qed

lemma progress_frame: "honest_others wk \<Longrightarrow> frame wk (progress K)"
proof -
  assume wk: "honest_others wk"
  have "jkeeps (progress K) (publisher_commit wk m s)" for m s
  proof (rule publisher_keeps [where S = "\<lambda>c. js_state c \<noteq> SUCCEEDED"])
    show "jt (progress K) (read_journal wk read_state) (\<lambda>c j. progress K j \<and> js_state c \<noteq> SUCCEEDED) (progress K)"
      by (rule jt_read_journal) (auto simp: progress_rely wk read_state_Inr progress_def not_succeeded_def)
  qed (auto simp: progress_rely wk intro: progress_set_state)
  then show ?thesis unfolding frame_def
    using progress_rely [OF wk] progress_event progress_receipt(1) by (metis prod.collapse)
qed

lemma progress_record:
  assumes "honest_others wk" "verified r" "rc_stage_key r = key"
  shows "jt (progress K) (record_stage_receipt wk r) (\<lambda>_. progress (insert key K)) (progress K)"
  unfolding record_stage_receipt_def
proof (rule jt_bind [OF jt_lift])
  show "progress K j \<Longrightarrow> StageReceipt_new r = Inr r' \<Longrightarrow> progress K j \<and> r' = r" for j r'
    by (simp add: StageReceipt_new_Inr)
  show "jt (\<lambda>j. progress K j \<and> r' = r) (on_journal wk (record_receipt r')) (\<lambda>_. progress (insert key K)) (progress K)" for r'
    by (rule jt_constant, rule jt_on_journal [OF progress_rely [OF assms(1)]])
      (use assms(2,3) progress_receipt in blast)+
qed

lemma eff_bind_assoc: "eff_bind (eff_bind m f) g = eff_bind m (\<lambda>x. eff_bind (f x) g)"
  by (simp add: eff_bind_def fun_eq_iff split: prod.split outcome.split)

lemma verified_list_subset:
  "verified_list fm rs st = (Val vs, st') \<Longrightarrow> set vs \<subseteq> {r \<in> set rs. verified r}"
  by (induction rs arbitrary: st vs) (fastforce simp: eff_simps split: if_splits)+

lemma with_key_Some: "with_key key rs = Some r \<Longrightarrow> r \<in> set rs \<and> rc_stage_key r = key"
  by (auto simp: with_key_def find_Some_iff)

lemma jt_on_disk_fact:
  assumes "\<And>j. P j \<Longrightarrow> E j" "\<And>st x st'. m st = (Val x, st') \<Longrightarrow> F x"
  shows "jt P (on_disk m) (\<lambda>x j. P j \<and> F x) E"
  by (rule jt_fact, rule jt_disk) (auto simp: assms on_disk_def split: prod.splits intro: assms(2))

lemma own_receipt_progress:
  assumes wk: "honest_others wk"
  shows "jt (progress K) (receipt_of_journal wk key) (\<lambda>r. if r = None then progress K else progress (insert key K)) not_succeeded"
proof -
  have read: "jt (progress K) (read_journal wk receipts)
      (\<lambda>rs j. progress K j \<and> set rs = snd ` set (jn_receipts j)) not_succeeded"
    by (rule jt_read_journal) (auto simp: progress_rely wk progress_def dest: receipts_Inr)
  have disk: "jt (\<lambda>j. progress K j \<and> set rs = snd ` set (jn_receipts j)) (on_disk (verified_list fm rs))
      (\<lambda>vs j. (progress K j \<and> set rs = snd ` set (jn_receipts j)) \<and> set vs \<subseteq> {r \<in> set rs. verified r}) not_succeeded" for rs fm
    by (rule jt_on_disk_fact) (auto simp: progress_def dest: verified_list_subset)
  have "jt (\<lambda>j. (progress K j \<and> set rs = snd ` set (jn_receipts j)) \<and> set vs \<subseteq> {r \<in> set rs. verified r})
      (eff_return (with_key key vs)) (\<lambda>r. if r = None then progress K else progress (insert key K)) not_succeeded" for rs vs
  proof (rule jt_return)
    fix j assume j: "(progress K j \<and> set rs = snd ` set (jn_receipts j)) \<and> set vs \<subseteq> {r \<in> set rs. verified r}"
    show "(if with_key key vs = None then progress K else progress (insert key K)) j"
    proof (cases "with_key key vs")
      case (Some r)
      with with_key_Some [OF Some] j have "recorded j key" unfolding recorded_def by blast
      with Some j show ?thesis by (simp add: progress_def)
    qed (use j in simp)
  qed
  from jt_bind [OF disk this]
  have "jt (\<lambda>j. progress K j \<and> set rs = snd ` set (jn_receipts j)) (eff_bind (on_disk (verified_list fm rs))
      (\<lambda>vs. eff_return (with_key key vs))) (\<lambda>r. if r = None then progress K else progress (insert key K)) not_succeeded" for rs fm .
  from jt_bind [OF read this] show ?thesis
    by (simp add: receipt_of_journal_def own_verified_receipts_def eff_bind_assoc)
qed

lemma try_reuse_progress:
  assumes wk: "honest_others wk"
  shows "jt (progress K) (try_reuse wk s key) (\<lambda>r. if r = None then progress K else progress (insert key K)) not_succeeded"
proof -
  let ?Q = "\<lambda>r. if r = None then progress K else progress (insert key K)"
  note fr = progress_frame [OF wk] and rely = progress_rely [OF wk]
  have weak: "jkeeps (progress K) m \<Longrightarrow> jt (progress K) m (\<lambda>_. progress K) not_succeeded" for m :: "(wstate, 'x) eff"
    by (erule jt_weaken) (simp_all add: progress_not_succeeded)
  have none: "jt (progress K) (eff_return None) ?Q not_succeeded" by (rule jt_return) simp
  have lookup: "jt (progress K) (other_verified_receipts wk j) (\<lambda>_. progress K) not_succeeded" for j
    by (rule weak [OF other_receipts_keeps])
  have parent: "jt (progress K) (reuse_parent wk s key p) ?Q not_succeeded" if "rc_stage_key p = key" for p
  proof -
    have "jt (progress K) (record_stage_receipt wk (reused_receipt p a b c)) (\<lambda>_. progress (insert key K)) not_succeeded" for a b c
      by (rule jt_weaken [OF progress_record [OF wk]])
        (auto simp: verified_def reused_receipt_def that dest: progress_not_succeeded)
    then have "jt (progress K) (eff_bind (record_stage_receipt wk (reused_receipt p a b c))
        (\<lambda>_. eff_return (Some (reused_receipt p a b c)))) ?Q not_succeeded" for a b c
      by (rule jt_bind) (rule jt_return, simp)
    then show ?thesis unfolding reuse_parent_def Let_def
      by (intro jt_bind [OF weak [OF next_attempt_keeps [OF rely]]] jt_bind [OF weak [OF jkeeps_now [OF rely]]])
  qed
  have found: "jt (progress K) (case with_key key rs of None \<Rightarrow> eff_return None
      | Some parent \<Rightarrow> reuse_parent wk s key parent) ?Q not_succeeded" for rs
    using with_key_Some [of key rs] by (cases "with_key key rs") (simp_all add: none parent)
  have rest: "jt (?Q existing) (case existing of Some r \<Rightarrow> eff_return (Some r)
    | None \<Rightarrow> (case wk_reuse_from wk of None \<Rightarrow> eff_return None
      | Some parent_journal \<Rightarrow> eff_bind (other_verified_receipts wk parent_journal) (\<lambda>rs. case with_key key rs of
          None \<Rightarrow> eff_return None | Some parent \<Rightarrow> reuse_parent wk s key parent))) ?Q not_succeeded" for existing
    by (cases existing; cases "wk_reuse_from wk") (simp_all add: none jt_return jt_bind [OF lookup found])
  show ?thesis unfolding try_reuse_def by (rule jt_bind [OF own_receipt_progress [OF wk] rest])
qed

definition mark_event :: "raw_map \<Rightarrow> bool" where
  "mark_event p \<longleftrightarrow> map fst p = [''previous_state'', ''last_heartbeat_at'', ''stale_after_seconds'']"

lemma mark_orphaned_cases:
  assumes "mark_orphaned_if_stale a now c j = (j', x)"
  shows "(j' = j \<and> (\<forall>s. x = Inr s \<longrightarrow> read_state j = Inr s)) \<or>
     (\<exists>s stage p. read_state j = Inr s \<and> js_state s \<in> set IN_FLIGHT_JOB_STATES \<and> mark_event p \<and>
        set_state ORPHANED stage None None None p c j = (j', x))"
  using assms unfolding mark_orphaned_if_stale_def
  by (cases "read_state j"; cases "heartbeat_stale a now j"; cases "last_heartbeat_at j")
    (auto simp: mark_event_def split: if_splits)

lemma progress_set_state_Inr:
  assumes "progress K j" "st \<noteq> SUCCEEDED" "set_state st stage err m hb ep t j = (j', x)"
  shows "progress K j' \<and> (\<forall>s. x = Inr s \<longrightarrow> js_state s \<noteq> SUCCEEDED)"
  using progress_set_state [OF assms(1,2), of stage err m hb ep t] assms(2,3) set_state_Inr(1) by auto

lemma set_state_progress:
  assumes "honest_others wk" "st \<noteq> SUCCEEDED"
  shows "jt (progress K) (on_journal wk (set_state st stage err m hb ep))
     (\<lambda>s j. progress K j \<and> js_state s \<noteq> SUCCEEDED) not_succeeded"
  by (rule jt_on_journal [OF progress_rely [OF assms(1)]])
    (auto dest: progress_not_succeeded progress_set_state_Inr [OF _ assms(2)])

lemma progress_empty: "progress {} = not_succeeded"
  by (simp add: fun_eq_iff progress_def)

definition stages_recorded :: "WorkflowWorker \<Rightarrow> Journal \<Rightarrow> bool" where
  "stages_recorded wk j \<longleftrightarrow> (\<forall>s \<in> set (wk_stages wk). \<exists>key. key_of wk s key \<and> recorded j key)"

abbreviation success_recorded :: "WorkflowWorker \<Rightarrow> JobStatus \<Rightarrow> Journal \<Rightarrow> bool" where
  "success_recorded wk st j \<equiv> js_state st = SUCCEEDED \<longrightarrow> stages_recorded wk j"

lemma progress_ended:
  "honest_others wk \<Longrightarrow> st \<noteq> SUCCEEDED \<Longrightarrow>
    jt (progress K) (on_journal wk (set_state st stage err m hb ep)) (success_recorded wk) not_succeeded"
  by (rule jt_weaken [OF set_state_progress]) auto

lemma progress_moved:
  "honest_others wk \<Longrightarrow> st \<noteq> SUCCEEDED \<Longrightarrow> jt (progress K) (to_state wk st) (\<lambda>_. progress K) not_succeeded"
  unfolding to_state_def by (rule jt_weaken [OF set_state_progress]) auto

text \<open>A stage that continues has left a verified receipt under its key.\<close>

lemma progress_stage:
  assumes wk: "honest_others wk"
  shows "jt (progress K) (do_stage wk s ls) (\<lambda>r j. case r of
       Continue _ \<Rightarrow> (\<exists>key. key_of wk s key \<and> progress (insert key K) j) | Return st \<Rightarrow> success_recorded wk st j) not_succeeded"
proof -
  note fr = progress_frame [OF wk] and rely = progress_rely [OF wk] and weak = progress_not_succeeded
    and ended = progress_ended [OF wk]
  have event: "jt (progress K) (on_journal wk (append_event ty p)) (\<lambda>_. progress K) not_succeeded" for K ty p
    by (rule jt_on_journal [OF rely]) (auto dest: weak, (metis fst_conv progress_event weak)+)
  have recorded: "verified r \<Longrightarrow> rc_stage_key r = key \<Longrightarrow>
      jt (progress K) (record_stage_receipt wk r) (\<lambda>_. progress (insert key K)) not_succeeded" for r key K
    by (rule jt_weaken [OF progress_record [OF wk]]) (auto dest: weak)
  have run_stage: "jt (progress K) (run_stage wk s key attempt ls)
      (\<lambda>r j. case r of Continue _ \<Rightarrow> progress (insert key K) j | Return st \<Rightarrow> success_recorded wk st j) not_succeeded" for K s key attempt ls
    by (rule run_stage_jt [where S = "progress K"])
      (auto intro: event progress_runner [OF wk] rely recorded jkeep fr ended weak simp: to_state_def fail_with_def)
  have attempt: "jt (progress K) (next_attempt wk s key) (\<lambda>_. progress K) not_succeeded" for K s key
    by (rule jt_weaken [OF next_attempt_keeps [OF rely]]) (auto dest: weak)
  have start: "jt (progress K) (start_stage wk s key ls)
      (\<lambda>r j. case r of Continue _ \<Rightarrow> progress (insert key K) j | Return st \<Rightarrow> success_recorded wk st j) not_succeeded" for K s key ls
    by (rule start_stage_jt [OF attempt]) (auto intro: run_stage weak)
  show ?thesis
    by (rule do_stage_jt [where P = progress, OF fr try_reuse_progress [OF wk] own_receipt_progress [OF wk] start])
      (auto intro: ended weak simp: to_state_def)
qed

lemma progress_last:
  assumes wk: "honest_others wk" and K: "\<forall>s \<in> set (wk_stages wk). \<exists>key \<in> K. key_of wk s key"
  shows "jt (progress K) (on_journal wk (set_state SUCCEEDED None None m None [])) (success_recorded wk) not_succeeded"
proof (rule jt_on_journal [OF progress_rely [OF wk]])
  show "success_recorded wk x j'" if "progress K j" "set_state SUCCEEDED None None m None [] t j = (j', Inr x)" for t j j' x
  proof -
    from set_state_Inr(3) [OF that(2)] have "jn_receipts j' = jn_receipts j" by auto
    then have "recorded j' key = recorded j key" for key by (simp add: recorded_def)
    with that(1) K show ?thesis unfolding progress_def stages_recorded_def by blast
  qed
qed (auto dest: progress_not_succeeded set_state_Inl)

lemma progress_drive:
  assumes wk: "honest_others wk"
  shows "jt not_succeeded (drive_job wk) (success_recorded wk) not_succeeded"
proof -
  have "jt (progress {}) (drive_job wk) (success_recorded wk) not_succeeded"
    by (rule drive_job_jt [where P = progress and ?P1.0 = "progress {}",
          OF progress_frame [OF wk] progress_not_succeeded _ _ progress_stage [OF wk]])
      (auto intro: progress_moved [OF wk] jt_bind [OF progress_moved [OF wk]] progress_last [OF wk])
  then show ?thesis by (simp add: progress_empty)
qed

lemma progress_mark:
  assumes wk: "honest_others wk"
  shows "jt not_succeeded (on_journal wk (mark_orphaned_if_stale a now))
    (\<lambda>s j. not_succeeded j \<and> js_state s \<noteq> SUCCEEDED) not_succeeded"
proof -
  have "not_succeeded j' \<and> (\<forall>s. x = Inr s \<longrightarrow> js_state s \<noteq> SUCCEEDED)"
    if "not_succeeded j" "mark_orphaned_if_stale a now t j = (j', x)" for t j j' x
    using mark_orphaned_cases [OF that(2)]
  proof (elim disjE exE conjE)
    fix s stage p assume "set_state ORPHANED stage None None None p t j = (j', x)"
    from progress_set_state_Inr [of "{}", OF _ _ this] that(1) show ?thesis by (simp add: progress_empty)
  qed (use that(1) in \<open>simp add: read_state_Inr not_succeeded_def\<close>)
  then show ?thesis by (intro jt_on_journal) (use progress_rely [OF wk, of "{}"] in \<open>auto simp: progress_empty\<close>)
qed

text \<open>
  C8. Success means every stage is done: when the worker returns success, then for every stage
  of the job a receipt of a successful attempt is recorded under a key of that stage, made by
  this run or by an earlier one whose outputs still verified. The stage runner and the other
  processes are arbitrary, as long as they remove no receipt and do not end the job themselves.
\<close>

theorem success_means_all_stages_done:
  assumes "honest_others wk" "not_succeeded (ws_journal w)" "run_worker wk w = (Val st, w')" "js_state st = SUCCEEDED"
  shows "\<forall>s \<in> set (wk_stages wk). \<exists>key. key_of wk s key \<and> recorded (ws_journal w') key"
proof -
  note wk = assms(1) and rely = progress_rely [OF assms(1), of "{}", unfolded progress_empty]
    and ended = progress_ended [OF assms(1), of _ "{}", unfolded progress_empty]
  have read: "jt not_succeeded (read_journal wk read_state) (\<lambda>s j. not_succeeded j \<and> js_state s \<noteq> SUCCEEDED) not_succeeded"
    by (rule jt_read_journal) (use rely in \<open>auto simp: read_state_Inr not_succeeded_def\<close>)
  have guard: "jt not_succeeded (eff_bind (read_journal wk read_state) (\<lambda>current.
       if terminal (js_state current) then eff_return current else fail_with wk err None)) (success_recorded wk) not_succeeded" for err
    by (rule jt_bind [OF read], rule jt_constant) (use ended [of FAILED] in \<open>auto simp: fail_with_def intro: jt_return\<close>)
  have driven: "jt (\<lambda>j. not_succeeded j \<and> js_state s \<noteq> SUCCEEDED) (drive_job wk) (success_recorded wk) not_succeeded" for s
    using progress_drive [OF wk] by (intro jt_constant) simp
  have "jt not_succeeded (run_worker wk) (success_recorded wk) not_succeeded"
    by (rule run_worker_jt [OF _ _ _ progress_mark [OF wk] _ _ driven guard])
      (use rely in \<open>simp_all add: worker_lease_exit_def stages_recorded_def recorded_def\<close>)
  from triple_Val [OF this [unfolded jt_def] assms(2,3)] assms(4) show ?thesis by (simp add: stages_recorded_def)
qed

section \<open>The search of the ancestry ends\<close>

definition candidate_job :: "WorkflowWorker \<Rightarrow> candidate \<Rightarrow> string" where
  "candidate_job wk c = (case c of OwnJob \<Rightarrow> wk_job_id wk | OtherJob i _ \<Rightarrow> i)"

lemma open_parent_known: "c \<in> set (open_parent jobs p) \<Longrightarrow> candidate_job wk c \<in> fst ` set jobs"
proof -
  assume "c \<in> set (open_parent jobs p)"
  then obtain i j where "c = OtherJob i j" "map_of jobs i \<noteq> None"
    by (auto simp: open_parent_def JobJournal_open_def split: option.splits)
  then show ?thesis by (auto simp: candidate_job_def dest!: map_of_SomeD intro: rev_image_eqI)
qed

lemma open_parent_length: "length (open_parent jobs p) \<le> 1"
  by (simp add: open_parent_def split: option.split sum.split)

text \<open>Every iteration drops a candidate for good or visits one more of the known jobs.\<close>

lemma ancestor_search_ends:
  assumes "finite I" "fst ` set (wv_jobs (wk_env wk)) \<subseteq> I" "candidate_job wk ` set cs \<subseteq> I"
    and "length cs + card (I - set visited) < n"
  shows "ancestor_search n wk key cs visited w \<noteq> (Val None, w')"
  using assms(3,4)
proof (induction n arbitrary: cs visited w)
  case (Suc n)
  show ?case
  proof (cases cs)
    case (Cons c cs')
    let ?i = "candidate_job wk c"
    have i: "?i \<in> I" and cs': "candidate_job wk ` set cs' \<subseteq> I" using Suc.prems(1) Cons by auto
    show ?thesis
    proof (cases "?i \<in> set visited")
      case True
      with Suc.IH [OF cs'] Suc.prems(2) Cons show ?thesis by (simp add: candidate_job_def Let_def)
    next
      case False
      have "I - set (?i # visited) = I - set visited - {?i}" by auto
      then have "card (I - set (?i # visited)) < card (I - set visited)"
        using False i assms(1) by (metis DiffI card_Diff1_less finite_Diff)
      then have "length (cs' @ more) + card (I - set (?i # visited)) < n" if "length more \<le> 1" for more :: "candidate list"
        using that Suc.prems(2) Cons by simp
      then have "ancestor_search n wk key (cs' @ (if b then open_parent (wv_jobs (wk_env wk)) p else [])) (?i # visited) v \<noteq> (Val None, w')"
        for b p v
        using open_parent_length [of "wv_jobs (wk_env wk)" p] open_parent_known [of _ "wv_jobs (wk_env wk)" p wk] assms(2) cs'
        by (intro Suc.IH) (auto split: if_splits)
      with Cons False show ?thesis
        by (auto simp: candidate_job_def [symmetric] Let_def eff_simps)
    qed
  qed (simp add: eff_return_def)
qed simp

lemma ancestor_bound_enough: "has_verified_ancestor_build_receipt wk w \<noteq> (Val None, w')"
proof -
  let ?jobs = "wv_jobs (wk_env wk)"
  define start where "start = (\<lambda>p. OwnJob # (case wk_reuse_from wk of None \<Rightarrow> [] | Some j \<Rightarrow> [OtherJob (jn_job_id j) j]) @
        open_parent ?jobs p)"
  let ?I = "\<lambda>p. fst ` set ?jobs \<union> candidate_job wk ` set (start p)"
  have enough: "length (start p) + card (?I p - set []) < ancestor_bound wk" for p
  proof -
    have "length (start p) \<le> 3"
      using open_parent_length [of ?jobs p] by (simp add: start_def split: option.split)
    moreover have "card (fst ` set ?jobs) \<le> length ?jobs" "card (candidate_job wk ` set (start p)) \<le> length (start p)"
      by (meson card_image_le card_length finite_set le_trans)+
    moreover have "card (?I p) \<le> card (fst ` set ?jobs) + card (candidate_job wk ` set (start p))" by (rule card_Un_le)
    ultimately show ?thesis by (simp add: ancestor_bound_def)
  qed
  have "ancestor_search (ancestor_bound wk) wk key (start p) [] v \<noteq> (Val None, w')" for key p v
    by (rule ancestor_search_ends [where I = "?I p", OF _ _ _ enough]) auto
  note this [unfolded start_def]
  then show ?thesis by (auto simp: has_verified_ancestor_build_receipt_def eff_simps)
qed

end
