(* ===== verification/WorkerMachine.thy ===== *)
theory WorkerMachine
  imports WorkerProps
begin

text \<open>
  The job machine as an abstract specification: the moves between job states. The state changes
  a job's log records, in their order, are a run of the machine from \<open>QUEUED\<close> to the state of
  the snapshot, and every run of the worker keeps it so: the worker refines the machine.
\<close>

section \<open>The machine\<close>

inductive job_move :: "JobState \<Rightarrow> JobState \<Rightarrow> bool" where
  claim: "s \<in> {QUEUED, ORPHANED} \<Longrightarrow> job_move s STAGING"
| prepared: "job_move STAGING RUNNING"
| publish: "job_move RUNNING RUNNING"
| stages_done: "job_move RUNNING COLLECTING"
| collected: "job_move COLLECTING COMMITTING"
| succeed: "job_move COMMITTING SUCCEEDED"
| cancel: "job_move RUNNING CANCELLED"
| fail: "\<not> terminal s \<Longrightarrow> job_move s FAILED"
| orphan: "s \<in> set IN_FLIGHT_JOB_STATES \<Longrightarrow> job_move s ORPHANED"

inductive_cases move_from_succeeded: "job_move SUCCEEDED s"
inductive_cases move_from_failed: "job_move FAILED s"
inductive_cases move_from_cancelled: "job_move CANCELLED s"

text \<open>A run of the machine that passes through the states with the given values.\<close>

fun machine_run :: "JobState \<Rightarrow> json list \<Rightarrow> JobState \<Rightarrow> bool" where
  "machine_run s [] t \<longleftrightarrow> s = t"
| "machine_run s (x # xs) t \<longleftrightarrow> (\<exists>u. x = JStr (job_state_value u) \<and> job_move s u \<and> machine_run u xs t)"

lemma machine_run_snoc:
  "machine_run s xs t \<Longrightarrow> job_move t u \<Longrightarrow> machine_run s (xs @ [JStr (job_state_value u)]) u"
  by (induction xs arbitrary: s) auto

lemma machine_terminal: "terminal s \<Longrightarrow> \<not> job_move s t"
  by (auto simp: terminal_def IN_FLIGHT_JOB_STATES_def
      elim!: move_from_succeeded move_from_failed move_from_cancelled)

section \<open>What a job's log says\<close>

definition state_log :: "Journal \<Rightarrow> json list" where
  "state_log j = map (\<lambda>(_, e). field (ev_payload e) ''state'')
     (filter (\<lambda>(_, e). ev_type e = ''state_changed'') (jn_events j))"

definition current_state :: "Journal \<Rightarrow> JobState option" where
  "current_state j = map_option js_state (jn_state j)"

definition follows_machine :: "Journal \<Rightarrow> bool" where
  "follows_machine j \<longleftrightarrow> (\<exists>s. current_state j = Some s \<and> machine_run QUEUED (state_log j) s)"

definition in_state :: "JobState set \<Rightarrow> Journal \<Rightarrow> bool" where
  "in_state S j \<longleftrightarrow> follows_machine j \<and> (\<exists>s \<in> S. current_state j = Some s)"

text \<open>The other processes and the stage runner do not change the job's state.\<close>

definition lockstep :: "WorkflowWorker \<Rightarrow> bool" where
  "lockstep wk \<longleftrightarrow> (\<forall>n j. state_log (wv_others (wk_env wk) n j) = state_log j \<and>
       current_state (wv_others (wk_env wk) n j) = current_state j) \<and>
     (\<forall>cx w. state_log (ws_journal (snd (wk_stage_runner wk cx w))) = state_log (ws_journal w) \<and>
       current_state (ws_journal (snd (wk_stage_runner wk cx w))) = current_state (ws_journal w))"

lemma in_state_cong:
  "state_log j' = state_log j \<Longrightarrow> current_state j' = current_state j \<Longrightarrow> in_state S j' = in_state S j"
  by (simp add: in_state_def follows_machine_def)

lemma in_state_follows: "in_state S j \<Longrightarrow> follows_machine j"
  by (simp add: in_state_def)

lemma log_lock [simp]: "state_log (j\<lparr>jn_worker_lock := b\<rparr>) = state_log j"
  "current_state (j\<lparr>jn_worker_lock := b\<rparr>) = current_state j"
  by (simp_all add: state_log_def current_state_def)

lemma in_state_lock [simp]: "in_state S (j\<lparr>jn_worker_lock := b\<rparr>) = in_state S j"
  "follows_machine (j\<lparr>jn_worker_lock := b\<rparr>) = follows_machine j"
  by (simp_all add: in_state_def follows_machine_def)

lemma created_follows: "JobJournal_create i so sr sha l p now jobs = Inr (jobs', j) \<Longrightarrow> in_state {QUEUED} j"
  by (auto simp: JobJournal_create_def Let_def res_simps commit_def JobStatus_new_Inr in_state_def follows_machine_def
      current_state_def state_log_def next_seq_def split: if_splits)

lemma logged_same:
  "ty \<noteq> ''state_changed'' \<Longrightarrow> state_log (logged ty p t j s) = state_log j"
  "current_state (logged ty p t j s) = Some (js_state s)"
  by (simp_all add: state_log_def logged_events current_state_def)

lemma in_state_event: "ty \<noteq> ''state_changed'' \<Longrightarrow> in_state S (fst (append_event ty p t j)) = in_state S j"
proof (cases "append_event ty p t j")
  case (Pair j' x)
  assume ty: "ty \<noteq> ''state_changed''"
  show ?thesis
  proof (cases x)
    case (Inr s)
    from append_event_Inr(1,3) [OF Pair [unfolded Inr]]
    have "state_log j' = state_log j" "current_state j' = current_state j"
      using ty by (auto simp: logged_same current_state_def)
    with Pair show ?thesis by (simp add: in_state_cong [of j' j])
  next
    case (Inl e)
    with Pair append_event_Inl have "j' = j" by blast
    with Pair show ?thesis by simp
  qed
qed

lemma in_state_receipt: "in_state S (fst (record_receipt r t j)) = in_state S j"
proof (cases "record_receipt r t j")
  case (Pair j' x)
  from Pair have "state_log j' = state_log j \<and> current_state j' = current_state j"
  proof (cases rule: record_receipt_cases)
    case (stored j1)
    then show ?thesis by (auto simp: state_log_def current_state_def logged_events)
  qed simp
  with Pair show ?thesis by (simp add: in_state_cong [of j' j])
qed

lemma in_state_move:
  assumes "in_state S j" "\<And>s. s \<in> S \<Longrightarrow> job_move s st" "''state'' \<notin> fst ` set ep"
    and "set_state st stage err m hb ep t j = (j', x)"
  shows "case x of Inl _ \<Rightarrow> j' = j | Inr s \<Rightarrow> in_state {st} j' \<and> js_state s = st"
proof (cases x)
  case (Inr s)
  note r = set_state_Inr(1,3) [OF assms(4) [unfolded Inr]]
  then obtain c p where c: "jn_state j = Some c"
    "j' = logged ''state_changed'' (dict_update [(''state'', JStr (job_state_value st)), (''current_stage'', p)] ep) t j s" by auto
  have "map_of (rev ep) ''state'' = None" using assms(3) by (simp add: map_of_eq_None_iff)
  then have "state_log j' = state_log j @ [JStr (job_state_value st)]"
    by (simp add: c(2) state_log_def logged_events field_def map_of_dict_update map_add_def)
  moreover from assms(1) c(1) have "machine_run QUEUED (state_log j) (js_state c)" "js_state c \<in> S"
    by (auto simp: in_state_def follows_machine_def current_state_def)
  ultimately have "machine_run QUEUED (state_log j') st" using assms(2) by (auto intro: machine_run_snoc)
  with r(1) show ?thesis by (simp add: Inr in_state_def follows_machine_def current_state_def c(2))
qed (use assms(4) set_state_Inl in auto)

section \<open>The worker follows the machine\<close>

lemma in_state_rely: "lockstep wk \<Longrightarrow> rely wk (in_state S)"
  unfolding rely_def lockstep_def by (metis in_state_cong)

lemma in_state_runner: "lockstep wk \<Longrightarrow> jkeeps (in_state S) (wk_stage_runner wk cx)"
  unfolding jt_def keeps_triple [symmetric] keeps_def lockstep_def by (metis in_state_cong)

lemma moves:
  assumes "lockstep wk" "\<And>s. s \<in> S \<Longrightarrow> job_move s st" "''state'' \<notin> fst ` set ep"
  shows "jt (in_state S) (on_journal wk (set_state st stage err m hb ep))
     (\<lambda>s j. in_state {st} j \<and> js_state s = st) follows_machine"
proof (rule jt_on_journal [OF in_state_rely [OF assms(1)]])
  show "in_state {st} j' \<and> js_state x = st"
    if "in_state S j" "set_state st stage err m hb ep t j = (j', Inr x)" for t j j' x
    using in_state_move [OF that(1) assms(2,3) that(2)] by simp
  show "follows_machine j'" if "in_state S j" "set_state st stage err m hb ep t j = (j', Inl e)" for t j j' e
    using in_state_move [OF that(1) assms(2,3) that(2)] that(1) in_state_follows by simp
qed (rule in_state_follows)

lemma moved:
  assumes "lockstep wk" "\<And>s. s \<in> S \<Longrightarrow> job_move s st"
  shows "jt (in_state S) (to_state wk st) (\<lambda>_. in_state {st}) follows_machine"
  unfolding to_state_def by (rule jt_weaken [OF moves [OF assms]]) auto

lemma in_state_read:
  assumes "lockstep wk"
  shows "jt (in_state S) (read_journal wk read_state) (\<lambda>c j. in_state {js_state c} j \<and> js_state c \<in> S) (in_state S)"
  by (rule jt_read_journal [OF in_state_rely [OF assms]]) (auto simp: read_state_Inr in_state_def current_state_def)

lemma running_frame: "lockstep wk \<Longrightarrow> frame wk (in_state {RUNNING})"
proof -
  assume wk: "lockstep wk"
  have "jkeeps (in_state {RUNNING}) (publisher_commit wk m s)" for m s
  proof (rule publisher_keeps [where S = "\<lambda>c. js_state c = RUNNING"])
    show "jt (in_state {RUNNING}) (read_journal wk read_state) (\<lambda>c j. in_state {RUNNING} j \<and> js_state c = RUNNING)
        (in_state {RUNNING})"
      by (rule jt_weaken [OF in_state_read [OF wk]]) auto
    show "in_state {RUNNING} (fst (set_state (js_state c) stage None (Some m) None [(''manifest_sha256'', ep)] t j))"
      if "in_state {RUNNING} j" "js_state c = RUNNING" for c stage m ep t j
    proof (cases "set_state (js_state c) stage None (Some m) None [(''manifest_sha256'', ep)] t j")
      case (Pair j' x)
      have "case x of Inl _ \<Rightarrow> j' = j | Inr s \<Rightarrow> in_state {js_state c} j' \<and> js_state s = js_state c"
        by (rule in_state_move [OF that(1) _ _ Pair]) (auto simp: that(2) job_move.publish)
      with Pair that show ?thesis by (cases x) simp_all
    qed
  qed (rule in_state_rely [OF wk])
  then show ?thesis unfolding frame_def
    using in_state_rely [OF wk] by (auto simp: in_state_event in_state_receipt)
qed

lemma running_stage:
  assumes wk: "lockstep wk"
  shows "jt (in_state {RUNNING}) (start_stage wk s key ls)
     (\<lambda>r j. case r of Continue _ \<Rightarrow> in_state {RUNNING} j | Return st \<Rightarrow> follows_machine j) follows_machine"
proof -
  note fr = running_frame [OF wk]
  have E: "jkeeps (in_state {RUNNING}) m \<Longrightarrow> jt (in_state {RUNNING}) m (\<lambda>_. in_state {RUNNING}) follows_machine"
    for m :: "(wstate, 'x) eff" by (erule jt_weaken) (auto intro: in_state_follows)
  have event: "jt (in_state {RUNNING}) (on_journal wk (append_event ''stage_started'' p)) (\<lambda>_. in_state {RUNNING}) follows_machine" for p
  proof (rule jt_on_journal [OF in_state_rely [OF wk]])
    have keep: "in_state {RUNNING} (fst (append_event ''stage_started'' p t j)) = in_state {RUNNING} j" for t j
      by (rule in_state_event) simp
    show "in_state {RUNNING} j'" if "in_state {RUNNING} j" "append_event ''stage_started'' p t j = (j', Inr x)" for t j j' x
      using keep [of t j] that by simp
    show "follows_machine j'" if "in_state {RUNNING} j" "append_event ''stage_started'' p t j = (j', Inl e)" for t j j' e
      using keep [of t j] that in_state_follows by simp
  qed (rule in_state_follows)
  have "jt (in_state {RUNNING}) (run_stage wk s key attempt ls)
      (\<lambda>r j. case r of Continue _ \<Rightarrow> in_state {RUNNING} j | Return st \<Rightarrow> follows_machine j) follows_machine" for attempt
    by (rule run_stage_jt [where S = "in_state {RUNNING}"])
      (auto intro!: event in_state_runner [OF wk] in_state_rely [OF wk] E jkeep fr in_state_follows job_move.cancel job_move.fail
        jt_weaken [OF moves [OF wk, of "{RUNNING}"]] simp: to_state_def fail_with_def terminal_def)
  then show ?thesis
    by (intro start_stage_jt [OF E [OF next_attempt_keeps [OF in_state_rely [OF wk]]]]) (auto intro: in_state_follows)
qed

text \<open>Marking a silent job is a step of the machine.\<close>

lemma mark_follows:
  assumes wk: "lockstep wk"
  shows "jt follows_machine (on_journal wk (mark_orphaned_if_stale a now)) (\<lambda>s. in_state {js_state s}) follows_machine"
proof -
  have F: "follows_machine = in_state UNIV" by (auto simp: fun_eq_iff in_state_def follows_machine_def)
  have "case x of Inl _ \<Rightarrow> follows_machine j' | Inr s \<Rightarrow> in_state {js_state s} j'"
    if "follows_machine j" "mark_orphaned_if_stale a now t j = (j', x)" for t j j' x
    using mark_orphaned_cases [OF that(2)]
  proof (elim disjE exE conjE)
    fix s stage p
    assume s: "read_state j = Inr s" "js_state s \<in> set IN_FLIGHT_JOB_STATES"
      and r: "mark_event p" "set_state ORPHANED stage None None None p t j = (j', x)"
    have "in_state {js_state s} j" using s(1) that(1) by (auto simp: in_state_def follows_machine_def current_state_def read_state_Inr)
    moreover have "''state'' \<notin> fst ` set p" using r(1) by (auto simp: mark_event_def)
    ultimately have "case x of Inl _ \<Rightarrow> j' = j | Inr s \<Rightarrow> in_state {ORPHANED} j' \<and> js_state s = ORPHANED"
      by (intro in_state_move [OF _ _ _ r(2)]) (auto intro: job_move.orphan s(2))
    with that(1) show ?thesis by (auto split: sum.splits)
  next
    assume "j' = j" "\<forall>s. x = Inr s \<longrightarrow> read_state j = Inr s"
    with that(1) show ?thesis by (auto simp: in_state_def follows_machine_def current_state_def read_state_Inr split: sum.split)
  qed
  then show ?thesis using in_state_rely [OF wk, of UNIV] by (intro jt_on_journal) (auto simp: F [symmetric], fastforce+)
qed

text \<open>
  C10. The worker refines the job machine: it moves the job only along the machine's edges. When
  the state changes in a job's log form a run of the machine up to the state of its snapshot,
  they still do after any run of the worker, which may end normally, by an exception or by a
  kill, for every stage runner and every other process that leave the job's state alone.
\<close>

theorem worker_refines_job_machine:
  assumes "lockstep wk" "follows_machine (ws_journal w)"
  shows "follows_machine (ws_journal (snd (run_worker wk w)))"
proof -
  note wk = assms(1) and fr = running_frame [OF assms(1)] and rely = in_state_rely [OF assms(1)]
  let ?P = "in_state {RUNNING}" and ?R = "\<lambda>_. follows_machine"
  have F: "follows_machine = in_state UNIV" by (auto simp: fun_eq_iff in_state_def follows_machine_def)
  have E: "jkeeps ?P m \<Longrightarrow> jt ?P m (\<lambda>r. if r = None then ?P else ?P) follows_machine" for m :: "(wstate, 'x option) eff"
    by (erule jt_weaken) (auto intro: in_state_follows)
  have ended: "(\<And>s. s \<in> S \<Longrightarrow> job_move s st) \<Longrightarrow>
      jt (in_state S) (on_journal wk (set_state st stage err m hb [])) ?R follows_machine" for S st stage err m hb
    by (rule jt_weaken [OF moves [OF wk]]) (auto intro: in_state_follows)
  have stage: "jt ?P (do_stage wk s ls) (\<lambda>r j. case r of
       Continue _ \<Rightarrow> (\<exists>key. key_of wk s key \<and> ?P j) | Return st \<Rightarrow> follows_machine j) follows_machine" for s ls
    by (rule do_stage_jt [where P = "\<lambda>_. ?P", OF fr E [OF try_reuse_keeps [OF fr]] E [OF receipt_of_journal_keeps [OF rely]]
        running_stage [OF wk]]) (auto intro: ended in_state_follows job_move.cancel simp: to_state_def)
  have last: "jt ?P (eff_bind (to_state wk COLLECTING) (\<lambda>_. eff_bind (to_state wk COMMITTING)
       (\<lambda>_. on_journal wk (set_state SUCCEEDED None None m None [])))) ?R follows_machine" for m
    by (intro jt_bind [OF moved [OF wk]] ended) (auto intro: job_move.intros)
  have drive: "jt (in_state {s}) (drive_job wk) ?R follows_machine"
    if "\<not> terminal s" "s \<notin> set IN_FLIGHT_JOB_STATES" for s
  proof (rule drive_job_jt [where P = "\<lambda>_. ?P", OF fr in_state_follows _ _ stage last])
    have "s \<in> {QUEUED, ORPHANED}" using that by (cases s) (simp_all add: terminal_def IN_FLIGHT_JOB_STATES_def)
    then show "jt (in_state {s}) (to_state wk STAGING) (\<lambda>_. in_state {STAGING}) follows_machine"
      by (intro moved [OF wk]) (auto intro: job_move.claim)
    show "jt (in_state {STAGING}) (to_state wk RUNNING) (\<lambda>_. ?P) follows_machine"
      by (rule moved [OF wk]) (auto intro: job_move.prepared)
  qed
  have guard: "jt follows_machine (eff_bind (read_journal wk read_state) (\<lambda>current.
       if terminal (js_state current) then eff_return current else fail_with wk err None)) ?R follows_machine" for err
    unfolding F
  proof (rule jt_bind [OF in_state_read [OF wk]], rule jt_constant)
    fix c
    show "jt (in_state {js_state c}) (if terminal (js_state c) then eff_return c else fail_with wk err None)
        (\<lambda>_. in_state UNIV) (in_state UNIV)"
      unfolding F [symmetric] fail_with_def
      by (auto intro!: jt_return ended intro: in_state_follows job_move.fail)
  qed
  have "jt follows_machine (run_worker wk) ?R follows_machine"
    by (rule run_worker_jt [OF _ _ _ mark_follows [OF wk] _ _ drive guard])
      (use rely [of UNIV] in \<open>auto simp: F [symmetric] worker_lease_exit_def intro: in_state_follows\<close>)
  then show ?thesis unfolding jt_def keeps_triple [symmetric] using assms(2) by (rule keepsD)
qed

end
