(* ===== verification/WorkerWitness.thy ===== *)
theory WorkerWitness
  imports WorkerMachine
begin

text \<open>
  A cancelled job, and the worker's properties on a concrete job of one stage.
\<close>

section \<open>Cancellation\<close>

definition keeps_cancel :: "WorkflowWorker \<Rightarrow> bool" where
  "keeps_cancel wk \<longleftrightarrow> (\<forall>n j. jn_cancel j \<longrightarrow> jn_cancel (wv_others (wk_env wk) n j))"

lemma eff_bind_cong_state:
  "(\<And>x w'. m w = (Val x, w') \<Longrightarrow> f x w' = g x w') \<Longrightarrow> eff_bind m f w = eff_bind m g w"
  by (auto simp: eff_bind_def split: prod.split outcome.split)

lemma eff_catch_cong_state: "m w = m' w \<Longrightarrow> eff_catch m h w = eff_catch m' h w"
  by (simp add: eff_catch_def)

lemma runner_irrelevant [simp]:
  "on_journal (wk\<lparr>wk_stage_runner := r\<rparr>) f = on_journal wk f"
  "read_journal (wk\<lparr>wk_stage_runner := r\<rparr>) g = read_journal wk g"
  "utc_now (wk\<lparr>wk_stage_runner := r\<rparr>) = utc_now wk"
  "to_state (wk\<lparr>wk_stage_runner := r\<rparr>) s = to_state wk s"
  "fail_with (wk\<lparr>wk_stage_runner := r\<rparr>) err st = fail_with wk err st"
  by (simp_all add: on_journal_def read_journal_def utc_now_def to_state_def fail_with_def)

lemma logged_cancel [simp]: "jn_cancel (logged ty p t j s) = jn_cancel j"
  by (simp add: logged_def)

lemma set_state_cancel [simp]: "jn_cancel (fst (set_state st stage err m hb ep t j)) = jn_cancel j"
proof (cases "set_state st stage err m hb ep t j")
  case (Pair j' x)
  then show ?thesis by (cases x) (auto dest: set_state_Inr(3) set_state_Inl)
qed

lemma cancel_kept:
  assumes "keeps_cancel wk" "jn_cancel (ws_journal w)" "on_journal wk f w = (Val x, w')"
    and "\<And>t j. jn_cancel j \<Longrightarrow> jn_cancel (fst (f t j))"
  shows "jn_cancel (ws_journal w')"
proof -
  let ?j = "wv_others (wk_env wk) (ws_tick w) (ws_journal w)"
  have "jn_cancel ?j" using assms(1,2) by (simp add: keeps_cancel_def)
  from assms(4) [OF this, of "wv_clock (wk_env wk) (ws_tick w)"] assms(3) show ?thesis
    by (auto simp: on_journal_def Let_def split: if_splits prod.splits)
qed

lemma cancelled_stages:
  assumes "keeps_cancel wk" "jn_cancel (ws_journal w)" "ss \<noteq> []"
  shows "do_stages (wk\<lparr>wk_stage_runner := r\<rparr>) ss ls w = do_stages (wk\<lparr>wk_stage_runner := r'\<rparr>) ss ls w \<and>
    (\<forall>ls' w'. do_stages (wk\<lparr>wk_stage_runner := r\<rparr>) ss ls w \<noteq> (Val (Continue ls'), w'))"
proof -
  obtain s ss' where ss: "ss = s # ss'" using assms(3) by (cases ss) auto
  let ?stop = "eff_bind (to_state wk CANCELLED) (\<lambda>s. eff_return (Return s))"
  have read: "x = True" if "read_journal wk (\<lambda>j. Inr (cancel_requested j)) w = (Val x, w')" for x w'
    using that assms(1,2) by (auto simp: read_journal_def on_journal_def Let_def cancel_requested_def keeps_cancel_def split: if_splits)
  have "do_stage (wk\<lparr>wk_stage_runner := q\<rparr>) s ls w =
      eff_bind (read_journal wk (\<lambda>j. Inr (cancel_requested j))) (\<lambda>_. ?stop) w" for q
    unfolding do_stage_def by (simp, rule eff_bind_cong_state) (auto dest: read)
  then have "do_stages (wk\<lparr>wk_stage_runner := q\<rparr>) ss ls w = eff_bind (eff_bind (read_journal wk (\<lambda>j. Inr (cancel_requested j)))
      (\<lambda>_. ?stop)) (\<lambda>r. case r of Return status \<Rightarrow> eff_return (Return status)
       | Continue ls \<Rightarrow> do_stages (wk\<lparr>wk_stage_runner := q\<rparr>) ss' ls) w" for q
    by (simp add: ss eff_bind_def)
  moreover have "eff_bind (eff_bind (read_journal wk (\<lambda>j. Inr (cancel_requested j)))
      (\<lambda>_. ?stop)) (\<lambda>r. case r of Return status \<Rightarrow> eff_return (Return status) | Continue ls \<Rightarrow> g ls) w =
      eff_bind (read_journal wk (\<lambda>j. Inr (cancel_requested j))) (\<lambda>_. ?stop) w" for g
    by (auto simp: eff_bind_def eff_return_def split: prod.split outcome.split)
  ultimately show ?thesis
    by (auto simp: eff_bind_def eff_return_def split: prod.splits outcome.splits)
qed

text \<open>
  C30. Cancellation is honoured before the first stage: once the cancel marker is set, and as long
  as no other process clears it, a run of the worker does not call the stage runner: its result
  and everything it leaves behind are the same for every stage runner.
\<close>

theorem cancelled_job_runs_nothing:
  assumes "keeps_cancel wk" "jn_cancel (ws_journal w)" "wk_stages wk \<noteq> []"
  shows "run_worker (wk\<lparr>wk_stage_runner := r\<rparr>) w = run_worker (wk\<lparr>wk_stage_runner := r'\<rparr>) w"
proof -
  note kept = cancel_kept [OF assms(1)]
  have state: "jn_cancel (ws_journal w'')" if "jn_cancel (ws_journal w')" "to_state wk st w' = (Val x, w'')" for st w' x w''
    by (rule kept [OF that(1) that(2) [unfolded to_state_def]]) simp
  have stages: "eff_bind (do_stages (wk\<lparr>wk_stage_runner := r\<rparr>) (wk_stages wk) ls) (\<lambda>r. case r of
          Return status \<Rightarrow> eff_return status | Continue ls \<Rightarrow> f ls) w' =
        eff_bind (do_stages (wk\<lparr>wk_stage_runner := r'\<rparr>) (wk_stages wk) ls) (\<lambda>r. case r of
          Return status \<Rightarrow> eff_return status | Continue ls \<Rightarrow> g ls) w'" if "jn_cancel (ws_journal w')" for ls w' f g
    using cancelled_stages [OF assms(1) that assms(3), of r ls r']
    by (auto simp: eff_bind_def split: prod.split outcome.split loop_step.split)
  have drive: "drive_job (wk\<lparr>wk_stage_runner := r\<rparr>) w' = drive_job (wk\<lparr>wk_stage_runner := r'\<rparr>) w'"
    if c: "jn_cancel (ws_journal w')" for w'
  proof -
    have f: "wk_stages (wk\<lparr>wk_stage_runner := q\<rparr>) = wk_stages wk"
      "wk_initial_manifest (wk\<lparr>wk_stage_runner := q\<rparr>) = wk_initial_manifest wk" for q by simp_all
    have reached: "jn_cancel (ws_journal w3)" if m: "to_state wk STAGING w' = (Val x1, w1)"
        "to_state wk RUNNING w1 = (Val x2, w2)" "read_journal wk read_state w2 = (Val x3, w3)" for x1 w1 x2 w2 x3 w3
    proof (rule kept [OF _ m(3) [unfolded read_journal_def]])
      show "jn_cancel (ws_journal w2)" by (rule state [OF state [OF c m(1)] m(2)])
    qed simp
    show ?thesis unfolding drive_job_def Let_def runner_irrelevant f
      by (rule eff_bind_cong_state, rule eff_bind_cong_state, rule eff_bind_cong_state, rule stages, erule (2) reached)
  qed
  have claimed: "run_claimed (wk\<lparr>wk_stage_runner := r\<rparr>) w' = run_claimed (wk\<lparr>wk_stage_runner := r'\<rparr>) w'"
    if "jn_cancel (ws_journal w')" for w'
    unfolding run_claimed_def runner_irrelevant by (rule eff_catch_cong_state) (rule drive [OF that])
  have mark: "jn_cancel (fst (mark_orphaned_if_stale a now t j)) = jn_cancel j" for a now t j
    using mark_orphaned_cases [of a now t j] set_state_cancel
    by (cases "mark_orphaned_if_stale a now t j") (metis fst_conv)
  let ?body = "\<lambda>r. eff_bind (utc_now wk) (\<lambda>now.
      eff_bind (on_journal wk (mark_orphaned_if_stale (wk_heartbeat_stale_after wk) now)) (\<lambda>current.
      if terminal (js_state current) then eff_return current
      else if js_state current \<in> set IN_FLIGHT_JOB_STATES then eff_raise (job_conflict ''worker'')
      else run_claimed (wk\<lparr>wk_stage_runner := r\<rparr>)))"
  have body: "?body r w' = ?body r' w'" if c: "jn_cancel (ws_journal w')" for w'
  proof (intro eff_bind_cong_state)
    fix now w1 current w2
    assume u: "utc_now wk w' = (Val now, w1)"
      and m: "on_journal wk (mark_orphaned_if_stale (wk_heartbeat_stale_after wk) now) w1 = (Val current, w2)"
    have "jn_cancel (ws_journal w1)" by (rule kept [OF c u [unfolded utc_now_def]]) simp
    then have "jn_cancel (ws_journal w2)" by (rule kept [OF _ m]) (simp add: mark)
    then show "(if terminal (js_state current) then eff_return current
      else if js_state current \<in> set IN_FLIGHT_JOB_STATES then eff_raise (job_conflict ''worker'')
      else run_claimed (wk\<lparr>wk_stage_runner := r\<rparr>)) w2 = (if terminal (js_state current) then eff_return current
      else if js_state current \<in> set IN_FLIGHT_JOB_STATES then eff_raise (job_conflict ''worker'')
      else run_claimed (wk\<lparr>wk_stage_runner := r'\<rparr>)) w2" by (simp add: claimed)
  qed
  show ?thesis unfolding run_worker_def with_worker_lease_def
  proof (simp, rule eff_bind_cong_state)
    fix x w'
    assume l: "on_journal wk (\<lambda>_ j. case worker_lease_enter j of Inl e \<Rightarrow> (j, Inl e) | Inr j' \<Rightarrow> (j', Inr ())) w = (Val x, w')"
    have "jn_cancel (ws_journal w')"
      by (rule kept [OF assms(2) l]) (auto simp: worker_lease_enter_def res_simps split: sum.split if_splits)
    then show "(case ?body r w' of (r, w') \<Rightarrow> (r, w'\<lparr>ws_journal := worker_lease_exit (ws_journal w')\<rparr>)) =
       (case ?body r' w' of (r, w') \<Rightarrow> (r, w'\<lparr>ws_journal := worker_lease_exit (ws_journal w')\<rparr>))"
      by (simp add: body)
  qed
qed

section \<open>A job of one stage\<close>

definition demo_outcome :: StageOutcome where
  "demo_outcome = \<lparr>oc_artifacts = [], oc_metrics = [], oc_manifest = None, oc_verified = False\<rparr>"

definition demo_env :: work_env where
  "demo_env = \<lparr>wv_formats = toy_formats, wv_keys = demo_key_env, wv_depth = 9, wv_clock = (\<lambda>n. int n),
     wv_others = (\<lambda>_ j. j), wv_killed = (\<lambda>_. False), wv_jobs = [],
     wv_runs = (\<lambda>_. \<lparr>re_run_id = ''r'', re_created_at = 0, re_revision_created_at = 0,
       re_write = \<lparr>we_mtime = 0, we_os_error = False\<rparr>\<rparr>),
     wv_dump = (\<lambda>_. []), wv_str = (\<lambda>_. ''''), wv_media = (\<lambda>_. None)\<rparr>"

definition demo_worker :: WorkflowWorker where
  "demo_worker = \<lparr>wk_job_id = ''j1'', wk_spec = [], wk_resolved = [],
     wk_provenance = \<lparr>pv_sdk_build = ''2'', pv_adapter_capability = ''c'', pv_platform_abi = ''a'',
       pv_resolved_preset_sha256 = None, pv_image_digest = None, pv_host_arch = None, pv_emulation = False,
       pv_device_fingerprint = None\<rparr>,
     wk_stage_runner = (\<lambda>_. eff_return demo_outcome), wk_stages = [''build''], wk_reuse_from = None,
     wk_output_dir = ''/w'', wk_initial_manifest = None, wk_effective_build_spec = None,
     wk_heartbeat_stale_after = 30, wk_env = demo_env\<rparr>"

definition demo_world :: wstate where
  "demo_world = \<lparr>ws_journal = demo_journal, ws_disk = demo_disk ''abc'', ws_tick = 0\<rparr>"

lemma demo_run: "case run_worker demo_worker demo_world of (Val s, _) \<Rightarrow> js_state s = SUCCEEDED | _ \<Rightarrow> False"
  by code_simp

lemma demo_run_obtain: obtains s w' where "run_worker demo_worker demo_world = (Val s, w')" "js_state s = SUCCEEDED"
  using demo_run by (auto split: prod.splits outcome.splits)

lemma demo_others: "starts_alone demo_worker" "honest_others demo_worker" "lockstep demo_worker" "keeps_cancel demo_worker"
  by (simp_all add: starts_alone_def honest_others_def honest_def lockstep_def keeps_cancel_def demo_worker_def demo_env_def
      eff_return_def)

theorem worker_ends_terminal_witness:
  "\<exists>s w'. run_worker demo_worker demo_world = (Val s, w') \<and> js_state s = SUCCEEDED \<and> js_error s = None"
proof -
  obtain s w' where r: "run_worker demo_worker demo_world = (Val s, w')" "js_state s = SUCCEEDED" by (rule demo_run_obtain)
  from worker_ends_terminal [OF r(1)] r show ?thesis by auto
qed

theorem success_means_all_stages_done_witness:
  "\<exists>key. key_of demo_worker ''build'' key \<and> recorded (ws_journal (snd (run_worker demo_worker demo_world))) key"
proof -
  obtain s w' where r: "run_worker demo_worker demo_world = (Val s, w')" "js_state s = SUCCEEDED" by (rule demo_run_obtain)
  have "not_succeeded (ws_journal demo_world)"
    by (simp add: not_succeeded_def demo_world_def demo_journal_def JobJournal_create_def Let_def JobStatus_new_def commit_def
        checks.simps require_def ensure_def)
  from success_means_all_stages_done [OF demo_others(2) this r] r(1) show ?thesis by (simp add: demo_worker_def)
qed

text \<open>The worker is killed in its stage; the next worker starts the stage again, as attempt 2.\<close>

definition killed_worker :: WorkflowWorker where
  "killed_worker = demo_worker\<lparr>wk_env := demo_env\<lparr>wv_killed := (\<lambda>n. n = 12)\<rparr>\<rparr>"

definition later_worker :: WorkflowWorker where
  "later_worker = demo_worker\<lparr>wk_env := demo_env\<lparr>wv_clock := (\<lambda>n. 100 + int n)\<rparr>\<rparr>"

theorem attempts_never_reused_witness:
  "attempts_increase (ws_journal (snd (run_worker later_worker (snd (run_worker killed_worker demo_world))))) \<and>
   length (started (ws_journal (snd (run_worker later_worker (snd (run_worker killed_worker demo_world)))))) = 2"
proof
  have k: "starts_alone killed_worker" "starts_alone later_worker"
    using demo_others(1) by (simp_all add: starts_alone_def killed_worker_def later_worker_def demo_worker_def demo_env_def)
  have "started (ws_journal demo_world) = []" by code_simp
  then have "attempts_increase (ws_journal demo_world)" by (simp add: attempts_increase_def)
  then show "attempts_increase (ws_journal (snd (run_worker later_worker (snd (run_worker killed_worker demo_world)))))"
    by (intro attempts_never_reused k)
qed code_simp

theorem worker_refines_job_machine_witness:
  "follows_machine (ws_journal (snd (run_worker demo_worker demo_world))) \<and>
   state_log (ws_journal (snd (run_worker demo_worker demo_world))) =
     map JStr [''staging'', ''running'', ''collecting'', ''committing'', ''succeeded'']"
proof
  have "in_state {QUEUED} demo_journal" using demo_created by (rule created_follows)
  then have "follows_machine (ws_journal demo_world)" by (simp add: in_state_def demo_world_def)
  then show "follows_machine (ws_journal (snd (run_worker demo_worker demo_world)))"
    by (intro worker_refines_job_machine demo_others)
qed code_simp

theorem cancelled_job_runs_nothing_witness:
  "run_worker demo_worker (demo_world\<lparr>ws_journal := demo_journal\<lparr>jn_cancel := True\<rparr>\<rparr>) =
   run_worker (demo_worker\<lparr>wk_stage_runner := (\<lambda>_ w. (Dead, w))\<rparr>) (demo_world\<lparr>ws_journal := demo_journal\<lparr>jn_cancel := True\<rparr>\<rparr>)"
proof -
  have "wk_stages demo_worker \<noteq> []" by (simp add: demo_worker_def)
  from cancelled_job_runs_nothing [OF demo_others(4) _ this, of _ "\<lambda>_. eff_return demo_outcome" "\<lambda>_ w. (Dead, w)"]
  show ?thesis by (simp add: demo_worker_def)
qed

end
